(* ===== verification/Prelude.thy ===== *)
theory Prelude
  imports Main "HOL-Library.Sublist"
begin

text \<open>
  Shared vocabulary of the development: the values of the Foundation string
  functions the sources call (searching, splitting, joining and replacing), the
  generic list and option lemmas the components use, and the collections into
  which they declare their facts.  Strings are HOL strings; a position that
  Foundation reports as \<open>NSNotFound\<close> is \<open>None\<close>.
\<close>

named_theorems nsstring_simps \<open>evaluation of the string functions\<close>
named_theorems contract_defs \<open>definitions of the documented contracts\<close>
named_theorems keeps \<open>preservation of an invariant by an operation\<close>


section \<open>Foundation string functions\<close>

definition hasPrefix :: "string \<Rightarrow> string \<Rightarrow> bool" where
  "hasPrefix s p \<longleftrightarrow> take (length p) s = p"

fun rangeOfString :: "string \<Rightarrow> string \<Rightarrow> nat option" where
  "rangeOfString p [] = None"
| "rangeOfString p (c # cs) =
     (if p \<noteq> [] \<and> hasPrefix (c # cs) p then Some 0
      else map_option Suc (rangeOfString p cs))"

function componentsSeparatedBy :: "string \<Rightarrow> string \<Rightarrow> string \<Rightarrow> string list" where
  "componentsSeparatedBy sep acc [] = [rev acc]"
| "componentsSeparatedBy sep acc (c # cs) =
     (if sep \<noteq> [] \<and> hasPrefix (c # cs) sep
      then rev acc # componentsSeparatedBy sep [] (drop (length sep) (c # cs))
      else componentsSeparatedBy sep (c # acc) cs)"
  by pat_completeness auto
termination
  by (relation "measure (\<lambda>(sep, acc, s). length s)") (auto simp: Suc_diff_le neq_Nil_conv)

definition componentsSeparatedByString :: "string \<Rightarrow> string \<Rightarrow> string list" where
  "componentsSeparatedByString sep s = componentsSeparatedBy sep [] s"

fun componentsJoinedByString :: "string \<Rightarrow> string list \<Rightarrow> string" where
  "componentsJoinedByString sep [] = []"
| "componentsJoinedByString sep [x] = x"
| "componentsJoinedByString sep (x # y # xs) = x @ sep @ componentsJoinedByString sep (y # xs)"

definition stringByReplacingOccurrencesOfString :: "string \<Rightarrow> string \<Rightarrow> string \<Rightarrow> string" where
  "stringByReplacingOccurrencesOfString s target replacement =
     componentsJoinedByString replacement (componentsSeparatedByString target s)"


section \<open>Searching\<close>

lemma hasPrefix_iff: "hasPrefix s p \<longleftrightarrow> (\<exists>t. s = p @ t)"
  unfolding hasPrefix_def by (metis append_eq_conv_conj append_take_drop_id)

lemma hasPrefix_append [simp]: "hasPrefix (p @ t) p"
  by (simp add: hasPrefix_def)

lemma hasPrefix_code [nsstring_simps]:
  "hasPrefix s [] = True"
  "hasPrefix [] (d # ds) = False"
  "hasPrefix (c # cs) (d # ds) = (c = d \<and> hasPrefix cs ds)"
  by (auto simp: hasPrefix_def)

lemma rangeOfString_SomeD:
  "rangeOfString p s = Some i \<Longrightarrow> p \<noteq> [] \<and> (\<exists>t. s = take i s @ p @ t) \<and> i < length s"
proof (induction s arbitrary: i)
  case (Cons c cs)
  then show ?case
    by (auto simp: hasPrefix_iff split: if_splits)
qed simp

lemma rangeOfString_split:
  assumes "rangeOfString p s = Some i"
  shows "s = take i s @ p @ drop (i + length p) s" and "i + length p \<le> length s"
proof -
  obtain t where s: "s = take i s @ p @ t" and i: "i < length s"
    using rangeOfString_SomeD [OF assms] by blast
  have *: "length (take i s) = i" using i by simp
  have "drop (i + length p) (take i s @ p @ t) = t"
    unfolding drop_append * by simp
  then have "drop (i + length p) s = t" using s by metis
  then show "s = take i s @ p @ drop (i + length p) s" using s by simp
  show "i + length p \<le> length s"
    using arg_cong [OF s, of length] * by simp
qed

lemma rangeOfString_None:
  "p \<noteq> [] \<Longrightarrow> rangeOfString p s = None \<longleftrightarrow> \<not> (\<exists>u v. s = u @ p @ v)"
proof (induction s)
  case (Cons c cs)
  have "(\<exists>u v. c # cs = u @ p @ v) \<longleftrightarrow> hasPrefix (c # cs) p \<or> (\<exists>u v. cs = u @ p @ v)"
    by (metis Cons_eq_append_conv append_Cons append_Nil hasPrefix_iff)
  then show ?case using Cons by simp
qed simp

lemma rangeOfString_first:
  "rangeOfString p s = Some i \<Longrightarrow> j < i \<Longrightarrow> \<not> hasPrefix (drop j s) p"
proof (induction s arbitrary: i j)
  case (Cons c cs)
  then show ?case
    using rangeOfString_SomeD [OF Cons.prems(1)] by (cases j) (auto split: if_splits)
qed simp


section \<open>Splitting, joining and replacing\<close>

lemma componentsSeparatedBy_not_Nil [simp]: "componentsSeparatedBy sep acc s \<noteq> []"
  by (induction sep acc s rule: componentsSeparatedBy.induct) auto

lemma componentsJoinedByString_Cons:
  "xs \<noteq> [] \<Longrightarrow>
   componentsJoinedByString sep (x # xs) = x @ sep @ componentsJoinedByString sep xs"
  by (cases xs) auto

lemma joined_componentsSeparatedBy:
  "componentsJoinedByString sep (componentsSeparatedBy sep acc s) = rev acc @ s"
proof (induction sep acc s rule: componentsSeparatedBy.induct)
  case (2 sep acc c cs)
  show ?case
  proof (cases "sep \<noteq> [] \<and> hasPrefix (c # cs) sep")
    case True
    then have "sep @ drop (length sep) (c # cs) = c # cs"
      by (auto simp: hasPrefix_iff)
    then show ?thesis
      using True 2(1) by (simp add: componentsJoinedByString_Cons)
  next
    case False
    then show ?thesis using 2(2) by auto
  qed
qed simp

lemma joined_componentsSeparatedByString:
  "componentsJoinedByString sep (componentsSeparatedByString sep s) = s"
  by (simp add: componentsSeparatedByString_def joined_componentsSeparatedBy)

lemma joined_separated_char:
  "componentsJoinedByString r (componentsSeparatedBy [c] acc s) =
     rev acc @ concat (map (\<lambda>x. if x = c then r else [x]) s)"
  by (induction s arbitrary: acc)
     (auto simp: componentsJoinedByString_Cons nsstring_simps)

lemma replace_char:
  "stringByReplacingOccurrencesOfString s [c] r =
     concat (map (\<lambda>x. if x = c then r else [x]) s)"
  by (simp add: stringByReplacingOccurrencesOfString_def componentsSeparatedByString_def
      joined_separated_char)

lemma replace_char_char [simp]:
  "stringByReplacingOccurrencesOfString s [c] [d] = map (\<lambda>x. if x = c then d else x) s"
proof -
  have "concat (map (\<lambda>x. if x = c then [d] else [x]) s) = map (\<lambda>x. if x = c then d else x) s"
    by (induction s) auto
  then show ?thesis by (simp add: replace_char)
qed

lemma separated_free:
  assumes "sep \<noteq> []" and "\<not> (\<exists>u v. s = u @ sep @ v)"
  shows "componentsSeparatedBy sep acc s = [rev acc @ s]"
  using assms(2)
proof (induction s arbitrary: acc)
  case (Cons c cs)
  then have "\<not> hasPrefix (c # cs) sep"
    by (metis append_Nil hasPrefix_iff)
  moreover have "\<not> (\<exists>u v. cs = u @ sep @ v)"
    using Cons.prems by (metis append_Cons)
  ultimately show ?case using Cons.IH by simp
qed simp

lemma replace_free:
  "t \<noteq> [] \<Longrightarrow> rangeOfString t s = None \<Longrightarrow> stringByReplacingOccurrencesOfString s t r = s"
  by (simp add: stringByReplacingOccurrencesOfString_def componentsSeparatedByString_def
      rangeOfString_None separated_free)


lemma separated_char_free: "c \<notin> set s \<Longrightarrow> componentsSeparatedBy [c] acc s = [rev acc @ s]"
  by (induction s arbitrary: acc) (auto simp: nsstring_simps)

lemma separated_char_first:
  "c \<notin> set x \<Longrightarrow>
   componentsSeparatedBy [c] acc (x @ c # t) = (rev acc @ x) # componentsSeparatedBy [c] [] t"
  by (induction x arbitrary: acc) (auto simp: nsstring_simps)

lemma takeWhile_char: "c \<notin> set x \<Longrightarrow> takeWhile (\<lambda>y. y \<noteq> c) (x @ c # t) = x"
  by (induction x) auto

lemma dropWhile_char: "c \<notin> set x \<Longrightarrow> dropWhile (\<lambda>y. y \<noteq> c) (x @ c # t) = c # t"
  by (induction x) auto

lemma componentsSeparatedByString_char:
  "componentsSeparatedByString [c] s =
     (if c \<in> set s
      then takeWhile (\<lambda>x. x \<noteq> c) s # componentsSeparatedByString [c] (tl (dropWhile (\<lambda>x. x \<noteq> c) s))
      else [s])"
proof (cases "c \<in> set s")
  case True
  then obtain x t where s: "s = x @ c # t" and x: "c \<notin> set x" by (meson split_list_first)
  then have "takeWhile (\<lambda>x. x \<noteq> c) s = x" "dropWhile (\<lambda>x. x \<noteq> c) s = c # t"
    by (simp_all add: takeWhile_char dropWhile_char)
  then show ?thesis
    using s x by (simp add: componentsSeparatedByString_def separated_char_first)
next
  case False
  then show ?thesis by (simp add: componentsSeparatedByString_def separated_char_free)
qed

lemma two_components_iff:
  "componentsSeparatedByString [c] s = [x, y] \<longleftrightarrow> s = x @ c # y \<and> c \<notin> set x \<and> c \<notin> set y"
proof
  assume *: "componentsSeparatedByString [c] s = [x, y]"
  then have s: "s = x @ c # y" using joined_componentsSeparatedByString [of "[c]" s] by simp
  have "c \<in> set s" using s by simp
  then have x: "x = takeWhile (\<lambda>x. x \<noteq> c) s"
    and y: "componentsSeparatedByString [c] (tl (dropWhile (\<lambda>x. x \<noteq> c) s)) = [y]"
    using * componentsSeparatedByString_char [of c s] by auto
  have "c \<notin> set x" using x set_takeWhileD by metis
  moreover have "c \<notin> set y"
  proof -
    have "tl (dropWhile (\<lambda>x. x \<noteq> c) s) = y"
      using s \<open>c \<notin> set x\<close> by (simp add: dropWhile_char)
    then show ?thesis
      using y componentsSeparatedByString_char [of c y]
      by (auto simp: componentsSeparatedByString_def componentsSeparatedBy_not_Nil [symmetric]
          simp del: componentsSeparatedBy_not_Nil)
  qed
  ultimately show "s = x @ c # y \<and> c \<notin> set x \<and> c \<notin> set y" using s by simp
next
  assume "s = x @ c # y \<and> c \<notin> set x \<and> c \<notin> set y"
  then show "componentsSeparatedByString [c] s = [x, y]"
    by (simp add: componentsSeparatedByString_def separated_char_first separated_char_free)
qed


section \<open>Lists and options\<close>

lemma distinct_map_of_Some:
  "distinct (map fst xs) \<Longrightarrow> (k, v) \<in> set xs \<Longrightarrow> map_of xs k = Some v"
  by simp

lemma list_all_filter [simp]: "list_all P (filter P xs)"
  by (simp add: list_all_iff)

lemma dropWhile_idem: "dropWhile P (dropWhile P xs) = dropWhile P xs"
  by (induction xs) auto


section \<open>Decimal text\<close>

text \<open>The text of a number in a format string.\<close>

function decimalDigits :: "nat \<Rightarrow> string" where
  "decimalDigits n =
     (if n < 10 then [char_of (48 + n)] else decimalDigits (n div 10) @ [char_of (48 + n mod 10)])"
  by pat_completeness auto
termination
  by (relation "measure id") auto

definition decimal :: "int \<Rightarrow> string" where
  "decimal i = (if i < 0 then CHR ''-'' # decimalDigits (nat (- i)) else decimalDigits (nat i))"

lemma decimalDigits_no_newline: "CHR 0x0A \<notin> set (decimalDigits n)"
proof (induction n rule: decimalDigits.induct)
  case (1 n)
  have digit: "CHR 0x0A \<noteq> (char_of (48 + d) :: char)" if "d < 10" for d :: nat
  proof
    assume "CHR 0x0A = (char_of (48 + d) :: char)"
    then have "of_char (CHR 0x0A) = (of_char (char_of (48 + d) :: char) :: nat)" by simp
    then show False using that by simp
  qed
  show ?case
    by (subst decimalDigits.simps) (use 1 digit [of n] digit [of "n mod 10"] in auto)
qed


section \<open>Memoised lookups\<close>

text \<open>
  Several components answer a query from a cache and fill the cache when they
  compute the answer: the subclass and property lists of a class, the controller
  of a class.  The contract: a query returns what the uncached computation
  returns, keeps the cache consistent and does not change that computation.
\<close>

fun queries :: "('k \<Rightarrow> 's \<Rightarrow> 'r \<times> 's) \<Rightarrow> 'k list \<Rightarrow> 's \<Rightarrow> 'r list \<times> 's" where
  "queries query [] s = ([], s)"
| "queries query (k # ks) s =
     (case query k s of (r, s') \<Rightarrow> case queries query ks s' of (rs, s'') \<Rightarrow> (r # rs, s''))"

locale memoised =
  fixes query :: "'k \<Rightarrow> 's \<Rightarrow> 'r \<times> 's"
    and spec :: "'s \<Rightarrow> 'k \<Rightarrow> 'r"
    and ok :: "'s \<Rightarrow> bool"
    and valid :: "'k \<Rightarrow> bool"
  assumes query_result: "ok s \<Longrightarrow> valid k \<Longrightarrow> fst (query k s) = spec s k"
    and query_ok: "ok s \<Longrightarrow> valid k \<Longrightarrow> ok (snd (query k s))"
    and query_spec: "ok s \<Longrightarrow> valid k \<Longrightarrow> spec (snd (query k s)) = spec s"
begin

lemma queries_spec:
  "ok s \<Longrightarrow> list_all valid ks \<Longrightarrow>
   fst (queries query ks s) = map (spec s) ks \<and> ok (snd (queries query ks s))"
proof (induction ks arbitrary: s)
  case (Cons k ks)
  obtain r s' where q: "query k s = (r, s')" by force
  have "r = spec s k" "ok s'" "spec s' = spec s"
    using query_result [of s k] query_ok [of s k] query_spec [of s k] Cons.prems q by auto
  then show ?case
    using Cons.IH [of s'] Cons.prems q by (cases "queries query ks s'") simp
qed simp

lemma query_repeat:
  "ok s \<Longrightarrow> valid k \<Longrightarrow> fst (query k (snd (query k s))) = fst (query k s)"
  by (simp add: query_result query_ok query_spec)

end

end
