(* ===== verification/Dispatch.thy ===== *)
theory Dispatch
  imports Prelude
begin

text \<open>
  The queue helpers of \<open>NSObject+MPExtensions\<close>: \<open>mp_dispatch_queue_create\<close> tags a
  queue with a token, and \<open>mp_dispatch_sync\<close> / \<open>mp_dispatch_async\<close> run a block in
  place when the current queue carries the token they are given.  A thread is
  the stack of the queues it is executing on, innermost first; a block is a tree
  of actions and nested dispatches.  A synchronous dispatch to a serial queue
  that the thread already occupies never returns, which is the result
  \<open>Deadlock\<close>.
\<close>


section \<open>Queues and blocks\<close>

record dispatch_queue =
  queue_key :: nat
  queue_specific :: nat
  queue_serial :: bool

datatype block =
    Act nat
  | DispatchSync "dispatch_queue option" nat "block list"
  | DispatchAsync "dispatch_queue option" nat "block list"

type_synonym enqueued = "(dispatch_queue \<times> block list) list"

datatype outcome = Deadlock | Done "nat list" enqueued

definition mp_dispatch_queue_create :: "nat \<Rightarrow> nat \<Rightarrow> bool \<Rightarrow> dispatch_queue" where
  "mp_dispatch_queue_create key queueSpecificToken serial =
     \<lparr>queue_key = key,
      queue_specific = (if queueSpecificToken \<noteq> 0 then queueSpecificToken else 0),
      queue_serial = serial\<rparr>"

text \<open>
  \<open>dispatch_get_specific\<close> looks only at the queue the calling block runs on, and
  answers the null pointer when nothing is stored under the key.
\<close>

fun dispatch_get_specific :: "dispatch_queue list \<Rightarrow> nat \<Rightarrow> nat" where
  "dispatch_get_specific [] key = 0"
| "dispatch_get_specific (q # outer) key = (if queue_key q = key then queue_specific q else 0)"

definition runsInPlace :: "dispatch_queue list \<Rightarrow> dispatch_queue option \<Rightarrow> nat \<Rightarrow> bool" where
  "runsInPlace stack q queueSpecificToken =
     (case q of
        None \<Rightarrow> True
      | Some q \<Rightarrow> dispatch_get_specific stack (queue_key q) = queueSpecificToken)"

fun andThen :: "outcome \<Rightarrow> outcome \<Rightarrow> outcome" where
  "andThen Deadlock r = Deadlock"
| "andThen (Done t e) Deadlock = Deadlock"
| "andThen (Done t e) (Done t' e') = Done (t @ t') (e @ e')"

fun mp_dispatch_sync :: "dispatch_queue list \<Rightarrow> dispatch_queue option \<Rightarrow> nat \<Rightarrow>
    (dispatch_queue list \<Rightarrow> outcome) \<Rightarrow> outcome" where
  "mp_dispatch_sync stack q token block =
     (if runsInPlace stack q token then block stack
      else case q of
        None \<Rightarrow> block stack
      | Some q \<Rightarrow> if queue_serial q \<and> queue_key q \<in> set (map queue_key stack) then Deadlock
                  else block (q # stack))"

fun mp_dispatch_async :: "dispatch_queue list \<Rightarrow> dispatch_queue option \<Rightarrow> nat \<Rightarrow> block list \<Rightarrow>
    (dispatch_queue list \<Rightarrow> outcome) \<Rightarrow> outcome" where
  "mp_dispatch_async stack q token body block =
     (if runsInPlace stack q token then block stack
      else case q of None \<Rightarrow> block stack | Some q \<Rightarrow> Done [] [(q, body)])"

record dispatch_functions =
  dispatch_queue_create_function :: "nat \<Rightarrow> nat \<Rightarrow> bool \<Rightarrow> dispatch_queue"
  dispatch_sync_function ::
    "dispatch_queue list \<Rightarrow> dispatch_queue option \<Rightarrow> nat \<Rightarrow> (dispatch_queue list \<Rightarrow> outcome) \<Rightarrow> outcome"
  dispatch_async_function ::
    "dispatch_queue list \<Rightarrow> dispatch_queue option \<Rightarrow> nat \<Rightarrow> block list \<Rightarrow> (dispatch_queue list \<Rightarrow> outcome) \<Rightarrow> outcome"

definition featherDispatchFunctions :: dispatch_functions where
  "featherDispatchFunctions =
     \<lparr>dispatch_queue_create_function = mp_dispatch_queue_create,
      dispatch_sync_function = mp_dispatch_sync, dispatch_async_function = mp_dispatch_async\<rparr>"

fun runBlock :: "block \<Rightarrow> dispatch_queue list \<Rightarrow> outcome"
and runBlocks :: "block list \<Rightarrow> dispatch_queue list \<Rightarrow> outcome" where
  "runBlock (Act n) stack = Done [n] []"
| "runBlock (DispatchSync q token body) stack =
     mp_dispatch_sync stack q token (\<lambda>s. runBlocks body s)"
| "runBlock (DispatchAsync q token body) stack =
     mp_dispatch_async stack q token body (\<lambda>s. runBlocks body s)"
| "runBlocks [] stack = Done [] []"
| "runBlocks (b # bs) stack = andThen (runBlock b stack) (runBlocks bs stack)"


section \<open>Sequences of blocks\<close>

lemma andThen_Done: "andThen r r' = Done t e \<longleftrightarrow>
  (\<exists>t1 e1 t2 e2. r = Done t1 e1 \<and> r' = Done t2 e2 \<and> t = t1 @ t2 \<and> e = e1 @ e2)"
  by (cases r; cases r') auto

lemma andThen_Deadlock: "andThen r r' = Deadlock \<longleftrightarrow> r = Deadlock \<or> r' = Deadlock"
  by (cases r; cases r') auto

text \<open>The actions of a block in program order.\<close>

fun actions :: "block \<Rightarrow> nat list" where
  "actions (Act n) = [n]"
| "actions (DispatchSync q token body) = concat (map actions body)"
| "actions (DispatchAsync q token body) = concat (map actions body)"

text \<open>
  The discipline the callers follow: every dispatch names its queue's own nonzero
  token, dispatches are synchronous, and a queue is only entered while it is the
  innermost one or not occupied at all.
\<close>

fun disciplined :: "dispatch_queue list \<Rightarrow> block \<Rightarrow> bool" where
  "disciplined stack (Act n) = True"
| "disciplined stack (DispatchSync q token body) =
     (case q of None \<Rightarrow> list_all (disciplined stack) body
      | Some q \<Rightarrow>
          token = queue_specific q \<and> token \<noteq> 0 \<and>
          (if stack \<noteq> [] \<and> hd stack = q then list_all (disciplined stack) body
           else queue_key q \<notin> set (map queue_key stack) \<and> list_all (disciplined (q # stack)) body))"
| "disciplined stack (DispatchAsync q token body) = False"

lemma runsInPlace_own:
  "token = queue_specific q \<Longrightarrow> stack \<noteq> [] \<Longrightarrow> hd stack = q \<Longrightarrow> runsInPlace stack (Some q) token"
  by (cases stack) (auto simp: runsInPlace_def)

lemma runsInPlace_foreign:
  "token \<noteq> 0 \<Longrightarrow> queue_key q \<notin> set (map queue_key stack) \<Longrightarrow> \<not> runsInPlace stack (Some q) token"
  by (cases stack) (auto simp: runsInPlace_def)

lemma run_disciplined:
  "disciplined stack b \<Longrightarrow> runBlock b stack = Done (actions b) []"
  "list_all (disciplined stack) bs \<Longrightarrow> runBlocks bs stack = Done (concat (map actions bs)) []"
proof (induction b stack and bs stack rule: runBlock_runBlocks.induct)
  case (2 q token body stack)
  show ?case
  proof (cases q)
    case None
    then show ?thesis using 2 by (simp add: runsInPlace_def)
  next
    case (Some q')
    then show ?thesis
      using 2 runsInPlace_own [of token q' stack] runsInPlace_foreign [of token q' stack]
      by (auto split: if_splits)
  qed
qed auto


section \<open>What the queue helpers promise\<close>

text \<open>C39: A block whose dispatches all name their queue's own nonzero token, are
  synchronous, and enter a queue only when the thread is on it or does not hold it,
  runs to the end without deadlock, and performs its actions in program order with
  nothing left enqueued.\<close>

theorem mp_dispatch_sync_disciplined:
  "disciplined stack b \<Longrightarrow> runBlock b stack = Done (actions b) []"
  by (rule run_disciplined(1))

theorem mp_dispatch_sync_disciplined_witness:
  "runBlock (DispatchSync (Some (mp_dispatch_queue_create 1 7 True)) 7
     [Act 1, DispatchSync (Some (mp_dispatch_queue_create 1 7 True)) 7 [Act 2],
      DispatchSync (Some (mp_dispatch_queue_create 2 8 True)) 8 [Act 3], Act 4]) [] =
   Done [1, 2, 3, 4] []"
  by (subst mp_dispatch_sync_disciplined) (simp_all add: mp_dispatch_queue_create_def)

text \<open>C40: The token test only sees the innermost queue, so a thread that goes from a
  serial queue to another one and from there synchronously back to the first
  deadlocks, although every dispatch carries its queue's own token.\<close>

theorem mp_dispatch_sync_reentry_deadlocks:
  fixes k t k' t' :: nat
  defines "create \<equiv> dispatch_queue_create_function featherDispatchFunctions"
  defines "sync \<equiv> dispatch_sync_function featherDispatchFunctions"
  assumes "t \<noteq> 0" and "t' \<noteq> 0" and "k \<noteq> k'"
  shows "sync [] (Some (create k t True)) t (\<lambda>s. sync s (Some (create k' t' True)) t' (\<lambda>s'.
      sync s' (Some (create k t True)) t body)) = Deadlock"
  using assms(3-5)
  by (simp add: create_def sync_def featherDispatchFunctions_def runsInPlace_def mp_dispatch_queue_create_def)

theorem mp_dispatch_sync_reentry_deadlocks_witness:
  "dispatch_sync_function featherDispatchFunctions []
     (Some (dispatch_queue_create_function featherDispatchFunctions 1 7 True)) 7 (\<lambda>s.
       dispatch_sync_function featherDispatchFunctions s
         (Some (dispatch_queue_create_function featherDispatchFunctions 2 8 True)) 8 (\<lambda>s'.
           dispatch_sync_function featherDispatchFunctions s'
             (Some (dispatch_queue_create_function featherDispatchFunctions 1 7 True)) 7
             (\<lambda>s. Done [0] []))) = Deadlock"
  by (rule mp_dispatch_sync_reentry_deadlocks) simp_all

end
