(* ===== verification/Runtime.thy ===== *)
theory Runtime
  imports Prelude "HOL-Library.Word"
begin

unbundle bit_operations_syntax

text \<open>
  The class extensions of \<open>NSObject+MPExtensions\<close>: enumeration of subclasses and
  properties with their caches, the common ancestor of two classes, and the
  inline helpers of the header.  A class is its name, its superclass, the
  properties it declares itself and the protocols it adopts; since a class
  carries its superclass, the walks over \<open>class_getSuperclass\<close> are structural
  recursions.  The list of loaded classes that \<open>objc_getClassList\<close> returns is
  part of the state.
\<close>


section \<open>Classes and the runtime state\<close>

record objc_property =
  property_getName :: string
  property_getAttributes :: string

datatype cls =
  Cls (class_name: string) (class_getSuperclass: "cls option")
      (class_copyPropertyList: "objc_property list") (class_protocols: "string list")

record runtime =
  objc_getClassList :: "cls list"
  subclassesCache :: "cls \<rightharpoonup> cls list"
  propertyKeysCache :: "cls \<rightharpoonup> string set"

fun superclassChain :: "cls \<Rightarrow> cls list" where
  "superclassChain (Cls n s ps prs) =
     Cls n s ps prs # (case s of None \<Rightarrow> [] | Some c \<Rightarrow> superclassChain c)"

definition isSubclassOfClass :: "cls \<Rightarrow> cls \<Rightarrow> bool" where
  "isSubclassOfClass c d \<longleftrightarrow> d \<in> set (superclassChain c)"

definition conformsToProtocol :: "cls \<Rightarrow> string \<Rightarrow> bool" where
  "conformsToProtocol c p \<longleftrightarrow> list_ex (\<lambda>d. p \<in> set (class_protocols d)) (superclassChain c)"

definition NSClassFromString :: "runtime \<Rightarrow> string \<Rightarrow> cls option" where
  "NSClassFromString rt n = find (\<lambda>c. class_name c = n) (objc_getClassList rt)"

text \<open>The loop \<open>do c = class_getSuperclass(c) while (c && c != target)\<close>.\<close>

fun climbTo :: "cls \<Rightarrow> cls \<Rightarrow> cls option" where
  "climbTo target (Cls n s ps prs) =
     (case s of None \<Rightarrow> None
      | Some p \<Rightarrow> if p = target then Some p else climbTo target p)"


section \<open>Subclass enumeration\<close>

definition computeSubclasses :: "cls list \<Rightarrow> cls \<Rightarrow> cls list" where
  "computeSubclasses classes self =
     filter (\<lambda>c. \<not> hasPrefix (class_name c) ''NSKVONotifying'' \<and> climbTo self c \<noteq> None) classes"

definition subclasses :: "runtime \<Rightarrow> cls \<Rightarrow> cls list \<times> runtime" where
  "subclasses rt self =
     (case subclassesCache rt self of
        Some cached \<Rightarrow> (cached, rt)
      | None \<Rightarrow>
          (let result = computeSubclasses (objc_getClassList rt) self
           in (result, rt\<lparr>subclassesCache := (subclassesCache rt)(self \<mapsto> result)\<rparr>)))"

function descendingLoop :: "runtime \<Rightarrow> cls list \<Rightarrow> cls set \<Rightarrow> cls set \<times> runtime" where
  "descendingLoop rt [] acc = (acc, rt)"
| "descendingLoop rt (subcls # rest) acc =
     (case subclasses rt subcls of
        (added, rt') \<Rightarrow> descendingLoop rt' (removeAll subcls (subcls # rest)) (acc \<union> set added))"
  by pat_completeness auto
termination
  by (relation "measure (\<lambda>(rt, xs, acc). length xs)")
     (auto simp: le_imp_less_Suc)

definition descendingClasses :: "runtime \<Rightarrow> cls \<Rightarrow> string set \<times> runtime" where
  "descendingClasses rt self =
     (case subclasses rt self of
        (subs, rt') \<Rightarrow>
          (case descendingLoop rt' subs (insert self (set subs)) of
             (found, rt'') \<Rightarrow> (class_name ` found, rt'')))"

definition classesMatchingPattern :: "runtime \<Rightarrow> (cls \<Rightarrow> bool) \<Rightarrow> cls list" where
  "classesMatchingPattern rt patternBlock = filter patternBlock (objc_getClassList rt)"


section \<open>Properties of classes\<close>

definition containsSubstring :: "string \<Rightarrow> string \<Rightarrow> bool" where
  "containsSubstring s substring \<longleftrightarrow> rangeOfString substring s \<noteq> None"

fun class_getProperty :: "cls \<Rightarrow> string \<Rightarrow> objc_property option" where
  "class_getProperty (Cls n s ps prs) key =
     (case find (\<lambda>p. property_getName p = key) ps of
        Some p \<Rightarrow> Some p
      | None \<Rightarrow> (case s of None \<Rightarrow> None | Some c \<Rightarrow> class_getProperty c key))"

definition propertyWithKeyIsReadWrite :: "cls \<Rightarrow> string \<Rightarrow> bool" where
  "propertyWithKeyIsReadWrite self key =
     (case class_getProperty self key of
        None \<Rightarrow> False
      | Some prop \<Rightarrow>
          list_all (\<lambda>component. \<not> containsSubstring component ''R'')
            (butlast (componentsSeparatedByString '','' (property_getAttributes prop))))"

fun computePropertyKeys :: "(cls \<rightharpoonup> string set) \<Rightarrow> cls \<Rightarrow> string set \<times> (cls \<rightharpoonup> string set)" where
  "computePropertyKeys cache (Cls n s ps prs) =
     (case cache (Cls n s ps prs) of
        Some keys \<Rightarrow> (keys, cache)
      | None \<Rightarrow>
          if n = ''NSObject'' then ({}, cache)
          else
            (case s of
               None \<Rightarrow> let keys = set (map property_getName ps)
                       in (keys, cache(Cls n s ps prs \<mapsto> keys))
             | Some c \<Rightarrow>
                 (case computePropertyKeys cache c of
                    (inherited, cache') \<Rightarrow>
                      let keys = set (map property_getName ps) \<union> inherited
                      in (keys, cache'(Cls n s ps prs \<mapsto> keys)))))"

definition propertyKeys :: "runtime \<Rightarrow> cls \<Rightarrow> string set \<times> runtime" where
  "propertyKeys rt self =
     (case computePropertyKeys (propertyKeysCache rt) self of
        (keys, cache) \<Rightarrow> (keys, rt\<lparr>propertyKeysCache := cache\<rparr>))"

fun propertiesLoop ::
  "(cls \<Rightarrow> string \<Rightarrow> bool) \<Rightarrow> string list \<Rightarrow> runtime \<Rightarrow> (string \<rightharpoonup> string set)
   \<Rightarrow> (string \<rightharpoonup> string set) \<times> runtime" where
  "propertiesLoop patternBlock [] rt dict = (dict, rt)"
| "propertiesLoop patternBlock (moClassName # rest) rt dict =
     (case NSClassFromString rt moClassName of
        None \<Rightarrow> propertiesLoop patternBlock rest rt (dict(moClassName := None))
      | Some moClass \<Rightarrow>
          (case propertyKeys rt moClass of
             (keys, rt') \<Rightarrow>
               propertiesLoop patternBlock rest rt'
                 (dict(moClassName \<mapsto> {propName \<in> keys. patternBlock moClass propName}))))"

definition propertiesOfSubclassesForClass ::
  "runtime \<Rightarrow> cls \<Rightarrow> (cls \<Rightarrow> string \<Rightarrow> bool) \<Rightarrow> (string \<rightharpoonup> string set) \<times> runtime" where
  "propertiesOfSubclassesForClass rt cls0 patternBlock =
     (case subclasses rt cls0 of
        (subs, rt') \<Rightarrow>
          propertiesLoop patternBlock (map class_name subs @ [class_name cls0]) rt' Map.empty)"


section \<open>The common ancestor of two classes\<close>

fun chainLength :: "cls option \<Rightarrow> nat" where
  "chainLength None = 0"
| "chainLength (Some c) = length (superclassChain c)"

lemma chainLength_superclass: "chainLength (class_getSuperclass c) < length (superclassChain c)"
  by (cases c) (auto split: option.splits)

function commonAncestorForClass :: "cls option \<Rightarrow> cls option \<Rightarrow> cls option" where
  "commonAncestorForClass a b =
     (if a = b then a
      else case a of None \<Rightarrow> None | Some x \<Rightarrow>
       (case b of None \<Rightarrow> None | Some y \<Rightarrow>
         (let parent = climbTo y x in
          if parent \<noteq> None \<and> class_name (the parent) \<noteq> ''NSObject'' then parent
          else
            (case climbTo x y of
               Some sourceParent \<Rightarrow> Some sourceParent
             | None \<Rightarrow>
                 (case commonAncestorForClass (class_getSuperclass x) (Some y) of
                    Some foundClass \<Rightarrow> Some foundClass
                  | None \<Rightarrow> commonAncestorForClass (class_getSuperclass y) (Some x))))))"
  by pat_completeness auto
termination
  by (relation "measure (\<lambda>(a, b). chainLength a + chainLength b)")
     (auto simp: chainLength_superclass add.commute)

declare commonAncestorForClass.simps [simp del]


section \<open>Inline helpers of the header\<close>

definition MPNilToObject :: "'a option \<Rightarrow> 'a option \<Rightarrow> 'a option" where
  "MPNilToObject obj defaultObject = (if obj \<noteq> None then obj else defaultObject)"

definition MPOptionIsOn :: "64 word \<Rightarrow> 64 word \<Rightarrow> bool" where
  "MPOptionIsOn flags flag = (if flag = 0 then True else (flags AND flag) = flag)"


section \<open>Superclass chains\<close>

lemma superclassChain_self [simp]: "c \<in> set (superclassChain c)"
  by (cases c) simp

lemma superclassChain_not_Nil [simp]: "superclassChain c \<noteq> []"
  by (cases c) simp

lemma superclassChain_unfold:
  "superclassChain c =
     c # (case class_getSuperclass c of None \<Rightarrow> [] | Some d \<Rightarrow> superclassChain d)"
  by (cases c) simp

lemma superclassChain_suffix:
  "d \<in> set (superclassChain c) \<Longrightarrow> suffix (superclassChain d) (superclassChain c)"
proof (induction c rule: superclassChain.induct)
  case (1 n s ps prs)
  then show ?case by (cases s) (auto intro: suffix_ConsI)
qed

lemma superclassChain_trans:
  "d \<in> set (superclassChain c) \<Longrightarrow> e \<in> set (superclassChain d) \<Longrightarrow> e \<in> set (superclassChain c)"
  using superclassChain_suffix set_mono_suffix by blast

lemma superclassChain_length:
  "d \<in> set (superclassChain c) \<Longrightarrow> length (superclassChain d) \<le> length (superclassChain c)"
  using superclassChain_suffix suffix_length_le by blast

lemma superclassChain_antisym:
  assumes "d \<in> set (superclassChain c)" "c \<in> set (superclassChain d)"
  shows "c = d"
proof -
  have "superclassChain c = superclassChain d"
    using assms superclassChain_suffix suffix_order.antisym by blast
  then show ?thesis by (metis superclassChain_unfold list.inject)
qed

lemma isSubclassOfClass_refl [simp]: "isSubclassOfClass c c"
  by (simp add: isSubclassOfClass_def)

lemma isSubclassOfClass_trans:
  "isSubclassOfClass c d \<Longrightarrow> isSubclassOfClass d e \<Longrightarrow> isSubclassOfClass c e"
  unfolding isSubclassOfClass_def by (rule superclassChain_trans)

lemma isSubclassOfClass_antisym:
  "isSubclassOfClass c d \<Longrightarrow> isSubclassOfClass d c \<Longrightarrow> c = d"
  unfolding isSubclassOfClass_def using superclassChain_antisym by blast

lemma climbTo_iff:
  "climbTo t c = (if t \<in> set (tl (superclassChain c)) then Some t else None)"
proof (induction t c rule: climbTo.induct)
  case (1 t n s ps prs)
  show ?case
  proof (cases s)
    case (Some p)
    have "set (superclassChain p) = insert p (set (tl (superclassChain p)))"
      by (cases p) auto
    then show ?thesis using Some 1 by auto
  qed simp
qed

lemma self_not_in_tl_chain [simp]: "c \<notin> set (tl (superclassChain c))"
proof
  assume "c \<in> set (tl (superclassChain c))"
  moreover have "tl (superclassChain c) \<noteq> [] \<Longrightarrow>
      \<exists>p. class_getSuperclass c = Some p \<and> tl (superclassChain c) = superclassChain p"
    by (cases c) (auto split: option.splits)
  ultimately obtain p where p: "tl (superclassChain c) = superclassChain p"
    and "c \<in> set (superclassChain p)" by fastforce
  then have "length (superclassChain c) \<le> length (tl (superclassChain c))"
    using superclassChain_length by simp
  then show False by (cases "superclassChain c") auto
qed

lemma climbTo_None_iff: "climbTo t c \<noteq> None \<longleftrightarrow> c \<noteq> t \<and> isSubclassOfClass c t"
proof -
  have "set (superclassChain c) = insert c (set (tl (superclassChain c)))"
    by (cases c) auto
  then show ?thesis
    by (auto simp: climbTo_iff isSubclassOfClass_def)
qed


section \<open>Subclass enumeration and its cache\<close>

definition subclassesCache_ok :: "runtime \<Rightarrow> bool" where
  "subclassesCache_ok rt \<longleftrightarrow>
     (\<forall>c subs. subclassesCache rt c = Some subs \<longrightarrow>
        subs = computeSubclasses (objc_getClassList rt) c)"

lemma set_computeSubclasses:
  "set (computeSubclasses classes self) =
     {c \<in> set classes. c \<noteq> self \<and> isSubclassOfClass c self \<and>
        \<not> hasPrefix (class_name c) ''NSKVONotifying''}"
  unfolding computeSubclasses_def climbTo_None_iff by auto

lemma computeSubclasses_exact:
  "computeSubclasses classes self =
     filter (\<lambda>c. c \<noteq> self \<and> isSubclassOfClass c self \<and>
       \<not> hasPrefix (class_name c) ''NSKVONotifying'') classes"
  unfolding computeSubclasses_def climbTo_None_iff by (rule filter_cong) auto

lemma subclasses_result:
  "subclassesCache_ok rt \<Longrightarrow>
   fst (subclasses rt self) = computeSubclasses (objc_getClassList rt) self"
  by (auto simp: subclasses_def subclassesCache_ok_def Let_def split: option.splits)

lemma subclasses_keeps [keeps]:
  "subclassesCache_ok rt \<Longrightarrow> subclassesCache_ok (snd (subclasses rt self))"
  by (auto simp: subclasses_def subclassesCache_ok_def Let_def split: option.splits)

lemma subclasses_classList [simp]:
  "objc_getClassList (snd (subclasses rt self)) = objc_getClassList rt"
  by (auto simp: subclasses_def Let_def split: option.splits)

interpretation subclass_cache:
  memoised "\<lambda>c rt. subclasses rt c" "\<lambda>rt. computeSubclasses (objc_getClassList rt)"
    subclassesCache_ok "\<lambda>c. True"
  by unfold_locales (simp_all add: subclasses_result subclasses_keeps)

lemma descendingLoop_result:
  "subclassesCache_ok rt \<Longrightarrow> descendingLoop rt todo acc = (found, rt') \<Longrightarrow>
   found = acc \<union> (\<Union>c \<in> set todo. set (computeSubclasses (objc_getClassList rt) c)) \<and>
   objc_getClassList rt' = objc_getClassList rt \<and> subclassesCache_ok rt'"
proof (induction rt todo acc arbitrary: found rt' rule: descendingLoop.induct)
  case (2 rt subcls rest acc)
  obtain added rt1 where s: "subclasses rt subcls = (added, rt1)" by force
  have added: "added = computeSubclasses (objc_getClassList rt) subcls"
    using subclasses_result [OF 2(2), of subcls] s by simp
  have ok: "subclassesCache_ok rt1" and cl: "objc_getClassList rt1 = objc_getClassList rt"
    using subclasses_keeps [OF 2(2), of subcls] subclasses_classList [of rt subcls] s by auto
  have run: "descendingLoop rt1 (removeAll subcls (subcls # rest)) (acc \<union> set added) = (found, rt')"
    using 2(3) s by simp
  show ?case
    using 2(1) [OF s [symmetric] ok run] added cl by auto
qed simp

lemma distinct_names_NSClassFromString:
  assumes "distinct (map class_name (objc_getClassList rt))" and "c \<in> set (objc_getClassList rt)"
  shows "NSClassFromString rt (class_name c) = Some c"
proof -
  have "find (\<lambda>d. class_name d = class_name c) (objc_getClassList rt) \<noteq> None"
    using assms(2) by (auto simp: find_None_iff)
  then obtain d where d: "NSClassFromString rt (class_name c) = Some d"
    by (auto simp: NSClassFromString_def)
  then have "d \<in> set (objc_getClassList rt)" "class_name d = class_name c"
    by (auto simp: NSClassFromString_def find_Some_iff)
  then show ?thesis
    using d assms by (simp add: distinct_map inj_on_def)
qed


section \<open>Property enumeration\<close>

fun declaredPropertyKeys :: "cls \<Rightarrow> string set" where
  "declaredPropertyKeys (Cls n s ps prs) =
     (if n = ''NSObject'' then {}
      else set (map property_getName ps) \<union>
        (case s of None \<Rightarrow> {} | Some c \<Rightarrow> declaredPropertyKeys c))"

definition propertyKeysCache_ok :: "(cls \<rightharpoonup> string set) \<Rightarrow> bool" where
  "propertyKeysCache_ok cache \<longleftrightarrow> (\<forall>c ks. cache c = Some ks \<longrightarrow> ks = declaredPropertyKeys c)"

lemma propertyKeysCache_ok_update [keeps]:
  "propertyKeysCache_ok cache \<Longrightarrow> ks = declaredPropertyKeys c \<Longrightarrow>
   propertyKeysCache_ok (cache(c \<mapsto> ks))"
  by (simp add: propertyKeysCache_ok_def)

lemma computePropertyKeys_correct:
  "propertyKeysCache_ok cache \<Longrightarrow> computePropertyKeys cache c = (keys, cache') \<Longrightarrow>
   keys = declaredPropertyKeys c \<and> propertyKeysCache_ok cache'"
proof (induction cache c arbitrary: keys cache' rule: computePropertyKeys.induct)
  case (1 cache n s ps prs)
  show ?case
  proof (cases "cache (Cls n s ps prs)")
    case (Some ks)
    then have "ks = declaredPropertyKeys (Cls n s ps prs)"
      using 1(2) unfolding propertyKeysCache_ok_def by blast
    then show ?thesis using Some 1(2,3) by simp
  next
    case uncached: None
    show ?thesis
    proof (cases "n = ''NSObject''")
      case False
      show ?thesis
      proof (cases s)
        case (Some c)
        obtain inherited cache1 where rec: "computePropertyKeys cache c = (inherited, cache1)"
          by force
        have "inherited = declaredPropertyKeys c \<and> propertyKeysCache_ok cache1"
          using 1(1) [OF uncached False Some 1(2) rec] .
        then show ?thesis
          using uncached False Some rec 1(3) by (auto simp: Let_def intro!: keeps)
      qed (use uncached False 1(2,3) in \<open>auto simp: Let_def intro!: keeps\<close>)
    qed (use uncached 1(2,3) in \<open>auto split: option.splits\<close>)
  qed
qed


interpretation property_cache:
  memoised "\<lambda>c cache. computePropertyKeys cache c" "\<lambda>cache. declaredPropertyKeys"
    propertyKeysCache_ok "\<lambda>c. True"
proof unfold_locales
  fix cache c
  obtain keys cache' where *: "computePropertyKeys cache c = (keys, cache')" by force
  assume "propertyKeysCache_ok cache"
  then have "keys = declaredPropertyKeys c \<and> propertyKeysCache_ok cache'"
    using * by (rule computePropertyKeys_correct)
  then show "fst (computePropertyKeys cache c) = declaredPropertyKeys c"
    and "propertyKeysCache_ok (snd (computePropertyKeys cache c))" using * by simp_all
qed simp


section \<open>The common ancestor is the least one\<close>

definition leastCommonAncestor :: "cls \<Rightarrow> cls \<Rightarrow> cls option" where
  "leastCommonAncestor a b = find (\<lambda>c. isSubclassOfClass b c) (superclassChain a)"

lemma leastCommonAncestor_skip:
  "\<not> isSubclassOfClass b a \<Longrightarrow>
   leastCommonAncestor a b =
     (case class_getSuperclass a of None \<Rightarrow> None | Some p \<Rightarrow> leastCommonAncestor p b)"
  by (subst leastCommonAncestor_def, subst superclassChain_unfold)
     (auto simp: leastCommonAncestor_def split: option.splits)

lemma leastCommonAncestor_self:
  "isSubclassOfClass b a \<Longrightarrow> leastCommonAncestor a b = Some a"
  by (subst leastCommonAncestor_def, subst superclassChain_unfold) simp

lemma leastCommonAncestor_None:
  "leastCommonAncestor a b = None \<longleftrightarrow> set (superclassChain a) \<inter> set (superclassChain b) = {}"
  by (auto simp: leastCommonAncestor_def find_None_iff isSubclassOfClass_def)

lemma find_suffix_closed:
  assumes "suffix ys xs" and "\<And>x. x \<in> set xs \<Longrightarrow> P x \<Longrightarrow> x \<in> set ys" and "distinct xs"
  shows "find P xs = find P ys"
proof -
  obtain zs where zs: "xs = zs @ ys" using assms(1) by (auto simp: suffix_def)
  have "\<forall>z \<in> set zs. \<not> P z" using assms(2,3) zs by auto
  then show ?thesis unfolding zs by (induction zs) auto
qed

lemma superclassChain_distinct [simp]: "distinct (superclassChain c)"
proof (induction c rule: superclassChain.induct)
  case (1 n s ps prs)
  show ?case
  proof (cases s)
    case (Some p)
    then show ?thesis
      using 1 self_not_in_tl_chain [of "Cls n s ps prs"] by simp
  qed simp
qed

lemma leastCommonAncestor_super:
  assumes "isSubclassOfClass a b"
  shows "leastCommonAncestor a b = Some b"
proof -
  have "leastCommonAncestor a b = find (\<lambda>c. isSubclassOfClass b c) (superclassChain b)"
    unfolding leastCommonAncestor_def
    using assms superclassChain_suffix
    by (intro find_suffix_closed) (auto simp: isSubclassOfClass_def)
  then show ?thesis
    by (subst (asm) superclassChain_unfold) simp
qed

lemma leastCommonAncestor_swapped_None:
  assumes "leastCommonAncestor x y = None" and "class_getSuperclass y = Some p"
  shows "leastCommonAncestor p x = None"
proof -
  have "set (superclassChain p) \<subseteq> set (superclassChain y)"
    using assms(2) by (subst (2) superclassChain_unfold) auto
  then show ?thesis using assms(1) leastCommonAncestor_None by blast
qed

lemma commonAncestor_least:
  "commonAncestorForClass a b =
     (case (a, b) of (Some x, Some y) \<Rightarrow> leastCommonAncestor x y | _ \<Rightarrow> None)"
proof (induction a b rule: commonAncestorForClass.induct)
  case (1 a b)
  show ?case
  proof (cases "\<exists>x y. a = Some x \<and> b = Some y \<and> x \<noteq> y")
    case False
    then show ?thesis
      by (subst commonAncestorForClass.simps)
         (auto simp: leastCommonAncestor_self split: option.splits)
  next
    case True
    then obtain x y where ab: "a = Some x" "b = Some y" and ne: "x \<noteq> y" by blast
    let ?up = "commonAncestorForClass (class_getSuperclass x) (Some y)"
    let ?fb = "commonAncestorForClass (class_getSuperclass y) (Some x)"
    show ?thesis
    proof (cases "climbTo x y")
      case (Some q)
      then have yx: "isSubclassOfClass y x" "q = x"
        using climbTo_None_iff [of x y] by (auto simp: climbTo_iff split: if_splits)
      then have "climbTo y x = None"
        using climbTo_None_iff [of y x] isSubclassOfClass_antisym ne by blast
      then show ?thesis
        using ab ne Some yx
        by (subst commonAncestorForClass.simps) (simp add: leastCommonAncestor_self Let_def)
    next
      case None
      then have nyx: "\<not> isSubclassOfClass y x"
        using climbTo_None_iff [of x y] ne by auto
      show ?thesis
      proof (cases "climbTo y x \<noteq> None \<and> class_name (the (climbTo y x)) \<noteq> ''NSObject''")
        case True
        then have "isSubclassOfClass x y" "climbTo y x = Some y"
          using climbTo_None_iff [of y x] by (auto simp: climbTo_iff split: if_splits)
        then show ?thesis
          using ab ne True
          by (subst commonAncestorForClass.simps) (simp add: leastCommonAncestor_super Let_def)
      next
        case False
        note IH = 1 [OF _ ab(1) ab(2) refl False None]
        have up: "?up = leastCommonAncestor x y"
          using IH(1) ab ne leastCommonAncestor_skip [OF nyx] by (auto split: option.splits)
        have fb: "?up = None \<Longrightarrow> ?fb = None"
          using IH(2) ab ne up leastCommonAncestor_swapped_None [of x y] by (auto split: option.splits)
        show ?thesis
          using ab ne False None up fb
          by (subst commonAncestorForClass.simps) (auto simp: Let_def split: option.splits)
      qed
    qed
  qed
qed


lemma leastCommonAncestor_chain:
  "leastCommonAncestor a b = Some c \<Longrightarrow>
   set (superclassChain a) \<inter> set (superclassChain b) = set (superclassChain c)"
proof (induction a rule: superclassChain.induct)
  case (1 n s ps prs)
  let ?a = "Cls n s ps prs"
  show ?case
  proof (cases "isSubclassOfClass b ?a")
    case True
    then have "c = ?a" using 1(2) leastCommonAncestor_self by simp
    then show ?thesis using True superclassChain_trans by (auto simp: isSubclassOfClass_def)
  next
    case False
    then obtain p where p: "s = Some p" "leastCommonAncestor p b = Some c"
      using 1(2) leastCommonAncestor_skip by (cases s) auto
    have "?a \<notin> set (superclassChain b)" using False by (simp add: isSubclassOfClass_def)
    then show ?thesis using 1(1) [OF p] p(1) by simp
  qed
qed


section \<open>What the class extensions promise\<close>

text \<open>C38: Any sequence of \<open>subclasses\<close> queries, started from an empty cache, answers
  each query with exactly the loaded classes that strictly inherit from the queried
  class, the classes that key-value observing synthesises left out; the answers do
  not depend on which classes were asked for before.\<close>

theorem subclasses_exact:
  "fst (queries (\<lambda>c rt. subclasses rt c) cs (rt\<lparr>subclassesCache := Map.empty\<rparr>)) =
   map (\<lambda>self. filter (\<lambda>c. c \<noteq> self \<and> isSubclassOfClass c self \<and>
          \<not> hasPrefix (class_name c) ''NSKVONotifying'') (objc_getClassList rt)) cs"
proof -
  have "subclassesCache_ok (rt\<lparr>subclassesCache := Map.empty\<rparr>)"
    by (simp add: subclassesCache_ok_def)
  from subclass_cache.queries_spec [OF this, of cs]
  show ?thesis
    by (simp add: computeSubclasses_exact list.pred_True)
qed

text \<open>\<open>descendingClasses\<close> names the class itself and every loaded class below it,
  whatever consistent cache it starts from.\<close>

theorem descendingClasses_names:
  assumes "subclassesCache_ok rt" and "self \<in> set (objc_getClassList rt)"
    and "list_all (\<lambda>c. \<not> hasPrefix (class_name c) ''NSKVONotifying'') (objc_getClassList rt)"
  shows "fst (descendingClasses rt self) =
    class_name ` {c \<in> set (objc_getClassList rt). isSubclassOfClass c self}"
proof -
  obtain subs rt' where s: "subclasses rt self = (subs, rt')" by force
  have subs: "subs = computeSubclasses (objc_getClassList rt) self"
    and ok: "subclassesCache_ok rt'" and cl: "objc_getClassList rt' = objc_getClassList rt"
    using subclasses_result [OF assms(1), of self] subclasses_keeps [OF assms(1), of self]
      subclasses_classList [of rt self] s by auto
  obtain found rt'' where f: "descendingLoop rt' subs (insert self (set subs)) = (found, rt'')"
    by force
  have "found = {c \<in> set (objc_getClassList rt). isSubclassOfClass c self}"
    using descendingLoop_result [OF ok f] assms(2,3) subs cl
    by (auto simp: set_computeSubclasses list_all_iff intro: isSubclassOfClass_trans)
  then show ?thesis using s f by (simp add: descendingClasses_def)
qed

theorem descendingClasses_names_witness:
  "fst (descendingClasses
      \<lparr>objc_getClassList = [Cls ''A'' None [] [], Cls ''B'' (Some (Cls ''A'' None [] [])) [] []],
       subclassesCache = Map.empty, propertyKeysCache = Map.empty\<rparr> (Cls ''A'' None [] [])) =
   {''A'', ''B''}"
proof -
  have "{c. (c = Cls ''A'' None [] [] \<or> c = Cls ''B'' (Some (Cls ''A'' None [] [])) [] []) \<and>
      Cls ''A'' None [] [] \<in> set (superclassChain c)} =
    {Cls ''A'' None [] [], Cls ''B'' (Some (Cls ''A'' None [] [])) [] []}" by auto
  then show ?thesis
    by (subst descendingClasses_names)
       (simp_all add: subclassesCache_ok_def isSubclassOfClass_def hasPrefix_code)
qed

text \<open>C36: \<open>commonAncestorForClass\<close> answers nil only for classes with no common
  superclass, and otherwise the least common one: the superclasses of the answer are
  exactly the superclasses both classes share.\<close>

theorem commonAncestorForClass_least:
  "case commonAncestorForClass (Some a) (Some b) of
     None \<Rightarrow> set (superclassChain a) \<inter> set (superclassChain b) = {}
   | Some c \<Rightarrow> set (superclassChain a) \<inter> set (superclassChain b) = set (superclassChain c)"
  using leastCommonAncestor_None [of a b] leastCommonAncestor_chain [of a b]
  by (auto simp: commonAncestor_least split: option.splits)

end
