(* ===== verification/StringExt.thy ===== *)
theory StringExt
  imports Runtime
begin

text \<open>
  The string categories of \<open>NSString+MPExtensions\<close>: searching, trimming and
  normalising whitespace, slugs, escaping, removal of characters, four-character
  codes, and the macros and inline functions of the header.  A character set is
  a predicate on characters.  A method that raises \<open>NSRangeException\<close> returns
  \<open>None\<close>.  Parameters stand for the Unicode tables of Foundation
  (\<open>alphanumericCharacterSet\<close>, the letter sets, MacRoman) and for \<open>NSURL\<close>.
\<close>


section \<open>Character sets and Foundation functions on them\<close>

definition whitespaceCharacterSet :: "char \<Rightarrow> bool" where
  "whitespaceCharacterSet c \<longleftrightarrow> c \<in> {CHR 0x09, CHR 0x20, CHR 0xA0}"

definition whitespaceAndNewlineCharacterSet :: "char \<Rightarrow> bool" where
  "whitespaceAndNewlineCharacterSet c \<longleftrightarrow>
     whitespaceCharacterSet c \<or> c \<in> {CHR 0x0A, CHR 0x0B, CHR 0x0C, CHR 0x0D, CHR 0x85}"

definition stringByTrimmingCharactersInSet :: "(char \<Rightarrow> bool) \<Rightarrow> string \<Rightarrow> string" where
  "stringByTrimmingCharactersInSet cs s = rev (dropWhile cs (rev (dropWhile cs s)))"

fun separatedByCharacters :: "(char \<Rightarrow> bool) \<Rightarrow> string \<Rightarrow> string \<Rightarrow> string list" where
  "separatedByCharacters cs acc [] = [rev acc]"
| "separatedByCharacters cs acc (x # xs) =
     (if cs x then rev acc # separatedByCharacters cs [] xs
      else separatedByCharacters cs (x # acc) xs)"

definition componentsSeparatedByCharactersInSet :: "(char \<Rightarrow> bool) \<Rightarrow> string \<Rightarrow> string list" where
  "componentsSeparatedByCharactersInSet cs s = separatedByCharacters cs [] s"

definition rangeOfCharacterFromSet :: "(char \<Rightarrow> bool) \<Rightarrow> string \<Rightarrow> nat \<Rightarrow> nat \<Rightarrow> nat option" where
  "rangeOfCharacterFromSet cs s loc len =
     (let r = take len (drop loc s); d = takeWhile (\<lambda>c. \<not> cs c) r
      in if length d < length r then Some (loc + length d) else None)"

definition lowercaseCharacter :: "char \<Rightarrow> char" where
  "lowercaseCharacter c =
     (let n = of_char c :: nat in if 65 \<le> n \<and> n \<le> 90 then char_of (n + 32) else c)"


section \<open>Inline functions and macros of the header\<close>

record ns_range =
  location :: nat
  range_length :: nat

definition MPLastIndexOfString :: "string option \<Rightarrow> nat option" where
  "MPLastIndexOfString s =
     (case s of None \<Rightarrow> None | Some t \<Rightarrow> if length t > 0 then Some (length t - 1) else None)"

definition MPFullRange :: "string \<Rightarrow> ns_range" where
  "MPFullRange s = \<lparr>location = 0, range_length = length s\<rparr>"

definition MPRangeContainsRange :: "ns_range \<Rightarrow> ns_range \<Rightarrow> bool" where
  "MPRangeContainsRange r r2 \<longleftrightarrow>
     location r \<le> location r2 \<and>
     location r + range_length r \<le> location r2 + range_length r2"

definition MPNilToEmptyString :: "string option \<Rightarrow> string" where
  "MPNilToEmptyString s = (case s of Some t \<Rightarrow> t | None \<Rightarrow> [])"

definition MPNilOrEmptyStringToString :: "string option \<Rightarrow> string option \<Rightarrow> string option" where
  "MPNilOrEmptyStringToString s s2 =
     (case s of Some t \<Rightarrow> if length t > 0 then s else s2 | None \<Rightarrow> s2)"

definition MPNilToString :: "string option \<Rightarrow> string option \<Rightarrow> string" where
  "MPNilToString s s2 = (case s of Some t \<Rightarrow> t | None \<Rightarrow> MPNilToEmptyString s2)"


section \<open>Searching\<close>

definition substringAfter :: "string \<Rightarrow> string \<Rightarrow> string option" where
  "substringAfter self s =
     (case rangeOfString s self of
        None \<Rightarrow> None | Some loc \<Rightarrow> Some (drop (loc + length s) self))"

definition substringBefore :: "string \<Rightarrow> string \<Rightarrow> string option" where
  "substringBefore self s =
     (case rangeOfString s self of None \<Rightarrow> None | Some loc \<Rightarrow> Some (take loc self))"

definition substringUpToEndOfFirstOccurrenceOfString :: "string \<Rightarrow> string \<Rightarrow> string option" where
  "substringUpToEndOfFirstOccurrenceOfString self s =
     (case rangeOfString s self of
        None \<Rightarrow> None | Some loc \<Rightarrow> Some (take (loc + length s) self))"

definition hasContent :: "string \<Rightarrow> bool" where
  "hasContent self \<longleftrightarrow> length self > 0"

definition sentenceCasedString :: "(string \<Rightarrow> string) \<Rightarrow> string \<Rightarrow> string" where
  "sentenceCasedString capitalizedString self =
     (if length self = 0 then [] else capitalizedString (take 1 self) @ drop 1 self)"

definition isAllUpperCase :: "(char \<Rightarrow> bool) \<Rightarrow> (char \<Rightarrow> bool) \<Rightarrow> string \<Rightarrow> bool" where
  "isAllUpperCase lowercaseLetters uppercaseLetters self \<longleftrightarrow>
     rangeOfCharacterFromSet lowercaseLetters self 0 (length self) = None \<and>
     rangeOfCharacterFromSet uppercaseLetters self 0 (length self) \<noteq> None"


section \<open>Trimming and normalising whitespace\<close>

definition stringByTrimmingWhitespace :: "string \<Rightarrow> string" where
  "stringByTrimmingWhitespace self = stringByTrimmingCharactersInSet whitespaceCharacterSet self"

definition stringByTrimmingWhitespaceAndNewlines :: "string \<Rightarrow> string" where
  "stringByTrimmingWhitespaceAndNewlines self =
     stringByTrimmingCharactersInSet whitespaceAndNewlineCharacterSet self"

definition stringByNormalizingWhitespaceAllowLeading :: "bool \<Rightarrow> bool \<Rightarrow> string \<Rightarrow> string" where
  "stringByNormalizingWhitespaceAllowLeading allowLeading allowTrailing self =
     (if length self < 1 then self
      else
        (let s = stringByTrimmingWhitespaceAndNewlines self;
             components = filter (\<lambda>x. x \<noteq> [])
               (componentsSeparatedByCharactersInSet whitespaceAndNewlineCharacterSet s);
             normalized = componentsJoinedByString '' '' components;
             restoreLeading = (allowLeading \<and> whitespaceAndNewlineCharacterSet (self ! 0));
             restoreTrailing =
               (allowTrailing \<and> whitespaceAndNewlineCharacterSet (self ! (length self - 1)))
         in if restoreLeading \<and> restoreTrailing then '' '' @ normalized @ '' ''
            else if restoreLeading then '' '' @ normalized
            else if restoreTrailing then normalized @ '' ''
            else normalized))"

definition stringByNormalizingWhitespace :: "string \<Rightarrow> string" where
  "stringByNormalizingWhitespace self = stringByNormalizingWhitespaceAllowLeading False False self"

function leadingIndex :: "string \<Rightarrow> nat \<Rightarrow> nat" where
  "leadingIndex self i =
     (if i < length self \<and> whitespaceCharacterSet (self ! i) then leadingIndex self (i + 1) else i)"
  by pat_completeness auto
termination
  by (relation "measure (\<lambda>(s, i). length s - i)") auto

declare leadingIndex.simps [simp del]

definition stringByTrimmingLeadingWhitespace :: "string \<Rightarrow> string" where
  "stringByTrimmingLeadingWhitespace self = drop (leadingIndex self 0) self"

fun trailingLength :: "(char \<Rightarrow> bool) \<Rightarrow> string \<Rightarrow> nat \<Rightarrow> nat" where
  "trailingLength characterSet charBuffer 0 = 0"
| "trailingLength characterSet charBuffer (Suc n) =
     (if \<not> characterSet (charBuffer ! n) then Suc n else trailingLength characterSet charBuffer n)"

definition stringByTrimmingTrailingCharactersInSet :: "(char \<Rightarrow> bool) \<Rightarrow> string \<Rightarrow> string" where
  "stringByTrimmingTrailingCharactersInSet characterSet self =
     take (trailingLength characterSet self (length self)) self"

definition stringByTrimmingTrailingWhitespace :: "string \<Rightarrow> string" where
  "stringByTrimmingTrailingWhitespace self =
     stringByTrimmingTrailingCharactersInSet whitespaceAndNewlineCharacterSet self"

definition stringByTrimmingToLength :: "nat \<Rightarrow> bool \<Rightarrow> string \<Rightarrow> string" where
  "stringByTrimmingToLength len trunc self =
     (if length self \<le> len then self
      else
        (let str = take len self
         in if trunc
            then stringByTrimmingCharactersInSet whitespaceCharacterSet str @ ''...''
            else str))"

definition HTMLStringCleanedFromWebKitArtefacts :: "string \<Rightarrow> string" where
  "HTMLStringCleanedFromWebKitArtefacts self =
     stringByReplacingOccurrencesOfString
       (stringByReplacingOccurrencesOfString self ''&nbsp;'' '' '') ''<br>'' []"


section \<open>Removing characters\<close>

text \<open>
  The two nested loops of \<open>removeCharactersInSet:\<close>.  The inner one extends the range
  to delete while the next character is in the set; \<open>None\<close> for the match is a range
  of length 0.
\<close>

function extendRange ::
  "(char \<Rightarrow> bool) \<Rightarrow> string \<Rightarrow> nat \<Rightarrow> nat \<Rightarrow> nat \<Rightarrow> nat \<times> nat option" where
  "extendRange cs s replaceLength searchLocation searchLength =
     (case rangeOfCharacterFromSet cs s searchLocation searchLength of
        None \<Rightarrow> (replaceLength, None)
      | Some m \<Rightarrow>
          if m \<noteq> searchLocation then (replaceLength, Some m)
          else extendRange cs s (replaceLength + 1) (searchLocation + 1) (searchLength - 1))"
  by pat_completeness auto
termination
  by (relation "measure (\<lambda>(cs, s, rl, sl, n). n)")
     (auto simp: rangeOfCharacterFromSet_def Let_def split: if_splits)

declare extendRange.simps [simp del]

lemma extendRange_grows: "fst (extendRange cs s rl sl sn) \<ge> rl"
proof (induction cs s rl sl sn rule: extendRange.induct)
  case (1 cs s rl sl sn)
  then show ?case
    by (subst extendRange.simps) (auto split: option.splits)
qed

function removeLoop :: "(char \<Rightarrow> bool) \<Rightarrow> string \<Rightarrow> nat option \<Rightarrow> nat \<Rightarrow> string option" where
  "removeLoop cs s None len = Some s"
| "removeLoop cs s (Some m) len =
     (case extendRange cs s 1 (m + 1) (len - (m + 1)) of
        (replaceLength, next) \<Rightarrow>
          if m + replaceLength > length s then None
          else removeLoop cs (take m s @ drop (m + replaceLength) s)
                 (map_option (\<lambda>l. l - replaceLength) next) (len - replaceLength))"
  by pat_completeness auto
termination
proof (relation "measure (\<lambda>(cs, s, m, len). length s)", goal_cases)
  case (2 cs s m len rl nxt)
  then have "1 \<le> rl"
    using extendRange_grows [of 1 cs s "m + 1" "len - (m + 1)"] by (metis fst_conv)
  then show ?case using 2 by simp
qed simp

definition removeCharactersInSet :: "(char \<Rightarrow> bool) \<Rightarrow> string \<Rightarrow> string option" where
  "removeCharactersInSet cs self =
     removeLoop cs self (rangeOfCharacterFromSet cs self 0 (length self)) (length self)"

definition stringByRemovingCharactersFromSet :: "(char \<Rightarrow> bool) \<Rightarrow> string \<Rightarrow> string option" where
  "stringByRemovingCharactersFromSet cs self =
     (if rangeOfCharacterFromSet cs self 0 (length self) = None then Some self
      else removeCharactersInSet cs self)"

definition stringByRemovingWhitespace :: "string \<Rightarrow> string option" where
  "stringByRemovingWhitespace self =
     stringByRemovingCharactersFromSet whitespaceAndNewlineCharacterSet self"


section \<open>Slugs\<close>

definition isASCII :: "char \<Rightarrow> bool" where
  "isASCII c \<longleftrightarrow> (of_char c :: nat) < 128"

definition isSlugCharacter :: "char \<Rightarrow> bool" where
  "isSlugCharacter c =
     (let n = of_char c :: nat
      in 97 \<le> n \<and> n \<le> 122 \<or> 65 \<le> n \<and> n \<le> 90 \<or> 48 \<le> n \<and> n \<le> 57 \<or>
         c \<in> {CHR ''-'', CHR ''_'', CHR ''+''})"

text \<open>Replacing every maximal run of characters outside (inside) a class by one separator.\<close>

fun replaceRuns :: "(char \<Rightarrow> bool) \<Rightarrow> char \<Rightarrow> bool \<Rightarrow> string \<Rightarrow> string" where
  "replaceRuns matches sep inRun [] = []"
| "replaceRuns matches sep inRun (c # cs) =
     (if matches c then (if inRun then [] else [sep]) @ replaceRuns matches sep True cs
      else c # replaceRuns matches sep False cs)"

definition slugString :: "string \<Rightarrow> string option" where
  "slugString self =
     (let replaceRange = length self;
          ascii = filter isASCII self
      in if replaceRange > length ascii then None
         else
           (let separated = replaceRuns (\<lambda>c. \<not> isSlugCharacter c) (CHR ''-'') False ascii
            in if replaceRange > length separated then None
               else
                 (let single = replaceRuns (\<lambda>c. c = CHR ''-'') (CHR ''-'') False separated
                  in Some (map lowercaseCharacter
                       (stringByTrimmingCharactersInSet (\<lambda>c. c = CHR ''-'') single)))))"


section \<open>Escaping\<close>

definition replaceInRange :: "char \<Rightarrow> string \<Rightarrow> nat \<Rightarrow> string \<Rightarrow> string" where
  "replaceInRange c replacement n s =
     stringByReplacingOccurrencesOfString (take n s) [c] replacement @ drop n s"

definition reprTable :: "(char \<times> string) list" where
  "reprTable =
     [(CHR 0x00, [CHR 0x5C, CHR ''0'']), (CHR 0x07, [CHR 0x5C, CHR ''a'']),
      (CHR 0x08, [CHR 0x5C, CHR ''b'']), (CHR 0x09, [CHR 0x5C, CHR ''t'']),
      (CHR 0x0A, [CHR 0x5C, CHR ''n'']), (CHR 0x0C, [CHR 0x5C, CHR ''f'']),
      (CHR 0x0D, [CHR 0x5C, CHR ''r'']), (CHR 0x1B, [CHR 0x5C, CHR ''e''])]"

definition repr :: "string \<Rightarrow> string" where
  "repr self =
     (let n = length self
      in [CHR 0x22] @ fold (\<lambda>(c, r) s. replaceInRange c r n s) reprTable self @ [CHR 0x22])"

definition hexDigit :: "nat \<Rightarrow> char" where
  "hexDigit d = (if d < 10 then char_of (48 + d) else char_of (87 + d))"

definition hexString :: "nat \<Rightarrow> string" where
  "hexString n = (if n < 16 then [hexDigit n] else [hexDigit (n div 16), hexDigit (n mod 16)])"

definition stringByEscapingNonPrintableAndInvisibleCharacters ::
  "(char \<Rightarrow> bool) \<Rightarrow> string \<Rightarrow> string" where
  "stringByEscapingNonPrintableAndInvisibleCharacters alphanumericCharacterSet self =
     concat (map (\<lambda>c.
       if ((of_char c :: nat) \<ge> 32 \<and> (of_char c :: nat) < 126) \<or> alphanumericCharacterSet c
       then [c] else [CHR 0x5C, CHR ''x''] @ hexString (of_char c)) (repr self))"


section \<open>Host names, email addresses and four-character codes\<close>

definition rootDomainForHostName :: "(string \<Rightarrow> string option) \<Rightarrow> string \<Rightarrow> string option" where
  "rootDomainForHostName urlHost domain =
     (case urlHost (map lowercaseCharacter domain) of
        None \<Rightarrow> None
      | Some host \<Rightarrow>
          (let hostComponents = componentsSeparatedByString ''.'' host; n = length hostComponents
           in if n \<ge> 2 then Some (hostComponents ! (n - 2) @ ''.'' @ hostComponents ! (n - 1))
              else None))"

definition isASCIILetter :: "char \<Rightarrow> bool" where
  "isASCIILetter c =
     (let n = of_char c :: nat in 97 \<le> n \<and> n \<le> 122 \<or> 65 \<le> n \<and> n \<le> 90)"

definition isDomainCharacter :: "char \<Rightarrow> bool" where
  "isDomainCharacter c =
     (let n = of_char c :: nat in isASCIILetter c \<or> 48 \<le> n \<and> n \<le> 57 \<or> c = CHR ''-'')"

definition matchesEmailDomain :: "string \<Rightarrow> bool" where
  "matchesEmailDomain d =
     (let labels = componentsSeparatedByString ''.'' d
      in length labels \<ge> 2 \<and>
         list_all (\<lambda>l. l \<noteq> [] \<and> list_all isDomainCharacter l) (butlast labels) \<and>
         length (last labels) \<ge> 2 \<and> list_all isASCIILetter (last labels))"

definition isValidEmailAddress :: "string \<Rightarrow> bool" where
  "isValidEmailAddress self =
     list_ex (\<lambda>i. self ! i = CHR ''@'' \<and>
         list_all (\<lambda>c. c \<notin> {CHR 0x0A, CHR 0x0D, CHR 0x85}) (take i self) \<and>
         matchesEmailDomain (drop (i + 1) self)) [1..<length self]"

definition Endian32_Swap :: "32 word \<Rightarrow> 32 word" where
  "Endian32_Swap x =
     (push_bit 24 x AND 0xFF000000) OR (push_bit 8 x AND 0x00FF0000) OR
     (drop_bit 8 x AND 0x0000FF00) OR (drop_bit 24 x AND 0x000000FF)"

text \<open>The four bytes of a \<open>UInt32\<close> in memory, lowest address first, on a little-endian machine.\<close>

definition bytesOfUInt32 :: "32 word \<Rightarrow> 8 word list" where
  "bytesOfUInt32 w = [ucast w, ucast (drop_bit 8 w), ucast (drop_bit 16 w), ucast (drop_bit 24 w)]"

fun UInt32OfBytes :: "8 word list \<Rightarrow> 32 word option" where
  "UInt32OfBytes (a # b # c # d # rest) =
     Some (ucast a OR push_bit 8 (ucast b) OR push_bit 16 (ucast c) OR push_bit 24 (ucast d))"
| "UInt32OfBytes bs = None"

definition stringWithOSType :: "(8 word \<Rightarrow> char) \<Rightarrow> 32 word \<Rightarrow> string" where
  "stringWithOSType macRomanCharacter type = map macRomanCharacter (bytesOfUInt32 (Endian32_Swap type))"

definition OSType :: "(char \<Rightarrow> 8 word) \<Rightarrow> string \<Rightarrow> 32 word option" where
  "OSType macRomanByte self = map_option Endian32_Swap (UInt32OfBytes (map macRomanByte self))"


section \<open>Inflection of class names\<close>

definition isAlphanumeric :: "char \<Rightarrow> bool" where
  "isAlphanumeric c =
     (let n = of_char c :: nat in isASCIILetter c \<or> 48 \<le> n \<and> n \<le> 57)"

definition uppercaseCharacter :: "char \<Rightarrow> char" where
  "uppercaseCharacter c =
     (let n = of_char c :: nat in if 97 \<le> n \<and> n \<le> 122 then char_of (n - 32) else c)"

fun uppercasingFirst :: "string \<Rightarrow> string" where
  "uppercasingFirst [] = []"
| "uppercasingFirst (c # cs) = uppercaseCharacter c # cs"

fun lowercasingFirst :: "string \<Rightarrow> string" where
  "lowercasingFirst [] = []"
| "lowercasingFirst (c # cs) = lowercaseCharacter c # cs"

definition camelCased :: "string \<Rightarrow> string" where
  "camelCased self =
     (if self = [] then []
      else (case componentsSeparatedByCharactersInSet (\<lambda>c. \<not> isAlphanumeric c) self of
              [] \<Rightarrow> []
            | first # rest \<Rightarrow> concat (lowercasingFirst first # map uppercasingFirst rest)))"

definition pluralizedString :: "string \<Rightarrow> string" where
  "pluralizedString self =
     (if self \<noteq> [] \<and> last self = CHR ''y'' then butlast self @ ''ies''
      else if self \<noteq> [] \<and> last self = CHR ''Y'' then self
      else self @ ''s'')"

definition stringByTranslatingPresentToPastTense :: "string \<Rightarrow> string" where
  "stringByTranslatingPresentToPastTense self =
     (if self \<noteq> [] \<and> last self = CHR ''e'' then butlast self else self) @ ''ed''"

definition isUUIDLike :: "string \<Rightarrow> bool" where
  "isUUIDLike self \<longleftrightarrow>
     length self = 36 \<and> self ! 8 = CHR ''-'' \<and> self ! 13 = CHR ''-'' \<and>
     self ! 18 = CHR ''-'' \<and> self ! 23 = CHR ''-''"

definition hasOneOfPrefixes :: "string list \<Rightarrow> bool \<Rightarrow> string \<Rightarrow> bool" where
  "hasOneOfPrefixes ps caseInsensitive self =
     list_ex (\<lambda>p. hasPrefix self p \<or>
        caseInsensitive \<and> hasPrefix (map lowercaseCharacter self) (map lowercaseCharacter p)) ps"

definition removingMPPrefix :: "string \<Rightarrow> string" where
  "removingMPPrefix s = (if hasPrefix s ''MP'' then drop 2 s else s)"


section \<open>Normalised whitespace\<close>

definition words :: "string \<Rightarrow> string list" where
  "words s = filter (\<lambda>x. x \<noteq> [])
     (componentsSeparatedByCharactersInSet whitespaceAndNewlineCharacterSet s)"

lemma separated_prefix:
  "list_all (\<lambda>c. \<not> cs c) u \<Longrightarrow>
   separatedByCharacters cs acc (u @ v) = separatedByCharacters cs (rev u @ acc) v"
  by (induction u arbitrary: acc) auto

lemma filter_separated_dropWhile:
  "filter (\<lambda>x. x \<noteq> []) (separatedByCharacters cs [] (dropWhile cs s)) =
   filter (\<lambda>x. x \<noteq> []) (separatedByCharacters cs [] s)"
  by (induction s) auto

lemma filter_separated_snoc:
  "cs c \<Longrightarrow> filter (\<lambda>x. x \<noteq> []) (separatedByCharacters cs acc (s @ [c])) =
            filter (\<lambda>x. x \<noteq> []) (separatedByCharacters cs acc s)"
  by (induction cs acc s rule: separatedByCharacters.induct) auto

lemma filter_separated_trim_end:
  "filter (\<lambda>x. x \<noteq> []) (separatedByCharacters cs acc (rev (dropWhile cs (rev s)))) =
   filter (\<lambda>x. x \<noteq> []) (separatedByCharacters cs acc s)"
  by (induction s rule: rev_induct) (auto simp: filter_separated_snoc)

lemma words_trim: "words (stringByTrimmingWhitespaceAndNewlines s) = words s"
  by (simp add: words_def componentsSeparatedByCharactersInSet_def
      stringByTrimmingWhitespaceAndNewlines_def stringByTrimmingCharactersInSet_def
      filter_separated_trim_end filter_separated_dropWhile)

lemma normalize_words:
  "stringByNormalizingWhitespace s = componentsJoinedByString '' '' (words s)"
proof (cases "s = []")
  case True
  then show ?thesis
    by (simp add: stringByNormalizingWhitespace_def stringByNormalizingWhitespaceAllowLeading_def
        words_def componentsSeparatedByCharactersInSet_def)
next
  case False
  have "filter (\<lambda>x. x \<noteq> []) (componentsSeparatedByCharactersInSet whitespaceAndNewlineCharacterSet
          (stringByTrimmingWhitespaceAndNewlines s)) = words s"
    using words_trim [of s] by (simp add: words_def)
  then show ?thesis
    using False
    by (simp add: stringByNormalizingWhitespace_def stringByNormalizingWhitespaceAllowLeading_def Let_def)
qed

lemma separated_no_separators:
  "list_all (\<lambda>c. \<not> cs c) acc \<Longrightarrow> w \<in> set (separatedByCharacters cs acc s) \<Longrightarrow>
   list_all (\<lambda>c. \<not> cs c) w"
proof (induction s arbitrary: acc)
  case Nil
  then show ?case by (simp add: list_all_iff)
next
  case (Cons x xs)
  show ?case
  proof (cases "cs x")
    case True
    then show ?thesis
      using Cons.prems Cons.IH [of "[]"] by (auto simp: list_all_iff)
  next
    case False
    then show ?thesis using Cons.prems Cons.IH [of "x # acc"] by simp
  qed
qed

lemma words_wf: "w \<in> set (words s) \<Longrightarrow>
  w \<noteq> [] \<and> list_all (\<lambda>c. \<not> whitespaceAndNewlineCharacterSet c) w"
  unfolding words_def componentsSeparatedByCharactersInSet_def
  using separated_no_separators [of whitespaceAndNewlineCharacterSet "[]" w s] by auto

lemma words_joined:
  assumes "\<And>w. w \<in> set ws \<Longrightarrow> w \<noteq> [] \<and> list_all (\<lambda>c. \<not> whitespaceAndNewlineCharacterSet c) w"
  shows "words (componentsJoinedByString '' '' ws) = ws"
  using assms
proof (induction "'' ''" ws rule: componentsJoinedByString.induct)
  case 1
  then show ?case by (simp add: words_def componentsSeparatedByCharactersInSet_def)
next
  case (2 x)
  then show ?case
    using separated_prefix [of whitespaceAndNewlineCharacterSet x "[]" "[]"]
    by (simp add: words_def componentsSeparatedByCharactersInSet_def)
next
  case (3 x y xs)
  have "separatedByCharacters whitespaceAndNewlineCharacterSet []
          (x @ '' '' @ componentsJoinedByString '' '' (y # xs)) =
        x # separatedByCharacters whitespaceAndNewlineCharacterSet []
          (componentsJoinedByString '' '' (y # xs))"
    using 3(2) [of x]
    by (simp add: separated_prefix whitespaceAndNewlineCharacterSet_def whitespaceCharacterSet_def)
  then show ?case
    using 3 by (simp add: words_def componentsSeparatedByCharactersInSet_def)
qed


section \<open>Trimming loops\<close>

lemma leadingIndex_drop:
  "i \<le> length s \<Longrightarrow> drop (leadingIndex s i) s = dropWhile whitespaceCharacterSet (drop i s)"
proof (induction s i rule: leadingIndex.induct)
  case (1 s i)
  show ?case
  proof (cases "i < length s")
    case True
    then have d: "drop i s = s ! i # drop (Suc i) s" by (simp add: Cons_nth_drop_Suc)
    show ?thesis using 1 True by (subst leadingIndex.simps) (auto simp: d)
  next
    case False
    then show ?thesis using 1 by (subst leadingIndex.simps) simp
  qed
qed

lemma trailingLength_take:
  "n \<le> length s \<Longrightarrow> take (trailingLength cs s n) s = rev (dropWhile cs (rev (take n s)))"
  by (induction n) (auto simp: take_Suc_conv_app_nth)

lemma dropWhile_length: "length (dropWhile P xs) \<le> length xs"
  by (induction xs) auto

lemma trim_length: "length (stringByTrimmingCharactersInSet cs s) \<le> length s"
  unfolding stringByTrimmingCharactersInSet_def
  using dropWhile_length [of cs "rev (dropWhile cs s)"] dropWhile_length [of cs s] by simp


section \<open>The removal loop deletes exactly the characters of the set\<close>

lemma rangeOfCharacter_suffix:
  "rangeOfCharacterFromSet cs s loc (length s - loc) =
     (if list_all (\<lambda>c. \<not> cs c) (drop loc s) then None
      else Some (loc + length (takeWhile (\<lambda>c. \<not> cs c) (drop loc s))))"
proof -
  have "length (takeWhile (\<lambda>c. \<not> cs c) r) < length r \<longleftrightarrow> \<not> list_all (\<lambda>c. \<not> cs c) r" for r
    by (induction r) auto
  then show ?thesis by (simp add: rangeOfCharacterFromSet_def Let_def)
qed

lemma extendRange_correct:
  "loc \<le> length s \<Longrightarrow>
   extendRange cs s rl loc (length s - loc) =
     (let k = length (takeWhile cs (drop loc s))
      in (rl + k, rangeOfCharacterFromSet cs s (loc + k) (length s - (loc + k))))"
proof (induction "length s - loc" arbitrary: rl loc)
  case 0
  then show ?case
    by (subst extendRange.simps) (simp add: rangeOfCharacterFromSet_def)
next
  case (Suc n)
  then have l: "loc < length s" by simp
  then have d: "drop loc s = s ! loc # drop (Suc loc) s" by (simp add: Cons_nth_drop_Suc)
  have step: "extendRange cs s (rl + 1) (Suc loc) (length s - Suc loc) =
     (let k = length (takeWhile cs (drop (Suc loc) s))
      in (rl + 1 + k, rangeOfCharacterFromSet cs s (Suc loc + k) (length s - (Suc loc + k))))"
    using Suc(1) [of "Suc loc" "rl + 1"] Suc(2) l by simp
  show ?case
  proof (cases "cs (s ! loc)")
    case True
    then show ?thesis
      using step l
      by (subst extendRange.simps) (simp add: rangeOfCharacter_suffix d Let_def)
  next
    case False
    then show ?thesis
      using l
      by (subst extendRange.simps) (auto simp: rangeOfCharacter_suffix d Let_def)
  qed
qed

lemma filter_at_match:
  assumes "\<not> list_all (\<lambda>c. \<not> cs c) s"
    and "m = length (takeWhile (\<lambda>c. \<not> cs c) s)" and "k = length (takeWhile cs (drop (Suc m) s))"
  shows "filter (\<lambda>c. \<not> cs c) (take m s @ drop (m + Suc k) s) = filter (\<lambda>c. \<not> cs c) s"
    and "m + Suc k \<le> length s"
    and "rangeOfCharacterFromSet cs (take m s @ drop (m + Suc k) s) 0 (length s - Suc k) =
      map_option (\<lambda>l. l - Suc k)
        (rangeOfCharacterFromSet cs s (Suc m + k) (length s - (Suc m + k)))"
proof -
  obtain x w where dm: "drop m s = x # w" and x: "cs x"
    using assms(1,2) by (induction s arbitrary: m) (auto split: if_splits)
  have w: "w = drop (Suc m) s" using dm by (metis drop_Suc list.sel(3) tl_drop)
  have tm: "takeWhile (\<lambda>c. \<not> cs c) s = take m s"
    using assms(2) by (metis takeWhile_eq_take)
  have nm: "list_all (\<lambda>c. \<not> cs c) (take m s)"
    using tm by (metis list_all_iff set_takeWhileD)
  have m: "m < length s" using dm by (metis drop_eq_Nil2 leI list.distinct(1))
  have kw: "k = length (takeWhile cs w)" using assms(3) w by simp
  have wsplit: "w = takeWhile cs w @ drop k w"
    using kw by (metis takeWhile_eq_take append_take_drop_id)
  have dk: "drop k w = drop (m + Suc k) s" using w by (simp add: add.commute)
  have s: "s = take m s @ x # takeWhile cs w @ drop (m + Suc k) s"
    using dm wsplit dk by (metis append_take_drop_id)
  have allk: "filter (\<lambda>c. \<not> cs c) (takeWhile cs w) = []"
    by (induction w) auto
  show "filter (\<lambda>c. \<not> cs c) (take m s @ drop (m + Suc k) s) = filter (\<lambda>c. \<not> cs c) s"
    by (subst (3) s) (simp add: x allk)
  have "k \<le> length w" using kw by (simp add: length_takeWhile_le)
  then show le: "m + Suc k \<le> length s" using w m by simp
  let ?s' = "take m s @ drop (m + Suc k) s"
  have len: "length ?s' = length s - Suc k" using m le by simp
  have "takeWhile (\<lambda>c. \<not> cs c) ?s' = take m s @ takeWhile (\<lambda>c. \<not> cs c) (drop (m + Suc k) s)"
    using nm by (simp add: list_all_iff takeWhile_append2)
  then show "rangeOfCharacterFromSet cs ?s' 0 (length s - Suc k) =
      map_option (\<lambda>l. l - Suc k)
        (rangeOfCharacterFromSet cs s (Suc m + k) (length s - (Suc m + k)))"
    using rangeOfCharacter_suffix [of cs ?s' 0] rangeOfCharacter_suffix [of cs s "Suc m + k"]
      len nm m by simp
qed

lemma removeLoop_correct:
  "removeLoop cs s (rangeOfCharacterFromSet cs s 0 (length s)) (length s) =
     Some (filter (\<lambda>c. \<not> cs c) s)"
proof (induction "length s" arbitrary: s rule: less_induct)
  case less
  show ?case
  proof (cases "list_all (\<lambda>c. \<not> cs c) s")
    case True
    then show ?thesis
      using rangeOfCharacter_suffix [of cs s 0] by (simp add: list_all_iff)
  next
    case False
    define m where "m = length (takeWhile (\<lambda>c. \<not> cs c) s)"
    define k where "k = length (takeWhile cs (drop (Suc m) s))"
    note at = filter_at_match [OF False m_def k_def]
    let ?s' = "take m s @ drop (m + Suc k) s"
    have len: "length ?s' = length s - Suc k" using at(2) by simp
    have r: "rangeOfCharacterFromSet cs s 0 (length s) = Some m"
      using False rangeOfCharacter_suffix [of cs s 0] by (simp add: m_def)
    have e: "extendRange cs s 1 (m + 1) (length s - (m + 1)) =
        (Suc k, rangeOfCharacterFromSet cs s (Suc m + k) (length s - (Suc m + k)))"
      using extendRange_correct [of "Suc m" s cs 1] at(2) by (simp add: Let_def k_def)
    have "removeLoop cs s (Some m) (length s) =
        removeLoop cs ?s' (rangeOfCharacterFromSet cs ?s' 0 (length ?s')) (length ?s')"
      unfolding removeLoop.simps e len at(3) using at(2) by simp
    also have "\<dots> = Some (filter (\<lambda>c. \<not> cs c) ?s')"
      using at(2) by (intro less) simp
    finally show ?thesis unfolding r at(1) .
  qed
qed


section \<open>Slugs are well formed, or the replacement range is out of bounds\<close>

lemma replaceRuns_length: "length (replaceRuns m sep b s) \<le> length s"
  by (induction m sep b s rule: replaceRuns.induct) auto

lemma replaceRuns_length_eq:
  "length (replaceRuns m sep b s) = length s \<longleftrightarrow>
     successively (\<lambda>x y. \<not> (m x \<and> m y)) s \<and> (b \<longrightarrow> s = [] \<or> \<not> m (hd s))"
proof (induction m sep b s rule: replaceRuns.induct)
  case (2 m sep b c cs)
  show ?case
    using 2 replaceRuns_length [of m sep True cs] by (cases cs) auto
qed simp

lemma replaceRuns_set:
  "x \<in> set (replaceRuns m sep b s) \<Longrightarrow> x = sep \<or> x \<in> set s \<and> \<not> m x"
  by (induction m sep b s rule: replaceRuns.induct) (auto split: if_splits)

lemma replaceRuns_single:
  "successively (\<lambda>x y. \<not> (x = c \<and> y = c)) (replaceRuns (\<lambda>x. x = c) c b s) \<and>
   (b \<longrightarrow> replaceRuns (\<lambda>x. x = c) c b s = [] \<or> hd (replaceRuns (\<lambda>x. x = c) c b s) \<noteq> c)"
proof (induction s arbitrary: b)
  case (Cons x xs)
  show ?case using Cons [of True] Cons [of False] by (auto simp: successively_Cons)
qed simp

lemma successively_dropWhile: "successively P xs \<Longrightarrow> successively P (dropWhile Q xs)"
  by (induction xs) (auto simp: successively_Cons)

lemma successively_trim:
  assumes "successively (\<lambda>x y. \<not> (R x \<and> R y)) xs"
  shows "successively (\<lambda>x y. \<not> (R x \<and> R y)) (stringByTrimmingCharactersInSet Q xs)"
proof -
  let ?P = "\<lambda>x y. \<not> (R x \<and> R y)"
  have P: "(\<lambda>x y. ?P y x) = ?P" by (auto simp: fun_eq_iff)
  have "successively ?P (rev (dropWhile Q xs))"
    using successively_dropWhile [OF assms, of Q] unfolding successively_rev P .
  then show ?thesis
    using successively_dropWhile [of ?P "rev (dropWhile Q xs)" Q]
    unfolding stringByTrimmingCharactersInSet_def successively_rev P by simp
qed

lemma trim_set: "set (stringByTrimmingCharactersInSet Q xs) \<subseteq> set xs"
  unfolding stringByTrimmingCharactersInSet_def by (auto dest!: set_dropWhileD)

lemma trim_ends:
  assumes "stringByTrimmingCharactersInSet Q xs \<noteq> []"
  shows "\<not> Q (hd (stringByTrimmingCharactersInSet Q xs))"
    and "\<not> Q (last (stringByTrimmingCharactersInSet Q xs))"
proof -
  let ?d = "dropWhile Q xs"
  let ?t = "dropWhile Q (rev ?d)"
  have t: "?t \<noteq> []" using assms by (simp add: stringByTrimmingCharactersInSet_def)
  then have "?d \<noteq> []" by (metis dropWhile.simps(1) rev.simps(1))
  have "last ?t = last (rev ?d)"
    using t by (metis last_appendR takeWhile_dropWhile_id)
  then have "hd (rev ?t) = hd ?d" using t \<open>?d \<noteq> []\<close> by (simp add: hd_rev last_rev)
  then show "\<not> Q (hd (stringByTrimmingCharactersInSet Q xs))"
    using \<open>?d \<noteq> []\<close> hd_dropWhile [of Q xs] by (simp add: stringByTrimmingCharactersInSet_def)
  show "\<not> Q (last (stringByTrimmingCharactersInSet Q xs))"
    using t hd_dropWhile [of Q "rev ?d"]
    by (simp add: stringByTrimmingCharactersInSet_def last_rev)
qed

definition isLowercaseSlugCharacter :: "char \<Rightarrow> bool" where
  "isLowercaseSlugCharacter c \<longleftrightarrow> isSlugCharacter c \<and> \<not> (65 \<le> (of_char c :: nat) \<and> (of_char c :: nat) \<le> 90)"

lemma of_char_lowercase:
  "(of_char (lowercaseCharacter c) :: nat) =
     (let n = of_char c in if 65 \<le> n \<and> n \<le> 90 then n + 32 else n)"
  by (simp add: lowercaseCharacter_def Let_def)

lemma char_eq_of_char: "c = d \<longleftrightarrow> (of_char c :: nat) = of_char d"
  by simp

lemma lowercase_slug:
  "isSlugCharacter c \<Longrightarrow> isLowercaseSlugCharacter (lowercaseCharacter c)"
  unfolding isLowercaseSlugCharacter_def isSlugCharacter_def
  by (auto simp: of_char_lowercase Let_def lowercaseCharacter_def)

lemma lowercase_dash: "lowercaseCharacter c = CHR ''-'' \<longleftrightarrow> c = CHR ''-''"
proof -
  have "(of_char (lowercaseCharacter c) :: nat) = 45 \<longleftrightarrow> (of_char c :: nat) = 45"
    by (auto simp: of_char_lowercase Let_def)
  moreover have "(of_char CHR ''-'' :: nat) = 45" by simp
  ultimately show ?thesis by (metis of_char_eq_iff)
qed

definition wellFormedSlug :: "string \<Rightarrow> bool" where
  "wellFormedSlug r \<longleftrightarrow>
     list_all isLowercaseSlugCharacter r \<and>
     successively (\<lambda>x y. \<not> (x = CHR ''-'' \<and> y = CHR ''-'')) r \<and>
     (r \<noteq> [] \<longrightarrow> hd r \<noteq> CHR ''-'' \<and> last r \<noteq> CHR ''-'')"

lemma slugString_SomeD:
  assumes "slugString s = Some r"
  shows "wellFormedSlug r"
proof -
  let ?dash = "\<lambda>c. c = CHR ''-''"
  let ?sep = "replaceRuns (\<lambda>c. \<not> isSlugCharacter c) (CHR ''-'') False (filter isASCII s)"
  let ?single = "replaceRuns ?dash (CHR ''-'') False ?sep"
  let ?t = "stringByTrimmingCharactersInSet ?dash ?single"
  have r: "r = map lowercaseCharacter ?t"
    using assms by (simp add: slugString_def Let_def split: if_splits)
  have "isSlugCharacter x" if "x \<in> set ?t" for x
  proof -
    have "x \<in> set ?single" using that trim_set by blast
    then have "x = CHR ''-'' \<or> x \<in> set ?sep" using replaceRuns_set by blast
    moreover have "isSlugCharacter (CHR ''-'')" by (simp add: isSlugCharacter_def)
    ultimately show ?thesis using replaceRuns_set by blast
  qed
  then have 1: "list_all isLowercaseSlugCharacter r"
    unfolding r by (auto simp: list_all_iff lowercase_slug)
  have "successively (\<lambda>x y. \<not> (?dash x \<and> ?dash y)) ?t"
    using replaceRuns_single [of "CHR ''-''" False ?sep] by (intro successively_trim) simp
  then have 2: "successively (\<lambda>x y. \<not> (x = CHR ''-'' \<and> y = CHR ''-'')) r"
    unfolding r by (simp add: successively_map lowercase_dash)
  have 3: "r \<noteq> [] \<longrightarrow> hd r \<noteq> CHR ''-'' \<and> last r \<noteq> CHR ''-''"
    unfolding r using trim_ends [of ?dash ?single] by (auto simp: hd_map last_map lowercase_dash)
  show ?thesis unfolding wellFormedSlug_def using 1 2 3 by blast
qed

lemma slugString_None:
  "slugString s = None \<longleftrightarrow>
     \<not> (list_all isASCII s \<and> successively (\<lambda>x y. isSlugCharacter x \<or> isSlugCharacter y) s)"
proof (cases "list_all isASCII s")
  case True
  then have f: "filter isASCII s = s" by (simp add: list_all_iff)
  show ?thesis
    using True replaceRuns_length_eq [of "\<lambda>c. \<not> isSlugCharacter c" "CHR ''-''" False s]
      replaceRuns_length [of "\<lambda>c. \<not> isSlugCharacter c" "CHR ''-''" False s]
    by (auto simp: slugString_def Let_def f)
next
  case False
  then have "length (filter isASCII s) < length s"
    by (auto simp: list_all_iff intro: length_filter_less)
  then show ?thesis using False by (simp add: slugString_def Let_def)
qed


section \<open>Four-character codes\<close>

lemma bit_FF: "bit (0xFF :: 32 word) n \<longleftrightarrow> n < 8"
proof -
  have "(0xFF :: 32 word) = mask 8" by (simp add: mask_eq_decr_exp)
  then have "bit (0xFF :: 32 word) n = bit (mask 8 :: 32 word) n" by (rule arg_cong)
  also have "\<dots> \<longleftrightarrow> n < 8" unfolding bit_mask_iff by auto
  finally show ?thesis .
qed

lemma bit_byte_masks:
  "bit (0xFF00 :: 32 word) n \<longleftrightarrow> 8 \<le> n \<and> n < 16"
  "bit (0xFF0000 :: 32 word) n \<longleftrightarrow> 16 \<le> n \<and> n < 24"
  "bit (0xFF000000 :: 32 word) n \<longleftrightarrow> 24 \<le> n \<and> n < 32"
proof -
  have byte: "bit (push_bit k (0xFF :: 32 word)) n \<longleftrightarrow> k \<le> n \<and> n < k + 8 \<and> n < 32" for k
    unfolding bit_push_bit_iff bit_FF by auto
  have "(0xFF00 :: 32 word) = push_bit 8 0xFF" "(0xFF0000 :: 32 word) = push_bit 16 0xFF"
    "(0xFF000000 :: 32 word) = push_bit 24 0xFF" by simp_all
  then show "bit (0xFF00 :: 32 word) n \<longleftrightarrow> 8 \<le> n \<and> n < 16"
    "bit (0xFF0000 :: 32 word) n \<longleftrightarrow> 16 \<le> n \<and> n < 24"
    "bit (0xFF000000 :: 32 word) n \<longleftrightarrow> 24 \<le> n \<and> n < 32"
    using byte [of 8] byte [of 16] byte [of 24] by auto
qed

lemma bit_Endian32_Swap:
  "bit (Endian32_Swap x) n \<longleftrightarrow>
     (n < 8 \<and> bit x (n + 24)) \<or> (8 \<le> n \<and> n < 16 \<and> bit x (n + 8)) \<or>
     (16 \<le> n \<and> n < 24 \<and> bit x (n - 8)) \<or> (24 \<le> n \<and> n < 32 \<and> bit x (n - 24))"
  unfolding Endian32_Swap_def bit_or_iff bit_and_iff bit_push_bit_iff bit_drop_bit_eq
    bit_FF bit_byte_masks comp_def
  by (auto simp: add.commute dest: bit_imp_le_length)

lemma Endian32_Swap_involution: "Endian32_Swap (Endian32_Swap x) = x"
proof (rule bit_word_eqI)
  fix n assume "n < LENGTH(32)"
  then consider "n < 8" | "8 \<le> n" "n < 16" | "16 \<le> n" "n < 24" | "24 \<le> n" "n < 32"
    by force
  then show "bit (Endian32_Swap (Endian32_Swap x)) n = bit x n"
    by cases (auto simp: bit_Endian32_Swap less_diff_conv2 le_diff_conv2)
qed

lemma UInt32_bytes: "UInt32OfBytes (bytesOfUInt32 w) = Some w"
proof -
  have "(ucast (ucast w :: 8 word) OR push_bit 8 (ucast (ucast (drop_bit 8 w) :: 8 word)) OR
      push_bit 16 (ucast (ucast (drop_bit 16 w) :: 8 word)) OR
      push_bit 24 (ucast (ucast (drop_bit 24 w) :: 8 word)) :: 32 word) = w" (is "?l = w")
  proof (rule bit_word_eqI)
    fix n assume "n < LENGTH(32)"
    then consider "n < 8" | "8 \<le> n" "n < 16" | "16 \<le> n" "n < 24" | "24 \<le> n" "n < 32"
      by force
    then show "bit ?l n = bit w n" by cases (auto simp: bit_simps less_diff_conv2)
  qed
  then show ?thesis by (simp add: bytesOfUInt32_def)
qed


section \<open>Inflection\<close>

lemma pluralizedString_prefix:
  "x \<noteq> [] \<Longrightarrow> pluralizedString (p @ x) = p @ pluralizedString x"
  by (auto simp: pluralizedString_def butlast_append)

lemma pluralizedString_not_Nil [simp]: "pluralizedString x \<noteq> []"
  by (auto simp: pluralizedString_def)

lemma pluralizedString_alphanumeric:
  "list_all isAlphanumeric x \<Longrightarrow> list_all isAlphanumeric (pluralizedString x)"
  by (auto simp: pluralizedString_def list_all_iff isAlphanumeric_def isASCIILetter_def
      dest: in_set_butlastD)

lemma camelCased_alphanumeric:
  assumes "list_all isAlphanumeric x"
  shows "camelCased x = lowercasingFirst x"
proof -
  have "componentsSeparatedByCharactersInSet (\<lambda>c. \<not> isAlphanumeric c) x = [x]"
    using separated_prefix [of "\<lambda>c. \<not> isAlphanumeric c" x "[]" "[]"] assms
    by (simp add: componentsSeparatedByCharactersInSet_def)
  then show ?thesis by (cases x) (auto simp: camelCased_def)
qed

lemma lowercasingFirst_append: "x \<noteq> [] \<Longrightarrow> lowercasingFirst (x @ y) = lowercasingFirst x @ y"
  by (cases x) auto

lemma removingMPPrefix_MP [simp]: "removingMPPrefix (''MP'' @ x) = x"
  by (simp add: removingMPPrefix_def hasPrefix_def)

end
