(* ===== verification/Exceptions.thy ===== *)
theory Exceptions
  imports Runtime
begin

text \<open>
  The exception classes of \<open>MPException\<close>, the assertion failures of \<open>MPAssert.h\<close>
  and \<open>NSError\<close> values.  A method that may throw returns \<open>exn + 'a\<close>; a method that
  reports through an \<open>NSError **\<close> argument returns the error as a value.
\<close>


section \<open>Exceptions\<close>

datatype exn =
    MPUnexpectedSelectorException string
  | MPMethodIsPrivateException string
  | MPInitIsPrivateException string
  | MPInvalidInitException string string
  | MPIllegalStateException string
  | MPAbstractMethodException string
  | MPUnexpectedTypeException string
  | MPUnexpectedStateExpection string
  | MPReadonlyCachedPropertyException string
  | MPAbstractClassException string
  | MPInvalidArgumentException string
  | NSInternalInconsistencyException string
  | NSRangeException
  | NSInvalidArgumentException string
  | NSExceptionNamed string string

definition throw :: "exn \<Rightarrow> exn + 'a" where
  "throw e = Inl e"

fun exceptionName :: "exn \<Rightarrow> string" where
  "exceptionName (MPUnexpectedSelectorException sel) = ''MPUnexpectedSelectorException''"
| "exceptionName (MPMethodIsPrivateException sel) = ''MPMethodIsPrivateException''"
| "exceptionName (MPInitIsPrivateException sel) = ''MPInitIsPrivateException''"
| "exceptionName (MPInvalidInitException sel expected) = ''MPInvalidInitException''"
| "exceptionName (MPIllegalStateException reason) = ''MPIllegalStateException''"
| "exceptionName (MPAbstractMethodException sel) = ''MPAbstractMethodException''"
| "exceptionName (MPUnexpectedTypeException typeStr) = ''MPUnexpectedTypeException''"
| "exceptionName (MPUnexpectedStateExpection reason) = ''MPUnexpectedStateExpection''"
| "exceptionName (MPReadonlyCachedPropertyException key) = ''MPReadonlyCachedPropertyException''"
| "exceptionName (MPAbstractClassException cls) = ''MPAbstractClassException''"
| "exceptionName (MPInvalidArgumentException reason) = ''MPInvalidArgumentException''"
| "exceptionName (NSInternalInconsistencyException reason) = ''NSInternalInconsistencyException''"
| "exceptionName NSRangeException = ''NSRangeException''"
| "exceptionName (NSInvalidArgumentException reason) = ''NSInvalidArgumentException''"
| "exceptionName (NSExceptionNamed name reason) = name"

fun exceptionReason :: "exn \<Rightarrow> string" where
  "exceptionReason (MPUnexpectedSelectorException sel) =
     ''Don't call '' @ sel @ '' on this kind of object.''"
| "exceptionReason (MPMethodIsPrivateException sel) =
     ''Don't call '' @ sel @ '' on this kind of object.''"
| "exceptionReason (MPInitIsPrivateException sel) =
     ''Don't call '' @ sel @ '' on this kind of object.''"
| "exceptionReason (MPInvalidInitException sel expected) =
     ''Don't init with '' @ sel @ ''. Init with '' @ expected @ '' instead.''"
| "exceptionReason (MPIllegalStateException reason) = reason"
| "exceptionReason (MPAbstractMethodException sel) = ''Subclass needs to implement '' @ sel @ ''.''"
| "exceptionReason (MPUnexpectedTypeException typeStr) = typeStr"
| "exceptionReason (MPUnexpectedStateExpection reason) = reason"
| "exceptionReason (MPReadonlyCachedPropertyException key) =
     ''Property '' @ [CHR 0x27] @ key @ [CHR 0x27] @ '' should be readwrite.''"
| "exceptionReason (MPAbstractClassException cls) =
     ''Objects with class '' @ cls @ '' should not be instantiated.''"
| "exceptionReason (MPInvalidArgumentException reason) = reason"
| "exceptionReason (NSInternalInconsistencyException reason) = reason"
| "exceptionReason NSRangeException = ''range out of bounds''"
| "exceptionReason (NSInvalidArgumentException reason) = reason"
| "exceptionReason (NSExceptionNamed name reason) = reason"

definition MPAssertNotNil :: "'a option \<Rightarrow> string \<Rightarrow> exn + 'a" where
  "MPAssertNotNil obj expr =
     (case obj of
        Some x \<Rightarrow> Inr x
      | None \<Rightarrow> throw (NSInternalInconsistencyException (''Unexpectedly, '' @ expr @ '' is nil'')))"

definition MPAssertTrue :: "bool \<Rightarrow> string \<Rightarrow> exn + unit" where
  "MPAssertTrue condition expr =
     (if condition then Inr ()
      else throw (NSInternalInconsistencyException (''Unexpectedly, '' @ expr @ '' is false'')))"

record ns_error =
  error_domain :: string
  error_code :: nat

fun bindExn :: "exn + 'a \<Rightarrow> ('a \<Rightarrow> exn + 'b) \<Rightarrow> exn + 'b" where
  "bindExn (Inl e) f = Inl e"
| "bindExn (Inr x) f = f x"


section \<open>Sequencing\<close>

lemma throw_simps [simp]: "throw e \<noteq> Inr x" "throw e = Inl e' \<longleftrightarrow> e = e'"
  by (simp_all add: throw_def)

lemma bindExn_Inr: "bindExn m f = Inr y \<longleftrightarrow> (\<exists>x. m = Inr x \<and> f x = Inr y)"
  by (cases m) auto

lemma bindExn_Inl: "bindExn m f = Inl e \<longleftrightarrow> m = Inl e \<or> (\<exists>x. m = Inr x \<and> f x = Inl e)"
  by (cases m) auto

lemma bindExn_throw [simp]: "bindExn (throw e) f = throw e"
  by (simp add: throw_def)

lemma bindExn_assoc: "bindExn (bindExn m f) g = bindExn m (\<lambda>x. bindExn (f x) g)"
  by (cases m) auto

lemma MPAssertNotNil_Inr [simp]: "MPAssertNotNil obj expr = Inr x \<longleftrightarrow> obj = Some x"
  by (simp add: MPAssertNotNil_def split: option.splits)

lemma MPAssertTrue_Inr [simp]: "MPAssertTrue c expr = Inr u \<longleftrightarrow> c"
  by (simp add: MPAssertTrue_def)

end
