(* ===== verification/Collections.thy ===== *)
theory Collections
  imports Exceptions "HOL-Library.Multiset"
begin

text \<open>
  The collection categories: \<open>NSArray+MPExtensions\<close>, \<open>NSSet+MPExtensions\<close>,
  \<open>NSIndexSet+MPExtensions\<close>, \<open>NSDictionary+MPExtensions\<close> and the managed-object
  dictionary validation of \<open>NSDictionary+MPManagedObjectExtensions\<close>.  Property
  values are a datatype; dictionaries are association lists.
\<close>


section \<open>Values\<close>

datatype val =
    VNull
  | VBool bool
  | VNumber int
  | VString string
  | VDate int
  | VData string
  | VArray "val list"
  | VDict "(string \<times> val) list"
  | VManaged string
  | VEmbedded nat

type_synonym dict = "(string \<times> val) list"

definition stringForKey :: "dict \<Rightarrow> string \<Rightarrow> string option" where
  "stringForKey d k = (case map_of d k of Some (VString s) \<Rightarrow> Some s | _ \<Rightarrow> None)"


section \<open>Arrays\<close>

datatype MPValueToggleResult = MPValueToggleResultRemoved | MPValueToggleResultAdded

fun mapFrom :: "nat \<Rightarrow> ('a \<Rightarrow> nat \<Rightarrow> 'b option) \<Rightarrow> 'a list \<Rightarrow> exn + 'b list" where
  "mapFrom idx mapBlock [] = Inr []"
| "mapFrom idx mapBlock (obj # rest) =
     bindExn (MPAssertNotNil (mapBlock obj idx) ''mappedVal'')
       (\<lambda>v. bindExn (mapFrom (idx + 1) mapBlock rest) (\<lambda>vs. Inr (v # vs)))"

definition mapObjectsUsingBlock :: "('a \<Rightarrow> nat \<Rightarrow> 'b option) \<Rightarrow> 'a list \<Rightarrow> exn + 'b list" where
  "mapObjectsUsingBlock mapBlock self = mapFrom 0 mapBlock self"

fun nilFilteredFrom :: "nat \<Rightarrow> ('a \<Rightarrow> nat \<Rightarrow> 'b option) \<Rightarrow> 'a list \<Rightarrow> 'b list" where
  "nilFilteredFrom i mapBlock [] = []"
| "nilFilteredFrom i mapBlock (obj # rest) =
     (case mapBlock obj i of
        Some v \<Rightarrow> v # nilFilteredFrom (i + 1) mapBlock rest
      | None \<Rightarrow> nilFilteredFrom (i + 1) mapBlock rest)"

definition nilFilteredMapUsingBlock :: "('a \<Rightarrow> nat \<Rightarrow> 'b option) \<Rightarrow> 'a list \<Rightarrow> 'b list" where
  "nilFilteredMapUsingBlock mapBlock self = nilFilteredFrom 0 mapBlock self"

fun firstMatchingFrom :: "nat \<Rightarrow> ('a \<Rightarrow> bool) \<Rightarrow> 'a list \<Rightarrow> ('a \<times> nat) option" where
  "firstMatchingFrom idx patternBlock [] = None"
| "firstMatchingFrom idx patternBlock (obj # rest) =
     (if patternBlock obj then Some (obj, idx) else firstMatchingFrom (idx + 1) patternBlock rest)"

definition firstObjectMatching :: "('a \<Rightarrow> bool) \<Rightarrow> 'a list \<Rightarrow> ('a \<times> nat) option" where
  "firstObjectMatching patternBlock self = firstMatchingFrom 0 patternBlock self"

definition filteredArrayMatching :: "('a \<Rightarrow> bool) \<Rightarrow> 'a list \<Rightarrow> 'a list" where
  "filteredArrayMatching patternBlock self = filter patternBlock self"

definition subarrayUpToIncludingIndex :: "nat \<Rightarrow> 'a list \<Rightarrow> 'a list" where
  "subarrayUpToIncludingIndex i self =
     (if length self < 1 then self
      else (let i = (if i > length self - 1 then length self - 1 else i) in take (i + 1) self))"

definition subarrayFromIndex :: "nat \<Rightarrow> 'a list \<Rightarrow> exn + 'a list" where
  "subarrayFromIndex i self =
     (if i < length self then Inr (drop i self)
      else throw (NSInternalInconsistencyException ''Expecting from index to be smaller than the count''))"

definition arrayByRemovingObject :: "'a \<Rightarrow> 'a list \<Rightarrow> 'a list" where
  "arrayByRemovingObject obj self = removeAll obj self"

definition arrayByRemovingLastObject :: "'a list \<Rightarrow> 'a list" where
  "arrayByRemovingLastObject self =
     (if length self \<le> 1 then [] else take (length self - 1) self)"

definition reversedArray :: "'a list \<Rightarrow> 'a list" where
  "reversedArray self = rev self"

definition exchangeObjects :: "nat \<Rightarrow> nat \<Rightarrow> 'a list \<Rightarrow> 'a list" where
  "exchangeObjects i j xs = xs[i := xs ! j, j := xs ! i]"

text \<open>The shuffle consumes one \<open>arc4random()\<close> val per position.\<close>

fun randomizeFrom :: "nat \<Rightarrow> nat list \<Rightarrow> 'a list \<Rightarrow> 'a list" where
  "randomizeFrom i [] xs = xs"
| "randomizeFrom i (r # rs) xs =
     (if i < length xs
      then randomizeFrom (i + 1) rs (exchangeObjects i (r mod (length xs - i) + i) xs)
      else xs)"

definition arrayByRandomizingOrder :: "(nat \<Rightarrow> nat) \<Rightarrow> 'a list \<Rightarrow> 'a list" where
  "arrayByRandomizingOrder arc4random self =
     randomizeFrom 0 (map arc4random [0..<length self]) self"

definition allObjectsAreSubclassesOfClasses :: "cls list \<Rightarrow> cls list \<Rightarrow> exn + bool" where
  "allObjectsAreSubclassesOfClasses classes self =
     (if length classes = 0 then throw (NSInternalInconsistencyException ''classes.count > 0'')
      else if length self = 0 then Inr False
      else Inr (list_all (\<lambda>o'. list_ex (\<lambda>c. isSubclassOfClass o' c) classes) self))"

definition allObjectsAreSubclassesOf :: "cls \<Rightarrow> cls list \<Rightarrow> bool" where
  "allObjectsAreSubclassesOf c self =
     (if length self = 0 then False else list_all (\<lambda>o'. isSubclassOfClass o' c) self)"

definition matchingValueForKey :: "('a \<Rightarrow> 'b) \<Rightarrow> 'a list \<Rightarrow> bool \<times> 'b option" where
  "matchingValueForKey valueForKey self =
     (let valueSet = remdups (map valueForKey self)
      in if length valueSet = 0 \<or> length valueSet > 1 then (False, None)
         else (True, Some (hd valueSet)))"

fun arrayByFlatteningArray :: "val list \<Rightarrow> exn + val list" where
  "arrayByFlatteningArray [] = Inr []"
| "arrayByFlatteningArray (VArray xs # rest) =
     bindExn (arrayByFlatteningArray rest) (\<lambda>ys. Inr (xs @ ys))"
| "arrayByFlatteningArray (v # rest) = throw (NSInvalidArgumentException ''unionOfArrays'')"

definition popObject :: "'a list \<Rightarrow> 'a option \<times> 'a list" where
  "popObject self = (if length self > 0 then (Some (self ! 0), drop 1 self) else (None, self))"

definition pushObject :: "'a \<Rightarrow> 'a list \<Rightarrow> 'a list" where
  "pushObject obj self = obj # self"

definition pushObjectsInArray :: "'a list option \<Rightarrow> 'a list \<Rightarrow> 'a list" where
  "pushObjectsInArray array self =
     (case array of Some a \<Rightarrow> if length a > 0 then a @ self else self | None \<Rightarrow> self)"

definition toggleValue :: "'a \<Rightarrow> 'a list \<Rightarrow> MPValueToggleResult \<times> 'a list" where
  "toggleValue v self =
     (if v \<in> set self then (MPValueToggleResultRemoved, removeAll v self)
      else (MPValueToggleResultAdded, self @ [v]))"

definition MPNilToEmptyArray :: "'a list option \<Rightarrow> 'a list" where
  "MPNilToEmptyArray array = (case array of Some a \<Rightarrow> a | None \<Rightarrow> [])"


section \<open>Index sets and sets\<close>

text \<open>An index set is the ascending list of its indexes; \<open>objects[idx]\<close> raises out of range.\<close>

fun mapAssociatedObjects :: "nat list \<Rightarrow> 'a list \<Rightarrow> ('a \<Rightarrow> nat \<Rightarrow> 'b option) \<Rightarrow> exn + 'b list" where
  "mapAssociatedObjects [] objects mapBlock = Inr []"
| "mapAssociatedObjects (idx # rest) objects mapBlock =
     (if idx < length objects
      then bindExn (MPAssertNotNil (mapBlock (objects ! idx) idx) ''mappedVal'')
             (\<lambda>v. bindExn (mapAssociatedObjects rest objects mapBlock) (\<lambda>vs. Inr (v # vs)))
      else throw NSRangeException)"

fun firstAssociatedObject :: "nat list \<Rightarrow> 'a list \<Rightarrow> ('a \<Rightarrow> bool) \<Rightarrow> exn + ('a \<times> nat) option" where
  "firstAssociatedObject [] objects patternBlock = Inr None"
| "firstAssociatedObject (idx # rest) objects patternBlock =
     (if idx < length objects
      then if patternBlock (objects ! idx) then Inr (Some (objects ! idx, idx))
           else firstAssociatedObject rest objects patternBlock
      else throw NSRangeException)"

fun filteredAssociatedObject :: "nat list \<Rightarrow> 'a list \<Rightarrow> ('a \<Rightarrow> bool) \<Rightarrow> exn + 'a list" where
  "filteredAssociatedObject [] objects patternBlock = Inr []"
| "filteredAssociatedObject (idx # rest) objects patternBlock =
     (if idx < length objects
      then bindExn (filteredAssociatedObject rest objects patternBlock)
             (\<lambda>vs. Inr (if patternBlock (objects ! idx) then objects ! idx # vs else vs))
      else throw NSRangeException)"

definition setNilFilteredMap :: "('a \<Rightarrow> 'b option) \<Rightarrow> 'a set \<Rightarrow> 'b set" where
  "setNilFilteredMap block self = the ` {x \<in> block ` self. x \<noteq> None}"

definition filteredSetMatching :: "('a \<Rightarrow> bool) \<Rightarrow> 'a set \<Rightarrow> 'a set" where
  "filteredSetMatching patternBlock self = {x \<in> self. patternBlock x}"


section \<open>Dictionaries\<close>

definition containsObject :: "val \<Rightarrow> dict \<Rightarrow> bool" where
  "containsObject obj self \<longleftrightarrow> obj \<in> snd ` set self"

definition containsObjectForKey :: "string \<Rightarrow> dict \<Rightarrow> bool" where
  "containsObjectForKey key self \<longleftrightarrow> map_of self key \<noteq> None"

definition anyObjectMatching :: "(string \<Rightarrow> val \<Rightarrow> bool) \<Rightarrow> dict \<Rightarrow> val option" where
  "anyObjectMatching patternBlock self = map_option snd (find (\<lambda>(k, v). patternBlock k v) self)"

definition dictionaryWithObjectsMatching :: "(string \<Rightarrow> val \<Rightarrow> bool) \<Rightarrow> dict \<Rightarrow> dict" where
  "dictionaryWithObjectsMatching patternBlock self = filter (\<lambda>(k, v). patternBlock k v) self"

fun dictionaryOfSetsWithDictionaryOfArrays :: "dict \<Rightarrow> exn + (string \<times> val set) list" where
  "dictionaryOfSetsWithDictionaryOfArrays [] = Inr []"
| "dictionaryOfSetsWithDictionaryOfArrays ((k, VArray xs) # rest) =
     bindExn (dictionaryOfSetsWithDictionaryOfArrays rest) (\<lambda>d. Inr ((k, set xs) # d))"
| "dictionaryOfSetsWithDictionaryOfArrays ((k, v) # rest) =
     throw (NSInternalInconsistencyException ''val isKindOfClass NSArray'')"

definition dictUpdate :: "string \<Rightarrow> val \<Rightarrow> dict \<Rightarrow> dict" where
  "dictUpdate k v d = (k, v) # filter (\<lambda>p. fst p \<noteq> k) d"

definition addEntriesFromDictionary :: "dict \<Rightarrow> dict \<Rightarrow> dict" where
  "addEntriesFromDictionary other d = fold (\<lambda>(k, v). dictUpdate k v) other d"

definition MPDictionaryFromDictionaries :: "dict option list \<Rightarrow> dict" where
  "MPDictionaryFromDictionaries ds =
     fold (\<lambda>d md. case d of Some e \<Rightarrow> addEntriesFromDictionary e md | None \<Rightarrow> md) ds []"

definition MPDictionaryFromTwoDictionaries :: "dict option \<Rightarrow> dict option \<Rightarrow> dict" where
  "MPDictionaryFromTwoDictionaries d1 d2 = MPDictionaryFromDictionaries [d1, d2]"

definition MPMutableDictionaryForDictionary :: "dict option \<Rightarrow> dict" where
  "MPMutableDictionaryForDictionary d = (case d of None \<Rightarrow> [] | Some e \<Rightarrow> e)"


section \<open>JSON strings of containers\<close>

text \<open>
  \<open>NSJSONSerialization\<close> is a pair of parameters: \<open>ser\<close> encodes a top-level array or
  dictionary, \<open>de\<close> decodes.  \<open>rep\<close> gives the string of an object that conforms to
  \<open>MPJSONRepresentable\<close>.
\<close>

fun requiresJSONStringRep :: "val \<Rightarrow> bool" where
  "requiresJSONStringRep (VArray xs) = True"
| "requiresJSONStringRep (VDict d) = True"
| "requiresJSONStringRep (VManaged i) = True"
| "requiresJSONStringRep (VEmbedded n) = True"
| "requiresJSONStringRep v = False"

fun JSONStringRepresentation ::
  "(val \<Rightarrow> string option) \<Rightarrow> (string \<Rightarrow> val option) \<Rightarrow> (val \<Rightarrow> string option) \<Rightarrow>
   val \<Rightarrow> exn + string option"
and JSONElements ::
  "(val \<Rightarrow> string option) \<Rightarrow> (string \<Rightarrow> val option) \<Rightarrow> (val \<Rightarrow> string option) \<Rightarrow>
   val list \<Rightarrow> exn + val list"
and JSONEntries ::
  "(val \<Rightarrow> string option) \<Rightarrow> (string \<Rightarrow> val option) \<Rightarrow> (val \<Rightarrow> string option) \<Rightarrow>
   dict \<Rightarrow> exn + dict option" where
  "JSONStringRepresentation ser de rep (VArray xs) =
     bindExn (JSONElements ser de rep xs) (\<lambda>objs. Inr (ser (VArray objs)))"
| "JSONStringRepresentation ser de rep (VDict d) =
     bindExn (JSONEntries ser de rep d)
       (\<lambda>e. Inr (case e of None \<Rightarrow> None | Some d' \<Rightarrow> ser (VDict d')))"
| "JSONStringRepresentation ser de rep v = Inr (rep v)"
| "JSONElements ser de rep [] = Inr []"
| "JSONElements ser de rep (v # vs) =
     bindExn
       (if requiresJSONStringRep v
        then bindExn (JSONStringRepresentation ser de rep v)
               (\<lambda>r. Inr (case r of None \<Rightarrow> VNull
                         | Some s \<Rightarrow> (case de s of None \<Rightarrow> VNull | Some v' \<Rightarrow> v')))
        else Inr v)
       (\<lambda>v'. bindExn (JSONElements ser de rep vs) (\<lambda>vs'. Inr (v' # vs')))"
| "JSONEntries ser de rep [] = Inr (Some [])"
| "JSONEntries ser de rep ((k, v) # rest) =
     bindExn
       (if requiresJSONStringRep v
        then bindExn (JSONStringRepresentation ser de rep v)
               (\<lambda>r. case r of None \<Rightarrow> throw (NSInvalidArgumentException ''data parameter is nil'')
                    | Some s \<Rightarrow> Inr (de s))
        else Inr (Some v))
       (\<lambda>v'. case v' of
          None \<Rightarrow> Inr None
        | Some w \<Rightarrow>
            bindExn (JSONEntries ser de rep rest)
              (\<lambda>e. Inr (map_option (\<lambda>d. (k, w) # d) e)))"

datatype decoded = DecodedNil "ns_error option" | Decoded val

text \<open>
  \<open>decodeFromJSONString:error:\<close> checks the class of the decoded object only when the
  caller passed an error pointer.
\<close>

definition decodeArrayFromJSONString ::
  "(string \<Rightarrow> val option) \<Rightarrow> bool \<Rightarrow> string \<Rightarrow> decoded" where
  "decodeArrayFromJSONString de hasError s =
     (case de s of
        Some (VArray xs) \<Rightarrow> Decoded (VArray xs)
      | r \<Rightarrow>
          if hasError
          then DecodedNil (Some \<lparr>error_domain = ''MPArrayExtensionErrorDomain'', error_code = 1\<rparr>)
          else (case r of None \<Rightarrow> DecodedNil None | Some v \<Rightarrow> Decoded v))"

definition decodeDictionaryFromJSONString ::
  "(string \<Rightarrow> val option) \<Rightarrow> bool \<Rightarrow> string \<Rightarrow> decoded" where
  "decodeDictionaryFromJSONString de hasError s =
     (case de s of
        Some (VDict d) \<Rightarrow> Decoded (VDict d)
      | r \<Rightarrow>
          if hasError
          then DecodedNil (Some \<lparr>error_domain = ''MPDictionaryExtensionErrorDomain'', error_code = 1\<rparr>)
          else (case r of None \<Rightarrow> DecodedNil None | Some v \<Rightarrow> Decoded v))"


section \<open>Managed-object dictionaries\<close>

datatype MPManagedObjectDictionaryValidationErrorCode =
    DictionaryErrorUnknown
  | DictionaryErrorObjectTypeMissing
  | DictionaryErrorObjectTypeInvalid
  | DictionaryErrorDocumentIDMissing
  | DictionaryErrorUnexpectedDocumentID

definition managedObjectType :: "dict \<Rightarrow> string option" where
  "managedObjectType self = stringForKey self ''objectType''"

definition managedObjectDocumentID :: "dict \<Rightarrow> string option" where
  "managedObjectDocumentID self = stringForKey self ''_id''"

definition managedObjectRevisionID :: "dict \<Rightarrow> string option" where
  "managedObjectRevisionID self = stringForKey self ''_rev''"

definition isManagedObjectDictionary ::
  "runtime \<Rightarrow> cls \<Rightarrow> dict \<Rightarrow> MPManagedObjectDictionaryValidationErrorCode + unit" where
  "isManagedObjectDictionary rt MPManagedObject self =
     (case managedObjectType self of
        None \<Rightarrow> Inl DictionaryErrorDocumentIDMissing
      | Some objectTypeStr \<Rightarrow>
          if \<not> (case NSClassFromString rt objectTypeStr of
                   None \<Rightarrow> False | Some c \<Rightarrow> isSubclassOfClass c MPManagedObject)
          then Inl DictionaryErrorObjectTypeInvalid
          else
            (case managedObjectDocumentID self of
               None \<Rightarrow> Inl DictionaryErrorDocumentIDMissing
             | Some docID \<Rightarrow>
                 (let docIDComponents = componentsSeparatedByString '':'' docID
                  in if length docIDComponents \<noteq> 2 then Inl DictionaryErrorUnexpectedDocumentID
                     else if docIDComponents ! 0 \<noteq> objectTypeStr
                     then Inl DictionaryErrorUnexpectedDocumentID
                     else Inr ())))"

definition setManagedObjectType :: "string \<Rightarrow> dict \<Rightarrow> exn + dict" where
  "setManagedObjectType t self =
     (if managedObjectType self = Some t then Inr self
      else if managedObjectType self \<noteq> None
      then throw (NSInternalInconsistencyException ''![self managedObjectType]'')
      else Inr (dictUpdate ''objectType'' (VString t) self))"


section \<open>Updating association lists\<close>

lemma map_of_filter_neq:
  "map_of (filter (\<lambda>p. fst p \<noteq> k) d) k' = (if k' = k then None else map_of d k')"
  by (induction d) auto


section \<open>Mapping, filtering and shuffling arrays\<close>

lemma mapFrom_Inr:
  "mapFrom i f xs = Inr ys \<longleftrightarrow>
     length ys = length xs \<and> (\<forall>j < length xs. f (xs ! j) (i + j) = Some (ys ! j))"
proof (induction xs arbitrary: i ys)
  case (Cons x xs)
  show ?case
  proof (cases ys)
    case (Cons y ys')
    then show ?thesis
      using Cons.IH [of "i + 1" ys'] by (auto simp: bindExn_Inr All_less_Suc2)
  qed (auto simp: bindExn_Inr)
qed auto

lemma nilFilteredFrom_map_filter:
  "nilFilteredFrom i f xs = List.map_filter (\<lambda>(x, j). f x j) (zip xs [i..<i + length xs])"
proof (induction xs arbitrary: i)
  case (Cons x xs)
  have "[i..<i + length (x # xs)] = i # [Suc i..<Suc i + length xs]"
    by (simp add: upt_rec)
  then show ?case
    using Cons [of "Suc i"] by (simp add: List.map_filter_simps split: option.splits)
qed (simp add: List.map_filter_simps)

lemma firstMatchingFrom_Some:
  "firstMatchingFrom i P xs = Some (x, n) \<longleftrightarrow>
     (\<exists>j < length xs. n = i + j \<and> x = xs ! j \<and> P x \<and> (\<forall>k < j. \<not> P (xs ! k)))"
proof (induction xs arbitrary: i)
  case (Cons y ys)
  show ?case
    using Cons [of "i + 1"] by (auto simp: Ex_less_Suc2 All_less_Suc2)
qed simp

lemma exchangeObjects_mset:
  "i < length xs \<Longrightarrow> j < length xs \<Longrightarrow> mset (exchangeObjects i j xs) = mset xs"
  unfolding exchangeObjects_def by (rule mset_swap)

lemma exchangeObjects_length [simp]: "length (exchangeObjects i j xs) = length xs"
  by (simp add: exchangeObjects_def)

lemma randomizeFrom_mset: "mset (randomizeFrom i rs xs) = mset xs"
proof (induction i rs xs rule: randomizeFrom.induct)
  case (2 i r rs xs)
  show ?case
  proof (cases "i < length xs")
    case True
    then have "r mod (length xs - i) + i < length xs"
      using mod_less_divisor [of "length xs - i" r] by linarith
    then show ?thesis using True 2 by (simp add: exchangeObjects_mset)
  qed simp
qed simp

lemma randomizeFrom_reaches:
  "i \<le> length xs \<Longrightarrow> mset ys = mset (drop i xs) \<Longrightarrow>
   \<exists>rs. length rs = length xs - i \<and> randomizeFrom i rs xs = take i xs @ ys"
proof (induction "length xs - i" arbitrary: i xs ys)
  case 0
  then show ?case by simp
next
  case (Suc n)
  then have i: "i < length xs" by simp
  then obtain y ys' where ys: "ys = y # ys'"
    using Suc(4) by (cases ys) auto
  then have "y \<in> set (drop i xs)"
    using Suc(4) by (metis list.set_intros(1) set_mset_mset)
  then obtain k where k: "k < length xs - i" and y: "y = xs ! (i + k)"
    by (auto simp: in_set_conv_nth)
  let ?xs = "exchangeObjects i (k mod (length xs - i) + i) xs"
  have km: "k mod (length xs - i) + i = i + k" using k by simp
  have hd: "?xs ! i = y" using i k y by (simp add: exchangeObjects_def nth_list_update add.commute)
  have tk: "take i ?xs = take i xs"
    using k by (simp add: exchangeObjects_def)
  have "mset (take i ?xs @ drop i ?xs) = mset (take i xs @ drop i xs)"
    unfolding append_take_drop_id using i k by (intro exchangeObjects_mset) simp_all
  then have "mset (drop i ?xs) = mset ys" using tk Suc(4) by (metis add_left_imp_eq mset_append)
  moreover have "drop i ?xs = y # drop (Suc i) ?xs"
    using hd i by (metis Cons_nth_drop_Suc exchangeObjects_length)
  ultimately have m: "mset ys' = mset (drop (Suc i) ?xs)" using ys by simp
  have n: "n = length ?xs - Suc i" using Suc(2) by simp
  obtain rs where rs: "length rs = length ?xs - Suc i"
    and run: "randomizeFrom (Suc i) rs ?xs = take (Suc i) ?xs @ ys'"
    using Suc(1) [OF n _ m] i by auto
  have "take (Suc i) ?xs = take i xs @ [y]"
    using tk hd i by (simp add: take_Suc_conv_app_nth)
  then have "randomizeFrom i (k # rs) xs = take i xs @ ys"
    using run i ys by simp
  moreover have "length (k # rs) = length xs - i" using rs i by simp
  ultimately show ?case by blast
qed

lemma toggleValue_set:
  "toggleValue v xs = (r, ys) \<Longrightarrow>
   set ys = (if v \<in> set xs then set xs - {v} else insert v (set xs)) \<and>
   (r = MPValueToggleResultAdded \<longleftrightarrow> v \<notin> set xs)"
  by (auto simp: toggleValue_def split: if_splits)


section \<open>Merging dictionaries\<close>

lemma map_of_dictUpdate [simp]: "map_of (dictUpdate k v d) = (map_of d)(k \<mapsto> v)"
proof
  fix x
  have "map_of (filter (\<lambda>p. fst p \<noteq> k) d) x = (if x = k then None else map_of d x)"
    by (induction d) auto
  then show "map_of (dictUpdate k v d) x = ((map_of d)(k \<mapsto> v)) x"
    by (simp add: dictUpdate_def)
qed

lemma distinct_dictUpdate [simp]:
  "distinct (map fst d) \<Longrightarrow> distinct (map fst (dictUpdate k v d))"
  by (auto simp: dictUpdate_def distinct_map_filter)

lemma map_of_addEntries:
  assumes "distinct (map fst other)"
  shows "map_of (addEntriesFromDictionary other d) = map_of d ++ map_of other"
  using assms unfolding addEntriesFromDictionary_def
proof (induction other arbitrary: d)
  case (Cons p other)
  obtain k v where p: "p = (k, v)" by force
  have "map_of other k = None" using Cons.prems p by (simp add: map_of_eq_None_iff)
  then have *: "((map_of d)(k \<mapsto> v)) ++ map_of other = map_of d ++ map_of (p # other)"
    by (auto simp: p map_add_def fun_eq_iff split: option.splits)
  have "map_of (fold (\<lambda>(k, v). dictUpdate k v) other (dictUpdate k v d)) =
      ((map_of d)(k \<mapsto> v)) ++ map_of other"
    using Cons.IH [of "dictUpdate k v d", unfolded map_of_dictUpdate] Cons.prems
    by (simp only: list.map distinct.simps)
  then show ?case using * by (simp only: p fold_simps split_conv)
qed simp

lemma map_of_MPDictionaryFromDictionaries:
  assumes "\<And>d. Some d \<in> set ds \<Longrightarrow> distinct (map fst d)"
  shows "map_of (MPDictionaryFromDictionaries ds) =
    foldl (++) Map.empty (map (\<lambda>d. case d of Some e \<Rightarrow> map_of e | None \<Rightarrow> Map.empty) ds)"
proof -
  have "map_of (fold (\<lambda>d md. case d of Some e \<Rightarrow> addEntriesFromDictionary e md | None \<Rightarrow> md) ds acc) =
    foldl (++) (map_of acc) (map (\<lambda>d. case d of Some e \<Rightarrow> map_of e | None \<Rightarrow> Map.empty) ds)" for acc
    using assms
    by (induction ds arbitrary: acc) (auto simp: map_of_addEntries split: option.splits)
  from this [of "[]"] show ?thesis by (simp add: MPDictionaryFromDictionaries_def)
qed


section \<open>JSON round trips\<close>

text \<open>The values \<open>NSJSONSerialization\<close> accepts, and the containers inside one.\<close>

fun isJSON :: "val \<Rightarrow> bool" where
  "isJSON (VArray xs) = list_all isJSON xs"
| "isJSON (VDict d) = list_all (\<lambda>(k, v). isJSON v) d"
| "isJSON (VDate t) = False"
| "isJSON (VData s) = False"
| "isJSON (VManaged i) = False"
| "isJSON (VEmbedded n) = False"
| "isJSON v = True"

fun containers :: "val \<Rightarrow> val list" where
  "containers (VArray xs) = VArray xs # concat (map containers xs)"
| "containers (VDict d) = VDict d # concat (map (\<lambda>(k, v). containers v) d)"
| "containers v = []"

definition roundTrips :: "(val \<Rightarrow> string option) \<Rightarrow> (string \<Rightarrow> val option) \<Rightarrow> val \<Rightarrow> bool" where
  "roundTrips ser de v \<longleftrightarrow> (case ser v of None \<Rightarrow> False | Some s \<Rightarrow> de s = Some v)"

lemma containers_self: "isJSON v \<Longrightarrow> requiresJSONStringRep v \<Longrightarrow> v \<in> set (containers v)"
  by (cases v) auto

lemma JSON_identity:
  "isJSON v \<Longrightarrow> requiresJSONStringRep v \<Longrightarrow> list_all (roundTrips ser de) (containers v) \<Longrightarrow>
     JSONStringRepresentation ser de rep v = Inr (ser v)"
  "list_all isJSON vs \<Longrightarrow> list_all (roundTrips ser de) (concat (map containers vs)) \<Longrightarrow>
     JSONElements ser de rep vs = Inr vs"
  "list_all (\<lambda>(k, v). isJSON v) d \<Longrightarrow>
     list_all (roundTrips ser de) (concat (map (\<lambda>(k, v). containers v) d)) \<Longrightarrow>
     JSONEntries ser de rep d = Inr (Some d)"
proof (induction ser de rep v and ser de rep vs and ser de rep d
    rule: JSONStringRepresentation_JSONElements_JSONEntries.induct)
  case (5 ser de rep v vs)
  have "requiresJSONStringRep v \<Longrightarrow> roundTrips ser de v"
    using 5(3,4) containers_self [of v] by (auto simp: list_all_iff)
  then show ?case
    using 5 by (auto simp: roundTrips_def split: option.splits)
next
  case (7 ser de rep k v rest)
  have "requiresJSONStringRep v \<Longrightarrow> roundTrips ser de v"
    using 7(3,4) containers_self [of v] by (auto simp: list_all_iff)
  then show ?case
    using 7 by (auto simp: roundTrips_def split: option.splits)
qed auto


section \<open>Validation of managed-object dictionaries\<close>

lemma isManagedObjectDictionary_iff:
  "isManagedObjectDictionary rt MPManagedObject d = Inr () \<longleftrightarrow>
     (\<exists>t c u. stringForKey d ''objectType'' = Some t \<and> NSClassFromString rt t = Some c \<and>
        isSubclassOfClass c MPManagedObject \<and> stringForKey d ''_id'' = Some (t @ '':'' @ u) \<and>
        CHR '':'' \<notin> set t \<and> CHR '':'' \<notin> set u)"
proof -
  have two: "(length cs = 2 \<and> cs ! 0 = t) \<longleftrightarrow> (\<exists>u. cs = [t, u])" for cs :: "string list" and t
    by (cases cs; cases "tl cs") auto
  have split: "length (componentsSeparatedByString '':'' i) = 2 \<and>
      componentsSeparatedByString '':'' i ! 0 = t \<longleftrightarrow>
      (\<exists>u. i = t @ '':'' @ u \<and> CHR '':'' \<notin> set t \<and> CHR '':'' \<notin> set u)" for i t
    unfolding two two_components_iff by auto
  show ?thesis
  proof (cases "managedObjectType d")
    case None
    then show ?thesis by (simp add: isManagedObjectDictionary_def managedObjectType_def)
  next
    case (Some t)
    show ?thesis
    proof (cases "managedObjectDocumentID d")
      case None
      then show ?thesis
        using Some by (auto simp: isManagedObjectDictionary_def managedObjectType_def
            managedObjectDocumentID_def split: option.splits)
    next
      case (Some i)
      then show ?thesis
        using \<open>managedObjectType d = Some t\<close> split [of i t]
        by (auto simp: isManagedObjectDictionary_def managedObjectType_def
            managedObjectDocumentID_def Let_def split: option.splits)
    qed
  qed
qed

end
