(* ===== verification/ControllerLookup.thy ===== *)
theory ControllerLookup
  imports StringExt Collections
begin

text \<open>
  From a managed-object class to the controller that manages it.  The class-level
  functions are those of \<open>MPManagedObjectsController\<close> (the naming convention
  \<open>[X]sController\<close>, the set of managed subclasses) and of
  \<open>MPDatabasePackageController\<close> (\<open>controllerClassForManagedObjectClass:\<close>); the
  instance-level lookup walks up the class hierarchy and memoises its result in
  \<open>_controllerDictionary\<close>.
\<close>


section \<open>Known classes\<close>

record known_classes =
  class_MPManagedObject :: cls
  class_MPManagedObjectsController :: cls
  class_MPMetadata :: cls
  class_MPLocalMetadata :: cls
  class_MPEmbeddedObject :: cls

definition isManagedObjectClass :: "known_classes \<Rightarrow> cls \<Rightarrow> bool" where
  "isManagedObjectClass kc c \<longleftrightarrow> isSubclassOfClass c (class_MPManagedObject kc)"

text \<open>\<open>managedObjectClassFromDocumentID:\<close>: the class named by the part before the first colon.\<close>

definition managedObjectClassFromDocumentID ::
  "runtime \<Rightarrow> known_classes \<Rightarrow> string \<Rightarrow> exn + cls" where
  "managedObjectClassFromDocumentID rt kc documentID =
     (if length documentID < 10
      then throw (NSInternalInconsistencyException ''documentID should be of at least 10 characters long'')
      else
        (let className = componentsSeparatedByString '':'' documentID ! 0
         in bindExn (MPAssertNotNil (NSClassFromString rt className) ''moClass'')
              (\<lambda>moClass.
                if isSubclassOfClass moClass (class_MPManagedObject kc) \<or>
                   isSubclassOfClass moClass (class_MPMetadata kc) \<or>
                   isSubclassOfClass moClass (class_MPLocalMetadata kc)
                then Inr moClass
                else throw (NSInternalInconsistencyException ''Unexpected managed object class''))))"


section \<open>Controllers and the classes they manage\<close>

definition controllerClassName :: "string \<Rightarrow> string" where
  "controllerClassName className = pluralizedString className @ ''Controller''"

definition managedObjectClasses :: "runtime \<Rightarrow> known_classes \<Rightarrow> cls list" where
  "managedObjectClasses rt kc = fst (subclasses rt (class_MPManagedObject kc))"

definition managedObjectClassNames :: "runtime \<Rightarrow> known_classes \<Rightarrow> string list" where
  "managedObjectClassNames rt kc = map class_name (managedObjectClasses rt kc)"

fun classByControllerName ::
  "runtime \<Rightarrow> string list \<Rightarrow> (string \<rightharpoonup> cls) \<Rightarrow> exn + (string \<rightharpoonup> cls)" where
  "classByControllerName rt [] controllers = Inr controllers"
| "classByControllerName rt (className # rest) controllers =
     bindExn (MPAssertNotNil (NSClassFromString rt className) ''NSClassFromString(className)'')
       (\<lambda>c. classByControllerName rt rest (controllers(controllerClassName className \<mapsto> c)))"

definition managedObjectClassByControllerClassNameDictionary ::
  "runtime \<Rightarrow> known_classes \<Rightarrow> exn + (string \<rightharpoonup> cls)" where
  "managedObjectClassByControllerClassNameDictionary rt kc =
     classByControllerName rt (managedObjectClassNames rt kc) Map.empty"

text \<open>The class method \<open>managedObjectClass\<close>, and the instance method that asserts its result.\<close>

definition managedObjectClass :: "runtime \<Rightarrow> known_classes \<Rightarrow> cls \<Rightarrow> exn + cls option" where
  "managedObjectClass rt kc mocClass =
     bindExn (managedObjectClassByControllerClassNameDictionary rt kc)
       (\<lambda>d. Inr (d (class_name mocClass)))"

definition controllerManagedObjectClass :: "runtime \<Rightarrow> known_classes \<Rightarrow> cls \<Rightarrow> exn + cls" where
  "controllerManagedObjectClass rt kc mocClass =
     bindExn (managedObjectClass rt kc mocClass)
       (\<lambda>m. bindExn (MPAssertNotNil m ''moClass'')
         (\<lambda>moClass. if isManagedObjectClass kc moClass then Inr moClass
           else throw (NSInternalInconsistencyException ''moClass isSubclassOfClass MPManagedObject'')))"

definition managedObjectSubclasses ::
  "runtime \<Rightarrow> known_classes \<Rightarrow> cls \<Rightarrow> cls \<Rightarrow> exn + string set" where
  "managedObjectSubclasses rt kc mocClass moClass =
     (if mocClass = class_MPManagedObjectsController kc
      then throw (MPAbstractClassException (class_name mocClass))
      else
        (case subclasses rt moClass of
           (subs, rt') \<Rightarrow>
             Inr (class_name ` fst (descendingLoop rt' subs (insert moClass (set subs))))))"

definition managesDocumentWithDictionary :: "string set \<Rightarrow> dict \<Rightarrow> bool" where
  "managesDocumentWithDictionary subclassNames doc =
     (case managedObjectType doc of None \<Rightarrow> False | Some objectType \<Rightarrow> objectType \<in> subclassNames)"

definition managesDocumentWithIdentifier ::
  "runtime \<Rightarrow> known_classes \<Rightarrow> string set \<Rightarrow> string \<Rightarrow> exn + bool" where
  "managesDocumentWithIdentifier rt kc subclassNames documentID =
     bindExn (managedObjectClassFromDocumentID rt kc documentID)
       (\<lambda>c. Inr (class_name c \<in> subclassNames))"

definition managesObjectsOfClass :: "string set \<Rightarrow> cls \<Rightarrow> bool" where
  "managesObjectsOfClass subclassNames c \<longleftrightarrow> class_name c \<in> subclassNames"

text \<open>
  The dictionary of \<open>equivalenceClassForManagedObjectClass:\<close>: every class below the
  managed class of a controller is equivalent to that class; later controllers win.
\<close>

fun equivalenceLoop ::
  "runtime \<Rightarrow> known_classes \<Rightarrow> cls list \<Rightarrow> (string \<rightharpoonup> cls) \<Rightarrow> exn + (string \<rightharpoonup> cls)" where
  "equivalenceLoop rt kc [] d = Inr d"
| "equivalenceLoop rt kc (mocClass # rest) d =
     bindExn (managedObjectClass rt kc mocClass)
       (\<lambda>o'. equivalenceLoop rt kc rest
         (case o' of
            None \<Rightarrow> d
          | Some oClass \<Rightarrow>
              fold (\<lambda>c e. e(class_name c \<mapsto> mocClass)) (fst (subclasses rt oClass) @ [oClass]) d))"

definition equivalenceClassForManagedObjectClass ::
  "runtime \<Rightarrow> known_classes \<Rightarrow> cls \<Rightarrow> exn + cls" where
  "equivalenceClassForManagedObjectClass rt kc moClass =
     (if \<not> isManagedObjectClass kc moClass
      then throw (NSInternalInconsistencyException ''Expecting subclass of MPManagedObject'')
      else
        bindExn (equivalenceLoop rt kc
                  (fst (subclasses rt (class_MPManagedObjectsController kc))) Map.empty)
          (\<lambda>classDict.
            let classString =
              stringByReplacingOccurrencesOfString (class_name moClass) ''NSKVONotifying_'' []
            in (case classDict classString of
                  None \<Rightarrow> throw (NSInternalInconsistencyException ''Unexpected equivalence class'')
                | Some mocClass \<Rightarrow> controllerManagedObjectClass rt kc mocClass)))"


section \<open>The controller class of a managed-object class\<close>

fun controllerClassWalk :: "runtime \<Rightarrow> known_classes \<Rightarrow> cls \<Rightarrow> exn + cls option" where
  "controllerClassWalk rt kc (Cls n s ps prs) =
     (if \<not> hasPrefix n ''MP'' then throw (NSInternalInconsistencyException ''className ^MP'')
      else
        (case NSClassFromString rt (controllerClassName n) of
           Some mocClass \<Rightarrow> Inr (Some mocClass)
         | None \<Rightarrow>
             (case s of
                None \<Rightarrow> throw (NSInternalInconsistencyException ''className ^MP'')
              | Some p \<Rightarrow>
                  if p = class_MPManagedObject kc then Inr None
                  else controllerClassWalk rt kc p)))"

fun controllerClassesLoop ::
  "runtime \<Rightarrow> known_classes \<Rightarrow> cls list \<Rightarrow> (string \<rightharpoonup> cls) \<Rightarrow> exn + (string \<rightharpoonup> cls)" where
  "controllerClassesLoop rt kc [] d = Inr d"
| "controllerClassesLoop rt kc (c # rest) d =
     bindExn (controllerClassWalk rt kc c)
       (\<lambda>m. controllerClassesLoop rt kc rest
         (case m of None \<Rightarrow> d | Some mocClass \<Rightarrow> d(class_name c \<mapsto> mocClass)))"

text \<open>The static dictionary is built on the first call, from the subclasses and the class asked for.\<close>

definition controllerClassForManagedObjectClass ::
  "runtime \<Rightarrow> known_classes \<Rightarrow> (string \<rightharpoonup> cls) option \<Rightarrow> cls \<Rightarrow>
   exn + cls option \<times> (string \<rightharpoonup> cls) option" where
  "controllerClassForManagedObjectClass rt kc static c =
     (if \<not> isManagedObjectClass kc c
      then throw (NSInternalInconsistencyException ''Unexpected type'')
      else
        (case static of
           Some d \<Rightarrow> Inr (d (class_name c), static)
         | None \<Rightarrow>
             bindExn (controllerClassesLoop rt kc
                       (fst (subclasses rt (class_MPManagedObject kc)) @ [c]) Map.empty)
               (\<lambda>d. Inr (d (class_name c), Some d))))"


section \<open>The controller instance of a managed-object class\<close>

definition controllerPropertyNameForManagedObjectClass :: "cls \<Rightarrow> string" where
  "controllerPropertyNameForManagedObjectClass c =
     camelCased (pluralizedString (removingMPPrefix (class_name c))) @ ''Controller''"

definition controllerPropertyNameForManagedObjectControllerClass :: "cls \<Rightarrow> string" where
  "controllerPropertyNameForManagedObjectControllerClass c =
     camelCased (removingMPPrefix (class_name c))"

datatype controller_key = NSNullKey | PropertyKey string

text \<open>
  \<open>controllerProperties\<close> holds the property names the package controller responds
  to, with the controller stored there, if any.
\<close>

record controller_table =
  controllerDictionary :: "string \<rightharpoonup> controller_key"
  controllerProperties :: "string \<rightharpoonup> nat option"

fun controllerWalk ::
  "known_classes \<Rightarrow> (string \<rightharpoonup> nat option) \<Rightarrow> cls \<Rightarrow> exn + (string \<times> nat) option" where
  "controllerWalk kc props (Cls n s ps prs) =
     (if \<not> hasPrefix n ''MP'' then throw (NSInternalInconsistencyException ''className ^MP'')
      else
        (let mocProperty = controllerPropertyNameForManagedObjectClass (Cls n s ps prs) in
         case props mocProperty of
           Some v \<Rightarrow> bindExn (MPAssertNotNil v ''moc'') (\<lambda>moc. Inr (Some (mocProperty, moc)))
         | None \<Rightarrow>
             (case s of
                None \<Rightarrow> throw (NSInternalInconsistencyException ''className ^MP'')
              | Some p \<Rightarrow>
                  if p = class_MPManagedObject kc then Inr None
                  else controllerWalk kc props p)))"

text \<open>The private \<open>_controllerForManagedObjectClass:\<close>.\<close>

definition lookupController ::
  "known_classes \<Rightarrow> cls \<Rightarrow> 'z controller_table_scheme \<Rightarrow>
   exn + nat option \<times> 'z controller_table_scheme" where
  "lookupController kc c t =
     (if isSubclassOfClass c (class_MPMetadata kc) then Inr (None, t)
      else if \<not> isManagedObjectClass kc c \<or> c = class_MPManagedObject kc
      then throw (NSInternalInconsistencyException ''Unexpected class'')
      else
        (case controllerDictionary t (class_name c) of
           Some (PropertyKey key) \<Rightarrow>
             (case controllerProperties t key of
                None \<Rightarrow> throw (NSInvalidArgumentException ''valueForKey'')
              | Some v \<Rightarrow> Inr (v, t))
         | Some NSNullKey \<Rightarrow> Inr (None, t)
         | None \<Rightarrow>
             bindExn (controllerWalk kc (controllerProperties t) c)
               (\<lambda>r. case r of
                  None \<Rightarrow> Inr (None, t)
                | Some (mocProperty, moc) \<Rightarrow>
                    Inr (Some moc, t\<lparr>controllerDictionary :=
                      (controllerDictionary t)(class_name c \<mapsto> PropertyKey mocProperty)\<rparr>))))"

definition controllerForManagedObjectClass ::
  "known_classes \<Rightarrow> cls \<Rightarrow> 'z controller_table_scheme \<Rightarrow>
   exn + nat option \<times> 'z controller_table_scheme" where
  "controllerForManagedObjectClass kc c t =
     bindExn (lookupController kc c t)
       (\<lambda>(moc, t'). case moc of
          Some m \<Rightarrow> Inr (Some m, t')
        | None \<Rightarrow>
            if \<not> conformsToProtocol c ''MPReferencableObject'' \<and> c = class_MPManagedObject kc
            then throw (NSInternalInconsistencyException ''No controller found'')
            else Inr (None, t'\<lparr>controllerDictionary :=
              (controllerDictionary t')(class_name c \<mapsto> NSNullKey)\<rparr>))"

definition controllerExistsForManagedObjectClass ::
  "known_classes \<Rightarrow> cls \<Rightarrow> 'z controller_table_scheme \<Rightarrow> exn + bool" where
  "controllerExistsForManagedObjectClass kc c t =
     bindExn (lookupController kc c t) (\<lambda>(moc, t'). Inr (moc \<noteq> None))"


section \<open>The class in a document identifier\<close>

lemma managedObjectClassFromDocumentID_prefix:
  assumes "managedObjectClassFromDocumentID rt kc i = Inr c"
  shows "length i \<ge> 10" and "NSClassFromString rt (takeWhile (\<lambda>x. x \<noteq> CHR '':'') i) = Some c"
proof -
  show "length i \<ge> 10"
    using assms by (auto simp: managedObjectClassFromDocumentID_def split: if_splits)
  have "CHR '':'' \<notin> set i \<Longrightarrow> takeWhile (\<lambda>x. x \<noteq> CHR '':'') i = i"
    by (auto simp: takeWhile_eq_all_conv)
  then have "componentsSeparatedByString '':'' i ! 0 = takeWhile (\<lambda>x. x \<noteq> CHR '':'') i"
    by (subst componentsSeparatedByString_char) (auto simp del: takeWhile_eq_all_conv)
  then show "NSClassFromString rt (takeWhile (\<lambda>x. x \<noteq> CHR '':'') i) = Some c"
    using assms by (auto simp: managedObjectClassFromDocumentID_def Let_def bindExn_Inr split: if_splits)
qed

lemma managedObjectClassFromDocumentID_new:
  assumes "NSClassFromString rt n = Some c" and "isManagedObjectClass kc c"
    and "CHR '':'' \<notin> set n" and "length n + length u \<ge> 9"
  shows "managedObjectClassFromDocumentID rt kc (n @ '':'' @ u) = Inr c"
proof -
  have "componentsSeparatedByString '':'' (n @ '':'' @ u) ! 0 = n"
    using assms(3) by (simp add: componentsSeparatedByString_def separated_char_first)
  then show ?thesis
    using assms
    by (simp add: managedObjectClassFromDocumentID_def isManagedObjectClass_def Let_def
        MPAssertNotNil_def)
qed


section \<open>The nearest controller\<close>

definition managedChain :: "known_classes \<Rightarrow> cls \<Rightarrow> cls list" where
  "managedChain kc c = takeWhile (\<lambda>d. d \<noteq> class_MPManagedObject kc) (superclassChain c)"

lemma managedChain_unfold:
  assumes "isManagedObjectClass kc c" "c \<noteq> class_MPManagedObject kc"
  obtains p where "class_getSuperclass c = Some p" "isManagedObjectClass kc p"
    "managedChain kc c = c # managedChain kc p"
proof (cases "class_getSuperclass c")
  case None
  then have False
    using assms by (cases c) (auto simp: isManagedObjectClass_def isSubclassOfClass_def)
  then show ?thesis ..
next
  case (Some p)
  then show ?thesis
    using assms that
    by (cases c) (auto simp: isManagedObjectClass_def isSubclassOfClass_def managedChain_def)
qed

lemma managedChain_MO [simp]: "managedChain kc (class_MPManagedObject kc) = []"
  by (simp add: managedChain_def superclassChain_unfold [of "class_MPManagedObject kc"])

definition wf_properties :: "(string \<rightharpoonup> nat option) \<Rightarrow> bool" where
  "wf_properties props \<longleftrightarrow> None \<notin> ran props"

lemma controllerWalk_nearest:
  assumes "isManagedObjectClass kc c" "c \<noteq> class_MPManagedObject kc"
    and "list_all (\<lambda>d. hasPrefix (class_name d) ''MP'') (managedChain kc c)" "wf_properties props"
  shows "controllerWalk kc props c =
    Inr (map_option (\<lambda>d. (controllerPropertyNameForManagedObjectClass d,
           the (the (props (controllerPropertyNameForManagedObjectClass d)))))
      (find (\<lambda>d. props (controllerPropertyNameForManagedObjectClass d) \<noteq> None) (managedChain kc c)))"
  using assms
proof (induction kc props c rule: controllerWalk.induct)
  case (1 kc props n s ps prs)
  let ?c = "Cls n s ps prs"
  obtain p where p: "s = Some p" "isManagedObjectClass kc p"
    and chain: "managedChain kc ?c = ?c # managedChain kc p"
    using managedChain_unfold [OF 1(2,3)] by auto
  have pre: "hasPrefix n ''MP''" using 1(4) chain by simp
  show ?case
  proof (cases "props (controllerPropertyNameForManagedObjectClass ?c)")
    case None
    show ?thesis
    proof (cases "p = class_MPManagedObject kc")
      case True
      then show ?thesis using None p pre chain by simp
    next
      case False
      have "list_all (\<lambda>d. hasPrefix (class_name d) ''MP'') (managedChain kc p)"
        using 1(4) chain by simp
      then show ?thesis
        using 1(1) [OF _ refl None p(1) False p(2) False] 1(5) None p pre chain False by simp
    qed
  next
    case (Some v)
    then obtain m where "v = Some m"
      using 1(5) by (cases v) (auto simp: wf_properties_def ran_def)
    then show ?thesis
      using Some pre chain by (simp add: MPAssertNotNil_def)
  qed
qed

fun entry_ok :: "exn + (string \<times> nat) option \<Rightarrow> controller_key option \<Rightarrow> bool" where
  "entry_ok walk None = True"
| "entry_ok walk (Some NSNullKey) = (walk = Inr None)"
| "entry_ok walk (Some (PropertyKey k)) = (\<exists>m. walk = Inr (Some (k, m)))"

definition table_ok :: "known_classes \<Rightarrow> cls list \<Rightarrow> 'z controller_table_scheme \<Rightarrow> bool" where
  "table_ok kc classes t \<longleftrightarrow>
     (\<forall>c \<in> set classes. entry_ok (controllerWalk kc (controllerProperties t) c)
        (controllerDictionary t (class_name c)))"

definition lookupQuery :: "known_classes \<Rightarrow> cls \<Rightarrow> controller_table \<Rightarrow> (exn + nat option) \<times> controller_table" where
  "lookupQuery kc c t =
     (case controllerForManagedObjectClass kc c t of
        Inl e \<Rightarrow> (Inl e, t) | Inr (m, t') \<Rightarrow> (Inr m, t'))"

definition lookupSpec :: "known_classes \<Rightarrow> controller_table \<Rightarrow> cls \<Rightarrow> exn + nat option" where
  "lookupSpec kc t c = map_sum id (map_option snd) (controllerWalk kc (controllerProperties t) c)"

definition lookupValid :: "known_classes \<Rightarrow> cls list \<Rightarrow> cls \<Rightarrow> bool" where
  "lookupValid kc classes c \<longleftrightarrow>
     c \<in> set classes \<and> distinct (map class_name classes) \<and> isManagedObjectClass kc c \<and>
     c \<noteq> class_MPManagedObject kc \<and> \<not> isSubclassOfClass c (class_MPMetadata kc)"

lemma controllerWalk_property:
  "controllerWalk kc props c = Inr (Some (k, m)) \<Longrightarrow> props k = Some (Some m)"
proof (induction kc props c rule: controllerWalk.induct)
  case (1 kc props n s ps prs)
  then show ?case
    by (auto simp: Let_def bindExn_Inr split: if_splits option.splits)
qed

lemma table_ok_store:
  assumes "table_ok kc classes t" "distinct (map class_name classes)" "c \<in> set classes"
    and "entry_ok (controllerWalk kc (controllerProperties t) c) (Some key)"
  shows "table_ok kc classes
    (t\<lparr>controllerDictionary := (controllerDictionary t)(class_name c \<mapsto> key)\<rparr>)"
proof -
  have "d = c" if "d \<in> set classes" "class_name d = class_name c" for d
    using assms(2,3) that by (simp add: distinct_map inj_on_def)
  then show ?thesis
    using assms(1,4) by (auto simp: table_ok_def)
qed

lemma lookupController_correct:
  assumes "table_ok kc classes t" "lookupValid kc classes c"
  shows "(\<exists>e. lookupController kc c t = Inl e \<and> controllerWalk kc (controllerProperties t) c = Inl e) \<or>
    (\<exists>r t'. lookupController kc c t = Inr (map_option snd r, t') \<and>
       controllerWalk kc (controllerProperties t) c = Inr r \<and> table_ok kc classes t' \<and>
       controllerProperties t' = controllerProperties t)"
proof -
  have v: "\<not> isSubclassOfClass c (class_MPMetadata kc)" "isManagedObjectClass kc c"
    "c \<noteq> class_MPManagedObject kc" "c \<in> set classes" "distinct (map class_name classes)"
    using assms(2) by (auto simp: lookupValid_def)
  show ?thesis
  proof (cases "controllerDictionary t (class_name c)")
    case (Some key)
    have e: "entry_ok (controllerWalk kc (controllerProperties t) c) (Some key)"
      using assms(1) v(4) Some by (metis table_ok_def)
    show ?thesis
    proof (cases key)
      case NSNullKey
      then show ?thesis using assms(1) v Some e by (simp add: lookupController_def)
    next
      case (PropertyKey k)
      then obtain m where w: "controllerWalk kc (controllerProperties t) c = Inr (Some (k, m))"
        using e by auto
      then have "controllerProperties t k = Some (Some m)" by (rule controllerWalk_property)
      then show ?thesis using assms(1) v Some PropertyKey w by (simp add: lookupController_def)
    qed
  next
    case None
    show ?thesis
    proof (cases "controllerWalk kc (controllerProperties t) c")
      case (Inl e)
      then show ?thesis using None v by (simp add: lookupController_def)
    next
      case (Inr r)
      show ?thesis
      proof (cases r)
        case None
        then show ?thesis
          using Inr v \<open>controllerDictionary t (class_name c) = None\<close> assms(1)
          by (simp add: lookupController_def)
      next
        case (Some a)
        obtain k m where a: "a = (k, m)" by force
        have "table_ok kc classes
            (t\<lparr>controllerDictionary := (controllerDictionary t)(class_name c \<mapsto> PropertyKey k)\<rparr>)"
          using table_ok_store [OF assms(1) v(5,4), of "PropertyKey k"] Inr Some a by simp
        then show ?thesis
          using Inr Some a v \<open>controllerDictionary t (class_name c) = None\<close>
          by (simp add: lookupController_def)
      qed
    qed
  qed
qed

lemma controllerForManagedObjectClass_correct:
  assumes "table_ok kc classes t" "lookupValid kc classes c"
  shows "fst (lookupQuery kc c t) = lookupSpec kc t c"
    and "table_ok kc classes (snd (lookupQuery kc c t))"
    and "controllerProperties (snd (lookupQuery kc c t)) = controllerProperties t"
proof -
  have v: "c \<noteq> class_MPManagedObject kc" "c \<in> set classes" "distinct (map class_name classes)"
    using assms(2) by (auto simp: lookupValid_def)
  consider e where "lookupController kc c t = Inl e"
      "controllerWalk kc (controllerProperties t) c = Inl e"
    | r t' where "lookupController kc c t = Inr (map_option snd r, t')"
      "controllerWalk kc (controllerProperties t) c = Inr r" "table_ok kc classes t'"
      "controllerProperties t' = controllerProperties t"
    using lookupController_correct [OF assms] by blast
  then have "fst (lookupQuery kc c t) = lookupSpec kc t c \<and>
      table_ok kc classes (snd (lookupQuery kc c t)) \<and>
      controllerProperties (snd (lookupQuery kc c t)) = controllerProperties t"
  proof cases
    case 1
    then show ?thesis
      using assms(1) by (simp add: lookupQuery_def controllerForManagedObjectClass_def lookupSpec_def)
  next
    case (2 r t')
    show ?thesis
    proof (cases r)
      case None
      have "table_ok kc classes
          (t'\<lparr>controllerDictionary := (controllerDictionary t')(class_name c \<mapsto> NSNullKey)\<rparr>)"
        using table_ok_store [OF 2(3) v(3,2), of NSNullKey] 2 None by simp
      then show ?thesis
        using 2 None v(1)
        by (simp add: lookupQuery_def controllerForManagedObjectClass_def lookupSpec_def)
    next
      case (Some a)
      then show ?thesis
        using 2 by (simp add: lookupQuery_def controllerForManagedObjectClass_def lookupSpec_def)
    qed
  qed
  then show "fst (lookupQuery kc c t) = lookupSpec kc t c"
    and "table_ok kc classes (snd (lookupQuery kc c t))"
    and "controllerProperties (snd (lookupQuery kc c t)) = controllerProperties t" by simp_all
qed

interpretation controller_cache:
  memoised "lookupQuery kc" "lookupSpec kc" "table_ok kc classes" "lookupValid kc classes"
  for kc classes
proof unfold_locales
  fix t :: controller_table and c
  assume "table_ok kc classes t" "lookupValid kc classes c"
  note correct = controllerForManagedObjectClass_correct [OF this]
  show "fst (lookupQuery kc c t) = lookupSpec kc t c" by (rule correct)
  show "table_ok kc classes (snd (lookupQuery kc c t))" by (rule correct)
  show "lookupSpec kc (snd (lookupQuery kc c t)) = lookupSpec kc t"
    unfolding lookupSpec_def correct(3) by (rule refl)
qed


section \<open>The two ways of naming a controller property agree\<close>

lemma controllerPropertyNames_agree:
  assumes "class_name c = ''MP'' @ x" "x \<noteq> []" "list_all isAlphanumeric x"
    and "class_name mc = controllerClassName (class_name c)"
  shows "controllerPropertyNameForManagedObjectControllerClass mc =
    controllerPropertyNameForManagedObjectClass c"
proof -
  have mc: "class_name mc = ''MP'' @ pluralizedString x @ ''Controller''"
    using assms(1,2,4) pluralizedString_prefix [of x "''MP''"] by (simp add: controllerClassName_def)
  have "list_all isAlphanumeric (pluralizedString x)"
    using pluralizedString_alphanumeric [OF assms(3)] .
  moreover have "list_all isAlphanumeric ''Controller''"
    by (simp add: isAlphanumeric_def isASCIILetter_def)
  ultimately show ?thesis
    unfolding controllerPropertyNameForManagedObjectControllerClass_def
      controllerPropertyNameForManagedObjectClass_def mc assms(1) removingMPPrefix_MP
    by (simp add: camelCased_alphanumeric lowercasingFirst_append list_all_append)
qed

end
