(* ===== verification/Notifications.thy ===== *)
theory Notifications
  imports ControllerLookup
begin

text \<open>
  The notification names of \<open>NSNotificationCenter+MPManagedObjectExtensions\<close> and the
  notification center itself: observers are registered for a name, posting
  delivers to every observer of that name in registration order.  The names of
  the add, update and remove changes are derived from the class whose controller
  is closest to the changed object's class.
\<close>


section \<open>Change types and names\<close>

datatype MPChangeType = MPChangeTypeAdd | MPChangeTypeUpdate | MPChangeTypeRemove

datatype MPReplicationEventType =
    MPReplicationEventTypePersistentPullProgressUpdated
  | MPReplicationEventTypePersistentPullComplete
  | MPReplicationEventTypePersistentPushProgressUpdated
  | MPReplicationEventTypePersistentPushComplete

datatype MPManagedObjectChangeSource =
    MPManagedObjectChangeSourceInternal
  | MPManagedObjectChangeSourceAPI
  | MPManagedObjectChangeSourceExternal

definition managedObjectChangeTypes :: "MPChangeType list" where
  "managedObjectChangeTypes = [MPChangeTypeAdd, MPChangeTypeRemove, MPChangeTypeUpdate]"

fun managedObjectChangeTypeStrings :: "MPChangeType \<Rightarrow> string" where
  "managedObjectChangeTypeStrings MPChangeTypeAdd = ''Add''"
| "managedObjectChangeTypeStrings MPChangeTypeUpdate = ''Update''"
| "managedObjectChangeTypeStrings MPChangeTypeRemove = ''Remove''"

record notification_names =
  name_has :: string
  name_did :: string

definition notificationNamesFor :: "MPChangeType \<Rightarrow> string \<Rightarrow> notification_names" where
  "notificationNamesFor changeType closestModelClassName =
     (let changeTypeStr = managedObjectChangeTypeStrings changeType;
          unprefixed = removingMPPrefix closestModelClassName
      in \<lparr>name_has = ''has'' @ stringByTranslatingPresentToPastTense changeTypeStr @ unprefixed,
          name_did = ''did'' @ changeTypeStr @ unprefixed\<rparr>)"

definition hasSuffix :: "string \<Rightarrow> string \<Rightarrow> bool" where
  "hasSuffix s x \<longleftrightarrow> hasPrefix (rev s) (rev x)"

text \<open>The class whose controller is closest, with the assertions the loop body makes about it.\<close>

definition closestModelClass ::
  "runtime \<Rightarrow> known_classes \<Rightarrow> (string \<rightharpoonup> cls) option \<Rightarrow> cls \<Rightarrow>
   exn + cls \<times> (string \<rightharpoonup> cls) option" where
  "closestModelClass rt kc static subclass =
     bindExn (controllerClassForManagedObjectClass rt kc static subclass)
       (\<lambda>(mocClass, static').
         bindExn (MPAssertNotNil mocClass ''closestControllerClass'')
           (\<lambda>mc. bindExn (managedObjectClass rt kc mc)
             (\<lambda>m. bindExn (MPAssertNotNil m ''closestModelClass'')
               (\<lambda>model. if model \<noteq> class_MPManagedObject kc \<and> isSubclassOfClass subclass model
                  then Inr (model, static')
                  else throw (NSInternalInconsistencyException ''closestModelClass'')))))"

fun namesForClasses ::
  "runtime \<Rightarrow> known_classes \<Rightarrow> MPChangeType \<Rightarrow> cls list \<Rightarrow> (string \<rightharpoonup> notification_names) \<Rightarrow>
   (string \<rightharpoonup> cls) option \<Rightarrow> exn + (string \<rightharpoonup> notification_names) \<times> (string \<rightharpoonup> cls) option" where
  "namesForClasses rt kc changeType [] names static = Inr (names, static)"
| "namesForClasses rt kc changeType (subclass # rest) names static =
     (if hasSuffix (class_name subclass) ''Mixin''
      then namesForClasses rt kc changeType rest names static
      else
        bindExn (closestModelClass rt kc static subclass)
          (\<lambda>(model, static').
            namesForClasses rt kc changeType rest
              (names(class_name subclass \<mapsto> notificationNamesFor changeType (class_name model)))
              static'))"

fun namesForTypes ::
  "runtime \<Rightarrow> known_classes \<Rightarrow> MPChangeType list \<Rightarrow> (MPChangeType \<rightharpoonup> (string \<rightharpoonup> notification_names)) \<Rightarrow>
   (string \<rightharpoonup> cls) option \<Rightarrow>
   exn + (MPChangeType \<rightharpoonup> (string \<rightharpoonup> notification_names)) \<times> (string \<rightharpoonup> cls) option" where
  "namesForTypes rt kc [] d static = Inr (d, static)"
| "namesForTypes rt kc (changeType # rest) d static =
     bindExn (namesForClasses rt kc changeType (managedObjectClasses rt kc) Map.empty static)
       (\<lambda>(names, static'). namesForTypes rt kc rest (d(changeType \<mapsto> names)) static')"

definition managedObjectNotificationNameDictionary ::
  "runtime \<Rightarrow> known_classes \<Rightarrow> exn + (MPChangeType \<rightharpoonup> (string \<rightharpoonup> notification_names))" where
  "managedObjectNotificationNameDictionary rt kc =
     bindExn (namesForTypes rt kc managedObjectChangeTypes Map.empty None) (\<lambda>(d, static). Inr d)"

definition lookupNames ::
  "(MPChangeType \<rightharpoonup> (string \<rightharpoonup> notification_names)) \<Rightarrow> MPChangeType \<Rightarrow> string \<Rightarrow>
   notification_names option" where
  "lookupNames d changeType n = (case d changeType of None \<Rightarrow> None | Some names \<Rightarrow> names n)"

definition notificationNameForRecentChangeOfType ::
  "known_classes \<Rightarrow> (MPChangeType \<rightharpoonup> (string \<rightharpoonup> notification_names)) \<Rightarrow> MPChangeType \<Rightarrow> cls \<Rightarrow> exn + string" where
  "notificationNameForRecentChangeOfType kc d changeType moClass =
     (if \<not> isManagedObjectClass kc moClass \<or> moClass = class_MPManagedObject kc
      then throw (NSInternalInconsistencyException ''moClass'')
      else MPAssertNotNil (map_option name_has (lookupNames d changeType (class_name moClass)))
             ''notificationName'')"

definition notificationNameForPastChangeOfType ::
  "known_classes \<Rightarrow> (MPChangeType \<rightharpoonup> (string \<rightharpoonup> notification_names)) \<Rightarrow> MPChangeType \<Rightarrow> cls \<Rightarrow> exn + string" where
  "notificationNameForPastChangeOfType kc d changeType moClass =
     (if \<not> isManagedObjectClass kc moClass \<or> moClass = class_MPManagedObject kc
      then throw (NSInternalInconsistencyException ''moClass'')
      else MPAssertNotNil (map_option name_did (lookupNames d changeType (class_name moClass)))
             ''notificationName'')"

fun notificationNameForReplicationEventType :: "MPReplicationEventType \<Rightarrow> exn + string" where
  "notificationNameForReplicationEventType MPReplicationEventTypePersistentPullComplete =
     Inr ''MPReplicationPersistentPullComplete''"
| "notificationNameForReplicationEventType MPReplicationEventTypePersistentPushComplete =
     Inr ''MPReplicationPersistentPushComplete''"
| "notificationNameForReplicationEventType e = throw (NSInternalInconsistencyException ''false'')"


section \<open>The notification center\<close>

record observation =
  observer_address :: nat
  observer_selector :: string
  observed_name :: string
  observed_object :: "nat option"

record delivery =
  delivered_to :: nat
  delivered_selector :: string
  delivered_object :: nat
  delivered_source :: "MPManagedObjectChangeSource option"
  delivered_userInfo :: "dict option"

record notification_center =
  observations :: "observation list"
  deliveries :: "delivery list"
  errorDeliveries :: "(nat \<times> ns_error) list"
  addedMethods :: "(nat \<times> string) list"

text \<open>An observer without an object observes the name for all objects.\<close>

definition addObserverForObject ::
  "nat \<Rightarrow> string \<Rightarrow> string \<Rightarrow> nat option \<Rightarrow> notification_center \<Rightarrow> notification_center" where
  "addObserverForObject observer selector name obj nc =
     nc\<lparr>observations := observations nc @
       [\<lparr>observer_address = observer, observer_selector = selector, observed_name = name, observed_object = obj\<rparr>]\<rparr>"

definition addObserver :: "nat \<Rightarrow> string \<Rightarrow> string \<Rightarrow> notification_center \<Rightarrow> notification_center" where
  "addObserver observer selector name nc = addObserverForObject observer selector name None nc"

definition observes :: "string \<Rightarrow> nat \<Rightarrow> observation \<Rightarrow> bool" where
  "observes name obj ob \<longleftrightarrow>
     observed_name ob = name \<and> (case observed_object ob of None \<Rightarrow> True | Some x \<Rightarrow> x = obj)"

definition removeObserver :: "nat \<Rightarrow> notification_center \<Rightarrow> notification_center" where
  "removeObserver observer nc =
     nc\<lparr>observations := filter (\<lambda>ob. observer_address ob \<noteq> observer) (observations nc)\<rparr>"

definition postNotification ::
  "string \<Rightarrow> nat \<Rightarrow> MPManagedObjectChangeSource option \<Rightarrow> dict option \<Rightarrow> notification_center \<Rightarrow> notification_center" where
  "postNotification name obj source userInfo nc =
     nc\<lparr>deliveries := deliveries nc @
       map (\<lambda>ob. \<lparr>delivered_to = observer_address ob, delivered_selector = observer_selector ob,
                  delivered_object = obj, delivered_source = source, delivered_userInfo = userInfo\<rparr>)
         (filter (observes name obj) (observations nc))\<rparr>"

definition postNotificationName ::
  "string \<Rightarrow> nat \<Rightarrow> MPManagedObjectChangeSource option \<Rightarrow> notification_center \<Rightarrow> notification_center" where
  "postNotificationName name obj source nc = postNotification name obj source None nc"

text \<open>Errors are posted under a name of their own, with the error as the object.\<close>

definition addErrorObserver :: "nat \<Rightarrow> notification_center \<Rightarrow> notification_center" where
  "addErrorObserver errorObserver nc = addObserver errorObserver ''errorDidOccur:'' ''MPErrorNotification'' nc"

definition postErrorNotification :: "ns_error option \<Rightarrow> notification_center \<Rightarrow> exn + notification_center" where
  "postErrorNotification error nc =
     (case error of
        None \<Rightarrow> throw (NSInternalInconsistencyException ''Attempting to post a nil error notification.'')
      | Some e \<Rightarrow>
          Inr (nc\<lparr>errorDeliveries := errorDeliveries nc @
            map (\<lambda>ob. (observer_address ob, e))
              (filter (\<lambda>ob. observed_name ob = ''MPErrorNotification'') (observations nc))\<rparr>))"

text \<open>
  \<open>addRecentChangeObserver:\<close> and \<open>addPastChangeObserver:\<close> observe the three changes of a
  class with the notification name as the selector, and add a method for that
  selector to the observer's class when it does not respond to it.  A block is
  given by its presence.
\<close>

definition observeChange ::
  "(nat \<Rightarrow> string \<Rightarrow> bool) \<Rightarrow> bool \<Rightarrow> nat \<Rightarrow> string \<Rightarrow> notification_center \<Rightarrow> notification_center" where
  "observeChange responds addsMethod observer name nc =
     (let selector = name @ '':''; nc' = addObserver observer selector name nc
      in if \<not> responds observer selector \<and> addsMethod
         then nc'\<lparr>addedMethods := addedMethods nc' @ [(observer, selector)]\<rparr>
         else nc')"

fun observeChanges ::
  "(MPChangeType \<Rightarrow> exn + string) \<Rightarrow> (nat \<Rightarrow> string \<Rightarrow> bool) \<Rightarrow> (MPChangeType \<Rightarrow> bool) \<Rightarrow> nat \<Rightarrow>
   MPChangeType list \<Rightarrow> notification_center \<Rightarrow> exn + notification_center" where
  "observeChanges name responds addsMethod observer [] nc = Inr nc"
| "observeChanges name responds addsMethod observer (changeType # rest) nc =
     bindExn (name changeType)
       (\<lambda>n. observeChanges name responds addsMethod observer rest
         (observeChange responds (addsMethod changeType) observer n nc))"

definition addRecentChangeObserver ::
  "known_classes \<Rightarrow> (MPChangeType \<rightharpoonup> (string \<rightharpoonup> notification_names)) \<Rightarrow> (nat \<Rightarrow> string \<Rightarrow> bool) \<Rightarrow>
   nat \<Rightarrow> cls \<Rightarrow> notification_center \<Rightarrow> exn + notification_center" where
  "addRecentChangeObserver kc d responds observer moClass nc =
     observeChanges (\<lambda>t. notificationNameForRecentChangeOfType kc d t moClass)
       responds (\<lambda>t. True) observer managedObjectChangeTypes nc"

definition addPastChangeObserver ::
  "known_classes \<Rightarrow> (MPChangeType \<rightharpoonup> (string \<rightharpoonup> notification_names)) \<Rightarrow> (nat \<Rightarrow> string \<Rightarrow> bool) \<Rightarrow>
   (MPChangeType \<Rightarrow> bool) \<Rightarrow> nat \<Rightarrow> cls \<Rightarrow> notification_center \<Rightarrow> exn + notification_center" where
  "addPastChangeObserver kc d responds hasBlock observer moClass nc =
     observeChanges (\<lambda>t. notificationNameForPastChangeOfType kc d t moClass)
       responds hasBlock observer managedObjectChangeTypes nc"

definition addObjectSelectionChangeObserver :: "nat \<Rightarrow> notification_center \<Rightarrow> notification_center" where
  "addObjectSelectionChangeObserver observer nc =
     addObserver observer ''didChangeMasterSelectionToMultipleObjects:'' ''MPNotificationNameMultipleMasterSelection''
       (addObserver observer ''didChangeMasterSelectionToSingleObject:'' ''MPNotificationNameSingleMasterSelection''
         (addObserver observer ''didChangeDetailSelectionToMultipleObjects:'' ''MPNotificationNameMultipleDetailSelection''
           (addObserver observer ''didChangeDetailSelectionToSingleObject:'' ''MPNotificationNameSingleDetailSelection'' nc)))"

definition postNotificationForChangingMasterSelectionToSingleObject ::
  "nat \<Rightarrow> dict option \<Rightarrow> notification_center \<Rightarrow> notification_center" where
  "postNotificationForChangingMasterSelectionToSingleObject obj userInfo nc =
     postNotification ''MPNotificationNameSingleMasterSelection'' obj None userInfo nc"

definition postNotificationForChangingDetailSelectionToSingleObject ::
  "nat \<Rightarrow> dict option \<Rightarrow> notification_center \<Rightarrow> notification_center" where
  "postNotificationForChangingDetailSelectionToSingleObject obj userInfo nc =
     postNotification ''MPNotificationNameSingleDetailSelection'' obj None userInfo nc"

definition postNotificationForChangingMasterSelectionToMultipleObjects ::
  "nat \<Rightarrow> dict option \<Rightarrow> notification_center \<Rightarrow> notification_center" where
  "postNotificationForChangingMasterSelectionToMultipleObjects objs userInfo nc =
     postNotification ''MPNotificationNameMultipleMasterSelection'' objs None userInfo nc"

definition postNotificationForChangingDetailSelectionToMultipleObjects ::
  "nat \<Rightarrow> dict option \<Rightarrow> notification_center \<Rightarrow> notification_center" where
  "postNotificationForChangingDetailSelectionToMultipleObjects objs userInfo nc =
     postNotification ''MPNotificationNameMultipleDetailSelection'' objs None userInfo nc"

definition addReplicationObserver :: "nat \<Rightarrow> nat \<Rightarrow> notification_center \<Rightarrow> exn + notification_center" where
  "addReplicationObserver observer db nc =
     bindExn (notificationNameForReplicationEventType MPReplicationEventTypePersistentPullComplete)
       (\<lambda>pull. bindExn (notificationNameForReplicationEventType MPReplicationEventTypePersistentPushComplete)
         (\<lambda>push. Inr
           (addObserverForObject observer ''didCompletePersistentPullReplication:'' push (Some db)
             (addObserverForObject observer ''didCompletePersistentPullReplication:'' pull (Some db) nc))))"

definition addManagedObjectSharingObserver :: "nat \<Rightarrow> notification_center \<Rightarrow> notification_center" where
  "addManagedObjectSharingObserver observer nc =
     addObserver observer ''didShareManagedObject:'' ''MPNotificationNameManagedObjectShared'' nc"

definition postNotificationForSharingManagedObject :: "nat \<Rightarrow> notification_center \<Rightarrow> notification_center" where
  "postNotificationForSharingManagedObject obj nc =
     postNotificationName ''MPNotificationNameManagedObjectShared'' obj None nc"


section \<open>Names identify the change and the managed class\<close>

lemma notificationNames_inject:
  "name_has (notificationNamesFor t x) = name_has (notificationNamesFor t' y) \<longleftrightarrow>
     t = t' \<and> removingMPPrefix x = removingMPPrefix y"
  "name_did (notificationNamesFor t x) = name_did (notificationNamesFor t' y) \<longleftrightarrow>
     t = t' \<and> removingMPPrefix x = removingMPPrefix y"
  by (cases t; cases t';
      simp add: notificationNamesFor_def Let_def stringByTranslatingPresentToPastTense_def)+

lemma notificationNames_has_did:
  "name_has (notificationNamesFor t x) \<noteq> name_did (notificationNamesFor t' y)"
  by (simp add: notificationNamesFor_def Let_def)

lemma closestModelClass_Inr:
  "closestModelClass rt kc static c = Inr (model, static') \<Longrightarrow>
   model \<noteq> class_MPManagedObject kc \<and> isSubclassOfClass c model"
  by (auto simp: closestModelClass_def bindExn_Inr split: if_splits)

definition namesEntry :: "known_classes \<Rightarrow> MPChangeType \<Rightarrow> (string \<rightharpoonup> notification_names) \<Rightarrow> cls \<Rightarrow> bool" where
  "namesEntry kc t names c \<longleftrightarrow>
     (\<exists>model. model \<noteq> class_MPManagedObject kc \<and> isSubclassOfClass c model \<and>
        names (class_name c) = Some (notificationNamesFor t (class_name model)))"

lemma namesForClasses_entries:
  "namesForClasses rt kc t cs names static = Inr (names', static') \<Longrightarrow> distinct (map class_name cs) \<Longrightarrow>
   (\<forall>c \<in> set cs. \<not> hasSuffix (class_name c) ''Mixin'' \<longrightarrow> namesEntry kc t names' c) \<and>
   (\<forall>n. n \<notin> class_name ` set cs \<longrightarrow> names' n = names n)"
proof (induction rt kc t cs names static rule: namesForClasses.induct)
  case (2 rt kc t c cs names static)
  show ?case
  proof (cases "hasSuffix (class_name c) ''Mixin''")
    case True
    then show ?thesis using 2 by simp
  next
    case False
    then obtain model s1 where m: "closestModelClass rt kc static c = Inr (model, s1)"
      and rec: "namesForClasses rt kc t cs
        (names(class_name c \<mapsto> notificationNamesFor t (class_name model))) s1 = Inr (names', static')"
      using 2(3) by (auto simp: bindExn_Inr)
    have IH: "(\<forall>c' \<in> set cs. \<not> hasSuffix (class_name c') ''Mixin'' \<longrightarrow> namesEntry kc t names' c') \<and>
        (\<forall>n. n \<notin> class_name ` set cs \<longrightarrow>
           names' n = (names(class_name c \<mapsto> notificationNamesFor t (class_name model))) n)"
      using 2(2) [OF False rec] 2(4) by simp
    moreover have "names' (class_name c) = Some (notificationNamesFor t (class_name model))"
      using IH 2(4) by simp
    ultimately show ?thesis
      using closestModelClass_Inr [OF m] by (auto simp: namesEntry_def)
  qed
qed simp

lemma namesForTypes_entries:
  assumes "distinct (map class_name (managedObjectClasses rt kc))"
  shows "namesForTypes rt kc ts d static = Inr (d', static') \<Longrightarrow> distinct ts \<Longrightarrow>
   (\<forall>t \<in> set ts. \<exists>names. d' t = Some names \<and>
      (\<forall>c \<in> set (managedObjectClasses rt kc). \<not> hasSuffix (class_name c) ''Mixin'' \<longrightarrow>
         namesEntry kc t names c)) \<and>
   (\<forall>t. t \<notin> set ts \<longrightarrow> d' t = d t)"
proof (induction ts arbitrary: d static)
  case (Cons t ts)
  then obtain names s1
    where n: "namesForClasses rt kc t (managedObjectClasses rt kc) Map.empty static = Inr (names, s1)"
      and rec: "namesForTypes rt kc ts (d(t \<mapsto> names)) s1 = Inr (d', static')"
    by (auto simp: bindExn_Inr)
  have "\<forall>c \<in> set (managedObjectClasses rt kc). \<not> hasSuffix (class_name c) ''Mixin'' \<longrightarrow>
      namesEntry kc t names c"
    using namesForClasses_entries [OF n assms] by blast
  then show ?case
    using Cons.IH [OF rec] Cons.prems(2) by auto
qed simp

lemma dictionary_entries:
  assumes "managedObjectNotificationNameDictionary rt kc = Inr d"
    and "distinct (map class_name (managedObjectClasses rt kc))"
    and "c \<in> set (managedObjectClasses rt kc)" "\<not> hasSuffix (class_name c) ''Mixin''"
  obtains model where "model \<noteq> class_MPManagedObject kc" "isSubclassOfClass c model"
    "lookupNames d t (class_name c) = Some (notificationNamesFor t (class_name model))"
proof -
  obtain static where "namesForTypes rt kc managedObjectChangeTypes Map.empty None = Inr (d, static)"
    using assms(1) by (auto simp: managedObjectNotificationNameDictionary_def bindExn_Inr)
  moreover have "distinct managedObjectChangeTypes" "t \<in> set managedObjectChangeTypes"
    by (cases t; simp add: managedObjectChangeTypes_def)+
  ultimately obtain names where "d t = Some names" "namesEntry kc t names c"
    using namesForTypes_entries [OF assms(2)] assms(3,4) by blast
  then show ?thesis
    using that by (auto simp: namesEntry_def lookupNames_def)
qed


section \<open>Delivery\<close>

lemma observeChanges_observations:
  "observeChanges name responds adds ob ts nc = Inr nc' \<Longrightarrow>
   \<exists>ns. list_all2 (\<lambda>t n. name t = Inr n) ts ns \<and>
     observations nc' = observations nc @
       map (\<lambda>n. \<lparr>observer_address = ob, observer_selector = n @ '':'', observed_name = n, observed_object = None\<rparr>) ns \<and>
     deliveries nc' = deliveries nc"
proof (induction ts arbitrary: nc)
  case (Cons t ts)
  then obtain n where n: "name t = Inr n"
    and rec: "observeChanges name responds adds ob ts (observeChange responds (adds t) ob n nc) = Inr nc'"
    by (auto simp: bindExn_Inr)
  have "observations (observeChange responds (adds t) ob n nc) = observations nc @
      [\<lparr>observer_address = ob, observer_selector = n @ '':'', observed_name = n, observed_object = None\<rparr>]"
    "deliveries (observeChange responds (adds t) ob n nc) = deliveries nc"
    by (simp_all add: observeChange_def addObserver_def addObserverForObject_def Let_def)
  moreover obtain ns where "list_all2 (\<lambda>t n. name t = Inr n) ts ns"
    "observations nc' = observations (observeChange responds (adds t) ob n nc) @
       map (\<lambda>n. \<lparr>observer_address = ob, observer_selector = n @ '':'', observed_name = n, observed_object = None\<rparr>) ns"
    "deliveries nc' = deliveries (observeChange responds (adds t) ob n nc)"
    using Cons.IH [OF rec] by blast
  ultimately show ?case
    using n by (intro exI [of _ "n # ns"]) simp
qed simp

lemma postNotificationName_delivers:
  "\<lparr>observer_address = ob, observer_selector = sel, observed_name = n, observed_object = None\<rparr> \<in> set (observations nc) \<Longrightarrow>
   \<lparr>delivered_to = ob, delivered_selector = sel, delivered_object = x, delivered_source = src,
     delivered_userInfo = None\<rparr>
     \<in> set (deliveries (postNotificationName n x src nc))"
  by (force simp: postNotificationName_def postNotification_def observes_def)

end
