(* ===== verification/World.thy ===== *)
theory World
  imports Notifications
begin

text \<open>
  The object graph the model layer works on.  Managed objects, embedded objects,
  managed-objects controllers and package controllers live at addresses; a
  pointer in the code is an address here, so that the identity tests of the code
  are comparisons of addresses.  Couchbase Lite is not part of the repository: its
  state is the abstract component \<open>cbl\<close>, and the record \<open>cbl_ops\<close> holds the
  operations of \<open>CBLModel\<close>, \<open>CBLDocument\<close> and \<open>CBLDatabase\<close> that the code calls.
\<close>


section \<open>Objects\<close>

text \<open>The instance variables of \<open>MPManagedObject\<close>; the properties kept by \<open>CBLModel\<close> are in \<open>cbl\<close>.\<close>

record managed_object =
  mo_class :: cls
  mo_controller :: "nat option"
  mo_newDocumentID :: "string option"
  mo_cloudKitChangeTag :: "string option"
  mo_cachedCloudKitChangeTag :: "val option"
  mo_isNewObject :: bool
  mo_embeddedObjectCache :: "(string \<rightharpoonup> nat) option"
  mo_deletedDocumentID :: "string option"

text \<open>An object that embeds others is a managed object or an embedded object.\<close>

datatype embedding_ref = EmbeddingManaged nat | EmbeddingEmbedded nat

record embedded_object =
  eo_class :: cls
  eo_embeddingObject :: "embedding_ref option"
  eo_embeddingKey :: "string option"
  eo_properties :: dict
  eo_needsSave :: bool
  eo_embeddedObjectCache :: "string \<rightharpoonup> nat"

record objects_controller =
  moc_class :: cls
  moc_managedObjectClass :: cls
  moc_package :: nat
  moc_database :: "nat option"
  moc_objectCache :: "string \<rightharpoonup> nat"
  moc_cachedValues :: "string \<rightharpoonup> val"
  moc_relaysFetchingByIdentifier :: bool
  moc_autosavesObjects :: bool

record package_controller = controller_table +
  pkg_notificationCenter :: notification_center
  pkg_delegateCountsChanges :: bool
  pkg_changeCount :: nat

record 'db world =
  objects :: "nat \<rightharpoonup> managed_object"
  embeddedObjects :: "nat \<rightharpoonup> embedded_object"
  controllers :: "nat \<rightharpoonup> objects_controller"
  packages :: "nat \<rightharpoonup> package_controller"
  sharedShoebox :: "nat option"
  cbl :: 'db


section \<open>Couchbase Lite\<close>

record revision =
  revisionID :: string
  revision_properties :: dict
  revision_isDeletion :: bool

record cbl_document =
  document_modelObject :: "nat option"
  document_isDeleted :: bool
  document_objectType :: "string option"
  document_currentRevision :: "revision option"

text \<open>
  Addresses name models, natural numbers name databases.  An operation that fails
  with an \<open>NSError **\<close> argument returns the error, which may be nil.
\<close>

record 'db cbl_ops =
  modelDocumentID :: "'db \<Rightarrow> nat \<Rightarrow> string option"
  modelDocumentIsDeleted :: "'db \<Rightarrow> nat \<Rightarrow> bool"
  modelHasRevision :: "'db \<Rightarrow> nat \<Rightarrow> bool"
  modelGetValue :: "'db \<Rightarrow> nat \<Rightarrow> string \<Rightarrow> val option"
  modelUnsavedValue :: "'db \<Rightarrow> nat \<Rightarrow> string \<Rightarrow> val option"
  modelDocumentProperty :: "'db \<Rightarrow> nat \<Rightarrow> string \<Rightarrow> val option"
  modelSetValue :: "'db \<Rightarrow> nat \<Rightarrow> val option \<Rightarrow> string \<Rightarrow> 'db"
  modelCacheValue :: "'db \<Rightarrow> nat \<Rightarrow> val option \<Rightarrow> string \<Rightarrow> bool \<Rightarrow> 'db"
  modelNeedsSave :: "'db \<Rightarrow> nat \<Rightarrow> bool"
  modelMarkNeedsSave :: "'db \<Rightarrow> nat \<Rightarrow> 'db"
  modelMarkPropertyNeedsSave :: "'db \<Rightarrow> nat \<Rightarrow> string \<Rightarrow> 'db"
  modelHasPendingChanges :: "'db \<Rightarrow> nat \<Rightarrow> bool"
  modelPropertiesToSave :: "'db \<Rightarrow> nat \<Rightarrow> dict"
  modelSave :: "'db \<Rightarrow> nat \<Rightarrow> ns_error option + 'db"
  modelSaveModels :: "'db \<Rightarrow> nat list \<Rightarrow> ns_error option + 'db"
  modelDelete :: "'db \<Rightarrow> nat \<Rightarrow> ns_error option + 'db"
  modelNewDocument :: "'db \<Rightarrow> nat \<Rightarrow> nat \<Rightarrow> string \<Rightarrow> 'db"
  modelSetDocument :: "'db \<Rightarrow> nat \<Rightarrow> nat \<Rightarrow> string \<Rightarrow> 'db"
  modelSetAutosaves :: "'db \<Rightarrow> nat \<Rightarrow> bool \<Rightarrow> 'db"
  modelUserPropertyKeys :: "'db \<Rightarrow> nat \<Rightarrow> string list"
  modelAttachmentNames :: "'db \<Rightarrow> nat \<Rightarrow> string list option"
  modelAttachment :: "'db \<Rightarrow> nat \<Rightarrow> string \<Rightarrow> (string \<times> string) option"
  modelSetAttachment :: "'db \<Rightarrow> nat \<Rightarrow> string \<Rightarrow> string \<Rightarrow> string \<Rightarrow> 'db"
  modelRemoveAttachment :: "'db \<Rightarrow> nat \<Rightarrow> string \<Rightarrow> 'db"
  existingDocumentWithID :: "'db \<Rightarrow> nat \<Rightarrow> string \<Rightarrow> cbl_document option"
  conflictingRevisions :: "'db \<Rightarrow> nat \<Rightarrow> ns_error option + revision list"
  deleteRevision :: "'db \<Rightarrow> nat \<Rightarrow> string \<Rightarrow> ns_error option + 'db"
  createRevision :: "'db \<Rightarrow> nat \<Rightarrow> string \<Rightarrow> dict \<Rightarrow> ns_error option + 'db"
  revIDPrecedes :: "string \<Rightarrow> string \<Rightarrow> bool"


section \<open>Reading and writing the graph\<close>

text \<open>A C \<open>assert\<close> that fails ends the call like an assertion exception.\<close>

definition assertThat :: "bool \<Rightarrow> string \<Rightarrow> exn + unit" where
  "assertThat b what = (if b then Inr () else throw (NSInternalInconsistencyException what))"

definition getObject :: "nat \<Rightarrow> 'db world \<Rightarrow> exn + managed_object" where
  "getObject a w = MPAssertNotNil (objects w a) ''object''"

definition getEmbedded :: "nat \<Rightarrow> 'db world \<Rightarrow> exn + embedded_object" where
  "getEmbedded e w = MPAssertNotNil (embeddedObjects w e) ''embedded object''"

definition getController :: "nat \<Rightarrow> 'db world \<Rightarrow> exn + objects_controller" where
  "getController m w = MPAssertNotNil (controllers w m) ''controller''"

definition getPackage :: "nat \<Rightarrow> 'db world \<Rightarrow> exn + package_controller" where
  "getPackage p w = MPAssertNotNil (packages w p) ''packageController''"

definition putObject :: "nat \<Rightarrow> managed_object \<Rightarrow> 'db world \<Rightarrow> 'db world" where
  "putObject a mo w = w\<lparr>objects := (objects w)(a \<mapsto> mo)\<rparr>"

definition putEmbedded :: "nat \<Rightarrow> embedded_object \<Rightarrow> 'db world \<Rightarrow> 'db world" where
  "putEmbedded a eo w = w\<lparr>embeddedObjects := (embeddedObjects w)(a \<mapsto> eo)\<rparr>"

definition putController :: "nat \<Rightarrow> objects_controller \<Rightarrow> 'db world \<Rightarrow> 'db world" where
  "putController m moc w = w\<lparr>controllers := (controllers w)(m \<mapsto> moc)\<rparr>"

definition putPackage :: "nat \<Rightarrow> package_controller \<Rightarrow> 'db world \<Rightarrow> 'db world" where
  "putPackage p pkg w = w\<lparr>packages := (packages w)(p \<mapsto> pkg)\<rparr>"

definition putCbl :: "'db \<Rightarrow> 'db world \<Rightarrow> 'db world" where
  "putCbl db w = w\<lparr>cbl := db\<rparr>"


section \<open>Field lemmas\<close>

lemma assertThat_Inr [simp]: "assertThat b what = Inr u \<longleftrightarrow> b"
  by (simp add: assertThat_def throw_def)

lemma assertThat_bind [simp]:
  "bindExn (assertThat b what) f = (if b then f () else Inl (NSInternalInconsistencyException what))"
  by (simp add: assertThat_def throw_def)

lemma get_Inr [simp]:
  "getObject a w = Inr mo \<longleftrightarrow> objects w a = Some mo"
  "getEmbedded e w = Inr eo \<longleftrightarrow> embeddedObjects w e = Some eo"
  "getController m w = Inr moc \<longleftrightarrow> controllers w m = Some moc"
  "getPackage p w = Inr pkg \<longleftrightarrow> packages w p = Some pkg"
  by (simp_all add: getObject_def getEmbedded_def getController_def getPackage_def)

lemma put_fields [simp]:
  "objects (putObject a mo w) = (objects w)(a \<mapsto> mo)"
  "embeddedObjects (putObject a mo w) = embeddedObjects w"
  "controllers (putObject a mo w) = controllers w"
  "packages (putObject a mo w) = packages w"
  "cbl (putObject a mo w) = cbl w"
  "sharedShoebox (putObject a mo w) = sharedShoebox w"
  "objects (putController m moc w) = objects w"
  "embeddedObjects (putController m moc w) = embeddedObjects w"
  "controllers (putController m moc w) = (controllers w)(m \<mapsto> moc)"
  "packages (putController m moc w) = packages w"
  "cbl (putController m moc w) = cbl w"
  "sharedShoebox (putController m moc w) = sharedShoebox w"
  "objects (putPackage p pkg w) = objects w"
  "embeddedObjects (putPackage p pkg w) = embeddedObjects w"
  "controllers (putPackage p pkg w) = controllers w"
  "packages (putPackage p pkg w) = (packages w)(p \<mapsto> pkg)"
  "cbl (putPackage p pkg w) = cbl w"
  "sharedShoebox (putPackage p pkg w) = sharedShoebox w"
  "objects (putCbl db w) = objects w"
  "embeddedObjects (putCbl db w) = embeddedObjects w"
  "controllers (putCbl db w) = controllers w"
  "packages (putCbl db w) = packages w"
  "cbl (putCbl db w) = db"
  "sharedShoebox (putCbl db w) = sharedShoebox w"
  "objects (putEmbedded e eo w) = objects w"
  "embeddedObjects (putEmbedded e eo w) = (embeddedObjects w)(e \<mapsto> eo)"
  "controllers (putEmbedded e eo w) = controllers w"
  "packages (putEmbedded e eo w) = packages w"
  "cbl (putEmbedded e eo w) = cbl w"
  "sharedShoebox (putEmbedded e eo w) = sharedShoebox w"
  by (simp_all add: putObject_def putController_def putPackage_def putCbl_def putEmbedded_def)


section \<open>Identity maps\<close>

text \<open>
  Objects are made unique by caches that map an identifier to the object at an
  address: a controller's cache of its managed objects, and the caches of embedded
  objects in managed and in embedded objects.  The contract: adding an object makes
  a lookup by its key return that very object, dropping it makes the lookup return
  something else, other keys are untouched and keys do not change.
\<close>

fun addAll :: "('v \<Rightarrow> 's \<Rightarrow> exn + 's) \<Rightarrow> 'v list \<Rightarrow> 's \<Rightarrow> exn + 's" where
  "addAll add [] s = Inr s"
| "addAll add (v # vs) s = bindExn (add v s) (\<lambda>s'. addAll add vs s')"

locale identity_map =
  fixes lookup :: "'s \<Rightarrow> 'k \<Rightarrow> 'v option"
    and key :: "'s \<Rightarrow> 'v \<Rightarrow> 'k option"
    and add :: "'v \<Rightarrow> 's \<Rightarrow> exn + 's"
    and drop :: "'v \<Rightarrow> 's \<Rightarrow> exn + 's"
  assumes add_lookup: "add v s = Inr s' \<Longrightarrow> \<exists>k. key s v = Some k \<and> lookup s' k = Some v"
    and add_frame: "add v s = Inr s' \<Longrightarrow> key s v \<noteq> Some k \<Longrightarrow> lookup s' k = lookup s k"
    and add_key: "add v s = Inr s' \<Longrightarrow> key s' u = key s u"
    and drop_lookup: "drop v s = Inr s' \<Longrightarrow> key s v = Some k \<Longrightarrow> lookup s' k \<noteq> Some v"
    and drop_frame: "drop v s = Inr s' \<Longrightarrow> key s v \<noteq> Some k \<Longrightarrow> lookup s' k = lookup s k"
begin

lemma addAll_key: "addAll add vs s = Inr s' \<Longrightarrow> key s' u = key s u"
  by (induction vs arbitrary: s) (auto simp: bindExn_Inr dest: add_key)

lemma addAll_frame:
  "addAll add vs s = Inr s' \<Longrightarrow> Some k \<notin> key s ` set vs \<Longrightarrow> lookup s' k = lookup s k"
proof (induction vs arbitrary: s)
  case (Cons v vs)
  then obtain s1 where s1: "add v s = Inr s1" "addAll add vs s1 = Inr s'"
    by (auto simp: bindExn_Inr)
  have "key s1 = key s" using add_key [OF s1(1)] by blast
  then show ?case
    using Cons.IH [OF s1(2)] Cons.prems(2) add_frame [OF s1(1), of k] by auto
qed simp

lemma addAll_found:
  "addAll add vs s = Inr s' \<Longrightarrow> distinct (map (key s) vs) \<Longrightarrow> v \<in> set vs \<Longrightarrow>
   \<exists>k. key s v = Some k \<and> lookup s' k = Some v"
proof (induction vs arbitrary: s)
  case (Cons x vs)
  then obtain s1 where s1: "add x s = Inr s1" "addAll add vs s1 = Inr s'"
    by (auto simp: bindExn_Inr)
  have keys: "key s1 = key s" using add_key [OF s1(1)] by blast
  show ?case
  proof (cases "v = x")
    case True
    obtain k where k: "key s x = Some k" "lookup s1 k = Some x"
      using add_lookup [OF s1(1)] by blast
    moreover have "Some k \<notin> key s1 ` set vs" using Cons.prems(2) k(1) keys by auto
    ultimately show ?thesis using addAll_frame [OF s1(2)] True by auto
  next
    case False
    then show ?thesis using Cons.IH [OF s1(2)] Cons.prems(2,3) keys by auto
  qed
qed simp

lemma add_drop:
  assumes "add v s = Inr s1" and "drop v s1 = Inr s2"
  shows "key s v = Some k \<Longrightarrow> lookup s2 k \<noteq> Some v"
    and "key s v \<noteq> Some k \<Longrightarrow> lookup s2 k = lookup s k"
  using assms add_frame [OF assms(1)] add_key [OF assms(1)] drop_lookup [OF assms(2)]
    drop_frame [OF assms(2)] by auto

end

end
