(* ===== verification/ObjectsController.thy ===== *)
theory ObjectsController
  imports World
begin

text \<open>
  The registry and the callbacks of \<open>MPManagedObjectsController\<close>: the cache of the
  managed objects by document identifier, the save, update, delete and load
  callbacks with the notifications they post, the choice of the surviving revision
  in a conflict, and the map functions of the views.
\<close>


section \<open>Change notifications\<close>

type_synonym name_dictionary = "MPChangeType \<rightharpoonup> (string \<rightharpoonup> notification_names)"

text \<open>The recent-change notification is posted before the past-change one.\<close>

definition postChange ::
  "known_classes \<Rightarrow> name_dictionary \<Rightarrow> MPChangeType \<Rightarrow> MPManagedObjectChangeSource option \<Rightarrow>
   nat \<Rightarrow> cls \<Rightarrow> package_controller \<Rightarrow> exn + package_controller" where
  "postChange kc d changeType source obj c pkg =
     bindExn (notificationNameForRecentChangeOfType kc d changeType c)
       (\<lambda>recentChange. bindExn (notificationNameForPastChangeOfType kc d changeType c)
         (\<lambda>pastChange. Inr (pkg\<lparr>pkg_notificationCenter :=
            postNotificationName pastChange obj source
              (postNotificationName recentChange obj source (pkg_notificationCenter pkg))\<rparr>)))"

text \<open>\<open>updateChangeCount:\<close> of the delegate, when it conforms and responds.\<close>

definition updateChangeCount :: "package_controller \<Rightarrow> package_controller" where
  "updateChangeCount pkg =
     (if pkg_delegateCountsChanges pkg then pkg\<lparr>pkg_changeCount := pkg_changeCount pkg + 1\<rparr> else pkg)"


section \<open>The object cache\<close>

definition registerObject :: "'db cbl_ops \<Rightarrow> nat \<Rightarrow> nat \<Rightarrow> 'db world \<Rightarrow> exn + 'db world" where
  "registerObject ops self mo w =
     bindExn (getController self w) (\<lambda>moc. bindExn (getObject mo w) (\<lambda>obj.
       bindExn (assertThat (isSubclassOfClass (mo_class obj) (moc_managedObjectClass moc)) ''mo isKindOfClass'') (\<lambda>_.
       bindExn (MPAssertNotNil (modelDocumentID ops (cbl w) mo) ''mo.document.documentID'') (\<lambda>i.
         Inr (putController self
           (moc\<lparr>moc_objectCache := (moc_objectCache moc)(i \<mapsto> mo)\<rparr>) w)))))"

definition deregisterObject :: "'db cbl_ops \<Rightarrow> nat \<Rightarrow> nat \<Rightarrow> 'db world \<Rightarrow> exn + 'db world" where
  "deregisterObject ops self mo w =
     bindExn (getController self w) (\<lambda>moc. bindExn (getObject mo w) (\<lambda>obj.
       bindExn (assertThat (isSubclassOfClass (mo_class obj) (moc_managedObjectClass moc)) ''mo isKindOfClass'') (\<lambda>_.
         Inr (case modelDocumentID ops (cbl w) mo of
                None \<Rightarrow> w
              | Some i \<Rightarrow>
                  if moc_objectCache moc i = Some mo
                  then putController self (moc\<lparr>moc_objectCache := (moc_objectCache moc)(i := None)\<rparr>) w
                  else w))))"


section \<open>Callbacks of the managed objects\<close>

text \<open>The assertions that the callbacks share, with the objects they read.\<close>

definition callbackContext ::
  "bool \<Rightarrow> nat \<Rightarrow> nat \<Rightarrow> 'db world \<Rightarrow> exn + objects_controller \<times> managed_object \<times> package_controller" where
  "callbackContext checksKind self a w =
     bindExn (getController self w) (\<lambda>moc. bindExn (getObject a w) (\<lambda>obj.
       bindExn (assertThat (mo_controller obj = Some self) ''object.controller == self'') (\<lambda>_.
       bindExn (assertThat (checksKind \<longrightarrow> isSubclassOfClass (mo_class obj) (moc_managedObjectClass moc))
                  ''object isKindOfClass'') (\<lambda>_.
       bindExn (assertThat (moc_database moc \<noteq> None) ''self.db'') (\<lambda>_.
       bindExn (getPackage (moc_package moc) w) (\<lambda>pkg. Inr (moc, obj, pkg)))))))"

definition willSaveObject :: "nat \<Rightarrow> nat \<Rightarrow> 'db world \<Rightarrow> exn + 'db world" where
  "willSaveObject self a w =
     bindExn (getController self w) (\<lambda>moc. bindExn (getObject a w) (\<lambda>obj.
       bindExn (assertThat (mo_controller obj = Some self) ''object.controller == self'') (\<lambda>_.
       bindExn (assertThat (moc_database moc \<noteq> None) ''self.db'') (\<lambda>_. Inr w))))"

definition notifyChange ::
  "known_classes \<Rightarrow> name_dictionary \<Rightarrow> bool \<Rightarrow> MPChangeType \<Rightarrow> MPManagedObjectChangeSource option \<Rightarrow>
   nat \<Rightarrow> nat \<Rightarrow> 'db world \<Rightarrow> exn + 'db world" where
  "notifyChange kc d checksKind changeType source self a w =
     bindExn (callbackContext checksKind self a w) (\<lambda>(moc, obj, pkg).
       bindExn (postChange kc d changeType source a (mo_class obj) pkg) (\<lambda>pkg'.
         Inr (putPackage (moc_package moc) (updateChangeCount pkg') w)))"

definition didSaveObject ::
  "known_classes \<Rightarrow> name_dictionary \<Rightarrow> nat \<Rightarrow> nat \<Rightarrow> 'db world \<Rightarrow> exn + 'db world" where
  "didSaveObject kc d self a w =
     notifyChange kc d False MPChangeTypeAdd (Some MPManagedObjectChangeSourceInternal) self a w"

definition didUpdateObject ::
  "known_classes \<Rightarrow> name_dictionary \<Rightarrow> nat \<Rightarrow> nat \<Rightarrow> 'db world \<Rightarrow> exn + 'db world" where
  "didUpdateObject kc d self a w = notifyChange kc d True MPChangeTypeUpdate None self a w"

definition willDeleteObject :: "'db cbl_ops \<Rightarrow> nat \<Rightarrow> nat \<Rightarrow> 'db world \<Rightarrow> exn + 'db world" where
  "willDeleteObject ops self a w =
     bindExn (callbackContext True self a w) (\<lambda>_. deregisterObject ops self a w)"

definition didDeleteObject ::
  "known_classes \<Rightarrow> name_dictionary \<Rightarrow> nat \<Rightarrow> nat \<Rightarrow> 'db world \<Rightarrow> exn + 'db world" where
  "didDeleteObject kc d self a w = notifyChange kc d True MPChangeTypeRemove None self a w"

definition changeTypeOfDocument :: "cbl_document \<Rightarrow> MPChangeType" where
  "changeTypeOfDocument doc =
     (let documentIsNew =
            (case document_currentRevision doc of
               None \<Rightarrow> False | Some r \<Rightarrow> hasPrefix (revisionID r) ''1-'');
          documentIsDeleted =
            (case document_currentRevision doc of None \<Rightarrow> False | Some r \<Rightarrow> revision_isDeletion r)
      in if documentIsNew then MPChangeTypeAdd
         else if documentIsDeleted then MPChangeTypeRemove else MPChangeTypeUpdate)"

definition didChangeDocument ::
  "known_classes \<Rightarrow> name_dictionary \<Rightarrow> cbl_document \<Rightarrow> nat \<Rightarrow> nat \<Rightarrow> MPManagedObjectChangeSource \<Rightarrow>
   'db world \<Rightarrow> exn + 'db world" where
  "didChangeDocument kc d doc self a source w =
     bindExn (getController self w) (\<lambda>moc. bindExn (getObject a w) (\<lambda>obj.
       bindExn (getPackage (moc_package moc) w) (\<lambda>pkg.
       bindExn (postChange kc d (changeTypeOfDocument doc) (Some source) a (mo_class obj) pkg) (\<lambda>pkg'.
         Inr (putPackage (moc_package moc) pkg' w)))))"

definition didLoadObjectFromDocument ::
  "'db cbl_ops \<Rightarrow> nat \<Rightarrow> nat \<Rightarrow> 'db world \<Rightarrow> exn + 'db world" where
  "didLoadObjectFromDocument ops self a w =
     bindExn (callbackContext True self a w) (\<lambda>(moc, obj, pkg).
       registerObject ops self a (putObject a (obj\<lparr>mo_controller := Some self\<rparr>) w))"

text \<open>
  The controller observes the changes of its own objects and drops its cached
  values when an object was added or removed.
\<close>

definition clearCachedValues :: "objects_controller \<Rightarrow> objects_controller" where
  "clearCachedValues moc = moc\<lparr>moc_cachedValues := Map.empty\<rparr>"

definition hasAddedManagedObject :: "objects_controller \<Rightarrow> objects_controller" where
  "hasAddedManagedObject moc = clearCachedValues moc"

definition hasUpdatedManagedObject :: "objects_controller \<Rightarrow> objects_controller" where
  "hasUpdatedManagedObject moc = moc"

definition hasRemovedManagedObject :: "objects_controller \<Rightarrow> objects_controller" where
  "hasRemovedManagedObject moc = clearCachedValues moc"


section \<open>Conflicting revisions\<close>

definition updatedAtOf :: "revision \<Rightarrow> int option" where
  "updatedAtOf r =
     (case map_of (revision_properties r) ''updatedAt'' of Some (VNumber n) \<Rightarrow> Some n | _ \<Rightarrow> None)"

text \<open>
  The comparator: the \<open>updatedAt\<close> numbers, and the revision identifiers on a tie.  A
  message to a nil receiver answers \<open>NSOrderedSame\<close>.  \<open>revisionPrecedes\<close> is the test
  whether the comparator puts the first argument at or before the second.
\<close>

definition revisionPrecedes :: "(string \<Rightarrow> string \<Rightarrow> bool) \<Rightarrow> revision \<Rightarrow> revision \<Rightarrow> bool" where
  "revisionPrecedes revIDs a b =
     (case (updatedAtOf a, updatedAtOf b) of
        (Some x, Some y) \<Rightarrow> x < y \<or> x = y \<and> revIDs (revisionID a) (revisionID b)
      | _ \<Rightarrow> revIDs (revisionID a) (revisionID b))"

fun insertByComparator :: "('a \<Rightarrow> 'a \<Rightarrow> bool) \<Rightarrow> 'a \<Rightarrow> 'a list \<Rightarrow> 'a list" where
  "insertByComparator le x [] = [x]"
| "insertByComparator le x (y # ys) = (if le x y then x # y # ys else y # insertByComparator le x ys)"

definition sortedArrayUsingComparator :: "('a \<Rightarrow> 'a \<Rightarrow> bool) \<Rightarrow> 'a list \<Rightarrow> 'a list" where
  "sortedArrayUsingComparator le xs = foldr (insertByComparator le) xs []"

fun deleteRevisions ::
  "'db cbl_ops \<Rightarrow> nat \<Rightarrow> revision list \<Rightarrow> 'db \<Rightarrow> (ns_error option + unit) \<times> 'db" where
  "deleteRevisions ops a [] db = (Inr (), db)"
| "deleteRevisions ops a (r # rest) db =
     (case deleteRevision ops db a (revisionID r) of
        Inl err \<Rightarrow> (Inl err, db)
      | Inr db' \<Rightarrow> deleteRevisions ops a rest db')"

text \<open>
  The \<open>NSNumber\<close> comparison raises when its argument is nil, so a revision without
  \<open>updatedAt\<close> beside one with it ends in an exception.
\<close>

definition resolveConflictingRevisionsForObject ::
  "'db cbl_ops \<Rightarrow> nat \<Rightarrow> nat \<Rightarrow> 'db world \<Rightarrow> exn + (ns_error option + unit) \<times> 'db world" where
  "resolveConflictingRevisionsForObject ops self a w =
     bindExn (getController self w) (\<lambda>moc. bindExn (getObject a w) (\<lambda>obj.
       bindExn (assertThat (isSubclassOfClass (mo_class obj) (moc_managedObjectClass moc)) ''obj isKindOfClass'') (\<lambda>_.
         case conflictingRevisions ops (cbl w) a of
           Inl err \<Rightarrow> Inr (Inl err, w)
         | Inr revs \<Rightarrow>
             if length revs < 2 then Inr (Inr (), w)
             else if list_ex (\<lambda>r. updatedAtOf r = None) revs \<and> list_ex (\<lambda>r. updatedAtOf r \<noteq> None) revs
             then throw (NSInvalidArgumentException ''nil argument'')
             else
               (case sortedArrayUsingComparator (revisionPrecedes (revIDPrecedes ops)) revs of
                  [] \<Rightarrow> throw NSRangeException
                | kept # others \<Rightarrow>
                    (case deleteRevisions ops a others (cbl w) of
                       (Inl err, db) \<Rightarrow> Inr (Inl err, putCbl db w)
                     | (Inr _, db) \<Rightarrow>
                         (case createRevision ops db a (revisionID kept) (revision_properties kept) of
                            Inl err \<Rightarrow> Inr (Inl err, putCbl db w)
                          | Inr db' \<Rightarrow> Inr (Inr (), putCbl db' w)))))))"

fun resolveConflictingRevisions ::
  "'db cbl_ops \<Rightarrow> nat \<Rightarrow> nat list \<Rightarrow> 'db world \<Rightarrow> exn + (ns_error option + unit) \<times> 'db world" where
  "resolveConflictingRevisions ops self [] w = Inr (Inr (), w)"
| "resolveConflictingRevisions ops self (a # rest) w =
     bindExn (resolveConflictingRevisionsForObject ops self a w) (\<lambda>(r, w').
       case r of Inl err \<Rightarrow> Inr (Inl err, w') | Inr _ \<Rightarrow> resolveConflictingRevisions ops self rest w')"


section \<open>Map functions of the views\<close>

definition boolForKey :: "dict \<Rightarrow> string \<Rightarrow> bool" where
  "boolForKey doc k =
     (case map_of doc k of Some (VBool b) \<Rightarrow> b | Some (VNumber n) \<Rightarrow> n \<noteq> 0 | _ \<Rightarrow> False)"

definition valForKey :: "dict \<Rightarrow> string \<Rightarrow> val" where
  "valForKey doc k = (case map_of doc k of None \<Rightarrow> VNull | Some v \<Rightarrow> v)"

definition allObjectsBlock :: "string set \<Rightarrow> dict \<Rightarrow> (val \<times> val option) list" where
  "allObjectsBlock managed doc =
     (if \<not> managesDocumentWithDictionary managed doc then []
      else [(valForKey doc ''_id'', Some (VDict doc))])"

definition bundledObjectsBlock :: "string set \<Rightarrow> dict \<Rightarrow> (val \<times> val option) list" where
  "bundledObjectsBlock managed doc =
     (if \<not> managesDocumentWithDictionary managed doc then []
      else if \<not> boolForKey doc ''bundled'' then []
      else [(valForKey doc ''_id'', None)])"

definition objectsByPrototypeIDBlock :: "dict \<Rightarrow> (val \<times> val option) list" where
  "objectsByPrototypeIDBlock doc =
     (case map_of doc ''prototype'' of Some p \<Rightarrow> [(p, None)] | None \<Rightarrow> [(VNull, None)])"

definition userContributedObjectsBlock :: "string set \<Rightarrow> dict \<Rightarrow> (val \<times> val option) list" where
  "userContributedObjectsBlock managed doc =
     (if \<not> managesDocumentWithDictionary managed doc then []
      else if map_of doc ''userContributed'' = None \<or> \<not> boolForKey doc ''userContributed'' then []
      else [(valForKey doc ''_id'', None)])"

definition objectsByTitleBlock :: "string set \<Rightarrow> dict \<Rightarrow> (val \<times> val option) list" where
  "objectsByTitleBlock managed doc =
     (if \<not> managesDocumentWithDictionary managed doc then []
      else case map_of doc ''title'' of None \<Rightarrow> [] | Some t \<Rightarrow> [(t, None)])"

definition bundledJSONDataBlock :: "string set \<Rightarrow> dict \<Rightarrow> (val \<times> val option) list" where
  "bundledJSONDataBlock managed doc =
     (if \<not> managesDocumentWithDictionary managed doc then []
      else if \<not> boolForKey doc ''bundled'' then []
      else [(valForKey doc ''_id'', None)])"

text \<open>The replication filter: by \<open>objectType\<close>, and by identifier for deletions.\<close>

definition managedObjectsFilter ::
  "runtime \<Rightarrow> known_classes \<Rightarrow> string set \<Rightarrow> revision \<Rightarrow> exn + bool" where
  "managedObjectsFilter rt kc managed r =
     (if managesDocumentWithDictionary managed (revision_properties r) then Inr True
      else
        bindExn (MPAssertNotNil (managedObjectDocumentID (revision_properties r)) ''documentID'') (\<lambda>i.
        bindExn (managesDocumentWithIdentifier rt kc managed i) (\<lambda>managesBasedOnID.
          bindExn (assertThat (managesBasedOnID \<longrightarrow>
                map_of (revision_properties r) ''_deleted'' \<noteq> None \<or> revision_isDeletion r)
              ''Expecting revision to be a deletion'')
            (\<lambda>_. Inr managesBasedOnID))))"


section \<open>The cache as an identity map\<close>

definition cachedObject :: "nat \<Rightarrow> 'db world \<Rightarrow> string \<Rightarrow> nat option" where
  "cachedObject self w i =
     (case controllers w self of None \<Rightarrow> None | Some moc \<Rightarrow> moc_objectCache moc i)"

lemma registerObject_Inr:
  "registerObject ops self a w = Inr w' \<longleftrightarrow>
     (\<exists>moc obj i. controllers w self = Some moc \<and> objects w a = Some obj \<and>
        isSubclassOfClass (mo_class obj) (moc_managedObjectClass moc) \<and>
        modelDocumentID ops (cbl w) a = Some i \<and>
        w' = putController self (moc\<lparr>moc_objectCache := (moc_objectCache moc)(i \<mapsto> a)\<rparr>) w)"
  by (auto simp: registerObject_def bindExn_Inr split: if_splits)

lemma deregisterObject_Inr:
  "deregisterObject ops self a w = Inr w' \<longleftrightarrow>
     (\<exists>moc obj. controllers w self = Some moc \<and> objects w a = Some obj \<and>
        isSubclassOfClass (mo_class obj) (moc_managedObjectClass moc) \<and>
        w' = (case modelDocumentID ops (cbl w) a of None \<Rightarrow> w
              | Some i \<Rightarrow> if moc_objectCache moc i = Some a
                  then putController self (moc\<lparr>moc_objectCache := (moc_objectCache moc)(i := None)\<rparr>) w
                  else w))"
  by (auto simp: deregisterObject_def bindExn_Inr split: if_splits)

lemma registerObject_cached:
  assumes "registerObject ops self a w = Inr w'"
  shows "\<exists>i. modelDocumentID ops (cbl w) a = Some i \<and>
     cachedObject self w' = (cachedObject self w)(i \<mapsto> a) \<and> cbl w' = cbl w"
proof -
  obtain moc i where moc: "controllers w self = Some moc" "modelDocumentID ops (cbl w) a = Some i"
    "w' = putController self (moc\<lparr>moc_objectCache := (moc_objectCache moc)(i \<mapsto> a)\<rparr>) w"
    using assms by (auto simp: registerObject_Inr)
  then show ?thesis by (auto simp: cachedObject_def fun_eq_iff)
qed

lemma deregisterObject_cached:
  assumes "deregisterObject ops self a w = Inr w'"
  shows "cachedObject self w' k =
     (if modelDocumentID ops (cbl w) a = Some k \<and> cachedObject self w k = Some a then None
      else cachedObject self w k)"
proof -
  obtain moc where moc: "controllers w self = Some moc"
    "w' = (case modelDocumentID ops (cbl w) a of None \<Rightarrow> w
              | Some i \<Rightarrow> if moc_objectCache moc i = Some a
                  then putController self (moc\<lparr>moc_objectCache := (moc_objectCache moc)(i := None)\<rparr>) w
                  else w)"
    using assms unfolding deregisterObject_Inr by blast
  then show ?thesis by (cases "modelDocumentID ops (cbl w) a") (auto simp: cachedObject_def)
qed

interpretation registry:
  identity_map "cachedObject self" "\<lambda>w. modelDocumentID ops (cbl w)"
    "registerObject ops self" "deregisterObject ops self" for ops self
proof
  fix a u w w' k
  show "registerObject ops self a w = Inr w' \<Longrightarrow>
      \<exists>k. modelDocumentID ops (cbl w) a = Some k \<and> cachedObject self w' k = Some a"
    by (drule registerObject_cached) auto
  show "registerObject ops self a w = Inr w' \<Longrightarrow> modelDocumentID ops (cbl w) a \<noteq> Some k \<Longrightarrow>
      cachedObject self w' k = cachedObject self w k"
    by (drule registerObject_cached) auto
  show "registerObject ops self a w = Inr w' \<Longrightarrow>
      modelDocumentID ops (cbl w') u = modelDocumentID ops (cbl w) u"
    by (drule registerObject_cached) auto
  show "deregisterObject ops self a w = Inr w' \<Longrightarrow> modelDocumentID ops (cbl w) a = Some k \<Longrightarrow>
      cachedObject self w' k \<noteq> Some a"
    by (simp add: deregisterObject_cached)
  show "deregisterObject ops self a w = Inr w' \<Longrightarrow> modelDocumentID ops (cbl w) a \<noteq> Some k \<Longrightarrow>
      cachedObject self w' k = cachedObject self w k"
    by (simp add: deregisterObject_cached)
qed


section \<open>Notifications of a change\<close>

lemma notifyChange_Inr:
  assumes "notifyChange kc d ck t src self a w = Inr w'"
  obtains moc obj pkg recent past where
    "controllers w self = Some moc" "objects w a = Some obj" "mo_controller obj = Some self"
    "packages w (moc_package moc) = Some pkg"
    "notificationNameForRecentChangeOfType kc d t (mo_class obj) = Inr recent"
    "notificationNameForPastChangeOfType kc d t (mo_class obj) = Inr past"
    "w' = putPackage (moc_package moc) (updateChangeCount (pkg\<lparr>pkg_notificationCenter :=
        postNotificationName past a src
          (postNotificationName recent a src (pkg_notificationCenter pkg))\<rparr>)) w"
  using assms
  by (auto simp: notifyChange_def callbackContext_def postChange_def bindExn_Inr split: if_splits)

definition deliveriesTo ::
  "string \<Rightarrow> nat \<Rightarrow> MPManagedObjectChangeSource option \<Rightarrow> notification_center \<Rightarrow> delivery list" where
  "deliveriesTo name a source nc =
     map (\<lambda>ob. \<lparr>delivered_to = observer_address ob, delivered_selector = observer_selector ob,
                delivered_object = a, delivered_source = source, delivered_userInfo = None\<rparr>)
       (filter (observes name a) (observations nc))"

lemma postNotificationName_deliveries [simp]:
  "deliveries (postNotificationName n a src nc) = deliveries nc @ deliveriesTo n a src nc"
  "observations (postNotificationName n a src nc) = observations nc"
  "deliveriesTo m b src' (postNotificationName n a src nc) = deliveriesTo m b src' nc"
  by (simp_all add: postNotificationName_def postNotification_def deliveriesTo_def)

lemma updateChangeCount_fields [simp]:
  "pkg_notificationCenter (updateChangeCount pkg) = pkg_notificationCenter pkg"
  "pkg_changeCount (updateChangeCount pkg) =
     pkg_changeCount pkg + (if pkg_delegateCountsChanges pkg then 1 else 0)"
  by (simp_all add: updateChangeCount_def)


section \<open>The surviving revision\<close>

lemma mset_insertByComparator: "mset (insertByComparator le x xs) = mset (x # xs)"
  by (induction xs) auto

lemma mset_sortedArrayUsingComparator [simp]: "mset (sortedArrayUsingComparator le xs) = mset xs"
  unfolding sortedArrayUsingComparator_def by (induction xs) (simp_all add: mset_insertByComparator)

definition total_preorder :: "('a \<Rightarrow> 'a \<Rightarrow> bool) \<Rightarrow> bool" where
  "total_preorder le \<longleftrightarrow> (\<forall>x y. le x y \<or> le y x) \<and> (\<forall>x y z. le x y \<longrightarrow> le y z \<longrightarrow> le x z)"

definition least_head :: "('a \<Rightarrow> 'a \<Rightarrow> bool) \<Rightarrow> 'a list \<Rightarrow> bool" where
  "least_head le xs \<longleftrightarrow> (case xs of [] \<Rightarrow> True | x # ys \<Rightarrow> list_all (le x) ys)"

definition total_preorder_on :: "'a set \<Rightarrow> ('a \<Rightarrow> 'a \<Rightarrow> bool) \<Rightarrow> bool" where
  "total_preorder_on A le \<longleftrightarrow>
     (\<forall>x \<in> A. \<forall>y \<in> A. le x y \<or> le y x) \<and>
     (\<forall>x \<in> A. \<forall>y \<in> A. \<forall>z \<in> A. le x y \<longrightarrow> le y z \<longrightarrow> le x z)"

lemma insertByComparator_least:
  assumes "total_preorder_on A le" and "x \<in> A" "set xs \<subseteq> A" "least_head le xs"
  shows "least_head le (insertByComparator le x xs)"
proof (cases xs)
  case Nil
  then show ?thesis by (simp add: least_head_def)
next
  case (Cons y ys)
  have set: "set (insertByComparator le x ys) = insert x (set ys)"
    using mset_insertByComparator [of le x ys] by (metis set_mset_mset list.simps(15))
  have y: "y \<in> A" "set ys \<subseteq> A" "\<forall>z \<in> set ys. le y z"
    using assms(3,4) Cons by (auto simp: least_head_def list_all_iff)
  show ?thesis
  proof (cases "le x y")
    case True
    have "\<forall>z \<in> set ys. le x z"
      using assms(1,2) y True unfolding total_preorder_on_def by blast
    then show ?thesis using Cons True by (simp add: least_head_def list_all_iff)
  next
    case False
    then have "le y x" using assms(1,2) y(1) unfolding total_preorder_on_def by blast
    then show ?thesis using Cons False y(3) set by (simp add: least_head_def list_all_iff)
  qed
qed

lemma sortedArrayUsingComparator_least:
  assumes "total_preorder_on (set xs) le"
  shows "least_head le (sortedArrayUsingComparator le xs)"
proof -
  have "set ys \<subseteq> set xs \<Longrightarrow> least_head le (foldr (insertByComparator le) ys []) \<and>
      set (foldr (insertByComparator le) ys []) \<subseteq> set xs" for ys
  proof (induction ys)
    case (Cons y ys)
    let ?r = "foldr (insertByComparator le) ys []"
    have "set (insertByComparator le y ?r) = insert y (set ?r)"
      using mset_insertByComparator [of le y ?r] by (metis set_mset_mset list.simps(15))
    moreover have "y \<in> set xs" "set ?r \<subseteq> set xs" "least_head le ?r" using Cons by auto
    moreover from assms this have "least_head le (insertByComparator le y ?r)"
      by (rule insertByComparator_least)
    ultimately show ?case by simp
  qed (simp add: least_head_def)
  then show ?thesis unfolding sortedArrayUsingComparator_def by blast
qed

lemma revisionPrecedes_preorder:
  assumes "total_preorder revIDs" and "list_all (\<lambda>r. updatedAtOf r \<noteq> None) revs"
  shows "total_preorder_on (set revs) (revisionPrecedes revIDs)"
proof -
  have at: "\<exists>i. updatedAtOf r = Some i" if "r \<in> set revs" for r
    using assms(2) that by (auto simp: list_all_iff)
  have total: "revIDs p q \<or> revIDs q p" for p q
    using assms(1) unfolding total_preorder_def by blast
  have trans: "revIDs p q \<Longrightarrow> revIDs q r \<Longrightarrow> revIDs p r" for p q r
    using assms(1) unfolding total_preorder_def by blast
  show ?thesis
    unfolding total_preorder_on_def
  proof (intro conjI ballI impI)
    fix x y assume xy: "x \<in> set revs" "y \<in> set revs"
    obtain i where "updatedAtOf x = Some i" using at [OF xy(1)] ..
    moreover obtain j where "updatedAtOf y = Some j" using at [OF xy(2)] ..
    ultimately show "revisionPrecedes revIDs x y \<or> revisionPrecedes revIDs y x"
      using total [of "revisionID x" "revisionID y"] by (auto simp: revisionPrecedes_def)
  next
    fix x y z assume xyz: "x \<in> set revs" "y \<in> set revs" "z \<in> set revs"
    obtain i where "updatedAtOf x = Some i" using at [OF xyz(1)] ..
    moreover obtain j where "updatedAtOf y = Some j" using at [OF xyz(2)] ..
    moreover obtain k where "updatedAtOf z = Some k" using at [OF xyz(3)] ..
    moreover assume "revisionPrecedes revIDs x y" "revisionPrecedes revIDs y z"
    ultimately show "revisionPrecedes revIDs x z"
      using trans [of "revisionID x" "revisionID y" "revisionID z"]
      by (auto simp: revisionPrecedes_def)
  qed
qed

lemma revisionPrecedes_sorted:
  assumes "total_preorder revIDs" and "list_all (\<lambda>r. updatedAtOf r \<noteq> None) revs"
    and "sortedArrayUsingComparator (revisionPrecedes revIDs) revs = kept # others"
  shows "list_all (revisionPrecedes revIDs kept) others"
  using sortedArrayUsingComparator_least [OF revisionPrecedes_preorder [OF assms(1,2)]] assms(3)
  by (simp add: least_head_def)

end
