(* ===== verification/MemoryStore.thy ===== *)
theory MemoryStore
  imports World
begin

text \<open>
  What the development relies on in Couchbase Lite, as four named groups of laws
  about the operations of \<open>cbl_ops\<close>, and an in-memory store that obeys them.  The
  laws are hypotheses of the theorems that need them; the store shows that they can
  be met and carries the concrete examples.
\<close>


section \<open>Laws\<close>

text \<open>Property values: reading after writing, and what writing leaves alone.\<close>

definition property_laws :: "'db cbl_ops \<Rightarrow> bool" where
  "property_laws ops \<longleftrightarrow>
     (\<forall>db a v k b k'. modelGetValue ops (modelSetValue ops db a v k) b k' =
        (if b = a \<and> k' = k then v else modelGetValue ops db b k')) \<and>
     (\<forall>db a v k c b k'. modelGetValue ops (modelCacheValue ops db a v k c) b k' =
        (if b = a \<and> k' = k then v else modelGetValue ops db b k')) \<and>
     (\<forall>db a b k. modelGetValue ops (modelMarkNeedsSave ops db a) b k = modelGetValue ops db b k) \<and>
     (\<forall>db a v k b. modelDocumentID ops (modelSetValue ops db a v k) b = modelDocumentID ops db b) \<and>
     (\<forall>db a v k b. modelDocumentIsDeleted ops (modelSetValue ops db a v k) b =
        modelDocumentIsDeleted ops db b) \<and>
     (\<forall>db a b. modelDocumentID ops (modelMarkNeedsSave ops db a) b = modelDocumentID ops db b) \<and>
     (\<forall>db a c b. modelDocumentID ops (modelSetAutosaves ops db a c) b = modelDocumentID ops db b) \<and>
     (\<forall>db a c b k. modelGetValue ops (modelSetAutosaves ops db a c) b k = modelGetValue ops db b k)"

text \<open>Documents: a new one has the requested identifier and no properties.\<close>

definition document_laws :: "'db cbl_ops \<Rightarrow> bool" where
  "document_laws ops \<longleftrightarrow>
     (\<forall>db a d i b. modelDocumentID ops (modelNewDocument ops db a d i) b =
        (if b = a then Some i else modelDocumentID ops db b)) \<and>
     (\<forall>db a d i b. modelDocumentIsDeleted ops (modelNewDocument ops db a d i) b \<longleftrightarrow>
        b \<noteq> a \<and> modelDocumentIsDeleted ops db b) \<and>
     (\<forall>db a d i b k. modelGetValue ops (modelNewDocument ops db a d i) b k =
        (if b = a then None else modelGetValue ops db b k))"

text \<open>
  Saving and deleting: a successful save keeps the values and leaves the model without
  unsaved changes; a successful deletion leaves the model without a document, or with a
  deleted one.
\<close>

definition saving_laws :: "'db cbl_ops \<Rightarrow> bool" where
  "saving_laws ops \<longleftrightarrow>
     (\<forall>db a db' b k. modelSave ops db a = Inr db' \<longrightarrow>
        modelGetValue ops db' b k = modelGetValue ops db b k \<and>
        modelDocumentID ops db' b = modelDocumentID ops db b \<and>
        (modelNeedsSave ops db' b \<longleftrightarrow> b \<noteq> a \<and> modelNeedsSave ops db b) \<and>
        \<not> modelHasPendingChanges ops db' a) \<and>
     (\<forall>db a b. modelNeedsSave ops (modelMarkNeedsSave ops db a) b \<longleftrightarrow>
        b = a \<or> modelNeedsSave ops db b) \<and>
     (\<forall>db a v k b. modelNeedsSave ops db b \<longrightarrow> modelNeedsSave ops (modelSetValue ops db a v k) b) \<and>
     (\<forall>db a db'. modelDelete ops db a = Inr db' \<longrightarrow>
        modelDocumentID ops db' a = None \<or>
        modelDocumentIsDeleted ops db' a \<and> modelDocumentID ops db' a = modelDocumentID ops db a) \<and>
     (\<forall>db a db' b. modelDelete ops db a = Inr db' \<longrightarrow> b \<noteq> a \<longrightarrow>
        modelDocumentID ops db' b = modelDocumentID ops db b)"

text \<open>
  Attachments: an attachment that is set is read back, the names are those of the
  attachments, and properties, saving and attachments do not disturb each other.
\<close>

definition attachment_laws :: "'db cbl_ops \<Rightarrow> bool" where
  "attachment_laws ops \<longleftrightarrow>
     (\<forall>db a n t c b n'. modelAttachment ops (modelSetAttachment ops db a n t c) b n' =
        (if b = a \<and> n' = n then Some (t, c) else modelAttachment ops db b n')) \<and>
     (\<forall>db a n b n'. modelAttachment ops (modelRemoveAttachment ops db a n) b n' =
        (if b = a \<and> n' = n then None else modelAttachment ops db b n')) \<and>
     (\<forall>db a n. modelAttachment ops db a n \<noteq> None \<longleftrightarrow>
        (case modelAttachmentNames ops db a of None \<Rightarrow> False | Some ns \<Rightarrow> n \<in> set ns)) \<and>
     (\<forall>db a v k b n. modelAttachment ops (modelSetValue ops db a v k) b n = modelAttachment ops db b n) \<and>
     (\<forall>db a db' b n. modelSave ops db a = Inr db' \<longrightarrow> modelAttachment ops db' b n = modelAttachment ops db b n)"


section \<open>An in-memory store\<close>

record stored_model =
  st_documentID :: "string option"
  st_database :: nat
  st_properties :: dict
  st_needsSave :: bool
  st_conflicts :: "revision list"
  st_attachments :: "(string \<times> string \<times> string) list"

type_synonym memory_store = "(nat \<times> stored_model) list"

definition noModel :: stored_model where
  "noModel = \<lparr>st_documentID = None, st_database = 0, st_properties = [], st_needsSave = False,
     st_conflicts = [], st_attachments = []\<rparr>"

definition storedModel :: "memory_store \<Rightarrow> nat \<Rightarrow> stored_model" where
  "storedModel db a = (case map_of db a of None \<Rightarrow> noModel | Some m \<Rightarrow> m)"

definition updateModel :: "nat \<Rightarrow> (stored_model \<Rightarrow> stored_model) \<Rightarrow> memory_store \<Rightarrow> memory_store" where
  "updateModel a f db = (a, f (storedModel db a)) # filter (\<lambda>p. fst p \<noteq> a) db"

definition removeKey :: "string \<Rightarrow> (string \<times> 'v) list \<Rightarrow> (string \<times> 'v) list" where
  "removeKey k d = filter (\<lambda>p. fst p \<noteq> k) d"

definition memory_ops :: "memory_store cbl_ops" where
  "memory_ops =
     \<lparr>modelDocumentID = (\<lambda>db a. st_documentID (storedModel db a)),
      modelDocumentIsDeleted = (\<lambda>db a. False),
      modelHasRevision = (\<lambda>db a. st_documentID (storedModel db a) \<noteq> None),
      modelGetValue = (\<lambda>db a k. map_of (st_properties (storedModel db a)) k),
      modelUnsavedValue = (\<lambda>db a k. map_of (st_properties (storedModel db a)) k),
      modelDocumentProperty = (\<lambda>db a k. map_of (st_properties (storedModel db a)) k),
      modelSetValue = (\<lambda>db a v k. updateModel a (\<lambda>m. m\<lparr>st_properties :=
          (case v of Some x \<Rightarrow> (k, x) # removeKey k (st_properties m)
           | None \<Rightarrow> removeKey k (st_properties m)), st_needsSave := True\<rparr>) db),
      modelCacheValue = (\<lambda>db a v k changed. updateModel a (\<lambda>m. m\<lparr>st_properties :=
          (case v of Some x \<Rightarrow> (k, x) # removeKey k (st_properties m)
           | None \<Rightarrow> removeKey k (st_properties m))\<rparr>) db),
      modelNeedsSave = (\<lambda>db a. st_needsSave (storedModel db a)),
      modelMarkNeedsSave = (\<lambda>db a. updateModel a (\<lambda>m. m\<lparr>st_needsSave := True\<rparr>) db),
      modelMarkPropertyNeedsSave = (\<lambda>db a k. db),
      modelHasPendingChanges = (\<lambda>db a. False),
      modelPropertiesToSave = (\<lambda>db a. st_properties (storedModel db a)),
      modelSave = (\<lambda>db a. Inr (updateModel a (\<lambda>m. m\<lparr>st_needsSave := False\<rparr>) db)),
      modelSaveModels = (\<lambda>db as. Inr (fold (\<lambda>a. updateModel a (\<lambda>m. m\<lparr>st_needsSave := False\<rparr>)) as db)),
      modelDelete = (\<lambda>db a. Inr (updateModel a (\<lambda>m. m\<lparr>st_documentID := None\<rparr>) db)),
      modelNewDocument = (\<lambda>db a d i. updateModel a (\<lambda>m. noModel\<lparr>st_documentID := Some i, st_database := d\<rparr>) db),
      modelSetDocument = (\<lambda>db a d i. updateModel a (\<lambda>m. m\<lparr>st_documentID := Some i, st_database := d\<rparr>) db),
      modelSetAutosaves = (\<lambda>db a b. db),
      modelUserPropertyKeys = (\<lambda>db a. filter (\<lambda>k. \<not> hasPrefix k ''_'') (map fst (st_properties (storedModel db a)))),
      modelAttachmentNames = (\<lambda>db a. (case st_attachments (storedModel db a) of [] \<Rightarrow> None | as \<Rightarrow> Some (map fst as))),
      modelAttachment = (\<lambda>db a n. map_of (st_attachments (storedModel db a)) n),
      modelSetAttachment = (\<lambda>db a n t c. updateModel a (\<lambda>m. m\<lparr>st_attachments :=
          (n, t, c) # removeKey n (st_attachments m), st_needsSave := True\<rparr>) db),
      modelRemoveAttachment = (\<lambda>db a n. updateModel a (\<lambda>m. m\<lparr>st_attachments :=
          removeKey n (st_attachments m), st_needsSave := True\<rparr>) db),
      existingDocumentWithID = (\<lambda>db d i.
        (case filter (\<lambda>(a, m). st_documentID m = Some i \<and> st_database m = d) db of
           [] \<Rightarrow> None
         | (a, m) # _ \<Rightarrow> Some \<lparr>document_modelObject = Some a, document_isDeleted = False,
             document_objectType = stringForKey (st_properties m) ''objectType'',
             document_currentRevision = None\<rparr>)),
      conflictingRevisions = (\<lambda>db a. Inr (st_conflicts (storedModel db a))),
      deleteRevision = (\<lambda>db a r. Inr (updateModel a
        (\<lambda>m. m\<lparr>st_conflicts := filter (\<lambda>rv. revisionID rv \<noteq> r) (st_conflicts m)\<rparr>) db)),
      createRevision = (\<lambda>db a r d. Inr (updateModel a (\<lambda>m. m\<lparr>st_properties := d\<rparr>) db)),
      revIDPrecedes = (\<lambda>a b. length a \<le> length b)\<rparr>"

lemma storedModel_update [simp]:
  "storedModel (updateModel a f db) b = (if b = a then f (storedModel db a) else storedModel db b)"
  by (simp add: storedModel_def updateModel_def map_of_filter_neq)

lemma map_of_removeKey [simp]:
  "map_of (removeKey k d) k' = (if k' = k then None else map_of d k')"
  by (simp add: removeKey_def map_of_filter_neq)

lemma memory_property_laws: "property_laws memory_ops"
  by (simp add: property_laws_def memory_ops_def split: option.splits)

lemma memory_document_laws: "document_laws memory_ops"
  by (simp add: document_laws_def memory_ops_def noModel_def)

lemma memory_saving_laws: "saving_laws memory_ops"
  by (simp add: saving_laws_def memory_ops_def split: option.splits)

lemma memory_attachment_laws: "attachment_laws memory_ops"
  by (simp add: attachment_laws_def memory_ops_def map_of_eq_None_iff split: list.splits)

lemmas memory_laws = memory_attachment_laws memory_property_laws memory_document_laws memory_saving_laws

end
