(* ===== verification/EmbeddedObject.thy ===== *)
theory EmbeddedObject
  imports MemoryStore
begin

text \<open>
  \<open>MPEmbeddedObject\<close>: objects stored inside a managed object or inside another
  embedded object.  They are made unique by the identifier cache of the object that
  embeds them, and a change travels along \<open>embeddingObject\<close> up to the managed object.
  The walk over \<open>embeddingObject\<close> follows pointers, so it is a partial function whose
  value \<open>None\<close> means that it does not return.
\<close>


section \<open>The identifier cache\<close>

definition eo_identifier :: "embedded_object \<Rightarrow> string option" where
  "eo_identifier eo = stringForKey (eo_properties eo) ''_id''"

definition identifierAt :: "'db world \<Rightarrow> nat \<Rightarrow> string option" where
  "identifierAt w e = (case embeddedObjects w e of None \<Rightarrow> None | Some eo \<Rightarrow> eo_identifier eo)"

text \<open>\<open>cacheEmbeddedObjectByIdentifier:\<close> of a managed object.\<close>

definition managedCacheEmbedded :: "nat \<Rightarrow> nat \<Rightarrow> 'db world \<Rightarrow> exn + 'db world" where
  "managedCacheEmbedded self e w =
     bindExn (getObject self w) (\<lambda>mo. bindExn (getEmbedded e w) (\<lambda>eo.
       bindExn (MPAssertNotNil (eo_identifier eo) ''obj identifier'') (\<lambda>i.
       bindExn (MPAssertNotNil (mo_embeddedObjectCache mo) ''_embeddedObjectCache'') (\<lambda>cache.
         case cache i of
           Some e' \<Rightarrow> bindExn (assertThat (e' = e) ''Mismatching identity'') (\<lambda>_. Inr w)
         | None \<Rightarrow> Inr (putObject self (mo\<lparr>mo_embeddedObjectCache := Some (cache(i \<mapsto> e))\<rparr>) w)))))"

definition managedRemoveEmbedded :: "nat \<Rightarrow> nat option \<Rightarrow> 'db world \<Rightarrow> exn + 'db world" where
  "managedRemoveEmbedded self obj w =
     (case obj of
        None \<Rightarrow> Inr w
      | Some e \<Rightarrow>
          bindExn (getObject self w) (\<lambda>mo. bindExn (getEmbedded e w) (\<lambda>eo.
            bindExn (MPAssertNotNil (eo_identifier eo) ''obj identifier'') (\<lambda>i.
              case mo_embeddedObjectCache mo of
                None \<Rightarrow> throw (NSInternalInconsistencyException ''false'')
              | Some cache \<Rightarrow>
                  if cache i \<noteq> None
                  then Inr (putObject self (mo\<lparr>mo_embeddedObjectCache := Some (cache(i := None))\<rparr>) w)
                  else throw (NSInternalInconsistencyException ''false'')))))"

definition managedEmbeddedObjectWithIdentifier :: "nat \<Rightarrow> string \<Rightarrow> 'db world \<Rightarrow> exn + nat option" where
  "managedEmbeddedObjectWithIdentifier self i w =
     bindExn (getObject self w) (\<lambda>mo.
     bindExn (MPAssertNotNil (mo_embeddedObjectCache mo) ''_embeddedObjectCache'') (\<lambda>cache.
       Inr (cache i)))"

text \<open>The same three methods of an embedded object, whose cache is never nil.\<close>

definition embeddedCacheEmbedded :: "nat \<Rightarrow> nat option \<Rightarrow> 'db world \<Rightarrow> exn + 'db world" where
  "embeddedCacheEmbedded self obj w =
     (case obj of
        None \<Rightarrow> Inr w
      | Some e \<Rightarrow>
          bindExn (getEmbedded self w) (\<lambda>me. bindExn (getEmbedded e w) (\<lambda>eo.
            bindExn (MPAssertNotNil (eo_identifier eo) ''obj identifier'') (\<lambda>i.
              case eo_embeddedObjectCache me i of
                Some e' \<Rightarrow> bindExn (assertThat (e' = e) ''identity'') (\<lambda>_. Inr w)
              | None \<Rightarrow> Inr (putEmbedded self
                  (me\<lparr>eo_embeddedObjectCache := (eo_embeddedObjectCache me)(i \<mapsto> e)\<rparr>) w)))))"

definition embeddedRemoveEmbedded :: "nat \<Rightarrow> nat option \<Rightarrow> 'db world \<Rightarrow> exn + 'db world" where
  "embeddedRemoveEmbedded self obj w =
     (case obj of
        None \<Rightarrow> Inr w
      | Some e \<Rightarrow>
          bindExn (getEmbedded self w) (\<lambda>me. bindExn (getEmbedded e w) (\<lambda>eo.
            bindExn (MPAssertNotNil (eo_identifier eo) ''obj identifier'') (\<lambda>i.
              if eo_embeddedObjectCache me i \<noteq> None
              then Inr (putEmbedded self
                (me\<lparr>eo_embeddedObjectCache := (eo_embeddedObjectCache me)(i := None)\<rparr>) w)
              else throw (NSInternalInconsistencyException ''false'')))))"

definition embeddedEmbeddedObjectWithIdentifier :: "nat \<Rightarrow> string \<Rightarrow> 'db world \<Rightarrow> exn + nat option" where
  "embeddedEmbeddedObjectWithIdentifier self i w =
     bindExn (getEmbedded self w) (\<lambda>me. Inr (eo_embeddedObjectCache me i))"

text \<open>Dispatch on the class of the embedding object.\<close>

fun embeddedObjectWithIdentifier :: "embedding_ref \<Rightarrow> string \<Rightarrow> 'db world \<Rightarrow> exn + nat option" where
  "embeddedObjectWithIdentifier (EmbeddingManaged a) i w = managedEmbeddedObjectWithIdentifier a i w"
| "embeddedObjectWithIdentifier (EmbeddingEmbedded a) i w = embeddedEmbeddedObjectWithIdentifier a i w"

fun cacheEmbeddedObjectByIdentifier :: "embedding_ref \<Rightarrow> nat \<Rightarrow> 'db world \<Rightarrow> exn + 'db world" where
  "cacheEmbeddedObjectByIdentifier (EmbeddingManaged a) e w = managedCacheEmbedded a e w"
| "cacheEmbeddedObjectByIdentifier (EmbeddingEmbedded a) e w = embeddedCacheEmbedded a (Some e) w"

fun removeEmbeddedObjectFromByIdentifierCache ::
  "embedding_ref \<Rightarrow> nat \<Rightarrow> 'db world \<Rightarrow> exn + 'db world" where
  "removeEmbeddedObjectFromByIdentifierCache (EmbeddingManaged a) e w = managedRemoveEmbedded a (Some e) w"
| "removeEmbeddedObjectFromByIdentifierCache (EmbeddingEmbedded a) e w = embeddedRemoveEmbedded a (Some e) w"


section \<open>Creating embedded objects\<close>

text \<open>
  \<open>e\<close> is the address of the object being initialised and \<open>uuid\<close> the string of the
  \<open>NSUUID\<close> it would use.  An object with the same identifier that the embedding object
  already knows is returned in its place.
\<close>

definition uniqueEmbedded :: "embedding_ref \<Rightarrow> nat \<Rightarrow> embedded_object \<Rightarrow> 'db world \<Rightarrow> exn + nat \<times> 'db world" where
  "uniqueEmbedded r e eo w =
     bindExn (MPAssertNotNil (eo_identifier eo) ''identifier'') (\<lambda>i.
     bindExn (embeddedObjectWithIdentifier r i w) (\<lambda>existing.
       case existing of
         Some e' \<Rightarrow> Inr (e', w)
       | None \<Rightarrow> bindExn (cacheEmbeddedObjectByIdentifier r e (putEmbedded e eo w)) (\<lambda>w'. Inr (e, w'))))"

definition hasKey :: "dict \<Rightarrow> string \<Rightarrow> bool" where
  "hasKey d k \<longleftrightarrow> map_of d k \<noteq> None"

definition newIdentifier :: "cls \<Rightarrow> string \<Rightarrow> string" where
  "newIdentifier c uuid = class_name c @ '':'' @ uuid"

definition initWithDictionary ::
  "cls \<Rightarrow> dict \<Rightarrow> embedding_ref option \<Rightarrow> string option \<Rightarrow> string \<Rightarrow> nat \<Rightarrow> 'db world \<Rightarrow>
   exn + nat \<times> 'db world" where
  "initWithDictionary c d embeddingObject key uuid e w =
     bindExn (assertThat (hasKey d ''_id'' \<longrightarrow>
         (case stringForKey d ''_id'' of None \<Rightarrow> False | Some i \<Rightarrow> hasPrefix i (class_name c)))
       ''Unexpected ID prefix'') (\<lambda>_.
     bindExn (assertThat (hasKey d ''_id'' \<longrightarrow> hasKey d ''objectType'') ''Missing objectType'') (\<lambda>_.
     bindExn (assertThat (hasKey d ''objectType'' \<longrightarrow> stringForKey d ''objectType'' = Some (class_name c))
       ''Unexpected objectType'') (\<lambda>_.
     bindExn (assertThat (hasKey d ''objectType'' \<longrightarrow> hasKey d ''_id'') ''Missing _id'') (\<lambda>_.
     bindExn (MPAssertNotNil key ''Missing embedding key'') (\<lambda>k.
     bindExn (MPAssertNotNil embeddingObject ''Missing embedding object'') (\<lambda>r.
       uniqueEmbedded r e
         \<lparr>eo_class = c, eo_embeddingObject = Some r, eo_embeddingKey = Some k,
          eo_properties =
            (if hasKey d ''_id'' then d
             else dictUpdate ''objectType'' (VString (class_name c))
                    (dictUpdate ''_id'' (VString (newIdentifier c uuid)) d)),
          eo_needsSave = False, eo_embeddedObjectCache = Map.empty\<rparr> w))))))"

definition initWithEmbeddingObject ::
  "cls \<Rightarrow> embedding_ref option \<Rightarrow> string option \<Rightarrow> string \<Rightarrow> nat \<Rightarrow> 'db world \<Rightarrow> exn + nat \<times> 'db world" where
  "initWithEmbeddingObject c embeddingObject key uuid e w =
     bindExn (MPAssertNotNil embeddingObject ''embeddingObject'') (\<lambda>r.
     bindExn (MPAssertNotNil key ''embeddingKey'') (\<lambda>k.
       uniqueEmbedded r e
         \<lparr>eo_class = c, eo_embeddingObject = Some r, eo_embeddingKey = Some k,
          eo_properties = [(''objectType'', VString (class_name c)), (''_id'', VString (newIdentifier c uuid))],
          eo_needsSave = False, eo_embeddedObjectCache = Map.empty\<rparr> w))"

text \<open>
  The class methods, called on \<open>MPEmbeddedObject\<close> itself: the class is the one named
  by \<open>objectType\<close>, and a dictionary or string that does not name one gives nil.
\<close>

definition embeddedObjectWithDictionary ::
  "runtime \<Rightarrow> known_classes \<Rightarrow> dict \<Rightarrow> embedding_ref \<Rightarrow> string \<Rightarrow> string \<Rightarrow> nat \<Rightarrow> 'db world \<Rightarrow>
   exn + nat option \<times> 'db world" where
  "embeddedObjectWithDictionary rt kc d r key uuid e w =
     (case (case stringForKey d ''objectType'' of None \<Rightarrow> None | Some n \<Rightarrow> NSClassFromString rt n) of
        None \<Rightarrow> Inr (None, w)
      | Some c \<Rightarrow>
          bindExn (assertThat (isSubclassOfClass c (class_MPEmbeddedObject kc)) ''cls isSubclassOfClass'') (\<lambda>_.
          bindExn (case stringForKey d ''_id'' of None \<Rightarrow> Inr None
                   | Some i \<Rightarrow> embeddedObjectWithIdentifier r i w) (\<lambda>existing.
            case existing of
              Some e' \<Rightarrow> Inr (Some e', w)
            | None \<Rightarrow> bindExn (initWithDictionary c d (Some r) (Some key) uuid e w)
                (\<lambda>(e', w'). Inr (Some e', w')))))"

definition embeddedObjectWithJSONString ::
  "(string \<Rightarrow> val option) \<Rightarrow> runtime \<Rightarrow> known_classes \<Rightarrow> string option \<Rightarrow> embedding_ref \<Rightarrow> string \<Rightarrow>
   string \<Rightarrow> nat \<Rightarrow> 'db world \<Rightarrow> exn + nat option \<times> 'db world" where
  "embeddedObjectWithJSONString de rt kc str r key uuid e w =
     (case str of
        None \<Rightarrow> Inr (None, w)
      | Some s \<Rightarrow>
          (case de s of
             None \<Rightarrow> Inr (None, w)
           | Some (VDict d) \<Rightarrow>
               (case (case stringForKey d ''objectType'' of None \<Rightarrow> None | Some n \<Rightarrow> NSClassFromString rt n) of
                  None \<Rightarrow> Inr (None, w)
                | Some c \<Rightarrow>
                    bindExn (assertThat (isSubclassOfClass c (class_MPEmbeddedObject kc)) ''cls isSubclassOfClass'') (\<lambda>_.
                    bindExn (initWithDictionary c d (Some r) (Some key) uuid e w)
                      (\<lambda>(e', w'). Inr (Some e', w'))))
           | Some v \<Rightarrow> throw (NSInvalidArgumentException ''objectForKeyedSubscript'')))"

text \<open>The embedding key is set once.\<close>

definition setEmbeddingKey :: "nat \<Rightarrow> string option \<Rightarrow> 'db world \<Rightarrow> exn + 'db world" where
  "setEmbeddingKey self key w =
     bindExn (getEmbedded self w) (\<lambda>eo.
       if key \<noteq> None \<and> eo_embeddingKey eo = key then Inr w
       else bindExn (assertThat (eo_embeddingKey eo = None \<or> eo_embeddingKey eo = key) ''Unexpected _embeddingKey'')
         (\<lambda>_. Inr (putEmbedded self (eo\<lparr>eo_embeddingKey := key\<rparr>) w)))"


section \<open>Walking to the managed object\<close>

partial_function (option) embeddingWalk ::
  "embedding_ref option \<Rightarrow> 'db world \<Rightarrow> nat option option" where
  "embeddingWalk r w =
     (case r of
        None \<Rightarrow> Some None
      | Some (EmbeddingManaged a) \<Rightarrow> Some (Some a)
      | Some (EmbeddingEmbedded e) \<Rightarrow>
          embeddingWalk (case embeddedObjects w e of None \<Rightarrow> None | Some eo \<Rightarrow> eo_embeddingObject eo) w)"

definition embeddingManagedObject :: "nat \<Rightarrow> 'db world \<Rightarrow> nat option option" where
  "embeddingManagedObject self w =
     embeddingWalk (case embeddedObjects w self of None \<Rightarrow> None | Some eo \<Rightarrow> eo_embeddingObject eo) w"

text \<open>
  The loop of \<open>databaseForModelProperty:\<close> asks for the embedding object of \<open>self\<close> again
  in every iteration.
\<close>

partial_function (option) databaseEmbedder :: "nat \<Rightarrow> 'db world \<Rightarrow> (exn + nat) option" where
  "databaseEmbedder self w =
     (case (case embeddedObjects w self of None \<Rightarrow> None | Some eo \<Rightarrow> eo_embeddingObject eo) of
        Some (EmbeddingManaged a) \<Rightarrow> Some (Inr a)
      | None \<Rightarrow> Some (Inl (NSInternalInconsistencyException ''Expecting an embedding object''))
      | Some (EmbeddingEmbedded e) \<Rightarrow> databaseEmbedder self w)"

partial_function (option) markNeedsSave ::
  "'db cbl_ops \<Rightarrow> embedding_ref \<Rightarrow> 'db world \<Rightarrow> (exn + 'db world) option" where
  "markNeedsSave ops r w =
     (case r of
        EmbeddingManaged a \<Rightarrow> Some (Inr (putCbl (modelMarkNeedsSave ops (cbl w) a) w))
      | EmbeddingEmbedded e \<Rightarrow>
          (case embeddedObjects w e of
             None \<Rightarrow> Some (Inl (NSInternalInconsistencyException ''Expecting an embedding object''))
           | Some eo \<Rightarrow>
               (case eo_embeddingObject eo of
                  None \<Rightarrow> Some (Inl (NSInternalInconsistencyException ''Expecting an embedding object''))
                | Some r' \<Rightarrow> markNeedsSave ops r' (putEmbedded e (eo\<lparr>eo_needsSave := True\<rparr>) w))))"


section \<open>Values of properties\<close>

definition embeddedGetValueOfProperty :: "nat \<Rightarrow> string \<Rightarrow> 'db world \<Rightarrow> val option" where
  "embeddedGetValueOfProperty self property w =
     (case embeddedObjects w self of None \<Rightarrow> None | Some eo \<Rightarrow> map_of (eo_properties eo) property)"

definition dictRemove :: "string \<Rightarrow> dict \<Rightarrow> dict" where
  "dictRemove k d = filter (\<lambda>p. fst p \<noteq> k) d"

text \<open>
  \<open>cacheValue:ofProperty:changed:\<close> of an embedded object hands itself, or the collection
  it is in, to its embedding object.  \<open>scalar\<close> tells whether the property of an
  embedding object is not a collection, \<open>valueForKey\<close> reads the collection.
\<close>

partial_function (option) cacheValue ::
  "'db cbl_ops \<Rightarrow> (embedding_ref \<Rightarrow> string \<Rightarrow> 'db world \<Rightarrow> bool) \<Rightarrow>
   (embedding_ref \<Rightarrow> string \<Rightarrow> 'db world \<Rightarrow> val option) \<Rightarrow>
   embedding_ref \<Rightarrow> val option \<Rightarrow> string \<Rightarrow> 'db world \<Rightarrow> (exn + 'db world) option" where
  "cacheValue ops scalar valueForKey r v property w =
     (case r of
        EmbeddingManaged a \<Rightarrow> Some (Inr (putCbl (modelCacheValue ops (cbl w) a v property True) w))
      | EmbeddingEmbedded e \<Rightarrow>
          (case embeddedObjects w e of
             None \<Rightarrow> Some (Inl (NSInternalInconsistencyException ''embedded object''))
           | Some eo \<Rightarrow>
               (case (eo_embeddingObject eo, eo_embeddingKey eo) of
                  (Some r', Some key) \<Rightarrow>
                    cacheValue ops scalar valueForKey r'
                      (if scalar r' key w then Some (VEmbedded e) else valueForKey r' key w) key w
                | _ \<Rightarrow> Some (Inl (NSInternalInconsistencyException ''Object should have a non-nil embeddingObject'')))))"

definition bindCall :: "(exn + 'a) option \<Rightarrow> ('a \<Rightarrow> (exn + 'b) option) \<Rightarrow> (exn + 'b) option" where
  "bindCall m f = (case m of None \<Rightarrow> None | Some (Inl e) \<Rightarrow> Some (Inl e) | Some (Inr x) \<Rightarrow> f x)"

definition embeddedSetValue ::
  "'db cbl_ops \<Rightarrow> (embedding_ref \<Rightarrow> string \<Rightarrow> 'db world \<Rightarrow> bool) \<Rightarrow>
   (embedding_ref \<Rightarrow> string \<Rightarrow> 'db world \<Rightarrow> val option) \<Rightarrow>
   nat \<Rightarrow> val option \<Rightarrow> string \<Rightarrow> 'db world \<Rightarrow> (exn + 'db world) option" where
  "embeddedSetValue ops scalar valueForKey self v property w =
     (case embeddedObjects w self of
        None \<Rightarrow> Some (Inl (NSInternalInconsistencyException ''embedded object''))
      | Some eo \<Rightarrow>
          if v \<noteq> None \<and> map_of (eo_properties eo) property = v then Some (Inr w)
          else
            (case (eo_embeddingObject eo, eo_embeddingKey eo) of
               (Some r, Some key) \<Rightarrow>
                 (let w1 = putEmbedded self
                        (case v of
                           Some x \<Rightarrow> eo\<lparr>eo_properties := dictUpdate property x (eo_properties eo),
                                       eo_needsSave := True\<rparr>
                         | None \<Rightarrow> eo\<lparr>eo_properties := dictRemove property (eo_properties eo)\<rparr>) w
                  in bindCall
                       (cacheValue ops scalar valueForKey r
                         (if scalar r key w1 then Some (VEmbedded self) else valueForKey r key w1) key w1)
                       (\<lambda>w2. markNeedsSave ops r
                         (case r of
                            EmbeddingManaged a \<Rightarrow> putCbl (modelMarkPropertyNeedsSave ops (cbl w2) a key) w2
                          | EmbeddingEmbedded _ \<Rightarrow> w2)))
             | _ \<Rightarrow> Some (Inl (NSInternalInconsistencyException ''Object should have a non-nil embeddingObject''))))"

text \<open>\<open>setModel:forProperty:\<close>; \<open>documentID\<close> is that of the model, nil for a nil model.\<close>

definition setModelForProperty ::
  "'db cbl_ops \<Rightarrow> nat \<Rightarrow> string option \<Rightarrow> string \<Rightarrow> 'db world \<Rightarrow> (exn + 'db world) option" where
  "setModelForProperty ops self documentID property w =
     (case embeddedObjects w self of
        None \<Rightarrow> Some (Inl (NSInternalInconsistencyException ''embedded object''))
      | Some eo \<Rightarrow>
          if documentID \<noteq> None \<and> stringForKey (eo_properties eo) property = documentID then Some (Inr w)
          else markNeedsSave ops (EmbeddingEmbedded self)
            (putEmbedded self
              (eo\<lparr>eo_properties := (case documentID of
                    Some i \<Rightarrow> dictUpdate property (VString i) (eo_properties eo)
                  | None \<Rightarrow> dictRemove property (eo_properties eo))\<rparr>) w))"


section \<open>The caches as identity maps\<close>

definition managedCached :: "nat \<Rightarrow> 'db world \<Rightarrow> string \<Rightarrow> nat option" where
  "managedCached self w i =
     (case objects w self of
        None \<Rightarrow> None
      | Some mo \<Rightarrow> (case mo_embeddedObjectCache mo of None \<Rightarrow> None | Some cache \<Rightarrow> cache i))"

definition embeddedCached :: "nat \<Rightarrow> 'db world \<Rightarrow> string \<Rightarrow> nat option" where
  "embeddedCached self w i =
     (case embeddedObjects w self of None \<Rightarrow> None | Some eo \<Rightarrow> eo_embeddedObjectCache eo i)"

lemma managedCacheEmbedded_cached:
  assumes "managedCacheEmbedded self e w = Inr w'"
  shows "\<exists>i. identifierAt w e = Some i \<and> managedCached self w' = (managedCached self w)(i \<mapsto> e) \<and>
    embeddedObjects w' = embeddedObjects w"
proof -
  obtain mo eo i cache where *: "objects w self = Some mo" "embeddedObjects w e = Some eo"
    "eo_identifier eo = Some i" "mo_embeddedObjectCache mo = Some cache"
    and w': "(case cache i of
        Some e' \<Rightarrow> bindExn (assertThat (e' = e) ''Mismatching identity'') (\<lambda>_. Inr w)
      | None \<Rightarrow> Inr (putObject self (mo\<lparr>mo_embeddedObjectCache := Some (cache(i \<mapsto> e))\<rparr>) w)) = Inr w'"
    using assms by (auto simp: managedCacheEmbedded_def bindExn_Inr)
  show ?thesis
    using * w'
    by (cases "cache i") (auto simp: managedCached_def identifierAt_def fun_eq_iff split: if_splits)
qed

lemma managedRemoveEmbedded_cached:
  assumes "managedRemoveEmbedded self (Some e) w = Inr w'"
  shows "\<exists>i. identifierAt w e = Some i \<and> managedCached self w' = (managedCached self w)(i := None)"
proof -
  obtain mo eo i cache where *: "objects w self = Some mo" "embeddedObjects w e = Some eo"
    "eo_identifier eo = Some i" "mo_embeddedObjectCache mo = Some cache"
    "w' = putObject self (mo\<lparr>mo_embeddedObjectCache := Some (cache(i := None))\<rparr>) w"
    using assms
    by (auto simp: managedRemoveEmbedded_def bindExn_Inr split: option.splits if_splits)
  then show ?thesis by (auto simp: managedCached_def identifierAt_def fun_eq_iff)
qed

lemma embeddedCacheEmbedded_cached:
  assumes "embeddedCacheEmbedded self (Some e) w = Inr w'"
  shows "\<exists>i. identifierAt w e = Some i \<and> embeddedCached self w' = (embeddedCached self w)(i \<mapsto> e) \<and>
    identifierAt w' = identifierAt w"
proof -
  obtain me eo i where *: "embeddedObjects w self = Some me" "embeddedObjects w e = Some eo"
    "eo_identifier eo = Some i"
    and w': "(case eo_embeddedObjectCache me i of
        Some e' \<Rightarrow> bindExn (assertThat (e' = e) ''identity'') (\<lambda>_. Inr w)
      | None \<Rightarrow> Inr (putEmbedded self
          (me\<lparr>eo_embeddedObjectCache := (eo_embeddedObjectCache me)(i \<mapsto> e)\<rparr>) w)) = Inr w'"
    using assms by (auto simp: embeddedCacheEmbedded_def bindExn_Inr)
  show ?thesis
    using * w'
    by (cases "eo_embeddedObjectCache me i")
       (auto simp: embeddedCached_def identifierAt_def eo_identifier_def fun_eq_iff split: if_splits)
qed

lemma embeddedRemoveEmbedded_cached:
  assumes "embeddedRemoveEmbedded self (Some e) w = Inr w'"
  shows "\<exists>i. identifierAt w e = Some i \<and> embeddedCached self w' = (embeddedCached self w)(i := None)"
proof -
  obtain me eo i where *: "embeddedObjects w self = Some me" "embeddedObjects w e = Some eo"
    "eo_identifier eo = Some i"
    "w' = putEmbedded self (me\<lparr>eo_embeddedObjectCache := (eo_embeddedObjectCache me)(i := None)\<rparr>) w"
    using assms
    by (auto simp: embeddedRemoveEmbedded_def bindExn_Inr split: option.splits if_splits)
  then show ?thesis by (auto simp: embeddedCached_def identifierAt_def fun_eq_iff)
qed

interpretation managed_embeds:
  identity_map "managedCached self" identifierAt "managedCacheEmbedded self"
    "\<lambda>e. managedRemoveEmbedded self (Some e)" for self
proof
  fix e u w w' k
  show "managedCacheEmbedded self e w = Inr w' \<Longrightarrow>
      \<exists>k. identifierAt w e = Some k \<and> managedCached self w' k = Some e"
    by (drule managedCacheEmbedded_cached) auto
  show "managedCacheEmbedded self e w = Inr w' \<Longrightarrow> identifierAt w e \<noteq> Some k \<Longrightarrow>
      managedCached self w' k = managedCached self w k"
    by (drule managedCacheEmbedded_cached) auto
  show "managedCacheEmbedded self e w = Inr w' \<Longrightarrow> identifierAt w' u = identifierAt w u"
    by (drule managedCacheEmbedded_cached) (auto simp: identifierAt_def)
  show "managedRemoveEmbedded self (Some e) w = Inr w' \<Longrightarrow> identifierAt w e = Some k \<Longrightarrow>
      managedCached self w' k \<noteq> Some e"
    by (drule managedRemoveEmbedded_cached) auto
  show "managedRemoveEmbedded self (Some e) w = Inr w' \<Longrightarrow> identifierAt w e \<noteq> Some k \<Longrightarrow>
      managedCached self w' k = managedCached self w k"
    by (drule managedRemoveEmbedded_cached) auto
qed

interpretation embedded_embeds:
  identity_map "embeddedCached self" identifierAt "\<lambda>e. embeddedCacheEmbedded self (Some e)"
    "\<lambda>e. embeddedRemoveEmbedded self (Some e)" for self
proof
  fix e u w w' k
  show "embeddedCacheEmbedded self (Some e) w = Inr w' \<Longrightarrow>
      \<exists>k. identifierAt w e = Some k \<and> embeddedCached self w' k = Some e"
    by (drule embeddedCacheEmbedded_cached) auto
  show "embeddedCacheEmbedded self (Some e) w = Inr w' \<Longrightarrow> identifierAt w e \<noteq> Some k \<Longrightarrow>
      embeddedCached self w' k = embeddedCached self w k"
    by (drule embeddedCacheEmbedded_cached) auto
  show "embeddedCacheEmbedded self (Some e) w = Inr w' \<Longrightarrow> identifierAt w' u = identifierAt w u"
    by (drule embeddedCacheEmbedded_cached) auto
  show "embeddedRemoveEmbedded self (Some e) w = Inr w' \<Longrightarrow> identifierAt w e = Some k \<Longrightarrow>
      embeddedCached self w' k \<noteq> Some e"
    by (drule embeddedRemoveEmbedded_cached) auto
  show "embeddedRemoveEmbedded self (Some e) w = Inr w' \<Longrightarrow> identifierAt w e \<noteq> Some k \<Longrightarrow>
      embeddedCached self w' k = embeddedCached self w k"
    by (drule embeddedRemoveEmbedded_cached) auto
qed

text \<open>Both lookups read the cache, and fail only for a missing object or cache.\<close>

fun cachedIn :: "embedding_ref \<Rightarrow> 'db world \<Rightarrow> string \<Rightarrow> nat option" where
  "cachedIn (EmbeddingManaged a) w i = managedCached a w i"
| "cachedIn (EmbeddingEmbedded a) w i = embeddedCached a w i"

lemma embeddedObjectWithIdentifier_cached:
  "embeddedObjectWithIdentifier r i w = Inr x \<Longrightarrow> x = cachedIn r w i"
  by (cases r)
     (auto simp: managedEmbeddedObjectWithIdentifier_def embeddedEmbeddedObjectWithIdentifier_def
       bindExn_Inr managedCached_def embeddedCached_def)

lemma embeddedObjectWithIdentifier_Some:
  "cachedIn r w i = Some e \<Longrightarrow> embeddedObjectWithIdentifier r i w = Inr (Some e)"
  by (cases r)
     (auto simp: managedEmbeddedObjectWithIdentifier_def embeddedEmbeddedObjectWithIdentifier_def
       managedCached_def embeddedCached_def getObject_def getEmbedded_def MPAssertNotNil_def
       split: option.splits)

lemma cacheEmbeddedObjectByIdentifier_cached:
  "cacheEmbeddedObjectByIdentifier r e w = Inr w' \<Longrightarrow> identifierAt w e = Some i \<Longrightarrow>
   cachedIn r w' i = Some e"
  by (cases r)
     (auto dest: managed_embeds.add_lookup embedded_embeds.add_lookup)

lemma uniqueEmbedded_cached:
  assumes "uniqueEmbedded r e eo w = Inr (e', w')" and "eo_identifier eo = Some i"
  shows "cachedIn r w' i = Some e'"
proof -
  obtain existing where ex: "embeddedObjectWithIdentifier r i w = Inr existing"
    using assms by (auto simp: uniqueEmbedded_def bindExn_Inr)
  show ?thesis
  proof (cases existing)
    case None
    then have "e' = e" and "cacheEmbeddedObjectByIdentifier r e (putEmbedded e eo w) = Inr w'"
      using assms ex by (auto simp: uniqueEmbedded_def bindExn_Inr MPAssertNotNil_def)
    moreover have "identifierAt (putEmbedded e eo w) e = Some i"
      using assms(2) by (simp add: identifierAt_def)
    ultimately show ?thesis using cacheEmbeddedObjectByIdentifier_cached by blast
  next
    case (Some x)
    then show ?thesis
      using assms ex embeddedObjectWithIdentifier_cached [OF ex]
      by (auto simp: uniqueEmbedded_def bindExn_Inr MPAssertNotNil_def)
  qed
qed

lemma uniqueEmbedded_again:
  "cachedIn r w i = Some e' \<Longrightarrow> eo_identifier eo = Some i \<Longrightarrow> uniqueEmbedded r e eo w = Inr (e', w)"
  by (simp add: uniqueEmbedded_def MPAssertNotNil_def embeddedObjectWithIdentifier_Some)


section \<open>Paths to the managed object\<close>

inductive embedding_path :: "'db world \<Rightarrow> embedding_ref \<Rightarrow> nat list \<Rightarrow> nat \<Rightarrow> bool" where
  managed: "embedding_path w (EmbeddingManaged a) [] a"
| embedded: "embeddedObjects w e = Some eo \<Longrightarrow> eo_embeddingObject eo = Some r \<Longrightarrow>
    embedding_path w r es a \<Longrightarrow> embedding_path w (EmbeddingEmbedded e) (e # es) a"

inductive_cases embedding_pathE: "embedding_path w (EmbeddingEmbedded e) es a"
inductive_cases embedding_path_managedE: "embedding_path w (EmbeddingManaged b) es a"

lemma embeddingWalk_path: "embedding_path w r es a \<Longrightarrow> embeddingWalk (Some r) w = Some (Some a)"
  by (induction rule: embedding_path.induct) (simp_all add: embeddingWalk.simps)

definition walkFinds :: "embedding_ref option \<Rightarrow> 'db world \<Rightarrow> nat option \<Rightarrow> bool" where
  "walkFinds r w x \<longleftrightarrow>
     (case x of None \<Rightarrow> True | Some a \<Rightarrow> (\<exists>r' es. r = Some r' \<and> embedding_path w r' es a))"

lemma embeddingWalk_sound: "embeddingWalk r w = Some x \<Longrightarrow> walkFinds r w x"
proof (rule embeddingWalk.raw_induct [where P = walkFinds])
  fix walk :: "embedding_ref option \<Rightarrow> 'b world \<Rightarrow> nat option option"
    and r :: "embedding_ref option" and w :: "'b world" and y
  assume IH: "\<And>r w x. walk r w = Some x \<Longrightarrow> walkFinds r w x"
    and step: "(case r of None \<Rightarrow> Some None | Some (EmbeddingManaged a) \<Rightarrow> Some (Some a)
      | Some (EmbeddingEmbedded e) \<Rightarrow> walk (case embeddedObjects w e of None \<Rightarrow> None
          | Some eo \<Rightarrow> eo_embeddingObject eo) w) = Some y"
  show "walkFinds r w y"
  proof (cases r)
    case None
    then show ?thesis using step by (simp add: walkFinds_def)
  next
    case (Some r0)
    show ?thesis
    proof (cases r0)
      case (EmbeddingManaged b)
      then have "y = Some b" using step Some by simp
      then show ?thesis
        using Some EmbeddingManaged embedding_path.managed [of w b] by (auto simp: walkFinds_def)
    next
      case (EmbeddingEmbedded e)
      then have "walkFinds (case embeddedObjects w e of None \<Rightarrow> None
          | Some eo \<Rightarrow> eo_embeddingObject eo) w y"
        using step Some by (intro IH) simp
      then show ?thesis
        using Some EmbeddingEmbedded
        by (fastforce simp: walkFinds_def split: option.splits intro: embedding_path.embedded)
    qed
  qed
qed

lemma embedding_path_deterministic:
  "embedding_path w r es a \<Longrightarrow> embedding_path w r es' a' \<Longrightarrow> es = es' \<and> a = a'"
proof (induction arbitrary: es' rule: embedding_path.induct)
  case (managed w a)
  then show ?case by (auto elim: embedding_path_managedE)
next
  case (embedded w e eo r es a)
  from embedded.prems show ?case
    by (rule embedding_pathE) (use embedded in auto)
qed


text \<open>The effect of \<open>markNeedsSave\<close> along a path.\<close>

definition setNeedsSave :: "nat \<Rightarrow> 'db world \<Rightarrow> 'db world" where
  "setNeedsSave e w =
     (case embeddedObjects w e of None \<Rightarrow> w | Some eo \<Rightarrow> putEmbedded e (eo\<lparr>eo_needsSave := True\<rparr>) w)"

lemma setNeedsSave_fields [simp]:
  "objects (setNeedsSave e w) = objects w" "cbl (setNeedsSave e w) = cbl w"
  "controllers (setNeedsSave e w) = controllers w" "packages (setNeedsSave e w) = packages w"
  by (simp_all add: setNeedsSave_def split: option.splits)

lemma setNeedsSave_embedded:
  "embeddedObjects (setNeedsSave e w) x =
     (if x = e then map_option (\<lambda>eo. eo\<lparr>eo_needsSave := True\<rparr>) (embeddedObjects w x)
      else embeddedObjects w x)"
  by (simp add: setNeedsSave_def split: option.splits)

lemma fold_setNeedsSave_fields [simp]:
  "objects (fold setNeedsSave es w) = objects w" "cbl (fold setNeedsSave es w) = cbl w"
  by (induction es arbitrary: w) simp_all

lemma fold_setNeedsSave_embedded:
  "embeddedObjects (fold setNeedsSave es w) x =
     (if x \<in> set es then map_option (\<lambda>eo. eo\<lparr>eo_needsSave := True\<rparr>) (embeddedObjects w x)
      else embeddedObjects w x)"
  by (induction es arbitrary: w) (auto simp: setNeedsSave_embedded option.map_comp comp_def)

lemma embedding_path_setNeedsSave:
  "embedding_path w r es a \<Longrightarrow> embedding_path (setNeedsSave e w) r es a"
proof (induction rule: embedding_path.induct)
  case (embedded w e' eo r es a)
  then show ?case
    by (cases "e' = e") (auto simp: setNeedsSave_embedded intro!: embedding_path.embedded)
qed (rule embedding_path.managed)

lemma markNeedsSave_path:
  "embedding_path w r es a \<Longrightarrow>
   markNeedsSave ops r w =
     Some (Inr (putCbl (modelMarkNeedsSave ops (cbl w) a) (fold setNeedsSave es w)))"
proof (induction es arbitrary: w r)
  case Nil
  then have "r = EmbeddingManaged a" by (auto elim: embedding_path.cases)
  then show ?case by (simp add: markNeedsSave.simps)
next
  case (Cons e es)
  then obtain eo r' where r: "r = EmbeddingEmbedded e" "embeddedObjects w e = Some eo"
    "eo_embeddingObject eo = Some r'" "embedding_path w r' es a"
    by (auto elim: embedding_path.cases)
  have "markNeedsSave ops r w = markNeedsSave ops r' (setNeedsSave e w)"
    using r by (subst markNeedsSave.simps) (simp add: setNeedsSave_def)
  also have "\<dots> = Some (Inr (putCbl (modelMarkNeedsSave ops (cbl w) a)
      (fold setNeedsSave es (setNeedsSave e w))))"
    using Cons.IH [OF embedding_path_setNeedsSave [OF r(4)], of e] by simp
  finally show ?case by simp
qed

text \<open>A path whose objects all have an embedding key, which initialisation guarantees.\<close>

definition keyed :: "'db world \<Rightarrow> nat list \<Rightarrow> bool" where
  "keyed w es \<longleftrightarrow>
     list_all (\<lambda>e. case embeddedObjects w e of None \<Rightarrow> False | Some eo \<Rightarrow> eo_embeddingKey eo \<noteq> None) es"

lemma cacheValue_path:
  "embedding_path w r es a \<Longrightarrow> keyed w es \<Longrightarrow>
   \<exists>v' key. cacheValue ops scalar vfk r v property w =
     Some (Inr (putCbl (modelCacheValue ops (cbl w) a v' key True) w))"
proof (induction arbitrary: v property rule: embedding_path.induct)
  case (managed w a)
  then show ?case by (subst cacheValue.simps) auto
next
  case (embedded w e eo r es a)
  then obtain key where "eo_embeddingKey eo = Some key" by (auto simp: keyed_def)
  then show ?case
    using embedded.hyps embedded.IH [of "if scalar r key w then Some (VEmbedded e) else vfk r key w" key]
      embedded.prems
    by (subst cacheValue.simps) (simp add: keyed_def)
qed


lemma hasKey_string: "stringForKey d k = Some s \<Longrightarrow> hasKey d k"
  by (auto simp: stringForKey_def hasKey_def split: option.splits)

lemma initWithDictionary_identified:
  assumes "stringForKey d ''_id'' = Some i" and "hasPrefix i (class_name c)"
    and "stringForKey d ''objectType'' = Some (class_name c)"
  shows "initWithDictionary c d (Some r) (Some k) uuid e w =
    uniqueEmbedded r e
      \<lparr>eo_class = c, eo_embeddingObject = Some r, eo_embeddingKey = Some k, eo_properties = d,
       eo_needsSave = False, eo_embeddedObjectCache = Map.empty\<rparr> w"
  using assms hasKey_string [of d "''_id''"] hasKey_string [of d "''objectType''"]
  by (simp add: initWithDictionary_def MPAssertNotNil_def)

lemma initWithDictionary_Inr:
  assumes "initWithDictionary c d (Some r) (Some k) uuid e w = Inr (e', w')"
    and "stringForKey d ''_id'' = Some i"
  shows "hasPrefix i (class_name c)" and "stringForKey d ''objectType'' = Some (class_name c)"
  using assms hasKey_string [of d "''_id''"] by (auto simp: initWithDictionary_def split: if_splits)

end
