(* ===== verification/ManagedObject.thy ===== *)
theory ManagedObject
  imports ObjectsController EmbeddedObject
begin

text \<open>
  \<open>MPManagedObject\<close>: the document-backed object.  The theory models its creation, the
  writing of properties with the identity guards, timestamps, saving and deleting with
  the callbacks to the controller, sharing and moderation, locking, prototypes and the
  dictionary forms.  A block that the code hands to \<open>mp_dispatch_sync\<close> runs in place.
\<close>


section \<open>The surroundings of a managed object\<close>

text \<open>
  \<open>svc_ops\<close> are the operations of Couchbase Lite, \<open>svc_classOfProperty\<close> and
  \<open>svc_valueForKey\<close> the reflective accessors of its dynamic objects; \<open>svc_uuid\<close> and
  \<open>svc_fresh\<close> give the next \<open>NSUUID\<close> string and the next free address.  The remaining
  fields are the clock, the session and the methods subclasses override.
\<close>

record 'db services =
  svc_ops :: "'db cbl_ops"
  svc_runtime :: runtime
  svc_classes :: known_classes
  svc_names :: name_dictionary
  svc_classOfProperty :: "cls \<Rightarrow> string \<Rightarrow> cls option"
  svc_valueForKey :: "embedding_ref \<Rightarrow> string \<Rightarrow> 'db world \<Rightarrow> val option"
  svc_uuid :: "'db world \<Rightarrow> string"
  svc_fresh :: "'db world \<Rightarrow> nat"
  svc_now :: int
  svc_sessionID :: string
  svc_shouldTrackSessionID :: "cls \<Rightarrow> bool"

datatype MPManagedObjectErrorCode =
    MPManagedObjectErrorCodeUnknown
  | MPManagedObjectErrorCodeTypeMissing
  | MPManagedObjectErrorCodeUserNotCreator
  | MPManagedObjectErrorCodeMissingBundledData
  | MPManagedObjectErrorCodeMissingAttachment
  | MPManagedObjectErrorCodeMissingController
  | MPManagedObjectErrorCodeMissingDatabase

primrec errorCode :: "MPManagedObjectErrorCode \<Rightarrow> nat" where
  "errorCode MPManagedObjectErrorCodeUnknown = 0"
| "errorCode MPManagedObjectErrorCodeTypeMissing = 1"
| "errorCode MPManagedObjectErrorCodeUserNotCreator = 2"
| "errorCode MPManagedObjectErrorCodeMissingBundledData = 3"
| "errorCode MPManagedObjectErrorCodeMissingAttachment = 4"
| "errorCode MPManagedObjectErrorCodeMissingController = 5"
| "errorCode MPManagedObjectErrorCodeMissingDatabase = 6"

definition managedObjectError :: "MPManagedObjectErrorCode \<Rightarrow> ns_error" where
  "managedObjectError c = \<lparr>error_domain = ''MPManagedObjectErrorDomain'', error_code = errorCode c\<rparr>"

datatype MPManagedObjectModerationState =
    MPManagedObjectModerationStateUnmoderated
  | MPManagedObjectModerationStateAccepted
  | MPManagedObjectModerationStateRejected

primrec moderationNumber :: "MPManagedObjectModerationState \<Rightarrow> int" where
  "moderationNumber MPManagedObjectModerationStateUnmoderated = 0"
| "moderationNumber MPManagedObjectModerationStateAccepted = 1"
| "moderationNumber MPManagedObjectModerationStateRejected = 2"


section \<open>Identity\<close>

definition documentID :: "'db cbl_ops \<Rightarrow> nat \<Rightarrow> 'db world \<Rightarrow> exn + string" where
  "documentID ops a w =
     (case modelDocumentID ops (cbl w) a of
        Some i \<Rightarrow> Inr i
      | None \<Rightarrow> bindExn (getObject a w) (\<lambda>mo.
          MPAssertNotNil (mo_deletedDocumentID mo) ''deletedDocumentID''))"

definition prefixlessDocumentID :: "'db cbl_ops \<Rightarrow> nat \<Rightarrow> 'db world \<Rightarrow> exn + string" where
  "prefixlessDocumentID ops a w =
     bindExn (documentID ops a w) (\<lambda>i. Inr (last (componentsSeparatedByString '':'' i)))"

definition isDeleted :: "'db cbl_ops \<Rightarrow> nat \<Rightarrow> 'db world \<Rightarrow> bool" where
  "isDeleted ops a w \<longleftrightarrow>
     modelDocumentID ops (cbl w) a = None \<or> modelDocumentIsDeleted ops (cbl w) a"

definition classIdForNewDocument :: "cls \<Rightarrow> string \<Rightarrow> string" where
  "classIdForNewDocument c uuid = class_name c @ '':'' @ uuid"

definition idForNewDocumentInDatabase :: "known_classes \<Rightarrow> managed_object \<Rightarrow> string \<Rightarrow> exn + string" where
  "idForNewDocumentInDatabase kc mo uuid =
     bindExn (assertThat (mo_class mo \<noteq> class_MPManagedObject kc) ''class'') (\<lambda>_.
       case mo_newDocumentID mo of
         None \<Rightarrow> Inr (classIdForNewDocument (mo_class mo) uuid)
       | Some i \<Rightarrow>
           bindExn (assertThat (hasPrefix i (class_name (mo_class mo) @ '':'')) ''Prefix is not acceptable'')
             (\<lambda>_. Inr i))"

definition isConcrete :: "runtime \<Rightarrow> cls \<Rightarrow> bool" where
  "isConcrete rt c \<longleftrightarrow> fst (subclasses rt c) = []"

definition canonicalizedIdentifierStringForString :: "string \<Rightarrow> string" where
  "canonicalizedIdentifierStringForString s =
     stringByReplacingOccurrencesOfString
       (stringByReplacingOccurrencesOfString
         (stringByReplacingOccurrencesOfString
           (stringByReplacingOccurrencesOfString
             (stringByReplacingOccurrencesOfString
               (stringByReplacingOccurrencesOfString s ''http://'' '''')
               ''https://'' '''')
             ''/'' ''-'')
           ''.'' ''-'')
         '' '' ''-'')
       '':'' ''-''"


section \<open>Writing properties\<close>

definition getValueOfProperty :: "'db cbl_ops \<Rightarrow> nat \<Rightarrow> string \<Rightarrow> 'db world \<Rightarrow> val option" where
  "getValueOfProperty ops a k w = modelGetValue ops (cbl w) a k"

text \<open>The properties of a class whose type is a class of embedded objects.\<close>

definition embeddedProperties :: "'db services \<Rightarrow> cls \<Rightarrow> string set" where
  "embeddedProperties svc c =
     (case fst (propertiesOfSubclassesForClass (svc_runtime svc) c
        (\<lambda>_ key. case svc_classOfProperty svc c key of
           None \<Rightarrow> False
         | Some p \<Rightarrow> isSubclassOfClass p (class_MPEmbeddedObject (svc_classes svc)))) (class_name c) of
        None \<Rightarrow> {}
      | Some keys \<Rightarrow> keys)"

text \<open>
  The guards on \<open>objectType\<close> and \<open>_id\<close>: nil is refused, a different value raises, the
  same value ends the call.  The result tells whether there is nothing left to do.
\<close>

definition guardIdentity ::
  "'db cbl_ops \<Rightarrow> nat \<Rightarrow> val option \<Rightarrow> string \<Rightarrow> 'db world \<Rightarrow> exn + bool" where
  "guardIdentity ops a v k w =
     (if k = ''objectType'' \<or> k = ''_id''
      then bindExn (MPAssertNotNil v ''value'') (\<lambda>x.
        case getValueOfProperty ops a k w of
          None \<Rightarrow> Inr False
        | Some old \<Rightarrow>
            if x = old then Inr True
            else throw (MPInvalidArgumentException (''Trying to reset '' @ k)))
      else Inr False)"

text \<open>
  A dictionary for a property that holds an embedded object becomes a new embedded
  object of the same class, without the identity of the old one.
\<close>

definition embeddedToReplace ::
  "'db services \<Rightarrow> nat \<Rightarrow> val option \<Rightarrow> string \<Rightarrow> managed_object \<Rightarrow> 'db world \<Rightarrow> (nat \<times> dict) option" where
  "embeddedToReplace svc a v k mo w =
     (case v of
        Some (VDict d) \<Rightarrow>
          if k \<in> embeddedProperties svc (mo_class mo)
          then (case svc_valueForKey svc (EmbeddingManaged a) k w of
                  Some (VEmbedded e) \<Rightarrow> Some (e, d)
                | _ \<Rightarrow> None)
          else None
      | _ \<Rightarrow> None)"

definition embeddedValueFor ::
  "'db services \<Rightarrow> nat \<Rightarrow> val option \<Rightarrow> string \<Rightarrow> 'db world \<Rightarrow> exn + val option \<times> 'db world" where
  "embeddedValueFor svc a v k w =
     bindExn (getObject a w) (\<lambda>mo.
       case embeddedToReplace svc a v k mo w of
         None \<Rightarrow> Inr (v, w)
       | Some (e, d) \<Rightarrow>
           bindExn (getEmbedded e w) (\<lambda>eo.
           bindExn (initWithDictionary (eo_class eo)
               (if hasKey d ''_id'' \<or> hasKey d ''objectType''
                then dictRemove ''objectType'' (dictRemove ''_id'' d) else d)
               (eo_embeddingObject eo) (eo_embeddingKey eo) (svc_uuid svc w) (svc_fresh svc w) w)
             (\<lambda>(e', w'). Inr (Some (VEmbedded e'), w'))))"

definition setValue ::
  "'db services \<Rightarrow> nat \<Rightarrow> val option \<Rightarrow> string \<Rightarrow> 'db world \<Rightarrow> exn + 'db world" where
  "setValue svc a v k w =
     (if isDeleted (svc_ops svc) a w then Inr w
      else
        bindExn (guardIdentity (svc_ops svc) a v k w) (\<lambda>nothingToDo.
          if nothingToDo then Inr w
          else bindExn (embeddedValueFor svc a v k w) (\<lambda>(v', w').
            Inr (putCbl (modelSetValue (svc_ops svc) (cbl w') a v' k) w'))))"

fun setValuesForPropertiesWithDictionary ::
  "'db services \<Rightarrow> nat \<Rightarrow> dict \<Rightarrow> 'db world \<Rightarrow> exn + 'db world" where
  "setValuesForPropertiesWithDictionary svc a [] w = Inr w"
| "setValuesForPropertiesWithDictionary svc a ((k, v) # rest) w =
     bindExn (setValue svc a (Some v) k w) (\<lambda>w'. setValuesForPropertiesWithDictionary svc a rest w')"

definition setObjectType :: "'db services \<Rightarrow> nat \<Rightarrow> string \<Rightarrow> 'db world \<Rightarrow> exn + 'db world" where
  "setObjectType svc a t w = setValue svc a (Some (VString t)) ''objectType'' w"

definition objectType :: "'db cbl_ops \<Rightarrow> nat \<Rightarrow> 'db world \<Rightarrow> val option" where
  "objectType ops a w = getValueOfProperty ops a ''objectType'' w"

fun boolValue :: "val option \<Rightarrow> bool" where
  "boolValue (Some (VBool b)) = b"
| "boolValue (Some (VNumber n)) = (n \<noteq> 0)"
| "boolValue v = False"

fun intValue :: "val option \<Rightarrow> int" where
  "intValue (Some (VNumber n)) = n"
| "intValue (Some (VBool b)) = of_bool b"
| "intValue v = 0"


section \<open>Creation\<close>

definition didInitialize :: "'db cbl_ops \<Rightarrow> nat \<Rightarrow> 'db world \<Rightarrow> exn + 'db world" where
  "didInitialize ops a w =
     bindExn (getObject a w) (\<lambda>mo.
       let w1 = (if mo_embeddedObjectCache mo = None
                 then putObject a (mo\<lparr>mo_embeddedObjectCache := Some Map.empty\<rparr>) w else w)
       in bindExn (MPAssertNotNil (mo_controller mo) ''_controller'') (\<lambda>m.
            if modelDocumentID ops (cbl w1) a = None then Inr w1 else registerObject ops m a w1))"

definition newManagedObject :: "cls \<Rightarrow> nat \<Rightarrow> string option \<Rightarrow> managed_object" where
  "newManagedObject c m i =
     \<lparr>mo_class = c, mo_controller = Some m, mo_newDocumentID = i, mo_cloudKitChangeTag = None,
      mo_cachedCloudKitChangeTag = None, mo_isNewObject = False, mo_embeddedObjectCache = None,
      mo_deletedDocumentID = None\<rparr>"

definition classForProperties :: "runtime \<Rightarrow> cls \<Rightarrow> dict option \<Rightarrow> cls option" where
  "classForProperties rt c props =
     (case (case props of None \<Rightarrow> None | Some d \<Rightarrow> managedObjectType d) of
        None \<Rightarrow> Some c
      | Some t \<Rightarrow> NSClassFromString rt t)"

definition propertiesForInit :: "cls \<Rightarrow> dict option \<Rightarrow> dict" where
  "propertiesForInit moClass props =
     dictUpdate ''objectType'' (VString (class_name moClass))
       (dictRemove ''_rev'' (dictRemove ''_id'' (case props of None \<Rightarrow> [] | Some d \<Rightarrow> d)))"

text \<open>
  \<open>a\<close> is the address of the object being initialised.  \<open>CBLModel\<close> asks the object for
  the identifier of its new document and attaches it.
\<close>

definition initWithNewDocumentForController ::
  "'db services \<Rightarrow> cls \<Rightarrow> nat \<Rightarrow> nat option \<Rightarrow> dict option \<Rightarrow> string option \<Rightarrow> 'db world \<Rightarrow>
   exn + 'db world" where
  "initWithNewDocumentForController svc c a controller props identifier w =
     (if \<not> isConcrete (svc_runtime svc) c then throw (MPAbstractClassException (class_name c))
      else
        bindExn (MPAssertNotNil controller ''controller'') (\<lambda>m.
        bindExn (getController m w) (\<lambda>moc.
        bindExn (MPAssertNotNil (moc_database moc) ''controller.db'') (\<lambda>db.
        bindExn (idForNewDocumentInDatabase (svc_classes svc) (newManagedObject c m identifier) (svc_uuid svc w)) (\<lambda>i.
        bindExn (didInitialize (svc_ops svc) a
            (putCbl (modelNewDocument (svc_ops svc) (cbl w) a db i) (putObject a (newManagedObject c m identifier) w))) (\<lambda>w1.
        bindExn (getObject a w1) (\<lambda>mo.
        bindExn (MPAssertNotNil (classForProperties (svc_runtime svc) c props) ''moClass'') (\<lambda>moClass.
        bindExn (assertThat (isSubclassOfClass moClass (moc_managedObjectClass moc)) ''moClass'') (\<lambda>_.
        bindExn
          (case (case props of None \<Rightarrow> None | Some d \<Rightarrow> managedObjectType d) of
             None \<Rightarrow> Inr (putObject a (mo\<lparr>mo_isNewObject := True\<rparr>) w1)
           | Some t \<Rightarrow>
               bindExn (assertThat (t = class_name moClass) ''managedObjectType'') (\<lambda>_.
                 setObjectType svc a t (putObject a (mo\<lparr>mo_isNewObject := True\<rparr>) w1))) (\<lambda>w2.
        bindExn (registerObject (svc_ops svc) m a w2) (\<lambda>w3.
        bindExn (setValuesForPropertiesWithDictionary svc a (propertiesForInit moClass props) w3) (\<lambda>w4.
        bindExn (assertThat (identifier \<noteq> None \<longrightarrow> modelDocumentID (svc_ops svc) (cbl w4) a = identifier)
                   ''documentID'') (\<lambda>_. Inr w4)))))))))))))"

definition initCopyOfManagedObject ::
  "'db services \<Rightarrow> cls \<Rightarrow> nat \<Rightarrow> nat \<Rightarrow> nat option \<Rightarrow> 'db world \<Rightarrow> exn + 'db world" where
  "initCopyOfManagedObject svc c a original controller w =
     bindExn (getObject original w) (\<lambda>mo.
     bindExn (assertThat (isSubclassOfClass (mo_class mo) c) ''managedObject isKindOfClass'') (\<lambda>_.
       initWithNewDocumentForController svc c a controller
         (Some (dictionaryWithObjectsMatching (\<lambda>k v. \<not> hasPrefix k ''_'')
           (modelPropertiesToSave (svc_ops svc) (cbl w) original))) None w))"


section \<open>Timestamps and saving\<close>

definition createdAt :: "'db cbl_ops \<Rightarrow> nat \<Rightarrow> 'db world \<Rightarrow> int option" where
  "createdAt ops a w =
     (case getValueOfProperty ops a ''createdAt'' w of None \<Rightarrow> None | v \<Rightarrow> Some (intValue v))"

definition updatedAt :: "'db cbl_ops \<Rightarrow> nat \<Rightarrow> 'db world \<Rightarrow> int option" where
  "updatedAt ops a w =
     (case getValueOfProperty ops a ''updatedAt'' w of None \<Rightarrow> None | v \<Rightarrow> Some (intValue v))"

definition setCreatedAt :: "'db services \<Rightarrow> nat \<Rightarrow> int \<Rightarrow> 'db world \<Rightarrow> exn + 'db world" where
  "setCreatedAt svc a t w = setValue svc a (Some (VNumber t)) ''createdAt'' w"

definition setUpdatedAt :: "'db services \<Rightarrow> nat \<Rightarrow> int \<Rightarrow> 'db world \<Rightarrow> exn + 'db world" where
  "setUpdatedAt svc a t w = setValue svc a (Some (VNumber t)) ''updatedAt'' w"

definition updateTimestamps :: "'db services \<Rightarrow> nat \<Rightarrow> 'db world \<Rightarrow> exn + 'db world" where
  "updateTimestamps svc a w =
     bindExn (if createdAt (svc_ops svc) a w = None then setCreatedAt svc a (svc_now svc) w else Inr w)
       (\<lambda>w1. if modelNeedsSave (svc_ops svc) (cbl w1) a then setUpdatedAt svc a (svc_now svc) w1 else Inr w1)"

text \<open>\<open>cloudKitChangeTag\<close> caches the stored tag, or \<open>NSNull\<close> for none.\<close>

definition setCloudKitChangeTag :: "nat \<Rightarrow> string option \<Rightarrow> 'db world \<Rightarrow> exn + 'db world" where
  "setCloudKitChangeTag a tag w =
     bindExn (getObject a w) (\<lambda>mo. Inr (putObject a
       (mo\<lparr>mo_cloudKitChangeTag := tag, mo_cachedCloudKitChangeTag := map_option VString tag\<rparr>) w))"

definition cloudKitChangeTag :: "'db cbl_ops \<Rightarrow> nat \<Rightarrow> 'db world \<Rightarrow> exn + val option \<times> 'db world" where
  "cloudKitChangeTag ops a w =
     bindExn (getObject a w) (\<lambda>mo.
       let cached = (case mo_cachedCloudKitChangeTag mo of
             Some v \<Rightarrow> v
           | None \<Rightarrow> (case getValueOfProperty ops a ''cloudKitChangeTag'' w of None \<Rightarrow> VNull | Some v \<Rightarrow> v))
       in Inr (if cached = VNull then Some cached else None,
               putObject a (mo\<lparr>mo_cachedCloudKitChangeTag := Some cached\<rparr>) w))"

definition isClean :: "'db cbl_ops \<Rightarrow> nat \<Rightarrow> 'db world \<Rightarrow> bool" where
  "isClean ops a w \<longleftrightarrow> \<not> modelNeedsSave ops (cbl w) a \<and> \<not> modelHasPendingChanges ops (cbl w) a"

definition saveCompleted :: "'db services \<Rightarrow> nat \<Rightarrow> 'db world \<Rightarrow> exn + 'db world" where
  "saveCompleted svc a w =
     bindExn (getObject a w) (\<lambda>mo.
     bindExn (MPAssertNotNil (mo_controller mo) ''_controller'') (\<lambda>m.
       if mo_isNewObject mo
       then didSaveObject (svc_classes svc) (svc_names svc) m a (putObject a (mo\<lparr>mo_isNewObject := False\<rparr>) w)
       else didUpdateObject (svc_classes svc) (svc_names svc) m a w))"

text \<open>After a successful save the objects in embedded properties need no save.\<close>

definition embeddedIn :: "'db services \<Rightarrow> nat \<Rightarrow> cls \<Rightarrow> 'db world \<Rightarrow> val option set" where
  "embeddedIn svc a c w = (\<lambda>k. svc_valueForKey svc (EmbeddingManaged a) k w) ` embeddedProperties svc c"

definition clearEmbeddedNeedsSave :: "'db services \<Rightarrow> nat \<Rightarrow> 'db world \<Rightarrow> exn + 'db world" where
  "clearEmbeddedNeedsSave svc a w =
     bindExn (getObject a w) (\<lambda>mo.
       let vs = embeddedIn svc a (mo_class mo) w
       in bindExn (assertThat (\<forall>v\<in>vs. case v of None \<Rightarrow> True | Some (VEmbedded e) \<Rightarrow> True | _ \<Rightarrow> False)
                     ''embeddedObj isKindOfClass'')
            (\<lambda>_. Inr (w\<lparr>embeddedObjects := (\<lambda>e.
               if Some (VEmbedded e) \<in> vs
               then map_option (\<lambda>eo. eo\<lparr>eo_needsSave := False\<rparr>) (embeddedObjects w e)
               else embeddedObjects w e)\<rparr>)))"

definition prepareSave :: "'db services \<Rightarrow> nat \<Rightarrow> 'db world \<Rightarrow> exn + 'db world" where
  "prepareSave svc a w =
     bindExn (getObject a w) (\<lambda>mo.
     bindExn (MPAssertNotNil (mo_controller mo) ''_controller'') (\<lambda>m.
     bindExn (MPAssertNotNil (modelDocumentID (svc_ops svc) (cbl w) a) ''document'') (\<lambda>_.
     bindExn (willSaveObject m a w) (\<lambda>w1.
     bindExn (updateTimestamps svc a w1) (\<lambda>w2.
     bindExn (if svc_shouldTrackSessionID svc (mo_class mo)
              then setValue svc a (Some (VString (svc_sessionID svc))) ''sessionID'' w2 else Inr w2) (\<lambda>w3.
     bindExn (cloudKitChangeTag (svc_ops svc) a w3) (\<lambda>(currentChangeTag, w4).
       if currentChangeTag \<noteq> None \<and> getValueOfProperty (svc_ops svc) a ''cloudKitChangeTag'' w4 \<noteq> None
       then setValue svc a currentChangeTag ''cloudKitChangeTag'' w4 else Inr w4)))))))"

definition saveWithError ::
  "'db services \<Rightarrow> nat \<Rightarrow> 'db world \<Rightarrow> exn + (ns_error option + unit) \<times> 'db world" where
  "saveWithError svc a w =
     (if isClean (svc_ops svc) a w then Inr (Inr (), w)
      else
        bindExn (prepareSave svc a w) (\<lambda>w1.
          case modelSave (svc_ops svc) (cbl w1) a of
            Inl err \<Rightarrow> Inr (Inl err, w1)
          | Inr db \<Rightarrow>
              bindExn (clearEmbeddedNeedsSave svc a (putCbl db w1)) (\<lambda>w2.
              bindExn (saveCompleted svc a w2) (\<lambda>w3. Inr (Inr (), w3)))))"

text \<open>An error goes to the notification center of the package of the object's controller.\<close>

definition postError :: "nat \<Rightarrow> ns_error option \<Rightarrow> 'db world \<Rightarrow> exn + 'db world" where
  "postError a err w =
     bindExn (getObject a w) (\<lambda>mo.
     bindExn (MPAssertNotNil (mo_controller mo) ''controller'') (\<lambda>m.
     bindExn (getController m w) (\<lambda>moc.
     bindExn (getPackage (moc_package moc) w) (\<lambda>pkg.
     bindExn (postErrorNotification err (pkg_notificationCenter pkg)) (\<lambda>nc.
       Inr (putPackage (moc_package moc) (pkg\<lparr>pkg_notificationCenter := nc\<rparr>) w))))))"

definition saveSilently :: "'db services \<Rightarrow> nat \<Rightarrow> 'db world \<Rightarrow> exn + bool \<times> 'db world" where
  "saveSilently svc a w =
     bindExn (saveWithError svc a w) (\<lambda>(r, w1).
       case r of
         Inr _ \<Rightarrow> Inr (True, w1)
       | Inl err \<Rightarrow> bindExn (postError a err w1) (\<lambda>w2. Inr (False, w2)))"

fun prepareModels :: "'db services \<Rightarrow> nat option \<Rightarrow> nat list \<Rightarrow> 'db world \<Rightarrow> exn + 'db world" where
  "prepareModels svc moc [] w = Inr w"
| "prepareModels svc moc (a # rest) w =
     bindExn (getObject a w) (\<lambda>mo.
     bindExn (assertThat (mo_controller mo = moc) ''mo.controller == moc'') (\<lambda>_.
     bindExn (updateTimestamps svc a w) (\<lambda>w1. prepareModels svc moc rest w1)))"

definition saveModelsWithError ::
  "'db services \<Rightarrow> nat list \<Rightarrow> 'db world \<Rightarrow> exn + (ns_error option + unit) \<times> 'db world" where
  "saveModelsWithError svc as w =
     (let moc = (case as of [] \<Rightarrow> None | a # _ \<Rightarrow>
            (case objects w a of None \<Rightarrow> None | Some mo \<Rightarrow> mo_controller mo))
      in bindExn (prepareModels svc moc as w) (\<lambda>w1.
           case modelSaveModels (svc_ops svc) (cbl w1) as of
             Inl err \<Rightarrow> Inr (Inl err, w1)
           | Inr db \<Rightarrow> Inr (Inr (), putCbl db w1)))"

definition saveModels :: "'db services \<Rightarrow> cls \<Rightarrow> nat list \<Rightarrow> 'db world \<Rightarrow> exn + bool \<times> 'db world" where
  "saveModels svc self as w =
     (case as of
        [] \<Rightarrow> Inr (True, w)
      | a # _ \<Rightarrow>
          bindExn (getObject a w) (\<lambda>mo.
          bindExn (assertThat (list_all (\<lambda>b. case objects w b of None \<Rightarrow> False | Some o' \<Rightarrow>
              isSubclassOfClass (mo_class o') (mo_class mo) \<and> mo_controller o' = mo_controller mo \<and>
              isSubclassOfClass (mo_class o') self) as) ''saveModels'') (\<lambda>_.
          bindExn (saveModelsWithError svc as w) (\<lambda>(r, w1).
            case r of
              Inr _ \<Rightarrow> Inr (True, w1)
            | Inl err \<Rightarrow> bindExn (postError a err w1) (\<lambda>w2. Inr (False, w2))))))"


section \<open>Deleting\<close>

definition deleteAttached ::
  "'db services \<Rightarrow> nat \<Rightarrow> 'db world \<Rightarrow> exn + (ns_error option + unit) \<times> 'db world" where
  "deleteAttached svc a w =
     bindExn (getObject a w) (\<lambda>mo.
     bindExn (MPAssertNotNil (mo_controller mo) ''_controller'') (\<lambda>m.
     bindExn (MPAssertNotNil (modelDocumentID (svc_ops svc) (cbl w) a) ''deletedDocumentID'') (\<lambda>i.
       case modelDelete (svc_ops svc) (cbl w) a of
         Inl err \<Rightarrow> Inr (Inl err, w)
       | Inr db \<Rightarrow>
           bindExn (didDeleteObject (svc_classes svc) (svc_names svc) m a
             (putObject a (mo\<lparr>mo_deletedDocumentID := Some i\<rparr>) (putCbl db w)))
             (\<lambda>w1. Inr (Inr (), w1)))))"

text \<open>The cached properties of the base class are set to nil.\<close>

definition clearCachedTag :: "nat \<Rightarrow> 'db world \<Rightarrow> 'db world" where
  "clearCachedTag a w =
     (case objects w a of
        None \<Rightarrow> w
      | Some mo \<Rightarrow> putObject a (mo\<lparr>mo_cachedCloudKitChangeTag := None\<rparr>) w)"

definition deleteDocumentWithError ::
  "'db services \<Rightarrow> nat \<Rightarrow> 'db world \<Rightarrow> exn + (ns_error option + unit) \<times> 'db world" where
  "deleteDocumentWithError svc a w =
     bindExn (if modelHasRevision (svc_ops svc) (cbl w) a then deleteAttached svc a w else Inr (Inr (), w))
       (\<lambda>(r, w1). Inr (r, clearCachedTag a w1))"

definition deleteDocument :: "'db services \<Rightarrow> nat \<Rightarrow> 'db world \<Rightarrow> exn + bool \<times> 'db world" where
  "deleteDocument svc a w =
     bindExn (deleteDocumentWithError svc a w) (\<lambda>(r, w1).
       case r of
         Inr _ \<Rightarrow> Inr (True, clearCachedTag a w1)
       | Inl err \<Rightarrow> bindExn (postError a err w1) (\<lambda>w2. Inr (False, clearCachedTag a w2)))"

record database_change =
  change_isCurrentRevision :: bool
  change_inConflict :: bool
  change_documentID :: string
  change_sourceScheme :: "string option"

text \<open>\<open>document:didChange:\<close>; both branches of the source expression are the internal source.\<close>

definition documentDidChange ::
  "'db services \<Rightarrow> nat \<Rightarrow> cbl_document \<Rightarrow> database_change \<Rightarrow> 'db world \<Rightarrow> exn + 'db world" where
  "documentDidChange svc a doc change w =
     bindExn (getObject a w) (\<lambda>mo.
       let mo1 = (if change_isCurrentRevision change \<and> \<not> change_inConflict change \<and> document_isDeleted doc
                  then mo\<lparr>mo_deletedDocumentID := Some (change_documentID change)\<rparr> else mo);
           w1 = putObject a mo1 w
       in case change_sourceScheme change of
            None \<Rightarrow> Inr w1
          | Some scheme \<Rightarrow>
              (case mo_controller mo1 of
                 None \<Rightarrow> Inr w1
               | Some m \<Rightarrow> didChangeDocument (svc_classes svc) (svc_names svc) doc m a
                   (if scheme = ''cbl'' then MPManagedObjectChangeSourceInternal
                    else MPManagedObjectChangeSourceInternal) w1))"

definition didLoadFromDocument :: "'db services \<Rightarrow> nat \<Rightarrow> 'db world \<Rightarrow> exn + 'db world" where
  "didLoadFromDocument svc a w =
     bindExn (getObject a w) (\<lambda>mo.
     bindExn
       (case conflictingRevisions (svc_ops svc) (cbl w) a of
          Inl None \<Rightarrow> Inr w
        | Inl (Some err) \<Rightarrow> postError a (Some err) w
        | Inr revs \<Rightarrow>
            if length revs > 1
            then
              (case mo_controller mo of
                 None \<Rightarrow> Inr w
               | Some m \<Rightarrow>
                   bindExn (resolveConflictingRevisionsForObject (svc_ops svc) m a w) (\<lambda>(r, w1).
                     case r of
                       Inl (Some err) \<Rightarrow> postError a (Some err) w1
                     | _ \<Rightarrow> Inr w1))
            else Inr w) (\<lambda>w2.
     bindExn (MPAssertNotNil (mo_controller mo) ''_controller'') (\<lambda>m.
       didLoadObjectFromDocument (svc_ops svc) m a w2)))"


section \<open>Sharing, moderation, locking and prototypes\<close>

definition isShared :: "'db cbl_ops \<Rightarrow> nat \<Rightarrow> 'db world \<Rightarrow> bool" where
  "isShared ops a w = boolValue (getValueOfProperty ops a ''shared'' w)"

definition setShared :: "'db services \<Rightarrow> nat \<Rightarrow> bool \<Rightarrow> 'db world \<Rightarrow> exn + 'db world" where
  "setShared svc a shared w =
     (let prevValue = isShared (svc_ops svc) a w
      in if prevValue = shared then Inr w
         else bindExn (assertThat (\<not> shared \<longrightarrow> \<not> prevValue) ''object cannot be un-shared'') (\<lambda>_.
           bindExn (setValue svc a (Some (VBool shared)) ''shared'' w) (\<lambda>w1.
             if shared
             then
               bindExn (getObject a w1) (\<lambda>mo.
               bindExn (MPAssertNotNil (mo_controller mo) ''controller'') (\<lambda>m.
               bindExn (getController m w1) (\<lambda>moc.
               bindExn (getPackage (moc_package moc) w1) (\<lambda>pkg.
                 Inr (putPackage (moc_package moc)
                   (pkg\<lparr>pkg_notificationCenter :=
                      postNotificationForSharingManagedObject a (pkg_notificationCenter pkg)\<rparr>) w1)))))
             else Inr w1)))"

text \<open>The identifiers of the creator and of the current user are nil when they are unknown.\<close>

definition shareWithError ::
  "'db services \<Rightarrow> string option \<Rightarrow> string option \<Rightarrow> nat \<Rightarrow> 'db world \<Rightarrow>
   exn + (ns_error option + unit) \<times> 'db world" where
  "shareWithError svc creatorID meID a w =
     (if creatorID = None \<or> creatorID \<noteq> meID
      then Inr (Inl (Some (managedObjectError MPManagedObjectErrorCodeUserNotCreator)), w)
      else bindExn (assertThat (\<not> isShared (svc_ops svc) a w) ''!self.isShared'') (\<lambda>_.
        bindExn (setShared svc a True w) (\<lambda>w1. Inr (Inr (), w1))))"

definition moderationState :: "'db cbl_ops \<Rightarrow> nat \<Rightarrow> 'db world \<Rightarrow> int" where
  "moderationState ops a w = intValue (getValueOfProperty ops a ''moderationState'' w)"

definition setModerationState ::
  "'db services \<Rightarrow> nat \<Rightarrow> MPManagedObjectModerationState \<Rightarrow> 'db world \<Rightarrow> exn + 'db world" where
  "setModerationState svc a s w =
     setValue svc a (Some (VNumber (moderationNumber s))) ''moderationState'' w"

definition moderated :: "'db cbl_ops \<Rightarrow> nat \<Rightarrow> 'db world \<Rightarrow> bool" where
  "moderated ops a w \<longleftrightarrow>
     moderationState ops a w \<noteq> moderationNumber MPManagedObjectModerationStateUnmoderated"

definition accepted :: "'db cbl_ops \<Rightarrow> nat \<Rightarrow> 'db world \<Rightarrow> bool" where
  "accepted ops a w \<longleftrightarrow>
     moderationState ops a w = moderationNumber MPManagedObjectModerationStateAccepted"

definition rejected :: "'db cbl_ops \<Rightarrow> nat \<Rightarrow> 'db world \<Rightarrow> bool" where
  "rejected ops a w \<longleftrightarrow>
     moderationState ops a w = moderationNumber MPManagedObjectModerationStateRejected"

definition accept :: "'db services \<Rightarrow> nat \<Rightarrow> 'db world \<Rightarrow> exn + 'db world" where
  "accept svc a w =
     bindExn (assertThat (\<not> accepted (svc_ops svc) a w) ''moderationState'') (\<lambda>_.
       setModerationState svc a MPManagedObjectModerationStateAccepted w)"

definition reject :: "'db services \<Rightarrow> nat \<Rightarrow> 'db world \<Rightarrow> exn + 'db world" where
  "reject svc a w =
     bindExn (assertThat (\<not> rejected (svc_ops svc) a w) ''moderationState'') (\<lambda>_.
       setModerationState svc a MPManagedObjectModerationStateRejected w)"

definition isLocked :: "'db cbl_ops \<Rightarrow> nat \<Rightarrow> 'db world \<Rightarrow> bool" where
  "isLocked ops a w = boolValue (getValueOfProperty ops a ''locked'' w)"

definition lock :: "'db services \<Rightarrow> nat \<Rightarrow> 'db world \<Rightarrow> exn + 'db world" where
  "lock svc a w =
     (if isLocked (svc_ops svc) a w then Inr w else setValue svc a (Some (VBool True)) ''locked'' w)"

text \<open>\<open>propertiesToSave\<close> is nil for an object without a document.\<close>

definition propertiesToSave :: "'db cbl_ops \<Rightarrow> nat \<Rightarrow> 'db world \<Rightarrow> dict option" where
  "propertiesToSave ops a w =
     (if modelDocumentID ops (cbl w) a = None then None else Some (modelPropertiesToSave ops (cbl w) a))"

definition unlock :: "'db services \<Rightarrow> nat \<Rightarrow> 'db world \<Rightarrow> exn + 'db world" where
  "unlock svc a w =
     (if isLocked (svc_ops svc) a w \<or>
         (case propertiesToSave (svc_ops svc) a w of None \<Rightarrow> True | Some d \<Rightarrow> \<not> hasKey d ''locked'')
      then setValue svc a (Some (VBool False)) ''locked'' w else Inr w)"

definition setUserContributed :: "'db services \<Rightarrow> nat \<Rightarrow> bool \<Rightarrow> 'db world \<Rightarrow> exn + 'db world" where
  "setUserContributed svc a b w = setValue svc a (Some (VBool b)) ''userContributed'' w"

definition isUserContributed :: "'db cbl_ops \<Rightarrow> nat \<Rightarrow> 'db world \<Rightarrow> bool" where
  "isUserContributed ops a w = boolValue (getValueOfProperty ops a ''userContributed'' w)"

definition setPrototypeID :: "'db services \<Rightarrow> nat \<Rightarrow> string option \<Rightarrow> 'db world \<Rightarrow> exn + 'db world" where
  "setPrototypeID svc a i w = setValue svc a (map_option VString i) ''prototype'' w"

definition prototypeID :: "'db cbl_ops \<Rightarrow> nat \<Rightarrow> 'db world \<Rightarrow> val option" where
  "prototypeID ops a w = getValueOfProperty ops a ''prototype'' w"

definition setPrototype :: "'db services \<Rightarrow> nat \<Rightarrow> nat option \<Rightarrow> 'db world \<Rightarrow> exn + 'db world" where
  "setPrototype svc a prototype w =
     bindExn (case prototype of None \<Rightarrow> Inr None
              | Some p \<Rightarrow> bindExn (documentID (svc_ops svc) p w) (\<lambda>i. Inr (Some i)))
       (\<lambda>i. setValue svc a (map_option VString i) ''prototype'' w)"

definition hasPrototype :: "'db cbl_ops \<Rightarrow> nat \<Rightarrow> 'db world \<Rightarrow> bool" where
  "hasPrototype ops a w \<longleftrightarrow> prototypeID ops a w \<noteq> None"


section \<open>Dictionary forms\<close>

definition nonIdentifiableProperties :: "'db cbl_ops \<Rightarrow> nat \<Rightarrow> 'db world \<Rightarrow> dict" where
  "nonIdentifiableProperties ops a w =
     filter (\<lambda>(k, v). \<not> hasPrefix k ''_'' \<and> k \<noteq> ''objectType'' \<and> k \<noteq> ''attachments'')
       (case propertiesToSave ops a w of None \<Rightarrow> [] | Some d \<Rightarrow> d)"

definition JSONEncodableDictionaryRepresentation :: "'db cbl_ops \<Rightarrow> nat \<Rightarrow> 'db world \<Rightarrow> dict option" where
  "JSONEncodableDictionaryRepresentation ops a w =
     map_option (dictionaryWithObjectsMatching (\<lambda>k v. k \<noteq> ''_attachments'')) (propertiesToSave ops a w)"

text \<open>\<open>enc\<close> is the JSON encoder.\<close>

definition JSONStringRepresentationOfObject ::
  "(val \<Rightarrow> ns_error option + string) \<Rightarrow> 'db cbl_ops \<Rightarrow> nat \<Rightarrow> 'db world \<Rightarrow>
   exn + (ns_error option + string) option" where
  "JSONStringRepresentationOfObject enc ops a w =
     (if isDeleted ops a w then Inr None
      else bindExn (MPAssertNotNil (JSONEncodableDictionaryRepresentation ops a w) ''props'')
        (\<lambda>props. Inr (Some (enc (VDict props)))))"

text \<open>A dictionary-valued property is changed in place and then cached as changed.\<close>

definition setDictionaryEmbeddedValue ::
  "'db services \<Rightarrow> nat \<Rightarrow> val \<Rightarrow> string \<Rightarrow> string \<Rightarrow> 'db world \<Rightarrow> exn + 'db world" where
  "setDictionaryEmbeddedValue svc a v embeddedKey k w =
     (case getValueOfProperty (svc_ops svc) a k w of
        Some (VDict d) \<Rightarrow>
          if map_of d embeddedKey = Some v then Inr w
          else
            (let db = modelCacheValue (svc_ops svc) (cbl w) a (Some (VDict (dictUpdate embeddedKey v d))) k True
             in Inr (putCbl (modelMarkNeedsSave (svc_ops svc) db a) w))
      | Some other \<Rightarrow> throw (NSInternalInconsistencyException ''Expecting dictionary to be mutable'')
      | None \<Rightarrow>
          bindExn (setValue svc a (Some (VDict [])) k w) (\<lambda>w1.
            let db = modelCacheValue (svc_ops svc) (cbl w1) a (Some (VDict [(embeddedKey, v)])) k True
            in Inr (putCbl (modelMarkNeedsSave (svc_ops svc) db a) w1)))"

definition getValueForDictionaryEmbeddedKey ::
  "'db cbl_ops \<Rightarrow> nat \<Rightarrow> string \<Rightarrow> string \<Rightarrow> 'db world \<Rightarrow> exn + val option" where
  "getValueForDictionaryEmbeddedKey ops a embeddedKey k w =
     (case getValueOfProperty ops a k w of
        None \<Rightarrow> Inr None
      | Some (VDict d) \<Rightarrow> Inr (map_of d embeddedKey)
      | Some other \<Rightarrow> throw (NSInternalInconsistencyException ''Expecting dictionary''))"

definition setObjectIdentifierArrayValueForManagedObjectArray ::
  "'db services \<Rightarrow> nat \<Rightarrow> nat list \<Rightarrow> string \<Rightarrow> 'db world \<Rightarrow> exn + 'db world" where
  "setObjectIdentifierArrayValueForManagedObjectArray svc a objs k w =
     bindExn (mapObjectsUsingBlock (\<lambda>b _. modelDocumentID (svc_ops svc) (cbl w) b) objs) (\<lambda>ids.
       setValue svc a (Some (VArray (map VString ids))) k w)"


section \<open>What an operation leaves alone\<close>

text \<open>
  \<open>frame ops a K w w'\<close>: between \<open>w\<close> and \<open>w'\<close> no property value changed except the
  values of \<open>a\<close> under the keys in \<open>K\<close>, and no document identifier changed.
\<close>

definition frame :: "'db cbl_ops \<Rightarrow> nat \<Rightarrow> string set \<Rightarrow> 'db world \<Rightarrow> 'db world \<Rightarrow> bool" where
  "frame ops a K w w' \<longleftrightarrow>
     (\<forall>b k. b = a \<and> k \<in> K \<or> modelGetValue ops (cbl w') b k = modelGetValue ops (cbl w) b k) \<and>
     (\<forall>b. modelDocumentID ops (cbl w') b = modelDocumentID ops (cbl w) b) \<and>
     (\<forall>b. map_option mo_deletedDocumentID (objects w' b) = map_option mo_deletedDocumentID (objects w b))"

lemma frame_refl [simp]: "frame ops a K w w"
  by (simp add: frame_def)

lemma frame_trans: "frame ops a K w1 w2 \<Longrightarrow> frame ops a K w2 w3 \<Longrightarrow> frame ops a K w1 w3"
  unfolding frame_def by metis

lemma frame_mono: "frame ops a K w w' \<Longrightarrow> K \<subseteq> K' \<Longrightarrow> frame ops a K' w w'"
  unfolding frame_def by blast

lemma frame_get: "frame ops a K w w' \<Longrightarrow> k \<notin> K \<Longrightarrow>
    getValueOfProperty ops a k w' = getValueOfProperty ops a k w"
  unfolding frame_def getValueOfProperty_def by blast

lemma frame_documentID: "frame ops a K w w' \<Longrightarrow> documentID ops b w = Inr i \<Longrightarrow> documentID ops b w' = Inr i"
proof -
  assume f: "frame ops a K w w'" and i: "documentID ops b w = Inr i"
  have "modelDocumentID ops (cbl w') b = modelDocumentID ops (cbl w) b"
    and "map_option mo_deletedDocumentID (objects w' b) = map_option mo_deletedDocumentID (objects w b)"
    using f by (auto simp: frame_def)
  then show ?thesis
    using i by (cases "objects w' b")
      (auto simp: documentID_def bindExn_Inr getObject_def MPAssertNotNil_def split: option.splits)
qed

text \<open>Changes of the graph alone; \<open>mo_core\<close> are the fields that writing a property keeps.\<close>

definition mo_core :: "managed_object \<Rightarrow> cls \<times> nat option \<times> bool \<times> string option" where
  "mo_core mo = (mo_class mo, mo_controller mo, mo_isNewObject mo, mo_deletedDocumentID mo)"

lemma mo_core_fields:
  assumes "map_option mo_core x = map_option mo_core y"
  shows "map_option mo_class x = map_option mo_class y"
    and "map_option mo_controller x = map_option mo_controller y"
    and "map_option mo_isNewObject x = map_option mo_isNewObject y"
    and "map_option mo_deletedDocumentID x = map_option mo_deletedDocumentID y"
  using assms by (cases x; cases y; simp add: mo_core_def)+

lemma mo_core_simps [simp]:
  "mo_core (mo\<lparr>mo_embeddedObjectCache := c\<rparr>) = mo_core mo"
  "mo_core (mo\<lparr>mo_cachedCloudKitChangeTag := t\<rparr>) = mo_core mo"
  by (simp_all add: mo_core_def)

lemma frame_graph:
  "cbl w' = cbl w \<Longrightarrow>
   (\<And>b. map_option mo_deletedDocumentID (objects w' b) = map_option mo_deletedDocumentID (objects w b)) \<Longrightarrow>
   frame ops a K w w'"
  by (simp add: frame_def)

lemma cacheEmbedded_graph:
  assumes "cacheEmbeddedObjectByIdentifier r e w = Inr w'"
  shows "cbl w' = cbl w" and "controllers w' = controllers w" and "packages w' = packages w"
    and "map_option mo_core (objects w' b) = map_option mo_core (objects w b)"
  using assms
  by (cases r; auto simp: managedCacheEmbedded_def embeddedCacheEmbedded_def bindExn_Inr
      split: option.splits if_splits)+

lemma uniqueEmbedded_graph:
  assumes "uniqueEmbedded r e eo w = Inr (e', w')"
  shows "cbl w' = cbl w" and "controllers w' = controllers w" and "packages w' = packages w"
    and "map_option mo_core (objects w' b) = map_option mo_core (objects w b)"
  using assms
  by (auto simp: uniqueEmbedded_def bindExn_Inr split: option.splits
      dest: cacheEmbedded_graph)

lemma initWithDictionary_unique_call:
  assumes "initWithDictionary c d r k uuid e w = Inr (e', w')"
  obtains r' eo where "uniqueEmbedded r' e eo w = Inr (e', w')"
  using assms by (auto simp: initWithDictionary_def bindExn_Inr split: if_splits)

lemma embeddedValueFor_graph:
  assumes "embeddedValueFor svc a v k w = Inr (v', w')"
  shows "cbl w' = cbl w" and "controllers w' = controllers w" and "packages w' = packages w"
    and "map_option mo_core (objects w' b) = map_option mo_core (objects w b)"
proof -
  obtain mo where mo: "objects w a = Some mo" using assms by (auto simp: embeddedValueFor_def bindExn_Inr)
  have "w' = w \<or> (\<exists>r e eo e'. uniqueEmbedded r e eo w = Inr (e', w'))"
  proof (cases "embeddedToReplace svc a v k mo w")
    case None
    then show ?thesis using assms mo by (auto simp: embeddedValueFor_def bindExn_Inr)
  next
    case (Some p)
    then obtain c d' r k uuid e e' where "initWithDictionary c d' r k uuid e w = Inr (e', w')"
      using assms mo by (cases p) (auto simp: embeddedValueFor_def bindExn_Inr)
    then show ?thesis by (blast elim: initWithDictionary_unique_call)
  qed
  then show "cbl w' = cbl w" and "controllers w' = controllers w" and "packages w' = packages w"
    and "map_option mo_core (objects w' b) = map_option mo_core (objects w b)"
    by (auto dest: uniqueEmbedded_graph)
qed


section \<open>Effect of \<open>setValue\<close>\<close>

text \<open>A call of \<open>setValue\<close> changes nothing, or stores a value under its key.\<close>

lemma setValue_effect:
  assumes "setValue svc a v k w = Inr w'"
  obtains (same) "w' = w"
      "isDeleted (svc_ops svc) a w \<or> guardIdentity (svc_ops svc) a v k w = Inr True"
    | (stored) v' w1 where "embeddedValueFor svc a v k w = Inr (v', w1)"
      "guardIdentity (svc_ops svc) a v k w = Inr False" "\<not> isDeleted (svc_ops svc) a w"
      "w' = putCbl (modelSetValue (svc_ops svc) (cbl w) a v' k) w1"
proof (cases "isDeleted (svc_ops svc) a w")
  case True
  then show thesis using assms same by (simp add: setValue_def)
next
  case False
  then obtain done' where g: "guardIdentity (svc_ops svc) a v k w = Inr done'"
    and rest: "(if done' then Inr w else bindExn (embeddedValueFor svc a v k w) (\<lambda>(v', w').
        Inr (putCbl (modelSetValue (svc_ops svc) (cbl w') a v' k) w'))) = Inr w'"
    using assms by (auto simp: setValue_def bindExn_Inr)
  show thesis
  proof (cases done')
    case True
    then show thesis using rest g same by simp
  next
    case False
    then obtain v' w1 where e: "embeddedValueFor svc a v k w = Inr (v', w1)"
      and w': "w' = putCbl (modelSetValue (svc_ops svc) (cbl w1) a v' k) w1"
      using rest by (auto simp: bindExn_Inr)
    then show thesis
      using stored [OF e _ \<open>\<not> isDeleted (svc_ops svc) a w\<close>] g False embeddedValueFor_graph(1) [OF e] by simp
  qed
qed

lemma setValue_frame:
  assumes "property_laws (svc_ops svc)" and "setValue svc a v k w = Inr w'"
  shows "frame (svc_ops svc) a {k} w w'"
  using assms(2)
proof (cases rule: setValue_effect)
  case (stored v' w1)
  have "frame (svc_ops svc) a {k} w w1"
    by (rule frame_graph) (simp_all add: embeddedValueFor_graph [OF stored(1)]
        mo_core_fields(4) [OF embeddedValueFor_graph(4) [OF stored(1)]])
  moreover have "frame (svc_ops svc) a {k} w1 w'"
    using assms(1) stored(4) embeddedValueFor_graph(1) [OF stored(1)]
    by (auto simp: frame_def property_laws_def)
  ultimately show ?thesis by (rule frame_trans)
qed simp

lemma setValue_graph:
  assumes "setValue svc a v k w = Inr w'"
  shows "controllers w' = controllers w" and "packages w' = packages w"
    and "map_option mo_core (objects w' b) = map_option mo_core (objects w b)"
  using assms
  by (rule setValue_effect; auto dest: embeddedValueFor_graph)+

text \<open>Values other than dictionaries are stored as they are.\<close>

definition isDict :: "val option \<Rightarrow> bool" where
  "isDict v = (case v of Some (VDict d) \<Rightarrow> True | _ \<Rightarrow> False)"

lemma isDict_simps [simp]:
  "\<not> isDict None" "\<not> isDict (Some (VNumber n))" "\<not> isDict (Some (VBool b))"
  "\<not> isDict (Some (VString s))" "\<not> isDict (Some (VArray xs))" "\<not> isDict (Some VNull)"
  "isDict (Some (VDict d))" "\<not> isDict (Some (VEmbedded e))"
  by (simp_all add: isDict_def)

lemma embeddedValueFor_scalar:
  "\<not> isDict v \<Longrightarrow> embeddedValueFor svc a v k w = bindExn (getObject a w) (\<lambda>_. Inr (v, w))"
  by (cases "getObject a w")
     (auto simp: embeddedValueFor_def embeddedToReplace_def isDict_def split: option.splits val.splits)

lemma setValue_stores:
  assumes "property_laws (svc_ops svc)" and "setValue svc a v k w = Inr w'"
    and "\<not> isDict v" and "\<not> isDeleted (svc_ops svc) a w"
  shows "getValueOfProperty (svc_ops svc) a k w' = v"
  using assms(2)
proof (cases rule: setValue_effect)
  case same
  then show ?thesis
    using assms(4)
    by (auto simp: guardIdentity_def bindExn_Inr split: if_splits option.splits)
next
  case (stored v' w1)
  then have "v' = v" using assms(3) by (auto simp: embeddedValueFor_scalar bindExn_Inr)
  then show ?thesis
    using stored(4) assms(1) by (simp add: getValueOfProperty_def property_laws_def)
qed

text \<open>A stored \<open>objectType\<close> or \<open>_id\<close> does not change.\<close>

lemma setValue_identity:
  assumes "property_laws (svc_ops svc)" and "setValue svc a v k w = Inr w'"
    and "k' = ''objectType'' \<or> k' = ''_id''" and "getValueOfProperty (svc_ops svc) b k' w = Some x"
  shows "getValueOfProperty (svc_ops svc) b k' w' = Some x"
  using assms(2)
proof (cases rule: setValue_effect)
  case (stored v' w1)
  have "\<not> (b = a \<and> k' = k)"
    using stored(2) assms(3,4) by (auto simp: guardIdentity_def bindExn_Inr split: if_splits)
  then show ?thesis
    using setValue_frame [OF assms(1,2)] assms(4) unfolding frame_def getValueOfProperty_def by auto metis+
qed (use assms(4) in simp)

end
