(* ===== verification/Samples.thy ===== *)
theory Samples
  imports ManagedObject
begin

text \<open>
  A small object graph over the in-memory store, on which the theorems about managed
  objects are applied to concrete inputs: one package with one controller for the class
  \<open>MPNote\<close> and one saved note.
\<close>

definition sampleNSObject :: cls where
  "sampleNSObject = Cls ''NSObject'' None [] []"

definition sampleManagedObject :: cls where
  "sampleManagedObject = Cls ''MPManagedObject'' (Some sampleNSObject) [] []"

definition sampleEmbeddedObject :: cls where
  "sampleEmbeddedObject = Cls ''MPEmbeddedObject'' (Some sampleNSObject) [] []"

definition sampleMetadata :: cls where
  "sampleMetadata = Cls ''MPMetadata'' (Some sampleNSObject) [] []"

definition sampleController :: cls where
  "sampleController = Cls ''MPManagedObjectsController'' (Some sampleNSObject) [] []"

definition sampleNote :: cls where
  "sampleNote = Cls ''MPNote'' (Some sampleManagedObject) [] []"

definition sampleClasses :: known_classes where
  "sampleClasses = \<lparr>class_MPManagedObject = sampleManagedObject,
     class_MPManagedObjectsController = sampleController, class_MPMetadata = sampleMetadata,
     class_MPLocalMetadata = sampleMetadata, class_MPEmbeddedObject = sampleEmbeddedObject\<rparr>"

definition sampleRuntime :: runtime where
  "sampleRuntime = \<lparr>objc_getClassList = [sampleNSObject, sampleManagedObject, sampleNote],
     subclassesCache = Map.empty, propertyKeysCache = Map.empty\<rparr>"

definition sampleNames :: name_dictionary where
  "sampleNames = (\<lambda>t. Some (\<lambda>n. Some (notificationNamesFor t n)))"

definition sampleServices :: "memory_store services" where
  "sampleServices = \<lparr>svc_ops = memory_ops, svc_runtime = sampleRuntime, svc_classes = sampleClasses,
     svc_names = sampleNames, svc_classOfProperty = (\<lambda>c k. None), svc_valueForKey = (\<lambda>r k w. None),
     svc_uuid = (\<lambda>w. ''1''), svc_fresh = (\<lambda>w. 99), svc_now = 7, svc_sessionID = ''s'',
     svc_shouldTrackSessionID = (\<lambda>c. False)\<rparr>"

definition sampleObject :: managed_object where
  "sampleObject = \<lparr>mo_class = sampleNote, mo_controller = Some 2, mo_newDocumentID = None,
     mo_cloudKitChangeTag = None, mo_cachedCloudKitChangeTag = None, mo_isNewObject = True,
     mo_embeddedObjectCache = Some Map.empty, mo_deletedDocumentID = None\<rparr>"

definition sampleObjectsController :: objects_controller where
  "sampleObjectsController = \<lparr>moc_class = sampleController, moc_managedObjectClass = sampleNote,
     moc_package = 3, moc_database = Some 4, moc_objectCache = [''MPNote:0'' \<mapsto> 10],
     moc_cachedValues = Map.empty, moc_relaysFetchingByIdentifier = False, moc_autosavesObjects = False\<rparr>"

definition sampleCenter :: notification_center where
  "sampleCenter = \<lparr>observations =
       [\<lparr>observer_address = 8, observer_selector = ''hasAddedNote:'', observed_name = ''hasAddedNote'', observed_object = None\<rparr>],
     deliveries = [], errorDeliveries = [], addedMethods = []\<rparr>"

definition samplePackage :: package_controller where
  "samplePackage = \<lparr>controllerDictionary = Map.empty, controllerProperties = Map.empty,
     pkg_notificationCenter = sampleCenter, pkg_delegateCountsChanges = True, pkg_changeCount = 0\<rparr>"

definition sampleStore :: memory_store where
  "sampleStore = [(10, \<lparr>st_documentID = Some ''MPNote:0'', st_database = 4,
     st_properties = [(''_id'', VString ''MPNote:0''), (''objectType'', VString ''MPNote'')],
     st_needsSave = True, st_conflicts = [], st_attachments = []\<rparr>)]"

definition sampleWorld :: "memory_store world" where
  "sampleWorld = \<lparr>objects = [10 \<mapsto> sampleObject], embeddedObjects = Map.empty,
     controllers = [2 \<mapsto> sampleObjectsController], packages = [3 \<mapsto> samplePackage],
     sharedShoebox = None, cbl = sampleStore\<rparr>"

lemmas sample_defs = sampleNSObject_def sampleManagedObject_def sampleEmbeddedObject_def
  sampleMetadata_def sampleController_def sampleNote_def sampleClasses_def sampleRuntime_def
  sampleNames_def sampleObject_def sampleObjectsController_def sampleCenter_def samplePackage_def
  sampleStore_def sampleWorld_def

lemma sampleServices_fields [simp]:
  "svc_ops sampleServices = memory_ops" "svc_runtime sampleServices = sampleRuntime"
  "svc_classes sampleServices = sampleClasses" "svc_names sampleServices = sampleNames"
  "svc_classOfProperty sampleServices c k = None" "svc_valueForKey sampleServices r k w = None"
  "svc_uuid sampleServices w = ''1''" "svc_fresh sampleServices w = 99" "svc_now sampleServices = 7"
  "svc_shouldTrackSessionID sampleServices c = False"
  by (simp_all add: sampleServices_def)

lemma sampleWorld_fields [simp]:
  "objects sampleWorld a = (if a = 10 then Some sampleObject else None)"
  "embeddedObjects sampleWorld e = None"
  "controllers sampleWorld m = (if m = 2 then Some sampleObjectsController else None)"
  "packages sampleWorld p = (if p = 3 then Some samplePackage else None)"
  "cbl sampleWorld = sampleStore"
  by (simp_all add: sampleWorld_def)

lemma memory_ops_fields [simp]:
  "modelDocumentID memory_ops db a = st_documentID (storedModel db a)"
  "modelDocumentIsDeleted memory_ops db a = False"
  "modelGetValue memory_ops db a k = map_of (st_properties (storedModel db a)) k"
  "modelNeedsSave memory_ops db a = st_needsSave (storedModel db a)"
  "modelHasPendingChanges memory_ops db a = False"
  "modelPropertiesToSave memory_ops db a = st_properties (storedModel db a)"
  "modelSave memory_ops db a = Inr (updateModel a (\<lambda>m. m\<lparr>st_needsSave := False\<rparr>) db)"
  "modelSetValue memory_ops db a v k = updateModel a (\<lambda>m. m\<lparr>st_properties :=
     (case v of Some x \<Rightarrow> (k, x) # removeKey k (st_properties m)
      | None \<Rightarrow> removeKey k (st_properties m)), st_needsSave := True\<rparr>) db"
  "modelHasRevision memory_ops db a \<longleftrightarrow> st_documentID (storedModel db a) \<noteq> None"
  "modelDelete memory_ops db a = Inr (updateModel a (\<lambda>m. m\<lparr>st_documentID := None\<rparr>) db)"
  "modelMarkNeedsSave memory_ops db a = updateModel a (\<lambda>m. m\<lparr>st_needsSave := True\<rparr>) db"
  "modelNewDocument memory_ops db a d i =
     updateModel a (\<lambda>m. noModel\<lparr>st_documentID := Some i, st_database := d\<rparr>) db"
  by (simp_all add: memory_ops_def)

lemma sampleStore_model [simp]:
  "storedModel sampleStore 10 = \<lparr>st_documentID = Some ''MPNote:0'', st_database = 4,
     st_properties = [(''_id'', VString ''MPNote:0''), (''objectType'', VString ''MPNote'')],
     st_needsSave = True, st_conflicts = [], st_attachments = []\<rparr>"
  by (simp add: sampleStore_def storedModel_def)

lemma sample_setValue:
  "k \<noteq> ''objectType'' \<Longrightarrow> k \<noteq> ''_id'' \<Longrightarrow> \<not> isDict v \<Longrightarrow>
   setValue sampleServices 10 v k sampleWorld =
     Inr (putCbl (modelSetValue memory_ops sampleStore 10 v k) sampleWorld)"
  by (simp add: setValue_def isDeleted_def guardIdentity_def embeddedValueFor_scalar getObject_def
      MPAssertNotNil_def)

end
