(* ===== verification/Lifecycle.thy ===== *)
theory Lifecycle
  imports Samples
begin

text \<open>
  The life of a managed object: the public operations as steps between states of the
  object graph, and what no sequence of them changes.  The lemmas give the frame of each
  operation; the invariants follow by induction on the steps.
\<close>


section \<open>Frames of the operations\<close>

lemma write_frame:
  "property_laws (svc_ops svc) \<Longrightarrow> setValue svc a v k w = Inr w' \<Longrightarrow> k \<in> K \<Longrightarrow>
   frame (svc_ops svc) a K w w'"
  by (rule frame_mono [OF setValue_frame]) auto

lemma lock_frame:
  "property_laws (svc_ops svc) \<Longrightarrow> lock svc a w = Inr w' \<Longrightarrow> frame (svc_ops svc) a {''locked''} w w'"
  by (auto simp: lock_def split: if_splits intro: write_frame)

lemma unlock_frame:
  "property_laws (svc_ops svc) \<Longrightarrow> unlock svc a w = Inr w' \<Longrightarrow> frame (svc_ops svc) a {''locked''} w w'"
  unfolding unlock_def by (erule if_split [THEN iffD1, elim_format]) (auto intro: write_frame split: if_splits)

lemma setUserContributed_frame:
  "property_laws (svc_ops svc) \<Longrightarrow> setUserContributed svc a b w = Inr w' \<Longrightarrow>
   frame (svc_ops svc) a {''userContributed''} w w'"
  by (auto simp: setUserContributed_def intro: write_frame)

lemma moderation_frame:
  assumes "property_laws (svc_ops svc)"
  shows "accept svc a w = Inr w' \<Longrightarrow> frame (svc_ops svc) a {''moderationState''} w w'"
    and "reject svc a w = Inr w' \<Longrightarrow> frame (svc_ops svc) a {''moderationState''} w w'"
  using assms
  by (auto simp: accept_def reject_def setModerationState_def split: if_splits intro: write_frame)

lemma frame_packages [simp]: "frame ops a K w (putPackage p pkg w)"
  by (rule frame_graph) simp_all

lemma notifyChange_frame: "notifyChange kc d ck t src self a w = Inr w' \<Longrightarrow> frame ops b K w w'"
  by (erule notifyChange_Inr) simp

lemma postError_frame: "postError a err w = Inr w' \<Longrightarrow> frame ops b K w w'"
  by (auto simp: postError_def bindExn_Inr)

lemma setShared_frame:
  assumes "property_laws (svc_ops svc)" and "setShared svc a b w = Inr w'"
  shows "frame (svc_ops svc) a {''shared''} w w'"
proof (cases "isShared (svc_ops svc) a w = b")
  case True
  then show ?thesis using assms(2) by (simp add: setShared_def)
next
  case False
  then obtain w1 where w1: "setValue svc a (Some (VBool b)) ''shared'' w = Inr w1"
    and rest: "w' = w1 \<or> (\<exists>p pkg. w' = putPackage p pkg w1)"
    using assms(2) by (auto simp: setShared_def Let_def bindExn_Inr split: if_splits)
  have "frame (svc_ops svc) a {''shared''} w w1" using assms(1) w1 by (rule write_frame) simp
  then show ?thesis using rest by (auto intro: frame_trans)
qed

lemma updateTimestamps_frame:
  assumes "property_laws (svc_ops svc)" and "updateTimestamps svc a w = Inr w'"
  shows "frame (svc_ops svc) a {''createdAt'', ''updatedAt''} w w'"
proof -
  let ?K = "{''createdAt'', ''updatedAt''}"
  obtain w1 where w1: "(if createdAt (svc_ops svc) a w = None then setCreatedAt svc a (svc_now svc) w
      else Inr w) = Inr w1"
    and w': "(if modelNeedsSave (svc_ops svc) (cbl w1) a then setUpdatedAt svc a (svc_now svc) w1
      else Inr w1) = Inr w'"
    using assms(2) by (auto simp: updateTimestamps_def bindExn_Inr)
  have "frame (svc_ops svc) a ?K w w1"
    using w1 assms(1) by (auto simp: setCreatedAt_def split: if_splits intro: write_frame)
  moreover have "frame (svc_ops svc) a ?K w1 w'"
    using w' assms(1) by (auto simp: setUpdatedAt_def split: if_splits intro: write_frame)
  ultimately show ?thesis by (rule frame_trans)
qed

text \<open>\<open>createdAt\<close> is written only while it is missing.\<close>

lemma updateTimestamps_createdAt:
  assumes "property_laws (svc_ops svc)" and "updateTimestamps svc a w = Inr w'"
    and "getValueOfProperty (svc_ops svc) a ''createdAt'' w = Some x"
  shows "getValueOfProperty (svc_ops svc) a ''createdAt'' w' = Some x"
proof -
  have "createdAt (svc_ops svc) a w = Some (intValue (Some x))" using assms(3) by (simp add: createdAt_def)
  then have "(if modelNeedsSave (svc_ops svc) (cbl w) a then setUpdatedAt svc a (svc_now svc) w
      else Inr w) = Inr w'"
    using assms(2) by (simp add: updateTimestamps_def)
  then have "frame (svc_ops svc) a {''updatedAt''} w w'"
    using assms(1) by (auto simp: setUpdatedAt_def split: if_splits intro: write_frame)
  then show ?thesis using assms(3) by (simp add: frame_get)
qed

lemma cloudKitChangeTag_frame:
  "cloudKitChangeTag ops a w = Inr (t, w') \<Longrightarrow> frame ops b K w w'"
  by (auto simp: cloudKitChangeTag_def bindExn_Inr Let_def intro!: frame_graph)

abbreviation saveKeys :: "string set" where
  "saveKeys \<equiv> {''createdAt'', ''updatedAt'', ''sessionID'', ''cloudKitChangeTag''}"

lemma prepareSave_Inr:
  assumes "prepareSave svc a w = Inr w'"
  obtains mo m i w2 w3 t w4 where "objects w a = Some mo" "mo_controller mo = Some m"
    "modelDocumentID (svc_ops svc) (cbl w) a = Some i"
    "updateTimestamps svc a w = Inr w2"
    "(if svc_shouldTrackSessionID svc (mo_class mo)
      then setValue svc a (Some (VString (svc_sessionID svc))) ''sessionID'' w2 else Inr w2) = Inr w3"
    "cloudKitChangeTag (svc_ops svc) a w3 = Inr (t, w4)"
    "(if t \<noteq> None \<and> getValueOfProperty (svc_ops svc) a ''cloudKitChangeTag'' w4 \<noteq> None
      then setValue svc a t ''cloudKitChangeTag'' w4 else Inr w4) = Inr w'"
proof -
  obtain mo m i w1 w2 w3 t w4 where *: "objects w a = Some mo" "mo_controller mo = Some m"
    "modelDocumentID (svc_ops svc) (cbl w) a = Some i" "willSaveObject m a w = Inr w1"
    "updateTimestamps svc a w1 = Inr w2"
    "(if svc_shouldTrackSessionID svc (mo_class mo)
      then setValue svc a (Some (VString (svc_sessionID svc))) ''sessionID'' w2 else Inr w2) = Inr w3"
    "cloudKitChangeTag (svc_ops svc) a w3 = Inr (t, w4)"
    "(if t \<noteq> None \<and> getValueOfProperty (svc_ops svc) a ''cloudKitChangeTag'' w4 \<noteq> None
      then setValue svc a t ''cloudKitChangeTag'' w4 else Inr w4) = Inr w'"
    using assms unfolding prepareSave_def bindExn_Inr get_Inr MPAssertNotNil_Inr split_paired_Ex prod.case
    by blast
  moreover have "w1 = w" using *(4) by (auto simp: willSaveObject_def bindExn_Inr split: if_splits)
  ultimately show thesis using that by blast
qed

lemma prepareSave_frame:
  assumes "property_laws (svc_ops svc)" and "prepareSave svc a w = Inr w'"
  shows "frame (svc_ops svc) a saveKeys w w'"
    and "getValueOfProperty (svc_ops svc) a ''createdAt'' w = Some x \<Longrightarrow>
      getValueOfProperty (svc_ops svc) a ''createdAt'' w' = Some x"
proof -
  obtain mo :: managed_object and w2 w3 t w4 where ts: "updateTimestamps svc a w = Inr w2"
    and session: "(if svc_shouldTrackSessionID svc (mo_class mo)
      then setValue svc a (Some (VString (svc_sessionID svc))) ''sessionID'' w2 else Inr w2) = Inr w3"
    and tag: "cloudKitChangeTag (svc_ops svc) a w3 = Inr (t, w4)"
    and tagged: "(if t \<noteq> None \<and> getValueOfProperty (svc_ops svc) a ''cloudKitChangeTag'' w4 \<noteq> None
      then setValue svc a t ''cloudKitChangeTag'' w4 else Inr w4) = Inr w'"
    using assms(2) by (rule prepareSave_Inr) blast
  have 1: "frame (svc_ops svc) a {''createdAt'', ''updatedAt''} w w2"
    using assms(1) ts by (rule updateTimestamps_frame)
  have "frame (svc_ops svc) a {''sessionID''} w2 w3"
    using session assms(1) by (auto split: if_splits intro: write_frame)
  moreover have "frame (svc_ops svc) a {''cloudKitChangeTag''} w4 w'"
    using tagged assms(1) by (auto split: if_splits intro: write_frame)
  ultimately have 2: "frame (svc_ops svc) a {''sessionID'', ''cloudKitChangeTag''} w2 w'"
    using cloudKitChangeTag_frame [OF tag] by (meson frame_mono frame_trans subset_insertI insert_mono empty_subsetI)
  show "frame (svc_ops svc) a saveKeys w w'"
    by (rule frame_trans [OF frame_mono [OF 1] frame_mono [OF 2]]) auto
  show "getValueOfProperty (svc_ops svc) a ''createdAt'' w' = Some x"
    if "getValueOfProperty (svc_ops svc) a ''createdAt'' w = Some x"
    using updateTimestamps_createdAt [OF assms(1) ts that] frame_get [OF 2] by simp
qed

lemma saveCompleted_frame: "saveCompleted svc a w = Inr w' \<Longrightarrow> frame ops b K w w'"
proof -
  assume "saveCompleted svc a w = Inr w'"
  then obtain mo m where mo: "objects w a = Some mo"
    and "(if mo_isNewObject mo
       then didSaveObject (svc_classes svc) (svc_names svc) m a (putObject a (mo\<lparr>mo_isNewObject := False\<rparr>) w)
       else didUpdateObject (svc_classes svc) (svc_names svc) m a w) = Inr w'"
    by (auto simp: saveCompleted_def bindExn_Inr)
  moreover have "frame ops b K w (putObject a (mo\<lparr>mo_isNewObject := False\<rparr>) w)"
    by (rule frame_graph) (use mo in auto)
  ultimately show ?thesis
    by (auto simp: didSaveObject_def didUpdateObject_def split: if_splits
        intro: notifyChange_frame frame_trans)
qed

lemma clearEmbeddedNeedsSave_frame: "clearEmbeddedNeedsSave svc a w = Inr w' \<Longrightarrow> frame ops b K w w'"
  by (auto simp: clearEmbeddedNeedsSave_def bindExn_Inr Let_def split: if_splits intro: frame_graph)

lemma saveWithError_Inr:
  assumes "saveWithError svc a w = Inr (r, w')" and "\<not> isClean (svc_ops svc) a w"
  obtains (failed) err where "prepareSave svc a w = Inr w'" "r = Inl err"
      "modelSave (svc_ops svc) (cbl w') a = Inl err"
    | (saved) w1 db w2 where "prepareSave svc a w = Inr w1" "r = Inr ()"
      "modelSave (svc_ops svc) (cbl w1) a = Inr db"
      "clearEmbeddedNeedsSave svc a (putCbl db w1) = Inr w2" "saveCompleted svc a w2 = Inr w'"
proof -
  obtain w1 where w1: "prepareSave svc a w = Inr w1"
    and rest: "(case modelSave (svc_ops svc) (cbl w1) a of
        Inl err \<Rightarrow> Inr (Inl err, w1)
      | Inr db \<Rightarrow> bindExn (clearEmbeddedNeedsSave svc a (putCbl db w1)) (\<lambda>w2.
          bindExn (saveCompleted svc a w2) (\<lambda>w3. Inr (Inr (), w3)))) = Inr (r, w')"
    using assms by (auto simp: saveWithError_def bindExn_Inr)
  show thesis
  proof (cases "modelSave (svc_ops svc) (cbl w1) a")
    case (Inl err)
    then show thesis using rest w1 failed by auto
  next
    case (Inr db)
    then show thesis using rest w1 saved by (auto simp: bindExn_Inr)
  qed
qed

lemma saveWithError_frame:
  assumes "property_laws (svc_ops svc)" "saving_laws (svc_ops svc)"
    and "saveWithError svc a w = Inr (r, w')"
  shows "frame (svc_ops svc) a saveKeys w w' \<and>
    (\<forall>x. getValueOfProperty (svc_ops svc) a ''createdAt'' w = Some x \<longrightarrow>
      getValueOfProperty (svc_ops svc) a ''createdAt'' w' = Some x)"
proof (cases "isClean (svc_ops svc) a w")
  case True
  then show ?thesis using assms(3) by (simp add: saveWithError_def)
next
  case False
  with assms(3) show ?thesis
  proof (cases rule: saveWithError_Inr)
    case (failed err)
    then show ?thesis using prepareSave_frame [OF assms(1)] by blast
  next
    case (saved w1 db w2)
    have "frame (svc_ops svc) a {} w1 (putCbl db w1)"
      using assms(2) saved(3) by (simp add: frame_def saving_laws_def)
    then have *: "frame (svc_ops svc) a {} w1 w'"
      using clearEmbeddedNeedsSave_frame [OF saved(4)] saveCompleted_frame [OF saved(5)]
      by (meson frame_trans)
    show ?thesis
      using prepareSave_frame [OF assms(1) saved(1)] frame_get [OF *] frame_mono [OF *]
      by (auto intro: frame_trans)
  qed
qed


section \<open>Steps\<close>

inductive edit_step :: "'db services \<Rightarrow> nat \<Rightarrow> 'db world \<Rightarrow> 'db world \<Rightarrow> bool" for svc a where
  lock: "lock svc a w = Inr w' \<Longrightarrow> edit_step svc a w w'"
| unlock: "unlock svc a w = Inr w' \<Longrightarrow> edit_step svc a w w'"
| contribute: "setUserContributed svc a b w = Inr w' \<Longrightarrow> edit_step svc a w w'"
| accept: "accept svc a w = Inr w' \<Longrightarrow> edit_step svc a w w'"
| reject: "reject svc a w = Inr w' \<Longrightarrow> edit_step svc a w w'"
| share: "shareWithError svc creatorID meID a w = Inr (r, w') \<Longrightarrow> edit_step svc a w w'"
| save: "saveWithError svc a w = Inr (r, w') \<Longrightarrow> edit_step svc a w w'"
| saveSilently: "saveSilently svc a w = Inr (b, w') \<Longrightarrow> edit_step svc a w w'"

inductive life_step :: "'db services \<Rightarrow> nat \<Rightarrow> 'db world \<Rightarrow> 'db world \<Rightarrow> bool" for svc a where
  edit: "edit_step svc a w w' \<Longrightarrow> life_step svc a w w'"
| delete: "deleteDocumentWithError svc a w = Inr (r, w') \<Longrightarrow> life_step svc a w w'"
| deleteSilently: "deleteDocument svc a w = Inr (b, w') \<Longrightarrow> life_step svc a w w'"

abbreviation edits :: "'db services \<Rightarrow> nat \<Rightarrow> 'db world \<Rightarrow> 'db world \<Rightarrow> bool" where
  "edits svc a \<equiv> (edit_step svc a)\<^sup>*\<^sup>*"

abbreviation lives :: "'db services \<Rightarrow> nat \<Rightarrow> 'db world \<Rightarrow> 'db world \<Rightarrow> bool" where
  "lives svc a \<equiv> (life_step svc a)\<^sup>*\<^sup>*"

lemma saveSilently_Inr:
  assumes "saveSilently svc a w = Inr (b, w')"
  obtains r w1 where "saveWithError svc a w = Inr (r, w1)"
    "b \<and> r = Inr () \<and> w' = w1 \<or> \<not> b \<and> (\<exists>err. r = Inl err \<and> postError a err w1 = Inr w')"
proof -
  obtain r w1 where 1: "saveWithError svc a w = Inr (r, w1)"
    and 2: "(case r of Inr _ \<Rightarrow> Inr (True, w1)
       | Inl err \<Rightarrow> bindExn (postError a err w1) (\<lambda>w2. Inr (False, w2))) = Inr (b, w')"
    using assms by (auto simp: saveSilently_def bindExn_Inr)
  show thesis
    by (rule that [OF 1]) (use 2 in \<open>cases r; auto simp: bindExn_Inr\<close>)
qed

lemma share_frame:
  assumes "property_laws (svc_ops svc)" and "shareWithError svc c m a w = Inr (r, w')"
  shows "frame (svc_ops svc) a {''shared''} w w'"
    and "\<not> isShared (svc_ops svc) a w \<or> frame (svc_ops svc) a {} w w'"
  using assms setShared_frame [OF assms(1)]
  by (auto simp: shareWithError_def bindExn_Inr split: if_splits)

text \<open>Every edit keeps identity and creation date and does not take back sharing.\<close>

abbreviation editKeys :: "string set" where
  "editKeys \<equiv> {''locked'', ''userContributed'', ''moderationState'', ''shared''} \<union> saveKeys"

lemma edit_step_frame:
  assumes "property_laws (svc_ops svc)" "saving_laws (svc_ops svc)" "edit_step svc a w w'"
  shows "frame (svc_ops svc) a editKeys w w'"
  using assms(3)
proof cases
  case lock
  show ?thesis by (rule frame_mono [OF lock_frame [OF assms(1) lock]]) simp
next
  case unlock
  show ?thesis by (rule frame_mono [OF unlock_frame [OF assms(1) unlock]]) simp
next
  case (contribute b)
  show ?thesis by (rule frame_mono [OF setUserContributed_frame [OF assms(1) contribute]]) simp
next
  case accept
  show ?thesis by (rule frame_mono [OF moderation_frame(1) [OF assms(1) accept]]) simp
next
  case reject
  show ?thesis by (rule frame_mono [OF moderation_frame(2) [OF assms(1) reject]]) simp
next
  case (share c m r)
  show ?thesis by (rule frame_mono [OF share_frame(1) [OF assms(1) share]]) simp
next
  case (save r)
  show ?thesis by (rule frame_mono [OF saveWithError_frame [OF assms(1,2) save, THEN conjunct1]]) auto
next
  case (saveSilently b)
  then obtain r w1 where 1: "saveWithError svc a w = Inr (r, w1)"
    and "w' = w1 \<or> (\<exists>err. postError a err w1 = Inr w')"
    by (rule saveSilently_Inr) auto
  then have "frame (svc_ops svc) a editKeys w1 w'" by (auto intro: postError_frame)
  moreover have "frame (svc_ops svc) a editKeys w w1"
    by (rule frame_mono [OF saveWithError_frame [OF assms(1,2) 1, THEN conjunct1]]) auto
  ultimately show ?thesis by (rule frame_trans [rotated])
qed

lemma edit_step_keeps:
  assumes "property_laws (svc_ops svc)" "saving_laws (svc_ops svc)" "edit_step svc a w w'"
  shows "(isShared (svc_ops svc) a w \<longrightarrow> isShared (svc_ops svc) a w') \<and>
    (\<forall>x. getValueOfProperty (svc_ops svc) a ''createdAt'' w = Some x \<longrightarrow>
      getValueOfProperty (svc_ops svc) a ''createdAt'' w' = Some x)"
  using assms(3)
proof cases
  case lock
  then show ?thesis using frame_get [OF lock_frame [OF assms(1) lock]] by (simp add: isShared_def)
next
  case unlock
  then show ?thesis using frame_get [OF unlock_frame [OF assms(1) unlock]] by (simp add: isShared_def)
next
  case (contribute b)
  then show ?thesis
    using frame_get [OF setUserContributed_frame [OF assms(1) contribute]] by (simp add: isShared_def)
next
  case accept
  then show ?thesis using frame_get [OF moderation_frame(1) [OF assms(1) accept]] by (simp add: isShared_def)
next
  case reject
  then show ?thesis using frame_get [OF moderation_frame(2) [OF assms(1) reject]] by (simp add: isShared_def)
next
  case (share c m r)
  then show ?thesis
    using frame_get [OF share_frame(1) [OF assms(1) share]] share_frame(2) [OF assms(1) share]
    by (auto simp: isShared_def frame_get)
next
  case (save r)
  then show ?thesis
    using saveWithError_frame [OF assms(1,2) save] by (auto simp: isShared_def frame_get)
next
  case (saveSilently b)
  then obtain r w1 where 1: "saveWithError svc a w = Inr (r, w1)"
    and "w' = w1 \<or> (\<exists>err. postError a err w1 = Inr w')"
    by (rule saveSilently_Inr) auto
  then have "frame (svc_ops svc) a {} w1 w'" by (auto intro: postError_frame)
  then show ?thesis
    using saveWithError_frame [OF assms(1,2) 1] by (auto simp: isShared_def frame_get)
qed


lemma clearCachedTag_frame: "frame ops b K w (clearCachedTag a w)"
  by (auto simp: clearCachedTag_def split: option.splits intro!: frame_graph)

lemma deleteDocumentWithError_documentID:
  assumes "saving_laws (svc_ops svc)" and "deleteDocumentWithError svc a w = Inr (r, w')"
    and "documentID (svc_ops svc) b w = Inr i"
  shows "documentID (svc_ops svc) b w' = Inr i"
proof -
  obtain r1 w1 where w1: "(if modelHasRevision (svc_ops svc) (cbl w) a then deleteAttached svc a w
      else Inr (Inr (), w)) = Inr (r1, w1)" and w': "w' = clearCachedTag a w1"
    using assms(2) by (auto simp: deleteDocumentWithError_def bindExn_Inr)
  have "documentID (svc_ops svc) b w1 = Inr i"
  proof (cases "w1 = w")
    case False
    then have "deleteAttached svc a w = Inr (r1, w1)" using w1 by (auto split: if_splits)
    then obtain mo m j where mo: "objects w a = Some mo"
      and j: "modelDocumentID (svc_ops svc) (cbl w) a = Some j"
      and rest: "(case modelDelete (svc_ops svc) (cbl w) a of
           Inl err \<Rightarrow> Inr (Inl err, w)
         | Inr db \<Rightarrow> bindExn (didDeleteObject (svc_classes svc) (svc_names svc) m a
             (putObject a (mo\<lparr>mo_deletedDocumentID := Some j\<rparr>) (putCbl db w)))
             (\<lambda>w1. Inr (Inr (), w1))) = Inr (r1, w1)"
      by (auto simp: deleteAttached_def bindExn_Inr)
    then obtain db where db: "modelDelete (svc_ops svc) (cbl w) a = Inr db"
      and d: "didDeleteObject (svc_classes svc) (svc_names svc) m a
             (putObject a (mo\<lparr>mo_deletedDocumentID := Some j\<rparr>) (putCbl db w)) = Inr w1"
      using False by (auto simp: bindExn_Inr split: sum.splits)
    let ?w = "putObject a (mo\<lparr>mo_deletedDocumentID := Some j\<rparr>) (putCbl db w)"
    have "b \<noteq> a \<Longrightarrow> modelDocumentID (svc_ops svc) db b = modelDocumentID (svc_ops svc) (cbl w) b"
      and "modelDocumentID (svc_ops svc) db a = None \<or> modelDocumentID (svc_ops svc) db a = Some j"
      using assms(1) db j unfolding saving_laws_def by (blast, metis)
    then have "documentID (svc_ops svc) b ?w = Inr i"
      using assms(3) mo j
      by (auto simp: documentID_def getObject_def MPAssertNotNil_def split: option.splits)
    then show ?thesis
      using notifyChange_frame [OF d [unfolded didDeleteObject_def]] frame_documentID by blast
  qed (use assms(3) in simp)
  then show ?thesis using w' frame_documentID [OF clearCachedTag_frame] by blast
qed

lemma life_step_documentID:
  assumes "property_laws (svc_ops svc)" "saving_laws (svc_ops svc)" "life_step svc a w w'"
    and "documentID (svc_ops svc) b w = Inr i"
  shows "documentID (svc_ops svc) b w' = Inr i"
  using assms(3)
proof cases
  case edit
  then show ?thesis using edit_step_frame [OF assms(1,2)] frame_documentID assms(4) by blast
next
  case (delete r)
  then show ?thesis using deleteDocumentWithError_documentID [OF assms(2)] assms(4) by blast
next
  case (deleteSilently ok)
  then obtain r w1 where 1: "deleteDocumentWithError svc a w = Inr (r, w1)"
    and 2: "(case r of Inr _ \<Rightarrow> Inr (True, clearCachedTag a w1)
       | Inl err \<Rightarrow> bindExn (postError a err w1) (\<lambda>w2. Inr (False, clearCachedTag a w2))) = Inr (ok, w')"
    by (auto simp: deleteDocument_def bindExn_Inr)
  have "w' = clearCachedTag a w1 \<or> (\<exists>err w2. postError a err w1 = Inr w2 \<and> w' = clearCachedTag a w2)"
    using 2 by (cases r) (auto simp: bindExn_Inr)
  moreover have "documentID (svc_ops svc) b w1 = Inr i"
    using deleteDocumentWithError_documentID [OF assms(2) 1 assms(4)] .
  ultimately show ?thesis
    using frame_documentID [OF postError_frame] frame_documentID [OF clearCachedTag_frame] by metis
qed


section \<open>Invariants of a life\<close>



text \<open>C1: A managed object keeps its document identifier for life: whatever sequence of
  edits, saves and deletions is applied to an object, \<open>documentID\<close> of every object still
  returns the identifier it returned before.\<close>

theorem lives_keep_documentID:
  assumes "property_laws (svc_ops svc)" and "saving_laws (svc_ops svc)" and "lives svc a w w'"
    and "documentID (svc_ops svc) b w = Inr i"
  shows "documentID (svc_ops svc) b w' = Inr i"
  using assms(3)
  by (induction rule: rtranclp_induct) (use assms(4) life_step_documentID [OF assms(1,2)] in auto)

theorem lives_keep_documentID_witness:
  "\<exists>r w'. deleteDocumentWithError sampleServices 10 sampleWorld = Inr (r, w') \<and>
     isDeleted memory_ops 10 w' \<and> documentID memory_ops 10 w' = Inr ''MPNote:0''"
proof -
  have "\<exists>r w'. deleteDocumentWithError sampleServices 10 sampleWorld = Inr (r, w') \<and> isDeleted memory_ops 10 w'"
    by (simp add: deleteDocumentWithError_def deleteAttached_def didDeleteObject_def notifyChange_def
        callbackContext_def postChange_def notificationNameForRecentChangeOfType_def
        notificationNameForPastChangeOfType_def lookupNames_def isManagedObjectClass_def isSubclassOfClass_def
        getObject_def getController_def getPackage_def MPAssertNotNil_def
        sampleObject_def sampleObjectsController_def sampleNames_def sampleClasses_def sampleNote_def
        sampleManagedObject_def sampleNSObject_def
        clearCachedTag_def isDeleted_def)
  then obtain r w' where w': "deleteDocumentWithError sampleServices 10 sampleWorld = Inr (r, w')"
    "isDeleted memory_ops 10 w'" by blast
  then have "lives sampleServices 10 sampleWorld w'" by (blast intro: life_step.delete)
  moreover have "documentID memory_ops 10 sampleWorld = Inr ''MPNote:0''" by (simp add: documentID_def)
  ultimately show ?thesis
    using lives_keep_documentID [of sampleServices 10 sampleWorld w' 10 "''MPNote:0''"] memory_laws w' by auto
qed

end
