(* ===== verification/Saving.thy ===== *)
theory Saving
  imports Lifecycle
begin

text \<open>
  The functional behaviour of creating, saving, sharing and moderating a managed
  object, on the states of the store and of the notification center.
\<close>


section \<open>Saving\<close>

lemma setValue_isDeleted:
  assumes "property_laws (svc_ops svc)" and "setValue svc a v k w = Inr w'"
  shows "isDeleted (svc_ops svc) b w' = isDeleted (svc_ops svc) b w"
  using assms(2)
  by (rule setValue_effect)
     (use assms(1) in \<open>auto simp: isDeleted_def property_laws_def dest: embeddedValueFor_graph\<close>)

lemma setValue_needsSave:
  assumes "saving_laws (svc_ops svc)" and "setValue svc a v k w = Inr w'"
    and "modelNeedsSave (svc_ops svc) (cbl w) b"
  shows "modelNeedsSave (svc_ops svc) (cbl w') b"
  using assms(2)
  by (rule setValue_effect)
     (use assms(1,3) in \<open>auto simp: saving_laws_def dest: embeddedValueFor_graph\<close>)

lemma updateTimestamps_values:
  assumes "property_laws (svc_ops svc)" "saving_laws (svc_ops svc)"
    and "updateTimestamps svc a w = Inr w'" and "\<not> isDeleted (svc_ops svc) a w"
    and "modelNeedsSave (svc_ops svc) (cbl w) a"
  shows "createdAt (svc_ops svc) a w' = Some (case createdAt (svc_ops svc) a w of Some t \<Rightarrow> t | None \<Rightarrow> svc_now svc)"
    and "updatedAt (svc_ops svc) a w' = Some (svc_now svc)"
proof -
  obtain w1 where w1: "(if createdAt (svc_ops svc) a w = None then setCreatedAt svc a (svc_now svc) w
      else Inr w) = Inr w1"
    and w': "(if modelNeedsSave (svc_ops svc) (cbl w1) a then setUpdatedAt svc a (svc_now svc) w1
      else Inr w1) = Inr w'"
    using assms(3) by (auto simp: updateTimestamps_def bindExn_Inr)
  have alive: "\<not> isDeleted (svc_ops svc) a w1" and needs: "modelNeedsSave (svc_ops svc) (cbl w1) a"
    using w1 assms setValue_isDeleted [OF assms(1)] setValue_needsSave [OF assms(2)]
    by (auto simp: setCreatedAt_def split: if_splits)
  have "getValueOfProperty (svc_ops svc) a ''createdAt'' w1 = Some (VNumber (svc_now svc))"
    if "createdAt (svc_ops svc) a w = None"
    using w1 that setValue_stores [OF assms(1)] assms(4) by (auto simp: setCreatedAt_def)
  then have c: "createdAt (svc_ops svc) a w1 =
      Some (case createdAt (svc_ops svc) a w of Some t \<Rightarrow> t | None \<Rightarrow> svc_now svc)"
    using w1 by (cases "createdAt (svc_ops svc) a w") (auto simp: createdAt_def)
  have u: "setUpdatedAt svc a (svc_now svc) w1 = Inr w'" using w' needs by simp
  then show "createdAt (svc_ops svc) a w' = Some (case createdAt (svc_ops svc) a w of Some t \<Rightarrow> t | None \<Rightarrow> svc_now svc)"
    using c frame_get [OF setValue_frame [OF assms(1) u [unfolded setUpdatedAt_def]], of "''createdAt''"]
    by (simp add: createdAt_def)
  show "updatedAt (svc_ops svc) a w' = Some (svc_now svc)"
    using u setValue_stores [OF assms(1)] alive by (auto simp: setUpdatedAt_def updatedAt_def)
qed

lemma cloudKitChangeTag_graph:
  assumes "cloudKitChangeTag ops a w = Inr (t, w')"
  shows "controllers w' = controllers w" and "packages w' = packages w" and "cbl w' = cbl w"
    and "map_option mo_core (objects w' b) = map_option mo_core (objects w b)"
  using assms by (auto simp: cloudKitChangeTag_def bindExn_Inr Let_def)

lemma updateTimestamps_graph:
  assumes "updateTimestamps svc a w = Inr w'"
  shows "controllers w' = controllers w" and "packages w' = packages w"
    and "map_option mo_core (objects w' b) = map_option mo_core (objects w b)"
  using assms
  by (auto simp: updateTimestamps_def setCreatedAt_def setUpdatedAt_def bindExn_Inr setValue_graph
      split: if_splits)

lemma prepareSave_effect:
  assumes "property_laws (svc_ops svc)" "saving_laws (svc_ops svc)"
    and "prepareSave svc a w = Inr w'" and "\<not> isDeleted (svc_ops svc) a w"
    and "modelNeedsSave (svc_ops svc) (cbl w) a"
  shows "createdAt (svc_ops svc) a w' = Some (case createdAt (svc_ops svc) a w of Some t \<Rightarrow> t | None \<Rightarrow> svc_now svc)"
    and "updatedAt (svc_ops svc) a w' = Some (svc_now svc)"
    and "controllers w' = controllers w" and "packages w' = packages w"
    and "map_option mo_core (objects w' b) = map_option mo_core (objects w b)"
proof -
  obtain mo :: managed_object and w2 w3 t w4 where ts: "updateTimestamps svc a w = Inr w2"
    and session: "(if svc_shouldTrackSessionID svc (mo_class mo)
      then setValue svc a (Some (VString (svc_sessionID svc))) ''sessionID'' w2 else Inr w2) = Inr w3"
    and tag: "cloudKitChangeTag (svc_ops svc) a w3 = Inr (t, w4)"
    and tagged: "(if t \<noteq> None \<and> getValueOfProperty (svc_ops svc) a ''cloudKitChangeTag'' w4 \<noteq> None
      then setValue svc a t ''cloudKitChangeTag'' w4 else Inr w4) = Inr w'"
    using assms(3) by (rule prepareSave_Inr) blast
  have "frame (svc_ops svc) a {''sessionID''} w2 w3"
    using session assms(1) by (auto split: if_splits intro: write_frame)
  moreover have "frame (svc_ops svc) a {''cloudKitChangeTag''} w4 w'"
    using tagged assms(1) by (auto split: if_splits intro: write_frame)
  ultimately have "frame (svc_ops svc) a {''sessionID'', ''cloudKitChangeTag''} w2 w'"
    using cloudKitChangeTag_frame [OF tag] by (meson frame_mono frame_trans subset_insertI insert_mono empty_subsetI)
  then have "createdAt (svc_ops svc) a w' = createdAt (svc_ops svc) a w2"
    "updatedAt (svc_ops svc) a w' = updatedAt (svc_ops svc) a w2"
    by (simp_all add: createdAt_def updatedAt_def frame_get)
  then show "createdAt (svc_ops svc) a w' = Some (case createdAt (svc_ops svc) a w of Some t \<Rightarrow> t | None \<Rightarrow> svc_now svc)"
    and "updatedAt (svc_ops svc) a w' = Some (svc_now svc)"
    using updateTimestamps_values [OF assms(1,2) ts assms(4,5)] by simp_all
  show "controllers w' = controllers w" and "packages w' = packages w"
    and "map_option mo_core (objects w' b) = map_option mo_core (objects w b)"
    using updateTimestamps_graph [OF ts] session cloudKitChangeTag_graph [OF tag] tagged
    by (auto simp: setValue_graph split: if_splits)
qed

text \<open>The change and the source that the notifications of a save carry.\<close>

definition savedChange :: "managed_object \<Rightarrow> MPChangeType" where
  "savedChange mo = (if mo_isNewObject mo then MPChangeTypeAdd else MPChangeTypeUpdate)"

definition savedSource :: "managed_object \<Rightarrow> MPManagedObjectChangeSource option" where
  "savedSource mo = (if mo_isNewObject mo then Some MPManagedObjectChangeSourceInternal else None)"

lemma saveCompleted_effect:
  assumes "saveCompleted svc a w = Inr w'"
  obtains mo m moc pkg recent past where
    "objects w a = Some mo" "mo_controller mo = Some m" "controllers w m = Some moc"
    "packages w (moc_package moc) = Some pkg"
    "notificationNameForRecentChangeOfType (svc_classes svc) (svc_names svc) (savedChange mo) (mo_class mo) = Inr recent"
    "notificationNameForPastChangeOfType (svc_classes svc) (svc_names svc) (savedChange mo) (mo_class mo) = Inr past"
    "packages w' (moc_package moc) = Some (updateChangeCount (pkg\<lparr>pkg_notificationCenter :=
       postNotificationName past a (savedSource mo)
         (postNotificationName recent a (savedSource mo) (pkg_notificationCenter pkg))\<rparr>))"
    "cbl w' = cbl w" "map_option mo_isNewObject (objects w' a) = Some False"
proof -
  obtain mo m where mo: "objects w a = Some mo" "mo_controller mo = Some m"
    and call: "(if mo_isNewObject mo
       then didSaveObject (svc_classes svc) (svc_names svc) m a (putObject a (mo\<lparr>mo_isNewObject := False\<rparr>) w)
       else didUpdateObject (svc_classes svc) (svc_names svc) m a w) = Inr w'"
    using assms by (auto simp: saveCompleted_def bindExn_Inr)
  show thesis
  proof (cases "mo_isNewObject mo")
    case True
    then have "notifyChange (svc_classes svc) (svc_names svc) False MPChangeTypeAdd
        (Some MPManagedObjectChangeSourceInternal) m a (putObject a (mo\<lparr>mo_isNewObject := False\<rparr>) w) = Inr w'"
      using call by (simp add: didSaveObject_def)
    then show thesis
      by (rule notifyChange_Inr) (rule that [of mo m], use mo True in \<open>auto simp: savedChange_def savedSource_def\<close>)
  next
    case False
    then have "notifyChange (svc_classes svc) (svc_names svc) True MPChangeTypeUpdate None m a w = Inr w'"
      using call by (simp add: didUpdateObject_def)
    then show thesis
      by (rule notifyChange_Inr) (rule that [of mo m], use mo False in \<open>auto simp: savedChange_def savedSource_def\<close>)
  qed
qed

lemma clearEmbeddedNeedsSave_graph:
  assumes "clearEmbeddedNeedsSave svc a w = Inr w'"
  shows "objects w' = objects w" and "controllers w' = controllers w" and "packages w' = packages w"
    and "cbl w' = cbl w"
  using assms by (auto simp: clearEmbeddedNeedsSave_def bindExn_Inr Let_def split: if_splits)

text \<open>C5: A successful save of an object with unsaved changes sets \<open>createdAt\<close> if it was
  missing, sets \<open>updatedAt\<close> to the present, leaves the object clean and no longer new, and
  posts for it first the recent and then the past notification of an addition for a new
  object and of an update otherwise.\<close>

theorem save_effect:
  assumes "property_laws (svc_ops svc)" and "saving_laws (svc_ops svc)"
    and "saveWithError svc a w = Inr (Inr (), w')"
    and "\<not> isDeleted (svc_ops svc) a w" and "modelNeedsSave (svc_ops svc) (cbl w) a"
    and "objects w a = Some mo"
  shows "createdAt (svc_ops svc) a w' = Some (case createdAt (svc_ops svc) a w of Some t \<Rightarrow> t | None \<Rightarrow> svc_now svc) \<and>
    updatedAt (svc_ops svc) a w' = Some (svc_now svc) \<and> isClean (svc_ops svc) a w' \<and>
    map_option mo_isNewObject (objects w' a) = Some False \<and>
    (\<exists>m moc pkg pkg' recent past.
       mo_controller mo = Some m \<and> controllers w m = Some moc \<and>
       packages w (moc_package moc) = Some pkg \<and> packages w' (moc_package moc) = Some pkg' \<and>
       notificationNameForRecentChangeOfType (svc_classes svc) (svc_names svc) (savedChange mo) (mo_class mo) = Inr recent \<and>
       notificationNameForPastChangeOfType (svc_classes svc) (svc_names svc) (savedChange mo) (mo_class mo) = Inr past \<and>
       deliveries (pkg_notificationCenter pkg') = deliveries (pkg_notificationCenter pkg) @
         deliveriesTo recent a (savedSource mo) (pkg_notificationCenter pkg) @
         deliveriesTo past a (savedSource mo) (pkg_notificationCenter pkg))"
proof -
  have "\<not> isClean (svc_ops svc) a w" using assms(5) by (simp add: isClean_def)
  with assms(3) obtain w1 db w2 where prep: "prepareSave svc a w = Inr w1"
    and db: "modelSave (svc_ops svc) (cbl w1) a = Inr db"
    and clear: "clearEmbeddedNeedsSave svc a (putCbl db w1) = Inr w2"
    and completed: "saveCompleted svc a w2 = Inr w'"
    by (rule saveWithError_Inr) auto
  note effect = prepareSave_effect [OF assms(1,2) prep assms(4,5)]
  note graph = clearEmbeddedNeedsSave_graph [OF clear]
  obtain mo2 m moc pkg recent past where c: "objects w2 a = Some mo2" "mo_controller mo2 = Some m"
      "controllers w2 m = Some moc" "packages w2 (moc_package moc) = Some pkg"
      "notificationNameForRecentChangeOfType (svc_classes svc) (svc_names svc) (savedChange mo2) (mo_class mo2) = Inr recent"
      "notificationNameForPastChangeOfType (svc_classes svc) (svc_names svc) (savedChange mo2) (mo_class mo2) = Inr past"
    and p: "packages w' (moc_package moc) = Some (updateChangeCount (pkg\<lparr>pkg_notificationCenter :=
       postNotificationName past a (savedSource mo2)
         (postNotificationName recent a (savedSource mo2) (pkg_notificationCenter pkg))\<rparr>))"
    and new: "cbl w' = cbl w2" "map_option mo_isNewObject (objects w' a) = Some False"
    using completed by (rule saveCompleted_effect)
  have "mo_core mo2 = mo_core mo" using effect(5) [of a] graph c(1) assms(6) by simp
  then have core: "savedChange mo2 = savedChange mo" "savedSource mo2 = savedSource mo"
    "mo_class mo2 = mo_class mo" "mo_controller mo2 = mo_controller mo"
    by (simp_all add: mo_core_def savedChange_def savedSource_def)
  have get: "getValueOfProperty (svc_ops svc) a k w' = getValueOfProperty (svc_ops svc) a k w1" for k
    using assms(2) db new(1) graph(4) by (simp add: getValueOfProperty_def saving_laws_def)
  have "isClean (svc_ops svc) a w'"
    using assms(2) db new(1) graph(4) by (auto simp: isClean_def saving_laws_def)
  moreover have "createdAt (svc_ops svc) a w' = createdAt (svc_ops svc) a w1"
    "updatedAt (svc_ops svc) a w' = updatedAt (svc_ops svc) a w1"
    by (simp_all add: createdAt_def updatedAt_def get)
  moreover have "mo_controller mo = Some m" "controllers w m = Some moc"
    "packages w (moc_package moc) = Some pkg"
    using c core effect graph by simp_all
  moreover have "deliveries (pkg_notificationCenter (updateChangeCount (pkg\<lparr>pkg_notificationCenter :=
       postNotificationName past a (savedSource mo2)
         (postNotificationName recent a (savedSource mo2) (pkg_notificationCenter pkg))\<rparr>))) =
      deliveries (pkg_notificationCenter pkg) @
      deliveriesTo recent a (savedSource mo) (pkg_notificationCenter pkg) @
      deliveriesTo past a (savedSource mo) (pkg_notificationCenter pkg)"
    by (simp add: core)
  ultimately show ?thesis
    using effect(1,2) new(2) c(5,6) p core by (intro conjI exI) (assumption | simp)+
qed


lemma sample_saved:
  "\<exists>w'. saveWithError sampleServices 10 sampleWorld = Inr (Inr (), w')"
proof -
  let ?put = "\<lambda>v k (w :: memory_store world). putCbl (modelSetValue memory_ops (cbl w) 10 v k) w"
  have stamps: "updateTimestamps sampleServices 10 sampleWorld =
      Inr (?put (Some (VNumber 7)) ''updatedAt'' (?put (Some (VNumber 7)) ''createdAt'' sampleWorld))"
    by (simp add: updateTimestamps_def createdAt_def getValueOfProperty_def setCreatedAt_def setUpdatedAt_def
        setValue_def isDeleted_def guardIdentity_def embeddedValueFor_scalar getObject_def MPAssertNotNil_def)
  have none: "embeddedProperties sampleServices sampleNote = {}"
    by (simp add: embeddedProperties_def propertiesOfSubclassesForClass_def propertyKeys_def
        subclasses_def computeSubclasses_def NSClassFromString_def sample_defs split: prod.splits)
  show ?thesis
    by (simp add: saveWithError_def isClean_def prepareSave_def willSaveObject_def stamps none
        cloudKitChangeTag_def getValueOfProperty_def clearEmbeddedNeedsSave_def embeddedIn_def
        saveCompleted_def didSaveObject_def notifyChange_def callbackContext_def postChange_def
        notificationNameForRecentChangeOfType_def notificationNameForPastChangeOfType_def lookupNames_def
        isManagedObjectClass_def isSubclassOfClass_def getObject_def getController_def getPackage_def
        MPAssertNotNil_def sampleObject_def sampleObjectsController_def sampleNames_def sampleClasses_def
        sampleNote_def sampleManagedObject_def sampleNSObject_def)
qed


theorem save_effect_witness:
  "\<exists>w'. saveWithError sampleServices 10 sampleWorld = Inr (Inr (), w') \<and>
     createdAt memory_ops 10 w' = Some 7 \<and> isClean memory_ops 10 w'"
proof -
  obtain w' where w': "saveWithError sampleServices 10 sampleWorld = Inr (Inr (), w')"
    using sample_saved by blast
  then show ?thesis
    using save_effect [of sampleServices 10 sampleWorld w' sampleObject] memory_laws
    by (simp add: isDeleted_def createdAt_def getValueOfProperty_def)
qed


section \<open>Bulk writes and creation\<close>

lemma setValues_frame:
  assumes "property_laws (svc_ops svc)"
  shows "setValuesForPropertiesWithDictionary svc a d w = Inr w' \<Longrightarrow>
    frame (svc_ops svc) a (fst ` set d) w w' \<and>
    (isDeleted (svc_ops svc) b w' = isDeleted (svc_ops svc) b w) \<and>
    controllers w' = controllers w \<and> packages w' = packages w \<and>
    map_option mo_core (objects w' b) = map_option mo_core (objects w b)"
proof (induction d arbitrary: w)
  case (Cons p d)
  obtain k v where p: "p = (k, v)" by force
  obtain w1 where w1: "setValue svc a (Some v) k w = Inr w1"
    "setValuesForPropertiesWithDictionary svc a d w1 = Inr w'"
    using Cons.prems p by (auto simp: bindExn_Inr)
  have "frame (svc_ops svc) a (fst ` set (p # d)) w w1"
    using assms w1(1) by (rule write_frame) (simp add: p)
  moreover have "frame (svc_ops svc) a (fst ` set (p # d)) w1 w'"
    by (rule frame_mono [OF Cons.IH [OF w1(2), THEN conjunct1]]) auto
  ultimately show ?case
    using Cons.IH [OF w1(2)] setValue_isDeleted [OF assms w1(1)] setValue_graph [OF w1(1)]
    by (auto intro: frame_trans)
qed simp

lemma setValues_identity:
  assumes "property_laws (svc_ops svc)" and "k = ''objectType'' \<or> k = ''_id''"
  shows "setValuesForPropertiesWithDictionary svc a d w = Inr w' \<Longrightarrow>
    getValueOfProperty (svc_ops svc) b k w = Some x \<Longrightarrow> getValueOfProperty (svc_ops svc) b k w' = Some x"
proof (induction d arbitrary: w)
  case (Cons p d)
  then show ?case
    using setValue_identity [OF assms(1) _ assms(2)] by (cases p) (auto simp: bindExn_Inr)
qed simp

lemma setValues_reads:
  assumes "property_laws (svc_ops svc)"
  shows "setValuesForPropertiesWithDictionary svc a d w = Inr w' \<Longrightarrow> distinct (map fst d) \<Longrightarrow>
    \<not> isDeleted (svc_ops svc) a w \<Longrightarrow> (k, v) \<in> set d \<Longrightarrow> \<not> isDict (Some v) \<Longrightarrow>
    getValueOfProperty (svc_ops svc) a k w' = Some v"
proof (induction d arbitrary: w)
  case (Cons p d)
  obtain k0 v0 where p: "p = (k0, v0)" by force
  obtain w1 where w1: "setValue svc a (Some v0) k0 w = Inr w1"
    "setValuesForPropertiesWithDictionary svc a d w1 = Inr w'"
    using Cons.prems(1) p by (auto simp: bindExn_Inr)
  have alive: "\<not> isDeleted (svc_ops svc) a w1"
    using setValue_isDeleted [OF assms w1(1)] Cons.prems(3) by simp
  show ?case
  proof (cases "(k, v) \<in> set d")
    case True
    then show ?thesis using Cons.IH [OF w1(2)] Cons.prems alive by simp
  next
    case False
    then have kv: "k = k0" "v = v0" using Cons.prems(4) p by auto
    then have "getValueOfProperty (svc_ops svc) a k w1 = Some v"
      using setValue_stores [OF assms w1(1)] Cons.prems(3,5) by simp
    moreover have "k \<notin> fst ` set d" using Cons.prems(2) p kv by simp
    ultimately show ?thesis
      using frame_get [OF setValues_frame [OF assms w1(2), THEN conjunct1]] by simp
  qed
qed simp



lemma didInitialize_registers:
  assumes "didInitialize ops a w = Inr w'" and "modelDocumentID ops (cbl w) a = Some i"
    and "objects w a = Some mo" and "mo_controller mo = Some m"
  shows "cbl w' = cbl w" and "map_option mo_core (objects w' a) = map_option mo_core (objects w a)"
    and "cachedObject m w' i = Some a"
proof -
  obtain w1 where w1: "registerObject ops m a w1 = Inr w'" "cbl w1 = cbl w"
      "map_option mo_core (objects w1 a) = map_option mo_core (objects w a)"
    using assms
    by (cases "mo_embeddedObjectCache mo") (auto simp: didInitialize_def bindExn_Inr Let_def)
  then show "cbl w' = cbl w" and "map_option mo_core (objects w' a) = map_option mo_core (objects w a)"
    by (auto simp: registerObject_Inr)
  show "cachedObject m w' i = Some a"
    using registerObject_cached [OF w1(1)] w1(2) assms(2) by auto
qed

lemma idForNewDocument_prefix:
  assumes "idForNewDocumentInDatabase kc mo uuid = Inr i"
  shows "hasPrefix i (class_name (mo_class mo) @ '':'')" and "mo_newDocumentID mo = None \<or> mo_newDocumentID mo = Some i"
  using assms
  by (auto simp: idForNewDocumentInDatabase_def classIdForNewDocument_def hasPrefix_def
      split: option.splits if_splits)

lemma initWithNewDocument_Inr:
  assumes "initWithNewDocumentForController svc c a (Some m) props identifier w = Inr w'"
  obtains moc db i w1 mo moClass w2 w3 where
    "isConcrete (svc_runtime svc) c" "controllers w m = Some moc" "moc_database moc = Some db"
    "idForNewDocumentInDatabase (svc_classes svc) (newManagedObject c m identifier) (svc_uuid svc w) = Inr i"
    "didInitialize (svc_ops svc) a (putCbl (modelNewDocument (svc_ops svc) (cbl w) a db i)
       (putObject a (newManagedObject c m identifier) w)) = Inr w1"
    "objects w1 a = Some mo" "classForProperties (svc_runtime svc) c props = Some moClass"
    "(case (case props of None \<Rightarrow> None | Some d \<Rightarrow> managedObjectType d) of
        None \<Rightarrow> Inr (putObject a (mo\<lparr>mo_isNewObject := True\<rparr>) w1)
      | Some t \<Rightarrow> bindExn (assertThat (t = class_name moClass) ''managedObjectType'') (\<lambda>_.
          setObjectType svc a t (putObject a (mo\<lparr>mo_isNewObject := True\<rparr>) w1))) = Inr w2"
    "registerObject (svc_ops svc) m a w2 = Inr w3"
    "setValuesForPropertiesWithDictionary svc a (propertiesForInit moClass props) w3 = Inr w'"
proof -
  have concrete: "isConcrete (svc_runtime svc) c"
    using assms by (cases "isConcrete (svc_runtime svc) c") (simp_all add: initWithNewDocumentForController_def)
  from assms show thesis
    apply (simp only: initWithNewDocumentForController_def concrete not_True_eq_False if_False
        bindExn_Inr get_Inr MPAssertNotNil_Inr assertThat_Inr option.inject sum.inject)
    apply (elim exE conjE)
    apply (rule that [OF concrete])
    apply (simp only:)+
    done
qed


lemma typeStep_frame:
  assumes "property_laws (svc_ops svc)" and "\<not> isDeleted (svc_ops svc) a w"
    and "(case t of None \<Rightarrow> Inr w
      | Some t \<Rightarrow> bindExn (assertThat (t = n) ''managedObjectType'') (\<lambda>_. setObjectType svc a t w)) = Inr w'"
  shows "frame (svc_ops svc) a {''objectType''} w w' \<and> \<not> isDeleted (svc_ops svc) a w' \<and>
    map_option mo_core (objects w' a) = map_option mo_core (objects w a)"
proof (cases t)
  case None
  then show ?thesis using assms by simp
next
  case (Some n')
  then have t: "setValue svc a (Some (VString n')) ''objectType'' w = Inr w'"
    using assms(3) by (simp add: setObjectType_def split: if_splits)
  show ?thesis
    using setValue_frame [OF assms(1) t] setValue_isDeleted [OF assms(1) t, of a] setValue_graph(3) [OF t, of a] assms(2)
    by simp
qed

lemma propertiesForInit_type:
  assumes "property_laws (svc_ops svc)" and "\<not> isDeleted (svc_ops svc) a w"
    and "setValuesForPropertiesWithDictionary svc a (propertiesForInit moClass props) w = Inr w'"
  shows "getValueOfProperty (svc_ops svc) a ''objectType'' w' = Some (VString (class_name moClass))"
proof -
  obtain w4 rest where w4: "setValue svc a (Some (VString (class_name moClass))) ''objectType'' w = Inr w4"
    "setValuesForPropertiesWithDictionary svc a rest w4 = Inr w'"
    using assms(3) by (auto simp: propertiesForInit_def dictUpdate_def bindExn_Inr)
  then show ?thesis
    using setValues_identity [OF assms(1) _ w4(2)] setValue_stores [OF assms(1) w4(1)] assms(2) by simp
qed

lemma initWithNewDocument_created:
  assumes "property_laws (svc_ops svc)" and "document_laws (svc_ops svc)"
    and "initWithNewDocumentForController svc c a (Some m) props identifier w = Inr w'"
  shows "\<exists>i moClass. documentID (svc_ops svc) a w' = Inr i \<and> hasPrefix i (class_name c @ '':'') \<and>
    (identifier = None \<or> identifier = Some i) \<and> cachedObject m w' i = Some a \<and>
    map_option mo_isNewObject (objects w' a) = Some True \<and>
    classForProperties (svc_runtime svc) c props = Some moClass \<and>
    objectType (svc_ops svc) a w' = Some (VString (class_name moClass)) \<and>
    (\<forall>b k. b \<noteq> a \<longrightarrow> getValueOfProperty (svc_ops svc) b k w' = getValueOfProperty (svc_ops svc) b k w)"
proof -
  let ?ops = "svc_ops svc"
  obtain moc db i w1 mo moClass w2 w3 where
    i: "idForNewDocumentInDatabase (svc_classes svc) (newManagedObject c m identifier) (svc_uuid svc w) = Inr i"
    and w1: "didInitialize ?ops a (putCbl (modelNewDocument ?ops (cbl w) a db i)
       (putObject a (newManagedObject c m identifier) w)) = Inr w1"
    and mo: "objects w1 a = Some mo" and moClass: "classForProperties (svc_runtime svc) c props = Some moClass"
    and w2: "(case (case props of None \<Rightarrow> None | Some d \<Rightarrow> managedObjectType d) of
        None \<Rightarrow> Inr (putObject a (mo\<lparr>mo_isNewObject := True\<rparr>) w1)
      | Some t \<Rightarrow> bindExn (assertThat (t = class_name moClass) ''managedObjectType'') (\<lambda>_.
          setObjectType svc a t (putObject a (mo\<lparr>mo_isNewObject := True\<rparr>) w1))) = Inr w2"
    and w3: "registerObject ?ops m a w2 = Inr w3"
    and w': "setValuesForPropertiesWithDictionary svc a (propertiesForInit moClass props) w3 = Inr w'"
    using assms(3) by (rule initWithNewDocument_Inr) blast
  have new: "modelDocumentID ?ops (modelNewDocument ?ops (cbl w) a db i) a = Some i"
    using assms(2) by (simp add: document_laws_def)
  have cbl1: "cbl w1 = modelNewDocument ?ops (cbl w) a db i"
    using didInitialize_registers(1) [OF w1, of i "newManagedObject c m identifier" m] new
    by (simp add: newManagedObject_def)
  let ?w = "putObject a (mo\<lparr>mo_isNewObject := True\<rparr>) w1"
  have alive: "\<not> isDeleted ?ops a ?w"
    using cbl1 assms(2) by (simp add: isDeleted_def document_laws_def)
  have step2: "frame ?ops a {''objectType''} ?w w2 \<and> \<not> isDeleted ?ops a w2 \<and>
      map_option mo_core (objects w2 a) = map_option mo_core (objects ?w a)"
    by (rule typeStep_frame [OF assms(1) alive w2])
  have step3: "cbl w3 = cbl w2" "objects w3 = objects w2" "cachedObject m w3 i = Some a"
  proof -
    have "modelDocumentID ?ops (cbl w2) a = Some i"
      using step2 cbl1 new by (auto simp: frame_def)
    then show "cachedObject m w3 i = Some a" using registerObject_cached [OF w3] by auto
    show "cbl w3 = cbl w2" "objects w3 = objects w2" using w3 by (auto simp: registerObject_Inr)
  qed
  note all = setValues_frame [OF assms(1) w', of a]
  have "\<not> isDeleted ?ops a w3" using step2 step3(1) by (simp add: isDeleted_def)
  then have type: "getValueOfProperty ?ops a ''objectType'' w' = Some (VString (class_name moClass))"
    by (rule propertiesForInit_type [OF assms(1) _ w'])
  have "frame ?ops a UNIV ?w w'"
    using frame_mono [OF step2 [THEN conjunct1], of UNIV] frame_mono [OF all [THEN conjunct1], of UNIV]
      frame_graph [of w3 w2 ?ops a UNIV] step3 by (auto intro: frame_trans)
  then have "modelDocumentID ?ops (cbl w') a = Some i"
    and "\<forall>b k. b \<noteq> a \<longrightarrow> getValueOfProperty ?ops b k w' = getValueOfProperty ?ops b k w"
    using cbl1 assms(2) unfolding frame_def getValueOfProperty_def document_laws_def by (simp, simp) metis
  moreover have "cachedObject m w' i = Some a" using all step3(3) by (simp add: cachedObject_def)
  moreover have "map_option mo_isNewObject (objects w' a) = Some True"
    using all step2 step3(2) by (auto simp: mo_core_def)
  moreover have "hasPrefix i (class_name c @ '':'')" "identifier = None \<or> identifier = Some i"
    using idForNewDocument_prefix [OF i] by (auto simp: newManagedObject_def)
  ultimately show ?thesis
    using type moClass by (auto simp: documentID_def objectType_def)
qed



lemma sample_created:
  "\<exists>w'. initWithNewDocumentForController sampleServices sampleNote 20 (Some 2) None (Some ''MPNote:5'') sampleWorld = Inr w'"
proof -
  have concrete: "isConcrete sampleRuntime sampleNote"
    by (simp add: isConcrete_def subclasses_def computeSubclasses_def sample_defs)
  show ?thesis
    by (simp add: initWithNewDocumentForController_def concrete [unfolded sampleNote_def sampleManagedObject_def
        sampleNSObject_def] idForNewDocumentInDatabase_def
        didInitialize_def registerObject_def classForProperties_def propertiesForInit_def
        getObject_def getController_def MPAssertNotNil_def newManagedObject_def isSubclassOfClass_def
        dictUpdate_def dictRemove_def setValue_def isDeleted_def guardIdentity_def getValueOfProperty_def
        embeddedValueFor_scalar noModel_def hasPrefix_def
        sampleObjectsController_def sampleClasses_def sampleNote_def sampleManagedObject_def sampleNSObject_def)
qed



section \<open>Sharing and moderation\<close>

text \<open>Sharing: for its creator, sharing an object that is not shared yet makes it shared
  and delivers exactly one notification to each observer of shared objects; anyone else
  gets the error \<open>MPManagedObjectErrorCodeUserNotCreator\<close> and nothing changes; and taking
  a shared object back raises.\<close>

theorem sharing_effect:
  assumes "property_laws (svc_ops svc)"
  shows "(shareWithError svc creatorID meID a w = Inr (Inr (), w') \<longrightarrow> \<not> isDeleted (svc_ops svc) a w \<longrightarrow>
      creatorID = meID \<and> \<not> isShared (svc_ops svc) a w \<and> isShared (svc_ops svc) a w' \<and>
      (\<exists>p pkg pkg'. packages w p = Some pkg \<and> packages w' p = Some pkg' \<and>
         deliveries (pkg_notificationCenter pkg') = deliveries (pkg_notificationCenter pkg) @
           deliveriesTo ''MPNotificationNameManagedObjectShared'' a None (pkg_notificationCenter pkg))) \<and>
    (creatorID = None \<or> creatorID \<noteq> meID \<longrightarrow> shareWithError svc creatorID meID a w =
      Inr (Inl (Some (managedObjectError MPManagedObjectErrorCodeUserNotCreator)), w)) \<and>
    (isShared (svc_ops svc) a w \<longrightarrow>
      setShared svc a False w = Inl (NSInternalInconsistencyException ''object cannot be un-shared''))"
proof (intro conjI impI)
  assume s: "shareWithError svc creatorID meID a w = Inr (Inr (), w')"
    and alive: "\<not> isDeleted (svc_ops svc) a w"
  then show "creatorID = meID" and not_shared: "\<not> isShared (svc_ops svc) a w"
    by (auto simp: shareWithError_def split: if_splits)
  then obtain w1 and mo :: managed_object and m and moc :: objects_controller and pkg
    where w1: "setValue svc a (Some (VBool True)) ''shared'' w = Inr w1"
    and pkg: "packages w1 (moc_package moc) = Some pkg"
    and w': "w' = putPackage (moc_package moc) (pkg\<lparr>pkg_notificationCenter :=
        postNotificationForSharingManagedObject a (pkg_notificationCenter pkg)\<rparr>) w1"
    using s by (auto simp: shareWithError_def setShared_def Let_def bindExn_Inr split: if_splits)
  show "isShared (svc_ops svc) a w'"
    using setValue_stores [OF assms w1] alive w' by (simp add: isShared_def getValueOfProperty_def)
  show "\<exists>p pkg pkg'. packages w p = Some pkg \<and> packages w' p = Some pkg' \<and>
      deliveries (pkg_notificationCenter pkg') = deliveries (pkg_notificationCenter pkg) @
        deliveriesTo ''MPNotificationNameManagedObjectShared'' a None (pkg_notificationCenter pkg)"
    using pkg w' setValue_graph(2) [OF w1]
    by (auto simp: postNotificationForSharingManagedObject_def intro!: exI [of _ "moc_package moc"])
qed (auto simp: shareWithError_def setShared_def)

theorem sharing_effect_witness:
  "shareWithError sampleServices (Some ''MPContributor:1'') (Some ''MPContributor:2'') 10 sampleWorld =
     Inr (Inl (Some (managedObjectError MPManagedObjectErrorCodeUserNotCreator)), sampleWorld)"
  using sharing_effect [of sampleServices "Some ''MPContributor:1''" "Some ''MPContributor:2''" 10 sampleWorld]
    memory_laws by simp

text \<open>The change tag for CloudKit cannot be read: after it was set to a string, the getter
  returns nil, and it returns the null object when there is no tag.\<close>

theorem cloudKitChangeTag_unreadable:
  assumes "setCloudKitChangeTag a tag w = Inr w1" and "cloudKitChangeTag ops a w1 = Inr (r, w2)"
  shows "(tag \<noteq> None \<longrightarrow> r = None) \<and>
    (tag = None \<longrightarrow> getValueOfProperty ops a ''cloudKitChangeTag'' w1 = None \<longrightarrow> r = Some VNull)"
  using assms by (auto simp: setCloudKitChangeTag_def cloudKitChangeTag_def bindExn_Inr Let_def)

theorem cloudKitChangeTag_unreadable_witness:
  "\<exists>w1 w2. setCloudKitChangeTag 10 (Some ''tag'') sampleWorld = Inr w1 \<and>
     cloudKitChangeTag memory_ops 10 w1 = Inr (None, w2)"
proof -
  obtain w1 where w1: "setCloudKitChangeTag 10 (Some ''tag'') sampleWorld = Inr w1"
    by (simp add: setCloudKitChangeTag_def getObject_def MPAssertNotNil_def)
  then obtain r w2 where "cloudKitChangeTag memory_ops 10 w1 = Inr (r, w2)"
    by (auto simp: setCloudKitChangeTag_def cloudKitChangeTag_def getObject_def MPAssertNotNil_def Let_def)
  then show ?thesis using cloudKitChangeTag_unreadable [OF w1] w1 by blast
qed

lemma replaced_notin:
  "c \<noteq> d \<Longrightarrow> c \<notin> set (stringByReplacingOccurrencesOfString s [c] [d])"
  "x \<notin> set s \<Longrightarrow> x \<noteq> d \<Longrightarrow> x \<notin> set (stringByReplacingOccurrencesOfString s [c] [d])"
  by auto

text \<open>A canonicalised identifier contains none of the characters slash, full stop, space
  and colon.\<close>

theorem canonicalizedIdentifierString_clean:
  "CHR ''/'' \<notin> set (canonicalizedIdentifierStringForString s) \<and>
   CHR ''.'' \<notin> set (canonicalizedIdentifierStringForString s) \<and>
   CHR '' '' \<notin> set (canonicalizedIdentifierStringForString s) \<and>
   CHR '':'' \<notin> set (canonicalizedIdentifierStringForString s)"
proof -
  let ?t = "canonicalizedIdentifierStringForString s"
  have "CHR ''/'' \<notin> set ?t"
    unfolding canonicalizedIdentifierStringForString_def
    by (rule replaced_notin(2) [OF replaced_notin(2) [OF replaced_notin(2) [OF replaced_notin(1)]]]) simp_all
  moreover have "CHR ''.'' \<notin> set ?t"
    unfolding canonicalizedIdentifierStringForString_def
    by (rule replaced_notin(2) [OF replaced_notin(2) [OF replaced_notin(1)]]) simp_all
  moreover have "CHR '' '' \<notin> set ?t"
    unfolding canonicalizedIdentifierStringForString_def
    by (rule replaced_notin(2) [OF replaced_notin(1)]) simp_all
  moreover have "CHR '':'' \<notin> set ?t"
    unfolding canonicalizedIdentifierStringForString_def by (rule replaced_notin(1)) simp
  ultimately show ?thesis by simp
qed

text \<open>Moderation moves between states: accepting makes the object accepted and not
  rejected, rejecting the converse, either leaves it moderated, and repeating one raises.
  Neither of them marks the object as shared.\<close>

theorem moderation_effect:
  assumes "property_laws (svc_ops svc)" and "\<not> isDeleted (svc_ops svc) a w"
  shows "(accept svc a w = Inr w' \<longrightarrow> accepted (svc_ops svc) a w' \<and> \<not> rejected (svc_ops svc) a w' \<and>
      moderated (svc_ops svc) a w' \<and> isShared (svc_ops svc) a w' = isShared (svc_ops svc) a w \<and>
      (\<exists>e. accept svc a w' = Inl e)) \<and>
    (reject svc a w = Inr w' \<longrightarrow> rejected (svc_ops svc) a w' \<and> \<not> accepted (svc_ops svc) a w' \<and>
      moderated (svc_ops svc) a w' \<and> isShared (svc_ops svc) a w' = isShared (svc_ops svc) a w \<and>
      (\<exists>e. reject svc a w' = Inl e))"
proof -
  have set: "moderationState (svc_ops svc) a w' = moderationNumber st \<and>
      isShared (svc_ops svc) a w' = isShared (svc_ops svc) a w"
    if "setValue svc a (Some (VNumber (moderationNumber st))) ''moderationState'' w = Inr w'" for st
    using setValue_stores [OF assms(1) that] frame_get [OF setValue_frame [OF assms(1) that]] assms(2)
    by (simp add: moderationState_def isShared_def)
  show ?thesis
  proof (intro conjI impI)
    assume "accept svc a w = Inr w'"
    then have "setValue svc a (Some (VNumber (moderationNumber MPManagedObjectModerationStateAccepted)))
        ''moderationState'' w = Inr w'"
      by (simp add: accept_def setModerationState_def split: if_splits)
    note * = set [OF this]
    then show "accepted (svc_ops svc) a w'" "\<not> rejected (svc_ops svc) a w'" "moderated (svc_ops svc) a w'"
      "isShared (svc_ops svc) a w' = isShared (svc_ops svc) a w" "\<exists>e. accept svc a w' = Inl e"
      by (simp_all add: accepted_def rejected_def moderated_def accept_def)
  next
    assume "reject svc a w = Inr w'"
    then have "setValue svc a (Some (VNumber (moderationNumber MPManagedObjectModerationStateRejected)))
        ''moderationState'' w = Inr w'"
      by (simp add: reject_def setModerationState_def split: if_splits)
    note * = set [OF this]
    then show "rejected (svc_ops svc) a w'" "\<not> accepted (svc_ops svc) a w'" "moderated (svc_ops svc) a w'"
      "isShared (svc_ops svc) a w' = isShared (svc_ops svc) a w" "\<exists>e. reject svc a w' = Inl e"
      by (simp_all add: accepted_def rejected_def moderated_def reject_def)
  qed
qed

theorem moderation_effect_witness:
  "\<exists>w'. accept sampleServices 10 sampleWorld = Inr w' \<and> accepted memory_ops 10 w' \<and>
     \<not> isShared memory_ops 10 w'"
proof -
  obtain w' where w': "accept sampleServices 10 sampleWorld = Inr w'"
    by (simp add: accept_def accepted_def moderationState_def getValueOfProperty_def setModerationState_def
        sample_setValue)
  moreover have "\<not> isDeleted memory_ops 10 sampleWorld" "\<not> isShared memory_ops 10 sampleWorld"
    by (simp_all add: isDeleted_def isShared_def getValueOfProperty_def)
  ultimately show ?thesis using moderation_effect [of sampleServices 10 sampleWorld w'] memory_laws by auto
qed

end
