(* ===== verification/Repository.thy ===== *)
theory Repository
  imports Saving
begin

text \<open>
  \<open>MPManagedObjectsController\<close> as a repository of managed objects: fetching by
  identifier with the relay to the shared package, creating objects, copying a
  prototype, loading from JSON dictionaries, and turning the rows of a query into
  objects.  The fetch follows a relay, so it is a partial function whose value \<open>None\<close>
  means that it does not return.
\<close>


section \<open>Models of documents\<close>

text \<open>\<open>p\<close> is the address of the package that owns the document's database.\<close>

definition setControllerWithDocument ::
  "'db services \<Rightarrow> nat \<Rightarrow> cbl_document \<Rightarrow> nat \<Rightarrow> 'db world \<Rightarrow> exn + 'db world" where
  "setControllerWithDocument svc p doc a w =
     bindExn (MPAssertNotNil (document_objectType doc) ''objectType'') (\<lambda>t.
     bindExn (MPAssertNotNil (NSClassFromString (svc_runtime svc) t) ''class'') (\<lambda>c.
     bindExn (getPackage p w) (\<lambda>pkg.
     bindExn (controllerForManagedObjectClass (svc_classes svc) c pkg) (\<lambda>(moc, pkg').
     bindExn (MPAssertNotNil moc ''Class should have a controller'') (\<lambda>m.
     bindExn (getObject a w) (\<lambda>mo.
     bindExn (assertThat (mo_controller mo = None) ''Controller should have been set'') (\<lambda>_.
       Inr (putObject a (mo\<lparr>mo_controller := Some m\<rparr>) (putPackage p pkg' w)))))))))"

definition setDocument ::
  "'db services \<Rightarrow> nat \<Rightarrow> nat \<Rightarrow> string \<Rightarrow> cbl_document \<Rightarrow> nat \<Rightarrow> 'db world \<Rightarrow> exn + 'db world" where
  "setDocument svc p db i doc a w =
     bindExn (getObject a w) (\<lambda>mo0.
     bindExn (if mo_controller mo0 = None then setControllerWithDocument svc p doc a w else Inr w) (\<lambda>w1.
     bindExn
       (case modelDocumentID (svc_ops svc) (cbl w1) a of
          None \<Rightarrow> Inr (putCbl (modelSetDocument (svc_ops svc) (cbl w1) a db i) w1)
        | Some j \<Rightarrow> bindExn (assertThat (j = i) ''Document is unexpectedly mismatched'') (\<lambda>_. Inr w1)) (\<lambda>w2.
     bindExn (getObject a w2) (\<lambda>mo.
     bindExn (MPAssertNotNil (mo_controller mo) ''Controller is unexpectedly nil'') (\<lambda>m.
       registerObject (svc_ops svc) m a w2)))))"

definition initWithDocument ::
  "'db services \<Rightarrow> cls \<Rightarrow> nat \<Rightarrow> nat \<Rightarrow> string \<Rightarrow> cbl_document \<Rightarrow> nat \<Rightarrow> 'db world \<Rightarrow> exn + 'db world" where
  "initWithDocument svc c p db i doc a w =
     (if \<not> isConcrete (svc_runtime svc) c then throw (MPAbstractClassException (class_name c))
      else
        bindExn (setDocument svc p db i doc a
          (putObject a (newManagedObject c 0 None\<lparr>mo_controller := None\<rparr>) w)) (\<lambda>w1.
          didInitialize (svc_ops svc) a w1))"

definition modelForDocument ::
  "'db services \<Rightarrow> cls \<Rightarrow> nat \<Rightarrow> nat \<Rightarrow> string \<Rightarrow> cbl_document \<Rightarrow> 'db world \<Rightarrow> exn + nat \<times> 'db world" where
  "modelForDocument svc c p db i doc w =
     (case document_modelObject doc of
        Some a \<Rightarrow>
          bindExn (getObject a w) (\<lambda>mo.
          bindExn (assertThat (isSubclassOfClass (mo_class mo) c) ''modelObject isKindOfClass'') (\<lambda>_.
            Inr (a, w)))
      | None \<Rightarrow>
          (let a = svc_fresh svc w
           in bindExn (initWithDocument svc c p db i doc a w) (\<lambda>w1.
              bindExn (assertThat (document_objectType doc = Some (class_name c)) ''objectType'') (\<lambda>_.
                Inr (a, w1)))))"


section \<open>Fetching by identifier\<close>

definition managedObjectClassOf :: "'db services \<Rightarrow> string \<Rightarrow> exn + cls" where
  "managedObjectClassOf svc i = managedObjectClassFromDocumentID (svc_runtime svc) (svc_classes svc) i"

text \<open>The checks on an object that the fetch is about to return.\<close>

definition checkFetched :: "nat \<Rightarrow> objects_controller \<Rightarrow> nat \<Rightarrow> 'db world \<Rightarrow> exn + unit" where
  "checkFetched self moc a w =
     bindExn (getObject a w) (\<lambda>mo.
     bindExn (assertThat (mo_controller mo = Some self) ''Object has unexpected controller'') (\<lambda>_.
       assertThat (isSubclassOfClass (mo_class mo) (moc_managedObjectClass moc)) ''Object is of unexpected kind''))"

text \<open>The object of an existing document: its model, or nil if it is deleted, or a new model.\<close>

definition fetchDocument ::
  "'db services \<Rightarrow> cls \<Rightarrow> nat \<Rightarrow> nat \<Rightarrow> string \<Rightarrow> cbl_document \<Rightarrow> 'db world \<Rightarrow> exn + nat option \<times> 'db world" where
  "fetchDocument svc c p db i doc w =
     (case document_modelObject doc of
        Some a \<Rightarrow> Inr (Some a, w)
      | None \<Rightarrow>
          if document_isDeleted doc then Inr (None, w)
          else bindExn (modelForDocument svc c p db i doc w) (\<lambda>(a, w1). Inr (Some a, w1)))"

text \<open>The part of the fetch before the relay; no value means that there is no document.\<close>

definition fetchLocally ::
  "'db services \<Rightarrow> nat \<Rightarrow> string \<Rightarrow> 'db world \<Rightarrow> exn + (nat option \<times> 'db world) option" where
  "fetchLocally svc self i w =
     bindExn (getController self w) (\<lambda>moc.
     bindExn (managedObjectClassOf svc i) (\<lambda>c.
     bindExn (assertThat (isSubclassOfClass c (moc_managedObjectClass moc)) ''unexpected kind of object'') (\<lambda>_.
       case moc_objectCache moc i of
         Some a \<Rightarrow> bindExn (checkFetched self moc a w) (\<lambda>_. Inr (Some (Some a, w)))
       | None \<Rightarrow>
           bindExn (MPAssertNotNil (moc_database moc) ''db'') (\<lambda>db.
             case existingDocumentWithID (svc_ops svc) (cbl w) db i of
               None \<Rightarrow> Inr None
             | Some doc \<Rightarrow>
                 bindExn (fetchDocument svc c (moc_package moc) db i doc w) (\<lambda>(r, w1).
                 bindExn (case r of None \<Rightarrow> Inr () | Some a \<Rightarrow> checkFetched self moc a w1) (\<lambda>_.
                   Inr (Some (r, w1))))))))"

text \<open>The controller of the shared package to which a failed fetch is relayed, if any.\<close>

definition relayTarget :: "'db services \<Rightarrow> nat \<Rightarrow> string \<Rightarrow> 'db world \<Rightarrow> exn + nat option \<times> 'db world" where
  "relayTarget svc self i w =
     bindExn (getController self w) (\<lambda>moc.
       if \<not> moc_relaysFetchingByIdentifier moc \<or> sharedShoebox w = Some (moc_package moc)
       then Inr (None, w)
       else
         (case sharedShoebox w of
            None \<Rightarrow> Inr (None, w)
          | Some p \<Rightarrow>
              bindExn (managedObjectClassOf svc i) (\<lambda>c.
              bindExn (getPackage p w) (\<lambda>pkg.
              bindExn (controllerForManagedObjectClass (svc_classes svc) c pkg) (\<lambda>(m, pkg').
              bindExn (assertThat (m \<noteq> Some self) ''Attempting to recursively get object by ID from self'') (\<lambda>_.
                Inr (m, putPackage p pkg' w)))))))"

partial_function (option) objectWithIdentifier ::
  "'db services \<Rightarrow> nat \<Rightarrow> string \<Rightarrow> 'db world \<Rightarrow> (exn + nat option \<times> 'db world) option" where
  "objectWithIdentifier svc self i w =
     (case fetchLocally svc self i w of
        Inl e \<Rightarrow> Some (Inl e)
      | Inr (Some r) \<Rightarrow> Some (Inr r)
      | Inr None \<Rightarrow>
          (case relayTarget svc self i w of
             Inl e \<Rightarrow> Some (Inl e)
           | Inr (None, w1) \<Rightarrow> Some (Inr (None, w1))
           | Inr (Some m, w1) \<Rightarrow> objectWithIdentifier svc m i w1))"


section \<open>Creating objects\<close>

definition newObjectOfClass ::
  "'db services \<Rightarrow> nat \<Rightarrow> cls option \<Rightarrow> nat \<Rightarrow> 'db world \<Rightarrow> exn + 'db world" where
  "newObjectOfClass svc self c a w =
     bindExn (getController self w) (\<lambda>moc.
       let c' = (case c of None \<Rightarrow> moc_managedObjectClass moc | Some k \<Rightarrow> k)
       in bindExn (assertThat (isSubclassOfClass c' (moc_managedObjectClass moc)) ''cls isSubclassOfClass'') (\<lambda>_.
          bindExn (initWithNewDocumentForController svc c' a (Some self) None None w) (\<lambda>w1.
          bindExn (setObjectType svc a (class_name c') w1) (\<lambda>w2.
            Inr (putCbl (modelSetAutosaves (svc_ops svc) (cbl w2) a (moc_autosavesObjects moc)) w2)))))"

definition newObject :: "'db services \<Rightarrow> nat \<Rightarrow> nat \<Rightarrow> 'db world \<Rightarrow> exn + 'db world" where
  "newObject svc self a w = newObjectOfClass svc self None a w"

fun copyProperties :: "'db services \<Rightarrow> nat \<Rightarrow> nat \<Rightarrow> string list \<Rightarrow> 'db world \<Rightarrow> exn + 'db world" where
  "copyProperties svc prototype a [] w = Inr w"
| "copyProperties svc prototype a (k # rest) w =
     bindExn (setValue svc a (getValueOfProperty (svc_ops svc) prototype k w) k w) (\<lambda>w1.
       copyProperties svc prototype a rest w1)"

fun copyAttachments :: "'db services \<Rightarrow> nat \<Rightarrow> nat \<Rightarrow> string list \<Rightarrow> 'db world \<Rightarrow> exn + 'db world" where
  "copyAttachments svc prototype a [] w = Inr w"
| "copyAttachments svc prototype a (n # rest) w =
     (case modelAttachment (svc_ops svc) (cbl w) prototype n of
        None \<Rightarrow> copyAttachments svc prototype a rest w
      | Some (contentType, content) \<Rightarrow>
          bindExn (saveSilently svc a
            (putCbl (modelSetAttachment (svc_ops svc) (cbl w) a n contentType content) w)) (\<lambda>(_, w1).
            copyAttachments svc prototype a rest w1))"

text \<open>\<open>prototypeClass\<close> is what \<open>-prototypeClass\<close> of the controller returns.\<close>

definition newObjectWithPrototype ::
  "'db services \<Rightarrow> nat \<Rightarrow> cls \<Rightarrow> nat \<Rightarrow> string option \<Rightarrow> nat \<Rightarrow> 'db world \<Rightarrow> exn + 'db world" where
  "newObjectWithPrototype svc self prototypeClass prototype i a w =
     bindExn (getController self w) (\<lambda>moc. bindExn (getObject prototype w) (\<lambda>p.
     bindExn (assertThat (isSubclassOfClass (mo_class p) prototypeClass) ''Unexpected prototype class'') (\<lambda>_.
     bindExn (MPAssertNotNil (modelDocumentID (svc_ops svc) (cbl w) prototype) ''documentID'') (\<lambda>_.
     bindExn (initWithNewDocumentForController svc
         (if prototypeClass = moc_managedObjectClass moc then mo_class p else moc_managedObjectClass moc)
         a (Some self) None i w) (\<lambda>w1.
     bindExn (setPrototype svc a (Some prototype) w1) (\<lambda>w2.
     bindExn (copyProperties svc prototype a (modelUserPropertyKeys (svc_ops svc) (cbl w2) prototype) w2) (\<lambda>w3.
       case modelAttachmentNames (svc_ops svc) (cbl w3) prototype of
         None \<Rightarrow> Inr w3
       | Some names \<Rightarrow>
           bindExn (saveSilently svc a w3) (\<lambda>(_, w4). copyAttachments svc prototype a names w4))))))))"


section \<open>Loading from JSON\<close>

primrec dictionaryErrorCode :: "MPManagedObjectDictionaryValidationErrorCode \<Rightarrow> nat" where
  "dictionaryErrorCode DictionaryErrorUnknown = 0"
| "dictionaryErrorCode DictionaryErrorObjectTypeMissing = 1"
| "dictionaryErrorCode DictionaryErrorObjectTypeInvalid = 2"
| "dictionaryErrorCode DictionaryErrorDocumentIDMissing = 3"
| "dictionaryErrorCode DictionaryErrorUnexpectedDocumentID = 4"

definition dictionaryError :: "MPManagedObjectDictionaryValidationErrorCode \<Rightarrow> ns_error" where
  "dictionaryError c =
     \<lparr>error_domain = ''MPManagedObjectDictionaryErrorDomain'', error_code = dictionaryErrorCode c\<rparr>"

text \<open>
  The result is an error of the validation, or the object with the flag
  \<open>isExisting\<close>, which is set only for an existing object that then needs saving.
\<close>

definition objectFromJSONDictionary ::
  "'db services \<Rightarrow> nat \<Rightarrow> dict \<Rightarrow> 'db world \<Rightarrow>
   exn + (ns_error + nat \<times> bool) \<times> 'db world" where
  "objectFromJSONDictionary svc self d w =
     bindExn (getController self w) (\<lambda>moc.
       case isManagedObjectDictionary (svc_runtime svc) (class_MPManagedObject (svc_classes svc)) d of
         Inl err \<Rightarrow> Inr (Inl (dictionaryError err), w)
       | Inr _ \<Rightarrow>
           bindExn (MPAssertNotNil (managedObjectDocumentID d) ''docID'') (\<lambda>i.
           bindExn (MPAssertNotNil (case managedObjectType d of None \<Rightarrow> None
               | Some t \<Rightarrow> NSClassFromString (svc_runtime svc) t) ''moClass'') (\<lambda>c.
           bindExn (MPAssertNotNil (moc_database moc) ''db'') (\<lambda>db.
             case existingDocumentWithID (svc_ops svc) (cbl w) db i of
               Some doc \<Rightarrow>
                 bindExn (modelForDocument svc c (moc_package moc) db i doc w) (\<lambda>(a, w1).
                 bindExn (setValuesForPropertiesWithDictionary svc a d w1) (\<lambda>w2.
                   Inr (Inr (a, modelNeedsSave (svc_ops svc) (cbl w2) a), w2)))
             | None \<Rightarrow>
                 (let a = svc_fresh svc w
                  in bindExn (initWithNewDocumentForController svc c a (Some self) (Some d) (Some i) w) (\<lambda>w1.
                       Inr (Inr (a, False), w1)))))))"

fun objectsFromJSONLoop ::
  "'db services \<Rightarrow> nat \<Rightarrow> dict list \<Rightarrow> 'db world \<Rightarrow> exn + (ns_error + nat list) \<times> 'db world" where
  "objectsFromJSONLoop svc self [] w = Inr (Inr [], w)"
| "objectsFromJSONLoop svc self (d # rest) w =
     bindExn (objectFromJSONDictionary svc self d w) (\<lambda>(r, w1).
       case r of
         Inl err \<Rightarrow> Inr (Inl err, w1)
       | Inr (a, isExisting) \<Rightarrow>
           (let keep = modelNeedsSave (svc_ops svc) (cbl w1) a \<or> \<not> isExisting
            in bindExn (objectsFromJSONLoop svc self rest w1) (\<lambda>(rs, w2).
                 case rs of
                   Inl err \<Rightarrow> Inr (Inl err, w2)
                 | Inr as \<Rightarrow> Inr (Inr (if keep then a # as else as), w2))))"

definition objectsFromJSONEncodableObjectArray ::
  "'db services \<Rightarrow> nat \<Rightarrow> dict list \<Rightarrow> 'db world \<Rightarrow> exn + (ns_error option + nat list) \<times> 'db world" where
  "objectsFromJSONEncodableObjectArray svc self objs w =
     bindExn (objectsFromJSONLoop svc self objs w) (\<lambda>(r, w1).
       case r of
         Inl err \<Rightarrow> Inr (Inl (Some err), w1)
       | Inr mos \<Rightarrow>
           if mos = [] then Inr (Inr [], w1)
           else
             bindExn (assertThat (distinct (map (\<lambda>a. modelDocumentID (svc_ops svc) (cbl w1) a) mos))
                 ''There should be no duplicate document IDs'') (\<lambda>_.
             bindExn (saveModelsWithError svc mos w1) (\<lambda>(s, w2).
               case s of
                 Inl err \<Rightarrow> Inr (Inl err, w2)
               | Inr _ \<Rightarrow> Inr (Inr mos, w2))))"

text \<open>
  The bundled resource is loaded, by the main application only, when its checksum \<open>md5\<close>
  differs from the recorded one.  \<open>objs\<close> is the result of reading the resource,
  \<open>metadataSaved\<close> that of saving the new checksum; the checksum that the metadata then
  holds is returned with the objects.
\<close>

definition loadBundledObjectsFromResource ::
  "bool \<Rightarrow> 'db services \<Rightarrow> nat \<Rightarrow> string \<Rightarrow> string option \<Rightarrow> ns_error option + dict list \<Rightarrow> ns_error option + unit \<Rightarrow>
   nat list \<Rightarrow> 'db world \<Rightarrow> exn + ((ns_error option + nat list) \<times> string option) \<times> 'db world" where
  "loadBundledObjectsFromResource mainApplication svc self md5 recorded objs metadataSaved preloadedObjects w =
     (if \<not> mainApplication \<or> recorded = Some md5 then Inr ((Inr preloadedObjects, recorded), w)
      else
        (case objs of
           Inl err \<Rightarrow> Inr ((Inl err, recorded), w)
         | Inr ds \<Rightarrow>
             bindExn (objectsFromJSONEncodableObjectArray svc self ds w) (\<lambda>(r, w1).
               case r of
                 Inl err \<Rightarrow> Inr ((Inl err, recorded), w1)
               | Inr mos \<Rightarrow>
                   (case metadataSaved of
                      Inl err \<Rightarrow> Inr ((Inl err, Some md5), w1)
                    | Inr _ \<Rightarrow> Inr ((Inr mos, Some md5), w1)))))"


section \<open>Rows of a query\<close>

record query_row =
  row_key :: val
  row_documentID :: string
  row_document :: cbl_document

text \<open>
  The object of a row: the model of the document, or the cached object, which is then
  attached to the document, or a new model unless the document is deleted.
\<close>

definition objectForRow ::
  "'db services \<Rightarrow> nat \<Rightarrow> query_row \<Rightarrow> 'db world \<Rightarrow> exn + nat option \<times> 'db world" where
  "objectForRow svc self row w =
     bindExn (getController self w) (\<lambda>moc.
     bindExn (MPAssertNotNil (moc_database moc) ''db'') (\<lambda>db.
       case document_modelObject (row_document row) of
         Some a \<Rightarrow>
           bindExn (assertThat (modelDocumentID (svc_ops svc) (cbl w) a = Some (row_documentID row))
             ''Unexpected row.document'') (\<lambda>_. Inr (Some a, w))
       | None \<Rightarrow>
           (case moc_objectCache moc (row_documentID row) of
              Some a \<Rightarrow>
                bindExn (setDocument svc (moc_package moc) db (row_documentID row) (row_document row) a w)
                  (\<lambda>w1. Inr (Some a, w1))
            | None \<Rightarrow>
                if document_isDeleted (row_document row) then Inr (None, w)
                else
                  bindExn (MPAssertNotNil (case document_objectType (row_document row) of None \<Rightarrow> None
                      | Some t \<Rightarrow> NSClassFromString (svc_runtime svc) t) ''managedObjectClass'') (\<lambda>c.
                  bindExn (modelForDocument svc c (moc_package moc) db (row_documentID row) (row_document row) w)
                    (\<lambda>(a, w1). Inr (Some a, w1))))))"

fun managedObjectsForQueryEnumerator ::
  "'db services \<Rightarrow> nat \<Rightarrow> query_row list \<Rightarrow> 'db world \<Rightarrow> exn + nat list \<times> 'db world" where
  "managedObjectsForQueryEnumerator svc self [] w = Inr ([], w)"
| "managedObjectsForQueryEnumerator svc self (row # rest) w =
     bindExn (objectForRow svc self row w) (\<lambda>(r, w1).
     bindExn (managedObjectsForQueryEnumerator svc self rest w1) (\<lambda>(rs, w2).
       Inr (case r of None \<Rightarrow> rs | Some a \<Rightarrow> a # rs, w2)))"

text \<open>\<open>run\<close> gives the rows of an existing view restricted to keys.\<close>

definition objectsMatchingQueriedView ::
  "'db services \<Rightarrow> (string \<Rightarrow> val list option \<Rightarrow> query_row list option) \<Rightarrow> nat \<Rightarrow> string \<Rightarrow> val list option \<Rightarrow>
   'db world \<Rightarrow> exn + nat list option \<times> 'db world" where
  "objectsMatchingQueriedView svc run self view keys w =
     (case run view keys of
        None \<Rightarrow> Inr (None, w)
      | Some rows \<Rightarrow>
          bindExn (managedObjectsForQueryEnumerator svc self rows w) (\<lambda>(objs, w1). Inr (Some objs, w1)))"

definition allObjectsViewName :: "string \<Rightarrow> string" where
  "allObjectsViewName managedObjectClassName = ''all-'' @ managedObjectClassName @ ''s''"

definition objectsByTitleViewName :: "string \<Rightarrow> string" where
  "objectsByTitleViewName managedObjectClassName = managedObjectClassName @ ''-by-title''"

definition userContributedObjectsViewName :: "cls \<Rightarrow> string" where
  "userContributedObjectsViewName self = class_name self @ ''-user-contributed''"

text \<open>The selectors under which a search by a property is looked up, plural forms first.\<close>

definition searchSelectorStrings :: "string \<Rightarrow> string \<Rightarrow> string \<Rightarrow> string list" where
  "searchSelectorStrings name object property =
     [name @ ''For'' @ property @ '':'', name @ ''With'' @ property @ '':'', name @ ''By'' @ property @ '':'',
      object @ ''By'' @ property @ '':'', object @ ''With'' @ property @ '':'', object @ ''For'' @ property @ '':'']"

definition searchSelectorForManagedObjectProperty ::
  "(string \<Rightarrow> bool) \<Rightarrow> string \<Rightarrow> string \<Rightarrow> string \<Rightarrow> (string \<times> bool) option" where
  "searchSelectorForManagedObjectProperty responds singular plural property =
     (case find responds (searchSelectorStrings plural ''objects'' property) of
        Some sel \<Rightarrow> Some (sel, True)
      | None \<Rightarrow>
          (case find responds (searchSelectorStrings singular ''object'' property) of
             Some sel \<Rightarrow> Some (sel, False)
           | None \<Rightarrow> None))"


section \<open>Fetching\<close>

lemma registerAll_frame:
  "addAll (registerObject ops self) as w = Inr w' \<Longrightarrow> controllers w self = Some moc \<Longrightarrow>
   objects w' = objects w \<and> cbl w' = cbl w \<and>
   (\<exists>cache. controllers w' self = Some (moc\<lparr>moc_objectCache := cache\<rparr>))"
proof (induction as arbitrary: w moc)
  case Nil
  then show ?case by (auto intro: exI [of _ "moc_objectCache moc"])
next
  case (Cons a as)
  then obtain i w1 where w1: "w1 = putController self (moc\<lparr>moc_objectCache := (moc_objectCache moc)(i \<mapsto> a)\<rparr>) w"
    "addAll (registerObject ops self) as w1 = Inr w'"
    by (auto simp: bindExn_Inr registerObject_Inr)
  then show ?case using Cons.IH [OF w1(2)] by auto
qed

lemma fetchLocally_cached:
  assumes "controllers w self = Some moc" "moc_objectCache moc i = Some a"
    and "managedObjectClassOf svc i = Inr c" "isSubclassOfClass c (moc_managedObjectClass moc)"
    and "objects w a = Some mo" "mo_controller mo = Some self"
    and "isSubclassOfClass (mo_class mo) (moc_managedObjectClass moc)"
  shows "fetchLocally svc self i w = Inr (Some (Some a, w))"
  using assms by (simp add: fetchLocally_def checkFetched_def getController_def getObject_def MPAssertNotNil_def
      assertThat_def)

text \<open>C4: The repository returns each object it holds as the same object: after objects
  with different document identifiers were registered with their controller, fetching any
  of them by its identifier returns that very object and changes nothing.\<close>

theorem fetch_registered:
  assumes "addAll (registerObject (svc_ops svc) self) as w = Inr w'"
    and "distinct (map (modelDocumentID (svc_ops svc) (cbl w)) as)" and "a \<in> set as"
    and "controllers w self = Some moc" and "objects w a = Some mo" and "mo_controller mo = Some self"
    and "isSubclassOfClass (mo_class mo) (moc_managedObjectClass moc)"
    and "modelDocumentID (svc_ops svc) (cbl w) a = Some i" and "managedObjectClassOf svc i = Inr c"
    and "isSubclassOfClass c (moc_managedObjectClass moc)"
  shows "objectWithIdentifier svc self i w' = Some (Inr (Some a, w'))"
proof -
  obtain cache where w': "objects w' = objects w" "controllers w' self = Some (moc\<lparr>moc_objectCache := cache\<rparr>)"
    using registerAll_frame [OF assms(1,4)] by blast
  have "cachedObject self w' i = Some a"
    using registry.addAll_found [OF assms(1,2,3)] assms(8) by simp
  then have "cache i = Some a" using w'(2) by (simp add: cachedObject_def)
  then have "fetchLocally svc self i w' = Inr (Some (Some a, w'))"
    using fetchLocally_cached [OF w'(2), of i a svc c mo] assms w'(1) by simp
  then show ?thesis by (simp add: objectWithIdentifier.simps)
qed

lemma sample_class: "managedObjectClassOf sampleServices ''MPNote:0001'' = Inr sampleNote"
  by (simp add: managedObjectClassOf_def managedObjectClassFromDocumentID_def NSClassFromString_def
      componentsSeparatedByString_def hasPrefix_def isSubclassOfClass_def sample_defs MPAssertNotNil_def)

text \<open>A note with an identifier of sufficient length.\<close>

definition sampleNoteWorld :: "memory_store world" where
  "sampleNoteWorld = sampleWorld\<lparr>cbl := [(10, noModel\<lparr>st_documentID := Some ''MPNote:0001'', st_database := 4\<rparr>)]\<rparr>"

lemma sampleNoteWorld_fields [simp]:
  "objects sampleNoteWorld = objects sampleWorld" "controllers sampleNoteWorld = controllers sampleWorld"
  "packages sampleNoteWorld = packages sampleWorld" "sharedShoebox sampleNoteWorld = None"
  "st_documentID (storedModel (cbl sampleNoteWorld) 10) = Some ''MPNote:0001''"
  by (simp_all add: sampleNoteWorld_def sampleWorld_def storedModel_def)

lemma sample_registered: "\<exists>w'. addAll (registerObject memory_ops 2) [10] sampleNoteWorld = Inr w'"
  by (simp add: registerObject_def getController_def getObject_def MPAssertNotNil_def sampleObject_def
      sampleObjectsController_def isSubclassOfClass_def sampleNote_def)

theorem fetch_registered_witness:
  "\<exists>w'. addAll (registerObject memory_ops 2) [10] sampleNoteWorld = Inr w' \<and>
     objectWithIdentifier sampleServices 2 ''MPNote:0001'' w' = Some (Inr (Some 10, w'))"
proof -
  obtain w' where w': "addAll (registerObject memory_ops 2) [10] sampleNoteWorld = Inr w'"
    using sample_registered by blast
  then show ?thesis
    using fetch_registered [of sampleServices 2 "[10]" sampleNoteWorld w' 10 sampleObjectsController
        sampleObject "''MPNote:0001''" sampleNote] sample_class
    by (simp add: sampleObject_def sampleObjectsController_def isSubclassOfClass_def sampleNote_def)
qed

text \<open>The controllers that the shared package finds belong to it.\<close>

definition shoebox_wf :: "'db services \<Rightarrow> 'db world \<Rightarrow> bool" where
  "shoebox_wf svc w \<longleftrightarrow>
     (\<forall>p pkg c m pkg' moc. sharedShoebox w = Some p \<longrightarrow> packages w p = Some pkg \<longrightarrow>
        controllerForManagedObjectClass (svc_classes svc) c pkg = Inr (Some m, pkg') \<longrightarrow>
        controllers w m = Some moc \<longrightarrow> moc_package moc = p)"

lemma relayTarget_Some:
  assumes "relayTarget svc self i w = Inr (Some m, w1)"
  obtains p pkg c pkg' where "sharedShoebox w = Some p" "packages w p = Some pkg"
    "controllerForManagedObjectClass (svc_classes svc) c pkg = Inr (Some m, pkg')" "w1 = putPackage p pkg' w"
proof -
  obtain moc where moc: "controllers w self = Some moc"
    using assms by (auto simp: relayTarget_def bindExn_Inr)
  show thesis
  proof (cases "\<not> moc_relaysFetchingByIdentifier moc \<or> sharedShoebox w = Some (moc_package moc)")
    case True
    then show thesis using assms moc by (simp add: relayTarget_def getController_def MPAssertNotNil_def)
  next
    case False
    then show thesis
      using assms moc that
      by (cases "sharedShoebox w")
         (auto simp: relayTarget_def bindExn_Inr getController_def MPAssertNotNil_def split: if_splits)
  qed
qed



text \<open>What is fetched has the kind and the controller of the controller that answered.\<close>

definition fetched_ok :: "'db world \<Rightarrow> exn + nat option \<times> 'db world \<Rightarrow> bool" where
  "fetched_ok w r \<longleftrightarrow>
     (case r of
        Inr (Some a, w') \<Rightarrow>
          (\<exists>m moc mo. controllers w m = Some moc \<and> objects w' a = Some mo \<and> mo_controller mo = Some m \<and>
             isSubclassOfClass (mo_class mo) (moc_managedObjectClass moc))
      | _ \<Rightarrow> True)"

lemma checkFetched_Inr:
  "checkFetched self moc a w = Inr u \<longleftrightarrow>
     (\<exists>mo. objects w a = Some mo \<and> mo_controller mo = Some self \<and>
        isSubclassOfClass (mo_class mo) (moc_managedObjectClass moc))"
  by (auto simp: checkFetched_def bindExn_Inr split: if_splits)

lemma fetchLocally_ok:
  assumes "fetchLocally svc self i w = Inr (Some r)"
  shows "fetched_ok w (Inr r)"
proof (cases "fst r")
  case None
  then show ?thesis by (cases r) (simp add: fetched_ok_def)
next
  case (Some a)
  obtain moc c where moc: "controllers w self = Some moc"
    and rest: "(case moc_objectCache moc i of
         Some a \<Rightarrow> bindExn (checkFetched self moc a w) (\<lambda>_. Inr (Some (Some a, w)))
       | None \<Rightarrow>
           bindExn (MPAssertNotNil (moc_database moc) ''db'') (\<lambda>db.
             case existingDocumentWithID (svc_ops svc) (cbl w) db i of
               None \<Rightarrow> Inr None
             | Some doc \<Rightarrow>
                 bindExn (fetchDocument svc c (moc_package moc) db i doc w) (\<lambda>(r, w1).
                 bindExn (case r of None \<Rightarrow> Inr () | Some a \<Rightarrow> checkFetched self moc a w1) (\<lambda>_.
                   Inr (Some (r, w1)))))) = Inr (Some r)"
    using assms by (auto simp: fetchLocally_def bindExn_Inr split: if_splits)
  have "checkFetched self moc a (snd r) = Inr ()"
  proof (cases "moc_objectCache moc i")
    case None
    then show ?thesis
      using rest \<open>fst r = Some a\<close> by (auto simp: bindExn_Inr split: option.splits)
  next
    case (Some b)
    then show ?thesis using rest \<open>fst r = Some a\<close> by (auto simp: bindExn_Inr)
  qed
  then show ?thesis using Some moc by (cases r) (auto simp: fetched_ok_def checkFetched_Inr)
qed

lemma relayTarget_controllers:
  "relayTarget svc self i w = Inr (m, w1) \<Longrightarrow> controllers w1 = controllers w"
  by (auto simp: relayTarget_def bindExn_Inr split: if_splits option.splits)

lemma fetch_step_ok:
  assumes IH: "\<And>m w r. fetch m w = Some r \<Longrightarrow> fetched_ok w r"
    and step: "(case fetchLocally svc self i w of
        Inl e \<Rightarrow> Some (Inl e)
      | Inr (Some r) \<Rightarrow> Some (Inr r)
      | Inr None \<Rightarrow>
          (case relayTarget svc self i w of
             Inl e \<Rightarrow> Some (Inl e)
           | Inr (None, w1) \<Rightarrow> Some (Inr (None, w1))
           | Inr (Some m, w1) \<Rightarrow> fetch m w1)) = Some y"
  shows "fetched_ok w y"
proof -
  consider (local) l where "fetchLocally svc self i w = Inr (Some l)" "y = Inr l"
    | (relayed) m w1 where "relayTarget svc self i w = Inr (Some m, w1)" "fetch m w1 = Some y"
    | (none) w1 where "y = Inr (None, w1)" | (raised) e where "y = Inl e"
    using step by (auto split: sum.splits option.splits prod.splits) metis+
  then show ?thesis
  proof cases
    case local
    then show ?thesis using fetchLocally_ok by simp
  next
    case relayed
    show ?thesis
      using IH [OF relayed(2)] unfolding fetched_ok_def relayTarget_controllers [OF relayed(1)] .
  qed (simp_all add: fetched_ok_def)
qed

text \<open>C7: An object that a fetch by identifier returns is of the kind that the controller
  which answered manages, and that controller is the object's controller.\<close>

theorem fetch_typed:
  assumes "objectWithIdentifier svc self i w = Some (Inr (Some a, w'))"
  shows "\<exists>m moc mo. controllers w m = Some moc \<and> objects w' a = Some mo \<and> mo_controller mo = Some m \<and>
    isSubclassOfClass (mo_class mo) (moc_managedObjectClass moc)"
proof -
  have "fetched_ok w (Inr (Some a, w'))"
    using assms
    by (rule objectWithIdentifier.raw_induct [where P = "\<lambda>_ _ _ w r. fetched_ok w r", rotated]) (rule fetch_step_ok)
  then show ?thesis by (simp add: fetched_ok_def)
qed

theorem fetch_typed_witness:
  "\<exists>w' m moc mo. objectWithIdentifier sampleServices 2 ''MPNote:0001'' sampleNoteWorld = Some (Inr (Some 10, w')) \<and>
     controllers sampleNoteWorld m = Some moc \<and> objects w' 10 = Some mo \<and> mo_controller mo = Some m \<and>
     isSubclassOfClass (mo_class mo) (moc_managedObjectClass moc)"
proof -
  have "existingDocumentWithID memory_ops (cbl sampleNoteWorld) 4 ''MPNote:0001'' =
      Some \<lparr>document_modelObject = Some 10, document_isDeleted = False, document_objectType = None,
        document_currentRevision = None\<rparr>"
    by (simp add: memory_ops_def sampleNoteWorld_def noModel_def stringForKey_def)
  then have "fetchLocally sampleServices 2 ''MPNote:0001'' sampleNoteWorld = Inr (Some (Some 10, sampleNoteWorld))"
    by (simp add: fetchLocally_def fetchDocument_def sample_class checkFetched_def getController_def getObject_def
        MPAssertNotNil_def assertThat_def sampleObject_def sampleObjectsController_def isSubclassOfClass_def
        sampleNote_def)
  then have "objectWithIdentifier sampleServices 2 ''MPNote:0001'' sampleNoteWorld = Some (Inr (Some 10, sampleNoteWorld))"
    by (simp add: objectWithIdentifier.simps)
  then show ?thesis using fetch_typed [of sampleServices 2 "''MPNote:0001''" sampleNoteWorld 10 sampleNoteWorld] by blast
qed


section \<open>Copying a prototype\<close>

lemma copyProperties_frame:
  assumes "property_laws (svc_ops svc)" and "a \<noteq> p"
  shows "copyProperties svc p a ks w = Inr w' \<Longrightarrow>
    frame (svc_ops svc) a (set ks) w w' \<and> isDeleted (svc_ops svc) a w' = isDeleted (svc_ops svc) a w"
proof (induction ks arbitrary: w)
  case (Cons k ks)
  then obtain w1 where w1: "setValue svc a (getValueOfProperty (svc_ops svc) p k w) k w = Inr w1"
    "copyProperties svc p a ks w1 = Inr w'" by (auto simp: bindExn_Inr)
  have "frame (svc_ops svc) a (set (k # ks)) w w1" using assms(1) w1(1) by (rule write_frame) simp
  moreover have "frame (svc_ops svc) a (set (k # ks)) w1 w'"
    by (rule frame_mono [OF Cons.IH [OF w1(2), THEN conjunct1]]) auto
  ultimately show ?case
    using Cons.IH [OF w1(2)] setValue_isDeleted [OF assms(1) w1(1)] by (auto intro: frame_trans)
qed simp

lemma frame_other: "frame ops a K w w' \<Longrightarrow> b \<noteq> a \<Longrightarrow> getValueOfProperty ops b k w' = getValueOfProperty ops b k w"
  unfolding frame_def getValueOfProperty_def by blast

lemma copyProperties_reads:
  assumes "property_laws (svc_ops svc)" and "a \<noteq> p"
  shows "copyProperties svc p a ks w = Inr w' \<Longrightarrow> \<not> isDeleted (svc_ops svc) a w \<Longrightarrow> k \<in> set ks \<Longrightarrow>
    \<not> isDict (getValueOfProperty (svc_ops svc) p k w) \<Longrightarrow>
    getValueOfProperty (svc_ops svc) a k w' = getValueOfProperty (svc_ops svc) p k w"
proof (induction ks arbitrary: w)
  case (Cons k0 ks)
  then obtain w1 where w1: "setValue svc a (getValueOfProperty (svc_ops svc) p k0 w) k0 w = Inr w1"
    "copyProperties svc p a ks w1 = Inr w'" by (auto simp: bindExn_Inr)
  have alive: "\<not> isDeleted (svc_ops svc) a w1"
    using setValue_isDeleted [OF assms(1) w1(1)] Cons.prems(2) by simp
  have same: "getValueOfProperty (svc_ops svc) p k w1 = getValueOfProperty (svc_ops svc) p k w"
    using frame_other [OF setValue_frame [OF assms(1) w1(1)]] assms(2) by metis
  show ?case
  proof (cases "k \<in> set ks")
    case True
    then show ?thesis using Cons.IH [OF w1(2) alive True] Cons.prems(4) same by simp
  next
    case False
    then have k: "k = k0" using Cons.prems(3) by simp
    then have "getValueOfProperty (svc_ops svc) a k w1 = getValueOfProperty (svc_ops svc) p k w"
      using setValue_stores [OF assms(1) w1(1)] Cons.prems(2,4) by simp
    then show ?thesis
      using frame_get [OF copyProperties_frame [OF assms w1(2), THEN conjunct1] False] by simp
  qed
qed simp

text \<open>Copying the properties of a prototype gives the copy the prototype's value for every
  copied key whose value is not a dictionary.  This includes \<open>prototype\<close>: when the
  prototype is itself a copy, the new object ends up with the identifier of the
  prototype's prototype, whatever \<open>setPrototype\<close> had stored.\<close>

theorem prototype_copied:
  assumes "property_laws (svc_ops svc)" and "a \<noteq> p" and "setPrototype svc a (Some p) w = Inr w1"
    and "copyProperties svc p a ks w1 = Inr w2" and "\<not> isDeleted (svc_ops svc) a w"
  shows "(\<forall>k \<in> set ks. \<not> isDict (getValueOfProperty (svc_ops svc) p k w) \<longrightarrow>
      getValueOfProperty (svc_ops svc) a k w2 = getValueOfProperty (svc_ops svc) p k w) \<and>
    (''prototype'' \<in> set ks \<and> \<not> isDict (prototypeID (svc_ops svc) p w) \<longrightarrow>
      prototypeID (svc_ops svc) a w2 = prototypeID (svc_ops svc) p w)"
proof -
  obtain v where v: "setValue svc a v ''prototype'' w = Inr w1"
    using assms(3) by (auto simp: setPrototype_def bindExn_Inr)
  have "\<not> isDeleted (svc_ops svc) a w1" using setValue_isDeleted [OF assms(1) v] assms(5) by simp
  moreover have "getValueOfProperty (svc_ops svc) p k w1 = getValueOfProperty (svc_ops svc) p k w" for k
    using frame_other [OF setValue_frame [OF assms(1) v]] assms(2) by metis
  ultimately show ?thesis
    using copyProperties_reads [OF assms(1,2,4)] by (simp add: prototypeID_def)
qed

text \<open>Two notes, of which the second one is the prototype and has a prototype itself.\<close>

definition samplePrototypes :: "memory_store world" where
  "samplePrototypes = sampleWorld\<lparr>objects := [10 \<mapsto> sampleObject, 11 \<mapsto> sampleObject],
     cbl := [(10, noModel\<lparr>st_documentID := Some ''MPNote:0''\<rparr>),
             (11, noModel\<lparr>st_documentID := Some ''MPNote:1'',
                st_properties := [(''prototype'', VString ''MPNote:2'')]\<rparr>)]\<rparr>"

theorem prototype_copied_witness:
  "\<exists>w1 w2. setPrototype sampleServices 10 (Some 11) samplePrototypes = Inr w1 \<and>
     copyProperties sampleServices 11 10 [''prototype''] w1 = Inr w2 \<and>
     prototypeID memory_ops 10 w2 = Some (VString ''MPNote:2'')"
proof -
  have fields: "objects samplePrototypes = [10 \<mapsto> sampleObject, 11 \<mapsto> sampleObject]"
    "storedModel (cbl samplePrototypes) 10 = noModel\<lparr>st_documentID := Some ''MPNote:0''\<rparr>"
    "storedModel (cbl samplePrototypes) 11 = noModel\<lparr>st_documentID := Some ''MPNote:1'',
        st_properties := [(''prototype'', VString ''MPNote:2'')]\<rparr>"
    by (simp_all add: samplePrototypes_def storedModel_def)
  obtain w1 where w1: "setPrototype sampleServices 10 (Some 11) samplePrototypes = Inr w1"
    "objects w1 = objects samplePrototypes" "st_documentID (storedModel (cbl w1) 10) = Some ''MPNote:0''"
    by (simp add: setPrototype_def documentID_def fields setValue_def isDeleted_def guardIdentity_def
        embeddedValueFor_scalar getObject_def MPAssertNotNil_def noModel_def)
  have p: "getValueOfProperty memory_ops 11 ''prototype'' samplePrototypes = Some (VString ''MPNote:2'')"
    by (simp add: getValueOfProperty_def fields)
  obtain v where "setValue sampleServices 10 v ''prototype'' samplePrototypes = Inr w1"
    using w1(1) by (auto simp: setPrototype_def bindExn_Inr)
  then have "getValueOfProperty memory_ops 11 ''prototype'' w1 = Some (VString ''MPNote:2'')"
    using frame_other [OF setValue_frame, of sampleServices 10 v "''prototype''" samplePrototypes w1 11 "''prototype''"]
      memory_laws p by simp
  then obtain w2 where w2: "copyProperties sampleServices 11 10 [''prototype''] w1 = Inr w2"
    using w1(2,3) by (simp add: fields setValue_def isDeleted_def guardIdentity_def embeddedValueFor_scalar
        getObject_def MPAssertNotNil_def)
  show ?thesis
    using prototype_copied [of sampleServices 10 11 samplePrototypes w1 "[''prototype'']" w2] memory_laws w1 w2 p
    by (simp add: isDeleted_def fields prototypeID_def)
qed


section \<open>Loading\<close>

lemma NSClassFromString_name: "NSClassFromString rt t = Some c \<Longrightarrow> class_name c = t"
  by (auto simp: NSClassFromString_def find_Some_iff)

text \<open>C26: An object loaded from a valid JSON dictionary whose document does not exist yet gets
  the identifier and the type that the dictionary names, is reported as not existing, and
  is found in its controller's cache.\<close>

theorem loaded_identity:
  assumes "property_laws (svc_ops svc)" and "document_laws (svc_ops svc)"
    and "objectFromJSONDictionary svc self d w = Inr (Inr (a, isExisting), w')"
    and "managedObjectDocumentID d = Some i" and "managedObjectType d = Some t"
    and "controllers w self = Some moc" and "moc_database moc = Some db"
    and "existingDocumentWithID (svc_ops svc) (cbl w) db i = None"
  shows "documentID (svc_ops svc) a w' = Inr i \<and> objectType (svc_ops svc) a w' = Some (VString t) \<and>
    \<not> isExisting \<and> cachedObject self w' i = Some a"
proof -
  have valid: "isManagedObjectDictionary (svc_runtime svc) (class_MPManagedObject (svc_classes svc)) d = Inr ()"
    using assms(3,6)
    by (cases "isManagedObjectDictionary (svc_runtime svc) (class_MPManagedObject (svc_classes svc)) d")
       (auto simp: objectFromJSONDictionary_def getController_def MPAssertNotNil_def)
  obtain c where c: "NSClassFromString (svc_runtime svc) t = Some c"
    using assms(3-6) valid
    by (cases "NSClassFromString (svc_runtime svc) t")
       (auto simp: objectFromJSONDictionary_def getController_def MPAssertNotNil_def throw_def)
  have init: "initWithNewDocumentForController svc c a (Some self) (Some d) (Some i) w = Inr w'"
    and "\<not> isExisting"
    using assms(3-8) valid c
    by (auto simp: objectFromJSONDictionary_def getController_def MPAssertNotNil_def Let_def bindExn_Inr)
  moreover have "classForProperties (svc_runtime svc) c (Some d) = Some c"
    using assms(5) c by (simp add: classForProperties_def)
  ultimately show ?thesis
    using initWithNewDocument_created [OF assms(1,2) init] NSClassFromString_name [OF c] by auto
qed


lemma sample_loaded:
  "\<exists>w'. objectFromJSONDictionary sampleServices 2 [(''_id'', VString ''MPNote:0005''), (''objectType'', VString ''MPNote'')]
     sampleWorld = Inr (Inr (99, False), w')"
proof -
  let ?d = "[(''_id'', VString ''MPNote:0005''), (''objectType'', VString ''MPNote'')]"
  have valid: "isManagedObjectDictionary sampleRuntime sampleManagedObject ?d = Inr ()"
    by (simp add: isManagedObjectDictionary_def managedObjectType_def managedObjectDocumentID_def stringForKey_def
        NSClassFromString_def componentsSeparatedByString_def hasPrefix_def isSubclassOfClass_def sample_defs)
  have concrete: "isConcrete sampleRuntime sampleNote"
    by (simp add: isConcrete_def subclasses_def computeSubclasses_def sample_defs)
  have note_class: "NSClassFromString sampleRuntime ''MPNote'' = Some sampleNote"
    by (simp add: NSClassFromString_def sample_defs)
  have none: "existingDocumentWithID memory_ops sampleStore 4 ''MPNote:0005'' = None"
    by (simp add: memory_ops_def sampleStore_def)
  have "\<exists>w'. initWithNewDocumentForController sampleServices sampleNote 99 (Some 2) (Some ?d)
      (Some ''MPNote:0005'') sampleWorld = Inr w'"
    by (simp add: initWithNewDocumentForController_def concrete idForNewDocumentInDatabase_def
        didInitialize_def registerObject_def classForProperties_def note_class managedObjectType_def stringForKey_def
        propertiesForInit_def setObjectType_def
        getObject_def getController_def MPAssertNotNil_def newManagedObject_def isSubclassOfClass_def
        dictUpdate_def dictRemove_def setValue_def isDeleted_def guardIdentity_def getValueOfProperty_def
        embeddedValueFor_scalar noModel_def hasPrefix_def sampleObjectsController_def)
       (simp add: sampleClasses_def sampleNote_def sampleManagedObject_def sampleNSObject_def)
  then show ?thesis
    using valid none note_class
    by (auto simp: objectFromJSONDictionary_def getController_def MPAssertNotNil_def Let_def
        managedObjectType_def managedObjectDocumentID_def stringForKey_def sampleObjectsController_def
        sampleClasses_def)
qed

theorem loaded_identity_witness:
  "\<exists>w'. objectFromJSONDictionary sampleServices 2 [(''_id'', VString ''MPNote:0005''), (''objectType'', VString ''MPNote'')]
     sampleWorld = Inr (Inr (99, False), w') \<and> documentID memory_ops 99 w' = Inr ''MPNote:0005''"
proof -
  obtain w' where w': "objectFromJSONDictionary sampleServices 2
      [(''_id'', VString ''MPNote:0005''), (''objectType'', VString ''MPNote'')] sampleWorld = Inr (Inr (99, False), w')"
    using sample_loaded by blast
  moreover have "existingDocumentWithID memory_ops sampleStore 4 ''MPNote:0005'' = None"
    by (simp add: memory_ops_def sampleStore_def)
  ultimately show ?thesis
    using loaded_identity [of sampleServices 2 "[(''_id'', VString ''MPNote:0005''), (''objectType'', VString ''MPNote'')]"
        sampleWorld 99 False w' "''MPNote:0005''" "''MPNote''" sampleObjectsController 4] memory_laws
    by (simp add: managedObjectType_def managedObjectDocumentID_def stringForKey_def sampleObjectsController_def)
qed

end
