(* ===== verification/Embedding.thy ===== *)
theory Embedding
  imports Repository
begin

text \<open>
  Embedded objects at work: the embedded properties of a managed object
  (\<open>MPManagedObject+Protected.h\<close>), the dictionary form of an embedded object, saving
  through the chain of embedding objects, and the properties of embedding.
\<close>


section \<open>Embedded properties of a managed object\<close>

definition existingEmbedded :: "'db services \<Rightarrow> nat \<Rightarrow> string \<Rightarrow> 'db world \<Rightarrow> nat option" where
  "existingEmbedded svc a k w =
     (case svc_valueForKey svc (EmbeddingManaged a) k w of Some (VEmbedded e) \<Rightarrow> Some e | _ \<Rightarrow> None)"

definition setEmbeddedObject ::
  "'db services \<Rightarrow> nat \<Rightarrow> nat option \<Rightarrow> string \<Rightarrow> 'db world \<Rightarrow> exn + 'db world" where
  "setEmbeddedObject svc a embeddedObj k w =
     (let existing = existingEmbedded svc a k w
      in case embeddedObj of
           None \<Rightarrow>
             bindExn (managedRemoveEmbedded a existing w) (\<lambda>w1. setValue svc a None k w1)
         | Some e \<Rightarrow>
             bindExn (if existing \<noteq> Some e then managedRemoveEmbedded a existing w else Inr w) (\<lambda>w1.
             bindExn (managedCacheEmbedded a e w1) (\<lambda>w2.
             bindExn (getEmbedded e w2) (\<lambda>eo.
             bindExn (assertThat (eo_embeddingKey eo = None \<or> eo_embeddingKey eo = Some k)
                 ''Unexpected embeddingKey'') (\<lambda>_.
             bindExn (setEmbeddingKey e (Some k) w2) (\<lambda>w3.
               setValue svc a (Some (VEmbedded e)) k w3))))))"

text \<open>\<open>de\<close> decodes JSON.  A raw value that names no embedded object cannot be cached.\<close>

definition decodeEmbeddedObject ::
  "(string \<Rightarrow> val option) \<Rightarrow> 'db services \<Rightarrow> nat \<Rightarrow> val \<Rightarrow> string \<Rightarrow> 'db world \<Rightarrow>
   exn + nat option \<times> 'db world" where
  "decodeEmbeddedObject de svc a raw k w =
     (case (case raw of
              VString s \<Rightarrow> Some (embeddedObjectWithJSONString de (svc_runtime svc) (svc_classes svc) (Some s)
                (EmbeddingManaged a) k (svc_uuid svc w) (svc_fresh svc w) w)
            | VDict d \<Rightarrow> Some (embeddedObjectWithDictionary (svc_runtime svc) (svc_classes svc) d
                (EmbeddingManaged a) k (svc_uuid svc w) (svc_fresh svc w) w)
            | _ \<Rightarrow> None) of
        None \<Rightarrow> Inr (None, w)
      | Some call \<Rightarrow>
          bindExn call (\<lambda>(r, w1).
          bindExn (MPAssertNotNil r ''Expecting a non-nil object to cache'') (\<lambda>e.
          bindExn (managedCacheEmbedded a e w1) (\<lambda>w2. Inr (Some e, w2)))))"

text \<open>The embedded object of an element of an embedded collection, which is encoded or an object.\<close>

definition embeddedElement ::
  "(string \<Rightarrow> val option) \<Rightarrow> 'db services \<Rightarrow> nat \<Rightarrow> string \<Rightarrow> val \<Rightarrow> 'db world \<Rightarrow>
   exn + nat option \<times> 'db world" where
  "embeddedElement de svc a k v w =
     (case v of
        VString s \<Rightarrow> embeddedObjectWithJSONString de (svc_runtime svc) (svc_classes svc) (Some s)
          (EmbeddingManaged a) k (svc_uuid svc w) (svc_fresh svc w) w
      | VDict d \<Rightarrow> embeddedObjectWithDictionary (svc_runtime svc) (svc_classes svc) d
          (EmbeddingManaged a) k (svc_uuid svc w) (svc_fresh svc w) w
      | VEmbedded e \<Rightarrow> Inr (Some e, w)
      | _ \<Rightarrow> throw (MPUnexpectedStateExpection ''Object of unexpected type''))"

fun embeddedElements ::
  "(string \<Rightarrow> val option) \<Rightarrow> 'db services \<Rightarrow> nat \<Rightarrow> string \<Rightarrow> val list \<Rightarrow> 'db world \<Rightarrow>
   exn + nat list \<times> 'db world" where
  "embeddedElements de svc a k [] w = Inr ([], w)"
| "embeddedElements de svc a k (v # rest) w =
     bindExn (embeddedElement de svc a k v w) (\<lambda>(r, w1).
     bindExn (embeddedElements de svc a k rest w1) (\<lambda>(es, w2).
       Inr (case r of None \<Rightarrow> es | Some e \<Rightarrow> e # es, w2)))"

definition getEmbeddedObjectArrayProperty ::
  "(string \<Rightarrow> val option) \<Rightarrow> 'db services \<Rightarrow> nat \<Rightarrow> string \<Rightarrow> 'db world \<Rightarrow> exn + nat list \<times> 'db world" where
  "getEmbeddedObjectArrayProperty de svc a k w =
     (case getValueOfProperty (svc_ops svc) a k w of
        None \<Rightarrow> Inr ([], w)
      | Some (VArray vs) \<Rightarrow> embeddedElements de svc a k vs w
      | Some v \<Rightarrow> throw (NSInvalidArgumentException ''countByEnumeratingWithState''))"

fun cacheElements ::
  "(string \<Rightarrow> val option) \<Rightarrow> 'db services \<Rightarrow> nat \<Rightarrow> string \<Rightarrow> val list \<Rightarrow> 'db world \<Rightarrow>
   exn + nat list \<times> 'db world" where
  "cacheElements de svc a k [] w = Inr ([], w)"
| "cacheElements de svc a k (v # rest) w =
     bindExn (embeddedElement de svc a k v w) (\<lambda>(r, w1).
     bindExn (MPAssertNotNil r ''Expecting a non-nil object to cache'') (\<lambda>e.
     bindExn (managedCacheEmbedded a e w1) (\<lambda>w2.
     bindExn (cacheElements de svc a k rest w2) (\<lambda>(es, w3). Inr (e # es, w3)))))"

definition setEmbeddedObjectArray ::
  "(string \<Rightarrow> val option) \<Rightarrow> 'db services \<Rightarrow> nat \<Rightarrow> val \<Rightarrow> string \<Rightarrow> 'db world \<Rightarrow> exn + 'db world" where
  "setEmbeddedObjectArray de svc a v k w =
     (case v of
        VArray vs \<Rightarrow>
          bindExn (cacheElements de svc a k vs w) (\<lambda>(es, w1).
            setValue svc a (Some (VArray (map VEmbedded es))) k w1)
      | _ \<Rightarrow> throw (NSInternalInconsistencyException ''value isKindOfClass''))"


section \<open>The dictionary form\<close>

text \<open>
  \<open>base64\<close> and \<open>jsonDate\<close> encode data and dates.  Elements of arrays and dictionaries are
  only changed when they are embedded objects.  \<open>rep\<close> gives the dictionary of an
  embedded object.
\<close>

definition externalizeEmbedded ::
  "(nat \<Rightarrow> 'db world \<Rightarrow> (exn + dict \<times> 'db world) option) \<Rightarrow> nat \<Rightarrow> nat \<Rightarrow> 'db world \<Rightarrow>
   (exn + val \<times> 'db world) option" where
  "externalizeEmbedded rep self e w =
     bindCall (Some (embeddedCacheEmbedded self (Some e) w)) (\<lambda>w1.
     bindCall (rep e w1) (\<lambda>(d, w2). Some (Inr (VDict d, w2))))"

fun externalizeArray ::
  "(nat \<Rightarrow> 'db world \<Rightarrow> (exn + dict \<times> 'db world) option) \<Rightarrow> nat \<Rightarrow> val list \<Rightarrow> 'db world \<Rightarrow>
   (exn + val list \<times> 'db world) option" where
  "externalizeArray rep self [] w = Some (Inr ([], w))"
| "externalizeArray rep self (v # vs) w =
     bindCall (case v of VEmbedded e \<Rightarrow> externalizeEmbedded rep self e w | _ \<Rightarrow> Some (Inr (v, w))) (\<lambda>(v', w1).
     bindCall (externalizeArray rep self vs w1) (\<lambda>(vs', w2). Some (Inr (v' # vs', w2))))"

fun externalizePropertyValue ::
  "(string \<Rightarrow> string) \<Rightarrow> (int \<Rightarrow> string) \<Rightarrow> (nat \<Rightarrow> 'db world \<Rightarrow> (exn + dict \<times> 'db world) option) \<Rightarrow>
   nat \<Rightarrow> val \<Rightarrow> 'db world \<Rightarrow> (exn + val \<times> 'db world) option" where
  "externalizePropertyValue base64 jsonDate rep self (VData s) w = Some (Inr (VString (base64 s), w))"
| "externalizePropertyValue base64 jsonDate rep self (VDate t) w = Some (Inr (VString (jsonDate t), w))"
| "externalizePropertyValue base64 jsonDate rep self (VManaged i) w = Some (Inr (VString i, w))"
| "externalizePropertyValue base64 jsonDate rep self (VEmbedded e) w = externalizeEmbedded rep self e w"
| "externalizePropertyValue base64 jsonDate rep self (VArray vs) w =
     bindCall (externalizeArray rep self vs w) (\<lambda>(vs', w1). Some (Inr (VArray vs', w1)))"
| "externalizePropertyValue base64 jsonDate rep self (VDict d) w =
     bindCall (externalizeArray rep self (map snd d) w) (\<lambda>(vs', w1). Some (Inr (VDict (zip (map fst d) vs'), w1)))"
| "externalizePropertyValue base64 jsonDate rep self v w = Some (Inr (v, w))"

fun externalizeEntries ::
  "(string \<Rightarrow> string) \<Rightarrow> (int \<Rightarrow> string) \<Rightarrow> (nat \<Rightarrow> 'db world \<Rightarrow> (exn + dict \<times> 'db world) option) \<Rightarrow>
   nat \<Rightarrow> dict \<Rightarrow> 'db world \<Rightarrow> (exn + dict \<times> 'db world) option" where
  "externalizeEntries base64 jsonDate rep self [] w = Some (Inr ([], w))"
| "externalizeEntries base64 jsonDate rep self ((k, v) # rest) w =
     bindCall (externalizePropertyValue base64 jsonDate rep self v w) (\<lambda>(v', w1).
     bindCall (externalizeEntries base64 jsonDate rep self rest w1) (\<lambda>(rest', w2).
       Some (Inr ((k, v') # rest', w2))))"

text \<open>The fuel bounds the nesting of embedded objects; \<open>None\<close> means that it was exceeded.\<close>

fun dictionaryRepresentation ::
  "(string \<Rightarrow> string) \<Rightarrow> (int \<Rightarrow> string) \<Rightarrow> nat \<Rightarrow> nat \<Rightarrow> 'db world \<Rightarrow> (exn + dict \<times> 'db world) option" where
  "dictionaryRepresentation base64 jsonDate 0 self w = None"
| "dictionaryRepresentation base64 jsonDate (Suc n) self w =
     (case embeddedObjects w self of
        None \<Rightarrow> Some (Inl (NSInternalInconsistencyException ''embedded object''))
      | Some eo \<Rightarrow> externalizeEntries base64 jsonDate (dictionaryRepresentation base64 jsonDate n) self
          (eo_properties eo) w)"


section \<open>Saving\<close>

text \<open>Saving an embedded object saves its embedding object; a message to nil answers NO.\<close>

partial_function (option) saveEmbedding ::
  "'db services \<Rightarrow> embedding_ref \<Rightarrow> 'db world \<Rightarrow> (exn + (ns_error option + unit) \<times> 'db world) option" where
  "saveEmbedding svc r w =
     (case r of
        EmbeddingManaged a \<Rightarrow> Some (saveWithError svc a w)
      | EmbeddingEmbedded e \<Rightarrow>
          (case embeddedObjects w e of
             None \<Rightarrow> Some (Inr (Inl None, w))
           | Some eo \<Rightarrow>
               if (case eo_identifier eo of None \<Rightarrow> False
                   | Some i \<Rightarrow> hd (componentsSeparatedByString '':'' i) \<noteq> class_name (eo_class eo))
               then Some (Inl (NSInternalInconsistencyException ''Unexpected identifier''))
               else
                 (case eo_embeddingObject eo of
                    None \<Rightarrow> Some (Inr (Inl None, w))
                  | Some r' \<Rightarrow> saveEmbedding svc r' w)))"


section \<open>What embedded objects promise\<close>

text \<open>A note that embeds a tag, which embeds another tag.\<close>

definition sampleTag :: cls where
  "sampleTag = Cls ''MPTag'' (Some sampleEmbeddedObject) [] []"

definition sampleTagAt :: "string \<Rightarrow> embedding_ref \<Rightarrow> embedded_object" where
  "sampleTagAt i r = \<lparr>eo_class = sampleTag, eo_embeddingObject = Some r, eo_embeddingKey = Some ''tag'',
     eo_properties = [(''_id'', VString i), (''objectType'', VString ''MPTag'')], eo_needsSave = False,
     eo_embeddedObjectCache = Map.empty\<rparr>"

definition sampleTags :: "memory_store world" where
  "sampleTags = sampleWorld\<lparr>embeddedObjects :=
     [30 \<mapsto> sampleTagAt ''MPTag:30'' (EmbeddingManaged 10), 31 \<mapsto> sampleTagAt ''MPTag:31'' (EmbeddingEmbedded 30)]\<rparr>"

lemma sampleTags_fields [simp]:
  "objects sampleTags = objects sampleWorld" "controllers sampleTags = controllers sampleWorld"
  "packages sampleTags = packages sampleWorld" "cbl sampleTags = sampleStore"
  "embeddedObjects sampleTags =
     [30 \<mapsto> sampleTagAt ''MPTag:30'' (EmbeddingManaged 10), 31 \<mapsto> sampleTagAt ''MPTag:31'' (EmbeddingEmbedded 30)]"
  by (simp_all add: sampleTags_def sampleWorld_def)

lemma sampleTags_path: "embedding_path sampleTags (EmbeddingEmbedded 31) [31, 30] 10"
proof -
  have "embedding_path sampleTags (EmbeddingEmbedded 30) [30] 10"
    by (rule embedding_path.embedded) (auto simp: sampleTagAt_def intro: embedding_path.managed)
  then show ?thesis
    by (rule embedding_path.embedded [where eo = "sampleTagAt ''MPTag:31'' (EmbeddingEmbedded 30)", rotated 2])
       (simp_all add: sampleTagAt_def)
qed

text \<open>C8: Embedded objects are unique by identifier: once an object was created from a
  dictionary that carries an \<open>_id\<close>, the embedding object finds it under that
  identifier, and creating an object from the same dictionary again, at any address and
  under any key, returns the first object and changes nothing.\<close>

theorem initWithDictionary_unique:
  assumes "initWithDictionary c d (Some r) (Some k) uuid e w = Inr (e1, w1)"
    and "stringForKey d ''_id'' = Some i"
  shows "embeddedObjectWithIdentifier r i w1 = Inr (Some e1) \<and>
    initWithDictionary c d (Some r) (Some k') uuid' e' w1 = Inr (e1, w1)"
proof -
  note id = initWithDictionary_Inr [OF assms]
  have "uniqueEmbedded r e
      \<lparr>eo_class = c, eo_embeddingObject = Some r, eo_embeddingKey = Some k, eo_properties = d,
       eo_needsSave = False, eo_embeddedObjectCache = Map.empty\<rparr> w = Inr (e1, w1)"
    using assms(1) initWithDictionary_identified [OF assms(2) id, of r k uuid e w] by simp
  then have cached: "cachedIn r w1 i = Some e1"
    by (rule uniqueEmbedded_cached) (simp add: eo_identifier_def assms(2))
  then have "uniqueEmbedded r e'
      \<lparr>eo_class = c, eo_embeddingObject = Some r, eo_embeddingKey = Some k', eo_properties = d,
       eo_needsSave = False, eo_embeddedObjectCache = Map.empty\<rparr> w1 = Inr (e1, w1)"
    by (rule uniqueEmbedded_again) (simp add: eo_identifier_def assms(2))
  then show ?thesis
    using initWithDictionary_identified [OF assms(2) id, of r k' uuid' e' w1]
      embeddedObjectWithIdentifier_Some [OF cached] by simp
qed

theorem initWithDictionary_unique_witness:
  "\<exists>w1. initWithDictionary sampleTag [(''_id'', VString ''MPTag:5''), (''objectType'', VString ''MPTag'')]
       (Some (EmbeddingManaged 10)) (Some ''tag'') ''u'' 40 sampleWorld = Inr (40, w1) \<and>
     embeddedObjectWithIdentifier (EmbeddingManaged 10) ''MPTag:5'' w1 = Inr (Some 40)"
proof -
  let ?d = "[(''_id'', VString ''MPTag:5''), (''objectType'', VString ''MPTag'')]"
  obtain w1 where w1: "initWithDictionary sampleTag ?d (Some (EmbeddingManaged 10)) (Some ''tag'') ''u'' 40 sampleWorld =
      Inr (40, w1)"
    by (simp add: initWithDictionary_def hasKey_def stringForKey_def hasPrefix_def sampleTag_def MPAssertNotNil_def
        uniqueEmbedded_def eo_identifier_def managedEmbeddedObjectWithIdentifier_def managedCacheEmbedded_def
        getObject_def getEmbedded_def sampleObject_def)
  then show ?thesis
    using initWithDictionary_unique [OF w1, of "''MPTag:5''"] by (simp add: stringForKey_def)
qed

text \<open>C9: \<open>markNeedsSave\<close> on an embedded object returns, marks every embedded object on the
  way up and the managed object at the top, and changes no other embedded object.\<close>

theorem markNeedsSave_reaches_managed:
  assumes "embedding_path w (EmbeddingEmbedded self) es a"
  shows "\<exists>w'. markNeedsSave ops (EmbeddingEmbedded self) w = Some (Inr w') \<and>
    cbl w' = modelMarkNeedsSave ops (cbl w) a \<and>
    (\<forall>e. embeddedObjects w' e =
       (if e \<in> set es then map_option (\<lambda>eo. eo\<lparr>eo_needsSave := True\<rparr>) (embeddedObjects w e)
        else embeddedObjects w e))"
  using markNeedsSave_path [OF assms] by (simp add: fold_setNeedsSave_embedded)

theorem markNeedsSave_reaches_managed_witness:
  "\<exists>w'. markNeedsSave memory_ops (EmbeddingEmbedded 31) sampleTags = Some (Inr w') \<and>
     modelNeedsSave memory_ops (cbl w') 10"
  using markNeedsSave_reaches_managed [OF sampleTags_path, of memory_ops] by force



text \<open>\<open>embeddingManagedObject\<close> finds a managed object exactly when the embedding objects
  lead to one.\<close>

theorem embeddingManagedObject_correct:
  "embeddingManagedObject self w = Some (Some a) \<longleftrightarrow>
   (\<exists>eo r es. embeddedObjects w self = Some eo \<and> eo_embeddingObject eo = Some r \<and>
      embedding_path w r es a)"
  using embeddingWalk_sound [of _ w "Some a"] embeddingWalk_path
  by (force simp: embeddingManagedObject_def walkFinds_def split: option.splits)

text \<open>For an object embedded in another embedded object, the loop of
  \<open>databaseForModelProperty:\<close> does not return, since it never leaves the first step.\<close>

theorem databaseForModelProperty_nested_diverges:
  assumes "embeddedObjects w self = Some eo" and "eo_embeddingObject eo = Some (EmbeddingEmbedded e)"
  shows "databaseEmbedder self w = None"
proof -
  have "\<not> (embeddedObjects w self = Some eo \<and> eo_embeddingObject eo = Some (EmbeddingEmbedded e))"
    if "databaseEmbedder self w = Some x" for x
    using that
    by (rule databaseEmbedder.raw_induct [where P = "\<lambda>s w' x.
        \<not> (embeddedObjects w' s = Some eo \<and> eo_embeddingObject eo = Some (EmbeddingEmbedded e))", rotated])
      (auto split: option.splits embedding_ref.splits)
  then show ?thesis using assms by (cases "databaseEmbedder self w") auto
qed


theorem databaseForModelProperty_nested_diverges_witness:
  "databaseEmbedder 31 sampleTags = None"
  using databaseForModelProperty_nested_diverges [of sampleTags 31 "sampleTagAt ''MPTag:31'' (EmbeddingEmbedded 30)" 30]
  by (simp add: sampleTagAt_def)

text \<open>An identifier that starts with the class name, as creation gives it.\<close>

definition identified :: "'db world \<Rightarrow> nat list \<Rightarrow> bool" where
  "identified w es \<longleftrightarrow>
     list_all (\<lambda>e. case identifierAt w e of None \<Rightarrow> True
       | Some i \<Rightarrow> map_option (class_name \<circ> eo_class) (embeddedObjects w e) =
           Some (hd (componentsSeparatedByString '':'' i))) es"

lemma saveEmbedding_path:
  "embedding_path w r es a \<Longrightarrow> identified w es \<Longrightarrow> saveEmbedding svc r w = Some (saveWithError svc a w)"
proof (induction rule: embedding_path.induct)
  case (managed w a)
  then show ?case by (subst saveEmbedding.simps) simp
next
  case (embedded w e eo r es a)
  have "(case eo_identifier eo of None \<Rightarrow> False
      | Some i \<Rightarrow> hd (componentsSeparatedByString '':'' i) \<noteq> class_name (eo_class eo)) = False"
    using embedded.prems embedded.hyps(1)
    by (cases "eo_identifier eo") (simp_all add: identified_def identifierAt_def)
  then show ?case
    using embedded.hyps embedded.IH embedded.prems
    by (subst saveEmbedding.simps) (simp add: identified_def)
qed

text \<open>C11: Saving an embedded object, however deeply nested, returns and is a save of the managed
  object that the chain of embedding objects leads to.\<close>

theorem save_embedded_saves_managed:
  assumes "embedding_path w (EmbeddingEmbedded e) es a" and "identified w es"
  shows "saveEmbedding svc (EmbeddingEmbedded e) w = Some (saveWithError svc a w)"
  using assms by (rule saveEmbedding_path)

theorem save_embedded_saves_managed_witness:
  "saveEmbedding sampleServices (EmbeddingEmbedded 31) sampleTags = Some (saveWithError sampleServices 10 sampleTags)"
proof (rule save_embedded_saves_managed [OF sampleTags_path])
  show "identified sampleTags [31, 30]"
    by (simp add: identified_def identifierAt_def eo_identifier_def stringForKey_def sampleTagAt_def sampleTag_def
        componentsSeparatedByString_def hasPrefix_def)
qed

text \<open>Strings are their own external form, so identity survives.\<close>

lemma externalizeEntries_string:
  "externalizeEntries b j rep self d w = Some (Inr (d', w')) \<Longrightarrow>
   stringForKey d k = Some s \<Longrightarrow> stringForKey d' k = Some s"
proof (induction d arbitrary: w d')
  case (Cons p d)
  obtain k0 v0 where p: "p = (k0, v0)" by force
  obtain v' w1 d'' where v': "externalizePropertyValue b j rep self v0 w = Some (Inr (v', w1))"
    and rest: "externalizeEntries b j rep self d w1 = Some (Inr (d'', w'))" and d': "d' = (k0, v') # d''"
    using Cons.prems(1) p by (auto simp: bindCall_def split: option.splits sum.splits)
  show ?case
  proof (cases "k0 = k")
    case True
    then have "v0 = VString s"
      using Cons.prems(2) p by (auto simp: stringForKey_def split: option.splits val.splits)
    then show ?thesis using v' d' True by (auto simp: stringForKey_def)
  next
    case False
    then have "stringForKey d k = Some s" using Cons.prems(2) p by (simp add: stringForKey_def)
    then show ?thesis using Cons.IH [OF rest] d' False by (simp add: stringForKey_def)
  qed
qed (simp add: stringForKey_def)



end
