(* ===== verification/BindingsTokens.thy ===== *)
theory BindingsTokens
  imports Collections
begin

text \<open>
  The declarations the bindings generator collects from Objective-C headers
  (\<open>MPObjectiveCTokens\<close>).  Every token class is a record of its properties; an
  instance variable that an initialiser leaves unset is nil, and a message to nil
  does nothing, which is how the lists of a translation unit behave.
\<close>


section \<open>Token classes\<close>

record MPObjCEnumConstant =
  ec_enumDeclaration :: "string option"
  ec_name :: string
  ec_value :: "int option"

record MPObjCEnumDeclaration =
  ed_name :: string
  ed_backingType :: "string option"
  ed_enumConstants :: "MPObjCEnumConstant list"

record MPObjCConstantDeclaration =
  cd_name :: string
  cd_value :: "val option"
  cd_type :: string
  cd_isConst :: bool
  cd_isStatic :: bool
  cd_isExtern :: bool
  cd_isObjectReference :: bool

record MPObjCTypeDefinition =
  td_name :: string
  td_backingType :: string

record MPObjCPropertyDeclaration =
  pd_name :: string
  pd_type :: string
  pd_ownershipAttribute :: "string option"
  pd_isReadWrite :: bool
  pd_isObjectType :: bool
  pd_getterName :: "string option"
  pd_setterName :: "string option"

record MPObjCInstanceVariableDeclaration =
  iv_name :: string
  iv_type :: string

record MPObjCMethodParameter =
  mp_name :: string
  mp_type :: string
  mp_isObjectType :: bool
  mp_selectorComponent :: string

record MPObjCMethodDeclaration =
  md_selector :: string
  md_returnType :: string
  md_parameters :: "MPObjCMethodParameter list"
  md_returnsObjectType :: bool

type_synonym MPObjCInstanceMethodDeclaration = MPObjCMethodDeclaration

type_synonym MPObjCClassMethodDeclaration = MPObjCMethodDeclaration

record MPObjCClassDeclaration =
  cl_name :: string
  cl_superClassName :: string
  cl_conformedProtocols :: "string list"
  cl_propertyDeclarations :: "MPObjCPropertyDeclaration list"
  cl_instanceMethodDeclarations :: "MPObjCInstanceMethodDeclaration list"
  cl_classMethodDeclarations :: "MPObjCClassMethodDeclaration list"
  cl_instanceVariableDeclarations :: "MPObjCInstanceVariableDeclaration list"

record MPObjCProtocolDeclaration =
  pr_name :: string
  pr_type :: "string option"
  pr_conformedProtocols :: "string list"
  pr_propertyDeclarations :: "MPObjCPropertyDeclaration list"
  pr_classMethodDeclarations :: "MPObjCClassMethodDeclaration list"
  pr_instanceMethodDeclarations :: "MPObjCInstanceMethodDeclaration list"
  pr_constantDeclarations :: "MPObjCConstantDeclaration list option"

record MPObjCTranslationUnit =
  tu_path :: "string option"
  tu_enumDeclarations :: "MPObjCEnumDeclaration list option"
  tu_constantDeclarations :: "MPObjCConstantDeclaration list option"
  tu_protocolDeclarations :: "MPObjCProtocolDeclaration list option"
  tu_classDeclarations :: "MPObjCClassDeclaration list option"


section \<open>Initialisers and mutators\<close>

text \<open>\<open>addObject:\<close> sent to an array that may be nil.\<close>

definition addObject :: "'a \<Rightarrow> 'a list option \<Rightarrow> 'a list option" where
  "addObject x xs = map_option (\<lambda>ys. ys @ [x]) xs"

definition unitWithPath :: "string option \<Rightarrow> MPObjCTranslationUnit" where
  "unitWithPath path =
     \<lparr>tu_path = path, tu_enumDeclarations = Some [], tu_constantDeclarations = None,
      tu_protocolDeclarations = None, tu_classDeclarations = None\<rparr>"

definition addEnumDeclaration ::
  "MPObjCEnumDeclaration \<Rightarrow> MPObjCTranslationUnit \<Rightarrow> MPObjCTranslationUnit" where
  "addEnumDeclaration decl tu =
     tu\<lparr>tu_enumDeclarations := addObject decl (tu_enumDeclarations tu)\<rparr>"

definition addConstantDeclaration ::
  "MPObjCConstantDeclaration \<Rightarrow> MPObjCTranslationUnit \<Rightarrow> MPObjCTranslationUnit" where
  "addConstantDeclaration decl tu =
     tu\<lparr>tu_constantDeclarations := addObject decl (tu_constantDeclarations tu)\<rparr>"

definition addProtocolDeclaration ::
  "MPObjCProtocolDeclaration \<Rightarrow> MPObjCTranslationUnit \<Rightarrow> MPObjCTranslationUnit" where
  "addProtocolDeclaration decl tu =
     tu\<lparr>tu_protocolDeclarations := addObject decl (tu_protocolDeclarations tu)\<rparr>"

definition addClassDeclaration ::
  "MPObjCClassDeclaration \<Rightarrow> MPObjCTranslationUnit \<Rightarrow> MPObjCTranslationUnit" where
  "addClassDeclaration decl tu =
     tu\<lparr>tu_classDeclarations := addObject decl (tu_classDeclarations tu)\<rparr>"

definition enumDeclarationWithName :: "string \<Rightarrow> MPObjCEnumDeclaration" where
  "enumDeclarationWithName name =
     \<lparr>ed_name = name, ed_backingType = None, ed_enumConstants = []\<rparr>"

definition enumConstantWithName :: "MPObjCEnumDeclaration \<Rightarrow> string \<Rightarrow> MPObjCEnumConstant" where
  "enumConstantWithName decl name =
     \<lparr>ec_enumDeclaration = Some (ed_name decl), ec_name = name, ec_value = None\<rparr>"

text \<open>\<open>isEqual:\<close> of enum declarations and of enum constants compares the names.\<close>

definition enumDeclarationsEqual :: "MPObjCEnumDeclaration \<Rightarrow> MPObjCEnumDeclaration \<Rightarrow> bool" where
  "enumDeclarationsEqual self other \<longleftrightarrow> ed_name other = ed_name self"

definition enumConstantsEqual :: "MPObjCEnumConstant \<Rightarrow> MPObjCEnumConstant \<Rightarrow> bool" where
  "enumConstantsEqual self other \<longleftrightarrow> ec_name other = ec_name self"

definition addEnumConstant ::
  "MPObjCEnumConstant \<Rightarrow> MPObjCEnumDeclaration \<Rightarrow> exn + MPObjCEnumDeclaration" where
  "addEnumConstant c self =
     (if list_ex (enumConstantsEqual c) (ed_enumConstants self)
      then throw (NSInternalInconsistencyException ''![self.enumConstants containsObject:enumConstant]'')
      else Inr (self\<lparr>ed_enumConstants := ed_enumConstants self @ [c]\<rparr>))"

definition constantWithName :: "string \<Rightarrow> val option \<Rightarrow> string \<Rightarrow> MPObjCConstantDeclaration" where
  "constantWithName name value0 type0 =
     \<lparr>cd_name = name, cd_value = value0, cd_type = type0, cd_isConst = False, cd_isStatic = False,
      cd_isExtern = False, cd_isObjectReference = False\<rparr>"

definition classWithSuperClass :: "string \<Rightarrow> string \<Rightarrow> MPObjCClassDeclaration" where
  "classWithSuperClass name superClassName =
     \<lparr>cl_name = name, cl_superClassName = superClassName, cl_conformedProtocols = [],
      cl_propertyDeclarations = [], cl_instanceMethodDeclarations = [],
      cl_classMethodDeclarations = [], cl_instanceVariableDeclarations = []\<rparr>"

definition addClassConformedProtocol :: "string \<Rightarrow> MPObjCClassDeclaration \<Rightarrow> MPObjCClassDeclaration" where
  "addClassConformedProtocol p self =
     self\<lparr>cl_conformedProtocols := cl_conformedProtocols self @ [p]\<rparr>"

definition addInstanceMethodDeclaration ::
  "MPObjCMethodDeclaration \<Rightarrow> MPObjCClassDeclaration \<Rightarrow> MPObjCClassDeclaration" where
  "addInstanceMethodDeclaration m self =
     self\<lparr>cl_instanceMethodDeclarations := cl_instanceMethodDeclarations self @ [m]\<rparr>"

definition addClassMethodDeclaration ::
  "MPObjCMethodDeclaration \<Rightarrow> MPObjCClassDeclaration \<Rightarrow> MPObjCClassDeclaration" where
  "addClassMethodDeclaration m self =
     self\<lparr>cl_classMethodDeclarations := cl_classMethodDeclarations self @ [m]\<rparr>"

definition addPropertyDeclaration ::
  "MPObjCPropertyDeclaration \<Rightarrow> MPObjCClassDeclaration \<Rightarrow> MPObjCClassDeclaration" where
  "addPropertyDeclaration p self =
     self\<lparr>cl_propertyDeclarations := cl_propertyDeclarations self @ [p]\<rparr>"

definition addInstanceVariableDeclaration ::
  "MPObjCInstanceVariableDeclaration \<Rightarrow> MPObjCClassDeclaration \<Rightarrow> MPObjCClassDeclaration" where
  "addInstanceVariableDeclaration v self =
     self\<lparr>cl_instanceVariableDeclarations := cl_instanceVariableDeclarations self @ [v]\<rparr>"

definition protocolWithName :: "string \<Rightarrow> MPObjCProtocolDeclaration" where
  "protocolWithName name =
     \<lparr>pr_name = name, pr_type = None, pr_conformedProtocols = [], pr_propertyDeclarations = [],
      pr_classMethodDeclarations = [], pr_instanceMethodDeclarations = [],
      pr_constantDeclarations = None\<rparr>"

definition addProtocolConstantDeclaration ::
  "MPObjCConstantDeclaration \<Rightarrow> MPObjCProtocolDeclaration \<Rightarrow> MPObjCProtocolDeclaration" where
  "addProtocolConstantDeclaration c self =
     self\<lparr>pr_constantDeclarations := addObject c (pr_constantDeclarations self)\<rparr>"

definition methodWithSelector :: "string \<Rightarrow> string \<Rightarrow> MPObjCMethodDeclaration" where
  "methodWithSelector selector returnType =
     \<lparr>md_selector = selector, md_returnType = returnType, md_parameters = [],
      md_returnsObjectType = False\<rparr>"

definition addParameter ::
  "MPObjCMethodParameter \<Rightarrow> MPObjCMethodDeclaration \<Rightarrow> MPObjCMethodDeclaration" where
  "addParameter p self = self\<lparr>md_parameters := md_parameters self @ [p]\<rparr>"


section \<open>Registries of types and classes\<close>

definition registerType ::
  "MPObjCTypeDefinition \<Rightarrow> (string \<rightharpoonup> MPObjCTypeDefinition) \<Rightarrow> (string \<rightharpoonup> MPObjCTypeDefinition)" where
  "registerType typeDef types = types(td_name typeDef \<mapsto> typeDef)"

text \<open>The loop of \<open>typeWithName:\<close>; a lookup with a nil key answers nil.\<close>

partial_function (option) typeLoop ::
  "(string \<rightharpoonup> MPObjCTypeDefinition) \<Rightarrow> MPObjCTypeDefinition option \<Rightarrow> MPObjCTypeDefinition option" where
  "typeLoop types backingType =
     typeLoop types (case backingType of None \<Rightarrow> None | Some t \<Rightarrow> types (td_name t))"

definition typeWithName ::
  "(string \<rightharpoonup> MPObjCTypeDefinition) \<Rightarrow> string \<Rightarrow> exn + MPObjCTypeDefinition option" where
  "typeWithName types name =
     (case types name of
        None \<Rightarrow> throw (NSInternalInconsistencyException ''No type with name'')
      | Some t \<Rightarrow> Inr (typeLoop types (Some t)))"

definition registerClassDeclaration ::
  "MPObjCClassDeclaration \<Rightarrow> (string \<rightharpoonup> MPObjCClassDeclaration) \<Rightarrow>
   exn + (string \<rightharpoonup> MPObjCClassDeclaration)" where
  "registerClassDeclaration decl classes =
     (if classes (cl_name decl) \<noteq> None
      then throw (NSInternalInconsistencyException ''Class already exists.'') else Inr classes)"

definition classWithName ::
  "(string \<rightharpoonup> MPObjCClassDeclaration) \<Rightarrow> string \<Rightarrow> MPObjCClassDeclaration option" where
  "classWithName classes name = classes name"


section \<open>Filling a translation unit\<close>

datatype declaration_event =
    AddEnum MPObjCEnumDeclaration
  | AddConstant MPObjCConstantDeclaration
  | AddProtocol MPObjCProtocolDeclaration
  | AddClass MPObjCClassDeclaration

fun addDeclaration :: "declaration_event \<Rightarrow> MPObjCTranslationUnit \<Rightarrow> MPObjCTranslationUnit" where
  "addDeclaration (AddEnum d) = addEnumDeclaration d"
| "addDeclaration (AddConstant d) = addConstantDeclaration d"
| "addDeclaration (AddProtocol d) = addProtocolDeclaration d"
| "addDeclaration (AddClass d) = addClassDeclaration d"

fun enumEvents :: "declaration_event list \<Rightarrow> MPObjCEnumDeclaration list" where
  "enumEvents [] = []"
| "enumEvents (AddEnum d # es) = d # enumEvents es"
| "enumEvents (e # es) = enumEvents es"

lemma fold_addDeclaration:
  "tu_enumDeclarations tu = Some ds \<Longrightarrow> tu_constantDeclarations tu = None \<Longrightarrow>
   tu_protocolDeclarations tu = None \<Longrightarrow> tu_classDeclarations tu = None \<Longrightarrow>
   fold addDeclaration es tu = tu\<lparr>tu_enumDeclarations := Some (ds @ enumEvents es)\<rparr>"
proof (induction es arbitrary: tu ds rule: enumEvents.induct)
  case (2 d es)
  show ?case
    using 2(1) [of "addEnumDeclaration d tu" "ds @ [d]"] 2(2-)
    by (simp add: addEnumDeclaration_def addObject_def)
qed (simp_all add: addConstantDeclaration_def addProtocolDeclaration_def
    addClassDeclaration_def addObject_def)

lemma typeLoop_diverges: "typeLoop types b = Some t \<Longrightarrow> False"
  by (rule typeLoop.raw_induct [where P = "\<lambda>_ _ _. False"]) blast+

fun addEnumConstants ::
  "MPObjCEnumConstant list \<Rightarrow> MPObjCEnumDeclaration \<Rightarrow> exn + MPObjCEnumDeclaration" where
  "addEnumConstants [] self = Inr self"
| "addEnumConstants (c # cs) self = bindExn (addEnumConstant c self) (addEnumConstants cs)"

lemma addEnumConstants_result:
  "distinct (map ec_name (ed_enumConstants self)) \<Longrightarrow>
   addEnumConstants cs self =
     (if distinct (map ec_name (ed_enumConstants self @ cs))
      then Inr (self\<lparr>ed_enumConstants := ed_enumConstants self @ cs\<rparr>)
      else throw (NSInternalInconsistencyException ''![self.enumConstants containsObject:enumConstant]''))"
proof (induction cs arbitrary: self)
  case (Cons c cs)
  show ?case
  proof (cases "list_ex (enumConstantsEqual c) (ed_enumConstants self)")
    case True
    then have "ec_name c \<in> ec_name ` set (ed_enumConstants self)"
      unfolding list_ex_iff enumConstantsEqual_def by (metis image_eqI)
    then show ?thesis using True by (auto simp: addEnumConstant_def throw_def)
  next
    case False
    then have new: "ec_name c \<notin> ec_name ` set (ed_enumConstants self)"
      by (auto simp: list_ex_iff enumConstantsEqual_def)
    show ?thesis
      using Cons.IH [of "self\<lparr>ed_enumConstants := ed_enumConstants self @ [c]\<rparr>"] Cons.prems False new
      by (auto simp: addEnumConstant_def)
  qed
qed simp


section \<open>What the tokens promise\<close>

text \<open>Collecting any sequence of declarations into a fresh translation unit keeps the
  enum declarations in order and nothing else: the lists of constants, protocols and
  classes are never created, so every constant, protocol and class is lost.\<close>

theorem translationUnit_keeps_only_enums:
  "fold addDeclaration es (unitWithPath path) =
     (unitWithPath path)\<lparr>tu_enumDeclarations := Some (enumEvents es)\<rparr>"
  using fold_addDeclaration [of "unitWithPath path" "[]" es] by (simp add: unitWithPath_def)

text \<open>\<open>typeWithName:\<close> never returns a type: an unknown name raises, and for a known
  name the loop that should follow the typedefs does not end.\<close>

theorem typeWithName_never_returns:
  "typeWithName types name \<noteq> Inr (Some t)"
  using typeLoop_diverges [of types] by (auto simp: typeWithName_def split: option.splits)

text \<open>Adding enum constants one after another succeeds exactly when their names are
  all different, and then the declaration holds them in the order they were added.\<close>

theorem enumConstants_distinct:
  "addEnumConstants cs (enumDeclarationWithName name) =
     (if distinct (map ec_name cs)
      then Inr ((enumDeclarationWithName name)\<lparr>ed_enumConstants := cs\<rparr>)
      else throw (NSInternalInconsistencyException ''![self.enumConstants containsObject:enumConstant]''))"
  using addEnumConstants_result [of "enumDeclarationWithName name" cs]
  by (simp add: enumDeclarationWithName_def)

end
