(* ===== verification/BindingsTranslator.thy ===== *)
theory BindingsTranslator
  imports BindingsTokens
begin

text \<open>
  The C# translator of the bindings generator (\<open>MPObjectiveCToCSharpTranslator\<close>) on
  top of the indented string builder (\<open>MPIndentedMutableString\<close>).  The regular
  expression library is a parameter \<open>re\<close>: the result of replacing the matches of a
  pattern in a string.
\<close>


section \<open>Indented strings\<close>

abbreviation newline :: string where
  "newline \<equiv> [CHR 0x0A]"

abbreviation quote :: string where
  "quote \<equiv> [CHR 0x22]"

record MPIndentedMutableString =
  mutableString :: string
  indentationLevel :: nat
  indentationSpaceCount :: nat

definition initWithIndentationSpaceCount :: "nat \<Rightarrow> MPIndentedMutableString" where
  "initWithIndentationSpaceCount n =
     \<lparr>mutableString = [], indentationLevel = 0, indentationSpaceCount = n\<rparr>"

definition newIndentedString :: MPIndentedMutableString where
  "newIndentedString = initWithIndentationSpaceCount 4"

definition indent ::
  "(MPIndentedMutableString \<Rightarrow> MPIndentedMutableString) \<Rightarrow> MPIndentedMutableString \<Rightarrow>
   MPIndentedMutableString" where
  "indent block self =
     (let entered = block (self\<lparr>indentationLevel := indentationLevel self + 1\<rparr>)
      in entered\<lparr>indentationLevel := indentationLevel entered - 1\<rparr>)"

definition indentationStringForLevel :: "nat \<Rightarrow> nat \<Rightarrow> string" where
  "indentationStringForLevel level spaceCount = replicate (level * spaceCount) (CHR '' '')"

definition appendString :: "string \<Rightarrow> MPIndentedMutableString \<Rightarrow> MPIndentedMutableString" where
  "appendString s self = self\<lparr>mutableString := mutableString self @ s\<rparr>"

text \<open>The loop over the components: every one is indented, all but the last are followed by a newline.\<close>

fun appendComponents :: "string list \<Rightarrow> MPIndentedMutableString \<Rightarrow> MPIndentedMutableString" where
  "appendComponents [] self = self"
| "appendComponents (c # cs) self =
     (let line = appendString
            (indentationStringForLevel (indentationLevel self) (indentationSpaceCount self) @ c) self
      in appendComponents cs (if cs \<noteq> [] then appendString newline line else line))"

definition appendLine :: "string option \<Rightarrow> MPIndentedMutableString \<Rightarrow> MPIndentedMutableString" where
  "appendLine indentedString self =
     (case indentedString of
        None \<Rightarrow> self
      | Some s \<Rightarrow> appendComponents (componentsSeparatedByString newline s) self)"


section \<open>The translators\<close>

text \<open>The methods of the abstract class \<open>MPObjCTranslator\<close>; a subclass fills in its own.\<close>

record MPObjCTranslator =
  translator_name :: "exn + string"
  translator_identifierPrefix :: "string option"
  translator_translationForUnit :: "MPObjCTranslationUnit \<Rightarrow> exn + string"
  translator_translatedPrefixedIdentifierString :: "string \<Rightarrow> string"
  translator_translatedEnumDeclarationsForTranslationUnit :: "MPObjCTranslationUnit \<Rightarrow> exn + string"
  translator_translatedEnumDeclaration :: "MPObjCEnumDeclaration \<Rightarrow> exn + string"

definition abstractTranslator :: MPObjCTranslator where
  "abstractTranslator =
     \<lparr>translator_name = throw (NSInternalInconsistencyException ''Abstract method''),
      translator_identifierPrefix = None,
      translator_translationForUnit = (\<lambda>tu. throw (NSInternalInconsistencyException ''Abstract method'')),
      translator_translatedPrefixedIdentifierString = (\<lambda>s. s),
      translator_translatedEnumDeclarationsForTranslationUnit =
        (\<lambda>tu. throw (NSInternalInconsistencyException ''Abstract method'')),
      translator_translatedEnumDeclaration =
        (\<lambda>d. throw (NSInternalInconsistencyException ''Abstract method''))\<rparr>"

fun newTranslatorWithName :: "MPObjCTranslator list \<Rightarrow> string \<Rightarrow> exn + MPObjCTranslator option" where
  "newTranslatorWithName [] name = Inr None"
| "newTranslatorWithName (c # cs) name =
     bindExn (translator_name c)
       (\<lambda>n. if n = name then Inr (Some c) else newTranslatorWithName cs name)"

definition formatObject :: "string option \<Rightarrow> string" where
  "formatObject s = (case s of None \<Rightarrow> ''(null)'' | Some t \<Rightarrow> t)"

definition lastPathComponent :: "string \<Rightarrow> string" where
  "lastPathComponent p =
     (let comps = filter (\<lambda>c. c \<noteq> []) (componentsSeparatedByString ''/'' p)
      in if comps \<noteq> [] then last comps else if p = [] then [] else ''/'')"

definition translatedPrefixedIdentifierString ::
  "(string \<Rightarrow> string \<Rightarrow> string \<Rightarrow> string) \<Rightarrow> string option \<Rightarrow> string \<Rightarrow> string" where
  "translatedPrefixedIdentifierString re identifierPrefix str =
     re str (''^'' @ formatObject identifierPrefix) []"

definition enumConstantText :: "MPObjCEnumConstant \<Rightarrow> string" where
  "enumConstantText c =
     (case ec_value c of Some v \<Rightarrow> ec_name c @ '' = '' @ decimal v | None \<Rightarrow> ec_name c)"

text \<open>The loop over the constants, \<open>i\<close> counting up to their number.\<close>

fun appendEnumConstants ::
  "nat \<Rightarrow> nat \<Rightarrow> MPObjCEnumConstant list \<Rightarrow> MPIndentedMutableString \<Rightarrow> MPIndentedMutableString" where
  "appendEnumConstants i cnt [] str = str"
| "appendEnumConstants i cnt (c # cs) str =
     appendEnumConstants (i + 1) cnt cs
       (indent (\<lambda>str. appendString (if cnt > 1 \<and> i < cnt - 1 then '','' @ newline else newline)
                 (appendLine (Some (enumConstantText c)) str)) str)"

definition translatedEnumDeclaration ::
  "(string \<Rightarrow> string \<Rightarrow> string \<Rightarrow> string) \<Rightarrow> string option \<Rightarrow> MPObjCEnumDeclaration \<Rightarrow> string" where
  "translatedEnumDeclaration re identifierPrefix decl =
     (let constants = ed_enumConstants decl;
          opened = appendLine (Some (''{'' @ newline))
            (appendLine (Some (''public enum '' @
                translatedPrefixedIdentifierString re identifierPrefix (ed_name decl) @ newline))
              newIndentedString);
          filled = indent (appendEnumConstants 0 (length constants) constants) opened
      in mutableString (appendLine (Some (''}'' @ newline)) filled))"

definition translatedEnumDeclarationsForTranslationUnit ::
  "(string \<Rightarrow> string \<Rightarrow> string \<Rightarrow> string) \<Rightarrow> string option \<Rightarrow> MPObjCTranslationUnit \<Rightarrow> string" where
  "translatedEnumDeclarationsForTranslationUnit re identifierPrefix tu =
     (case tu_enumDeclarations tu of
        None \<Rightarrow> []
      | Some ds \<Rightarrow> concat (map (translatedEnumDeclaration re identifierPrefix) ds))"

definition translatedConstantDeclarationForConstantDeclaration ::
  "MPObjCConstantDeclaration \<Rightarrow> string option \<Rightarrow> string" where
  "translatedConstantDeclarationForConstantDeclaration c libraryName =
     mutableString
       (appendLine (Some (cd_type c @ '' '' @ cd_name c @ '' { get; }''))
         (appendLine (Some (''[Field ('' @ quote @ cd_name c @ quote @ '', '' @ quote @
              (case libraryName of Some l \<Rightarrow> l | None \<Rightarrow> ''__Internal'') @ quote @ '')]''))
            newIndentedString))"

definition translatedConstantDeclarationsForTranslationUnit ::
  "MPObjCTranslationUnit \<Rightarrow> string option \<Rightarrow> string" where
  "translatedConstantDeclarationsForTranslationUnit tu libraryName =
     mutableString
       (fold (\<lambda>c. appendLine (Some (translatedConstantDeclarationForConstantDeclaration c libraryName)))
         (case tu_constantDeclarations tu of None \<Rightarrow> [] | Some cs \<Rightarrow> cs) newIndentedString)"

text \<open>Classes and protocols are not translated: these methods answer nil.\<close>

definition translatedProtocolDeclarationsForTranslationUnit :: "MPObjCTranslationUnit \<Rightarrow> string option" where
  "translatedProtocolDeclarationsForTranslationUnit tu = None"

definition translatedClassDeclarationsForTranslationUnit :: "MPObjCTranslationUnit \<Rightarrow> string option" where
  "translatedClassDeclarationsForTranslationUnit tu = None"

definition translatedPropertyDeclaration :: "MPObjCPropertyDeclaration \<Rightarrow> string" where
  "translatedPropertyDeclaration p =
     pd_type p @ '' '' @ pd_name p @ '' { '' @ (if pd_isReadWrite p then ''get; set;'' else ''get;'')"

definition translatedPropertyDeclarationsForClass :: "MPObjCClassDeclaration \<Rightarrow> string" where
  "translatedPropertyDeclarationsForClass c =
     mutableString (fold (\<lambda>p. appendLine (Some (translatedPropertyDeclaration p)))
       (cl_propertyDeclarations c) newIndentedString)"

definition translatedClassMethodDeclaration :: "MPObjCClassMethodDeclaration \<Rightarrow> string" where
  "translatedClassMethodDeclaration m =
     (let paramString = componentsJoinedByString '', ''
            (map (\<lambda>p. mp_type p @ '' '' @ mp_name p) (md_parameters m));
          methodName = componentsJoinedByString [] (map mp_name (md_parameters m))
      in mutableString
           (appendLine (Some (md_returnType m @ '' '' @ methodName @ ''('' @ paramString @ '');''))
             (appendLine (Some (''[Export ('' @ quote @ md_selector m @ quote @ '')'')) newIndentedString)))"

definition translatedClassMethodDeclarationsForClass :: "MPObjCClassDeclaration \<Rightarrow> string" where
  "translatedClassMethodDeclarationsForClass c =
     mutableString (fold (\<lambda>m. appendString (translatedClassMethodDeclaration m))
       (cl_classMethodDeclarations c) newIndentedString)"

text \<open>The method and property lists of a class are never nil, so both groups are always written.\<close>

definition translatedClassDeclaration :: "MPObjCClassDeclaration \<Rightarrow> string" where
  "translatedClassDeclaration c =
     mutableString
       (appendLine (Some ''}'')
       (appendLine (Some [])
       (appendLine (Some (translatedClassMethodDeclarationsForClass c))
       (appendLine (Some [])
       (appendLine (Some (translatedPropertyDeclarationsForClass c))
       (appendLine (Some ''{'')
       (appendLine (Some (if cl_superClassName c = ''NSObject'' then ''interface %@''
           else ''interface '' @ cl_name c @ '' : '' @ cl_superClassName c))
       (appendLine (Some ''[BaseType (typeof (NSObject))'') newIndentedString))))))))"

definition countOf :: "'a list option \<Rightarrow> nat" where
  "countOf xs = (case xs of None \<Rightarrow> 0 | Some ys \<Rightarrow> length ys)"

definition sectionComment :: "string \<Rightarrow> MPObjCTranslationUnit \<Rightarrow> string" where
  "sectionComment kind tu =
     newline @ ''// '' @ kind @ '' declarations for '' @
       formatObject (map_option lastPathComponent (tu_path tu)) @ newline @ newline"

definition translationForUnit ::
  "(string \<Rightarrow> string \<Rightarrow> string \<Rightarrow> string) \<Rightarrow> string option \<Rightarrow> MPObjCTranslationUnit \<Rightarrow> string" where
  "translationForUnit re identifierPrefix tu =
     (let enums = (\<lambda>str. if countOf (tu_enumDeclarations tu) > 0
            then appendLine (Some newline)
              (appendLine (Some (translatedEnumDeclarationsForTranslationUnit re identifierPrefix tu))
                (appendLine (Some (sectionComment ''Enum'' tu)) str))
            else str);
          constants = (\<lambda>str. if countOf (tu_constantDeclarations tu) > 0
            then indent (\<lambda>s. appendLine (Some newline)
              (appendLine (Some (translatedConstantDeclarationsForTranslationUnit tu None))
                (appendLine (Some (sectionComment ''Constant'' tu)) s))) str
            else str);
          classes = (\<lambda>str. if countOf (tu_classDeclarations tu) > 0
            then indent (\<lambda>s. appendLine (Some newline)
              (appendLine (translatedClassDeclarationsForTranslationUnit tu)
                (appendLine (Some (sectionComment ''Class'' tu)) s))) str
            else str)
      in mutableString (classes (constants (enums newIndentedString))))"

definition csharpTranslator ::
  "(string \<Rightarrow> string \<Rightarrow> string \<Rightarrow> string) \<Rightarrow> string option \<Rightarrow> MPObjCTranslator" where
  "csharpTranslator re identifierPrefix = abstractTranslator
     \<lparr>translator_name := Inr ''csharp'',
      translator_identifierPrefix := identifierPrefix,
      translator_translationForUnit := (\<lambda>tu. Inr (translationForUnit re identifierPrefix tu)),
      translator_translatedPrefixedIdentifierString :=
        translatedPrefixedIdentifierString re identifierPrefix,
      translator_translatedEnumDeclarationsForTranslationUnit :=
        (\<lambda>tu. Inr (translatedEnumDeclarationsForTranslationUnit re identifierPrefix tu)),
      translator_translatedEnumDeclaration := (\<lambda>d. Inr (translatedEnumDeclaration re identifierPrefix d))\<rparr>"

definition osaScriptingDefinitionTranslator :: MPObjCTranslator where
  "osaScriptingDefinitionTranslator = abstractTranslator\<lparr>translator_name := Inr ''sdef''\<rparr>"


section \<open>Indentation\<close>

lemma appendString_fields [simp]:
  "mutableString (appendString s self) = mutableString self @ s"
  "indentationLevel (appendString s self) = indentationLevel self"
  "indentationSpaceCount (appendString s self) = indentationSpaceCount self"
  by (simp_all add: appendString_def)

lemma appendComponents_fields:
  "mutableString (appendComponents cs self) = mutableString self @
     componentsJoinedByString newline
       (map ((@) (indentationStringForLevel (indentationLevel self) (indentationSpaceCount self))) cs)"
  "indentationLevel (appendComponents cs self) = indentationLevel self"
  "indentationSpaceCount (appendComponents cs self) = indentationSpaceCount self"
  by (induction cs self rule: appendComponents.induct)
     (auto simp: Let_def componentsJoinedByString_Cons)

lemma appendLine_level [simp]:
  "indentationLevel (appendLine s self) = indentationLevel self"
  "indentationSpaceCount (appendLine s self) = indentationSpaceCount self"
  by (simp_all add: appendLine_def appendComponents_fields split: option.splits)

lemma appendLine_text:
  "mutableString (appendLine (Some s) self) = mutableString self @
     componentsJoinedByString newline
       (map ((@) (indentationStringForLevel (indentationLevel self) (indentationSpaceCount self)))
         (componentsSeparatedByString newline s))"
  by (simp add: appendLine_def appendComponents_fields)

lemma appendLine_flat:
  "indentationLevel self = 0 \<Longrightarrow> mutableString (appendLine (Some s) self) = mutableString self @ s"
proof -
  have "map ((@) []) xs = xs" for xs :: "string list" by (induction xs) auto
  then show "indentationLevel self = 0 \<Longrightarrow> ?thesis"
    by (simp add: appendLine_text indentationStringForLevel_def joined_componentsSeparatedByString)
qed

lemma appendLine_single:
  "CHR 0x0A \<notin> set s \<Longrightarrow>
   mutableString (appendLine (Some s) self) = mutableString self @
     indentationStringForLevel (indentationLevel self) (indentationSpaceCount self) @ s"
  by (simp add: appendLine_text componentsSeparatedByString_def separated_char_free)

lemma indent_fields [simp]:
  "mutableString (indent f self) = mutableString (f (self\<lparr>indentationLevel := indentationLevel self + 1\<rparr>))"
  "indentationLevel (indent f self) =
     indentationLevel (f (self\<lparr>indentationLevel := indentationLevel self + 1\<rparr>)) - 1"
  "indentationSpaceCount (indent f self) =
     indentationSpaceCount (f (self\<lparr>indentationLevel := indentationLevel self + 1\<rparr>))"
  by (simp_all add: indent_def Let_def)


section \<open>Enumerations\<close>

lemma enumConstantText_no_newline:
  "CHR 0x0A \<notin> set (ec_name c) \<Longrightarrow> CHR 0x0A \<notin> set (enumConstantText c)"
  using decimalDigits_no_newline by (auto simp: enumConstantText_def decimal_def split: option.splits)

lemma appendEnumConstants_text:
  "i + length cs = cnt \<Longrightarrow> list_all (\<lambda>c. CHR 0x0A \<notin> set (ec_name c)) cs \<Longrightarrow>
   indentationLevel (appendEnumConstants i cnt cs str) = indentationLevel str \<and>
   indentationSpaceCount (appendEnumConstants i cnt cs str) = indentationSpaceCount str \<and>
   mutableString (appendEnumConstants i cnt cs str) = mutableString str @
     (if cs = [] then [] else
        componentsJoinedByString ('','' @ newline)
          (map (\<lambda>c. indentationStringForLevel (indentationLevel str + 1) (indentationSpaceCount str) @
                  enumConstantText c) cs) @ newline)"
proof (induction i cnt cs str rule: appendEnumConstants.induct)
  case (2 i cnt c cs str)
  then show ?case
    by (auto simp: appendLine_single enumConstantText_no_newline componentsJoinedByString_Cons)
qed simp


section \<open>What the translator promises\<close>

text \<open>\<open>appendLine:\<close> puts the current indentation in front of every line of its argument
  and changes nothing else; at level zero it appends the argument as it is.\<close>

theorem appendLine_indents_every_line:
  "mutableString (appendLine (Some s) self) = mutableString self @
     componentsJoinedByString newline
       (map ((@) (replicate (indentationLevel self * indentationSpaceCount self) (CHR '' '')))
         (componentsSeparatedByString newline s)) \<and>
   componentsJoinedByString newline (componentsSeparatedByString newline s) = s \<and>
   indentationLevel (appendLine (Some s) self) = indentationLevel self"
  by (simp add: appendLine_text indentationStringForLevel_def joined_componentsSeparatedByString)

text \<open>The C# text of an enum declaration is the \<open>public enum\<close> line, an opening brace, the
  constants in order, each indented by eight spaces and separated by commas with no
  comma after the last, and a closing brace.\<close>

theorem translatedEnumDeclaration_text:
  assumes "list_all (\<lambda>c. CHR 0x0A \<notin> set (ec_name c)) (ed_enumConstants decl)"
  shows "translatedEnumDeclaration re identifierPrefix decl =
    ''public enum '' @ re (ed_name decl) (''^'' @ formatObject identifierPrefix) [] @ newline @
    ''{'' @ newline @
    (if ed_enumConstants decl = [] then [] else
       componentsJoinedByString ('','' @ newline)
         (map (\<lambda>c. ''        '' @ enumConstantText c) (ed_enumConstants decl)) @ newline) @
    ''}'' @ newline"
  using appendEnumConstants_text [OF _ assms, of 0 "length (ed_enumConstants decl)"]
  by (simp add: translatedEnumDeclaration_def Let_def appendLine_flat newIndentedString_def
      initWithIndentationSpaceCount_def translatedPrefixedIdentifierString_def
      indentationStringForLevel_def numeral_eq_Suc)

theorem translatedEnumDeclaration_text_witness:
  "translatedEnumDeclaration (\<lambda>s p t. drop 2 s) (Some ''MP'')
     \<lparr>ed_name = ''MPColor'', ed_backingType = None,
      ed_enumConstants = [\<lparr>ec_enumDeclaration = None, ec_name = ''Red'', ec_value = Some 1\<rparr>,
                          \<lparr>ec_enumDeclaration = None, ec_name = ''Blue'', ec_value = None\<rparr>]\<rparr> =
   ''public enum Color'' @ newline @ ''{'' @ newline @ ''        Red = 1,'' @ newline @
   ''        Blue'' @ newline @ ''}'' @ newline"
  by (subst translatedEnumDeclaration_text)
     (simp_all add: enumConstantText_def decimal_def char_of_def bit_0)

text \<open>Whatever declarations were collected, the translation of the unit is the
  translation of its enum declarations: no constant and no class reaches the output.\<close>

theorem translationForUnit_enums_only:
  "translationForUnit re identifierPrefix (fold addDeclaration es (unitWithPath path)) =
   (if enumEvents es = [] then [] else
      newline @ ''// Enum declarations for '' @ formatObject (map_option lastPathComponent path) @
      newline @ newline @
      concat (map (translatedEnumDeclaration re identifierPrefix) (enumEvents es)) @ newline)"
proof -
  have "fold addDeclaration es (unitWithPath path) =
      (unitWithPath path)\<lparr>tu_enumDeclarations := Some (enumEvents es)\<rparr>"
    using fold_addDeclaration [of "unitWithPath path" "[]" es] by (simp add: unitWithPath_def)
  then show ?thesis
    by (simp add: translationForUnit_def Let_def unitWithPath_def countOf_def sectionComment_def
        translatedEnumDeclarationsForTranslationUnit_def appendLine_flat newIndentedString_def
        initWithIndentationSpaceCount_def)
qed

text \<open>Asking for a translator by name finds the C# translator under \<open>csharp\<close>, whose
  methods are all implemented, and no translator under an unknown name.\<close>

theorem newTranslatorWithName_csharp:
  "newTranslatorWithName [csharpTranslator re p, osaScriptingDefinitionTranslator] name =
     (if name = ''csharp'' then Inr (Some (csharpTranslator re p))
      else if name = ''sdef'' then Inr (Some osaScriptingDefinitionTranslator) else Inr None) \<and>
   translator_translationForUnit (csharpTranslator re p) tu = Inr (translationForUnit re p tu) \<and>
   translator_translationForUnit osaScriptingDefinitionTranslator tu =
     throw (NSInternalInconsistencyException ''Abstract method'')"
  by (auto simp: csharpTranslator_def osaScriptingDefinitionTranslator_def abstractTranslator_def)

end
