(* ===== verification/ObjectExt.thy ===== *)
theory ObjectExt
  imports Collections
begin

text \<open>
  The rest of \<open>NSObject+MPExtensions\<close>: replacing the implementations of methods,
  waiting for a completion block on the run loop, and the textual difference of
  two property lists.  The method tables of the Objective-C runtime are a state;
  time is counted in turns of the run loop.
\<close>


section \<open>Replacing methods\<close>

text \<open>
  The methods a class implements itself.  A method is found by walking up the
  superclasses; the metaclass of a root class continues in the instance methods of
  the root class.
\<close>

record 'imp method_tables =
  instanceMethods :: "cls \<Rightarrow> string \<rightharpoonup> 'imp"
  classMethods :: "cls \<Rightarrow> string \<rightharpoonup> 'imp"

fun class_getInstanceMethod :: "'imp method_tables \<Rightarrow> cls \<Rightarrow> string \<rightharpoonup> 'imp" where
  "class_getInstanceMethod t (Cls n s ps prs) sel =
     (case instanceMethods t (Cls n s ps prs) sel of
        Some imp \<Rightarrow> Some imp
      | None \<Rightarrow> (case s of None \<Rightarrow> None | Some c \<Rightarrow> class_getInstanceMethod t c sel))"

fun class_getClassMethod :: "'imp method_tables \<Rightarrow> cls \<Rightarrow> string \<rightharpoonup> 'imp" where
  "class_getClassMethod t (Cls n s ps prs) sel =
     (case classMethods t (Cls n s ps prs) sel of
        Some imp \<Rightarrow> Some imp
      | None \<Rightarrow>
          (case s of None \<Rightarrow> instanceMethods t (Cls n s ps prs) sel | Some c \<Rightarrow> class_getClassMethod t c sel))"

definition setInstanceMethod :: "cls \<Rightarrow> string \<Rightarrow> 'imp \<Rightarrow> 'imp method_tables \<Rightarrow> 'imp method_tables" where
  "setInstanceMethod c sel imp t =
     t\<lparr>instanceMethods := (instanceMethods t)(c := (instanceMethods t c)(sel \<mapsto> imp))\<rparr>"

definition class_addMethod :: "cls \<Rightarrow> string \<Rightarrow> 'imp \<Rightarrow> 'imp method_tables \<Rightarrow> bool \<times> 'imp method_tables" where
  "class_addMethod c sel imp t =
     (if instanceMethods t c sel = None then (True, setInstanceMethod c sel imp t) else (False, t))"

definition class_replaceMethod ::
  "cls \<Rightarrow> string \<Rightarrow> 'imp \<Rightarrow> 'imp method_tables \<Rightarrow> 'imp option \<times> 'imp method_tables" where
  "class_replaceMethod c sel imp t = (instanceMethods t c sel, setInstanceMethod c sel imp t)"

definition replaceMethodImplementation ::
  "cls \<Rightarrow> 'imp option \<Rightarrow> string \<Rightarrow> ('imp \<Rightarrow> 'imp) \<Rightarrow> 'imp method_tables \<Rightarrow> exn + 'imp method_tables" where
  "replaceMethodImplementation self origMethod selector swizzler t =
     bindExn (MPAssertNotNil origMethod ''origMethod'') (\<lambda>origImpl.
       let newImpl = swizzler origImpl
       in case class_addMethod self selector newImpl t of
            (True, t') \<Rightarrow> Inr t'
          | (False, t') \<Rightarrow>
              (case class_replaceMethod self selector newImpl t' of
                 (replacement, t'') \<Rightarrow>
                   bindExn (MPAssertNotNil replacement ''replacement'') (\<lambda>_. Inr t'')))"

text \<open>The variant for blocks; \<open>impOfBlock\<close> is \<open>imp_implementationWithBlock\<close>.\<close>

definition replaceMethodImplementationWithBlock ::
  "('blk \<Rightarrow> 'imp) \<Rightarrow> cls \<Rightarrow> 'imp option \<Rightarrow> string \<Rightarrow> ('imp \<Rightarrow> 'blk) \<Rightarrow> 'imp method_tables \<Rightarrow>
   exn + 'imp method_tables" where
  "replaceMethodImplementationWithBlock impOfBlock self origMethod selector swizzler t =
     bindExn (MPAssertNotNil origMethod ''origMethod'') (\<lambda>origImpl.
       let newImpl = impOfBlock (swizzler origImpl)
       in case class_addMethod self selector newImpl t of
            (True, t') \<Rightarrow> Inr t'
          | (False, t') \<Rightarrow> Inr (snd (class_replaceMethod self selector newImpl t')))"

definition replaceInstanceMethodWithSelector ::
  "cls \<Rightarrow> string \<Rightarrow> ('imp \<Rightarrow> 'imp) \<Rightarrow> 'imp method_tables \<Rightarrow> exn + 'imp method_tables" where
  "replaceInstanceMethodWithSelector self selector swizzler t =
     replaceMethodImplementation self (class_getInstanceMethod t self selector) selector swizzler t"

definition replaceInstanceMethodWithSelectorBlock ::
  "('blk \<Rightarrow> 'imp) \<Rightarrow> cls \<Rightarrow> string \<Rightarrow> ('imp \<Rightarrow> 'blk) \<Rightarrow> 'imp method_tables \<Rightarrow> exn + 'imp method_tables" where
  "replaceInstanceMethodWithSelectorBlock impOfBlock self selector swizzler t =
     replaceMethodImplementationWithBlock impOfBlock self (class_getInstanceMethod t self selector)
       selector swizzler t"

definition replaceClassMethodWithSelector ::
  "cls \<Rightarrow> string \<Rightarrow> ('imp \<Rightarrow> 'imp) \<Rightarrow> 'imp method_tables \<Rightarrow> exn + 'imp method_tables" where
  "replaceClassMethodWithSelector self selector swizzler t =
     replaceMethodImplementation self (class_getClassMethod t self selector) selector swizzler t"

definition replaceClassMethodWithSelectorBlock ::
  "('blk \<Rightarrow> 'imp) \<Rightarrow> cls \<Rightarrow> string \<Rightarrow> ('imp \<Rightarrow> 'blk) \<Rightarrow> 'imp method_tables \<Rightarrow> exn + 'imp method_tables" where
  "replaceClassMethodWithSelectorBlock impOfBlock self selector swizzler t =
     replaceMethodImplementationWithBlock impOfBlock self (class_getClassMethod t self selector)
       selector swizzler t"

text \<open>The part of the category that replaces methods, as its interface declares it.\<close>

record ('imp, 'blk) method_replacement =
  replaceInstanceMethod_implementationProvider ::
    "cls \<Rightarrow> string \<Rightarrow> ('imp \<Rightarrow> 'imp) \<Rightarrow> 'imp method_tables \<Rightarrow> exn + 'imp method_tables"
  replaceInstanceMethod_implementationBlockProvider ::
    "cls \<Rightarrow> string \<Rightarrow> ('imp \<Rightarrow> 'blk) \<Rightarrow> 'imp method_tables \<Rightarrow> exn + 'imp method_tables"
  replaceClassMethod_implementationProvider ::
    "cls \<Rightarrow> string \<Rightarrow> ('imp \<Rightarrow> 'imp) \<Rightarrow> 'imp method_tables \<Rightarrow> exn + 'imp method_tables"
  replaceClassMethod_implementationBlockProvider ::
    "cls \<Rightarrow> string \<Rightarrow> ('imp \<Rightarrow> 'blk) \<Rightarrow> 'imp method_tables \<Rightarrow> exn + 'imp method_tables"

definition methodReplacement :: "('blk \<Rightarrow> 'imp) \<Rightarrow> ('imp, 'blk) method_replacement" where
  "methodReplacement impOfBlock =
     \<lparr>replaceInstanceMethod_implementationProvider = replaceInstanceMethodWithSelector,
      replaceInstanceMethod_implementationBlockProvider = replaceInstanceMethodWithSelectorBlock impOfBlock,
      replaceClassMethod_implementationProvider = replaceClassMethodWithSelector,
      replaceClassMethod_implementationBlockProvider = replaceClassMethodWithSelectorBlock impOfBlock\<rparr>"


section \<open>Waiting on the run loop\<close>

text \<open>
  \<open>finished n\<close> says whether the flag is set when the loop has turned \<open>n\<close> times.  The result is
  the number of turns after which the call returns, and no value if it never does.
\<close>

partial_function (option) spinUntil :: "(nat \<Rightarrow> bool) \<Rightarrow> nat \<Rightarrow> nat option" where
  "spinUntil finished n = (if finished n then Some n else spinUntil finished (n + 1))"

text \<open>\<open>calledAt\<close> is the turn in which the completion block is called, if it is ever called.\<close>

definition doneBy :: "nat option \<Rightarrow> nat \<Rightarrow> bool" where
  "doneBy calledAt n = (case calledAt of None \<Rightarrow> False | Some k \<Rightarrow> k \<le> n)"

definition runUntilDone :: "nat option \<Rightarrow> nat option" where
  "runUntilDone calledAt = spinUntil (doneBy calledAt) 0"

text \<open>
  With a timeout that elapses in turn \<open>timeout\<close>: the turn of the return, and whether the
  timeout block ran.
\<close>

definition runUntilDoneWithTimeout :: "nat \<Rightarrow> nat option \<Rightarrow> (nat \<times> bool) option" where
  "runUntilDoneWithTimeout timeout calledAt =
     map_option (\<lambda>n. (n, \<not> doneBy calledAt timeout))
       (spinUntil (\<lambda>n. doneBy calledAt n \<or> timeout \<le> n) 0)"

text \<open>
  A block handed to the run-loop helpers is represented by the number of the poll, if any, before
  which it has called the completion block; the result is the number of polls, with a timeout
  also whether the timeout block has run.
\<close>

record run_loop_methods =
  ns_runUntilDone :: "nat option \<Rightarrow> nat option"
  ns_runUntilDone_withTimeout_timeoutBlock :: "nat \<Rightarrow> nat option \<Rightarrow> (nat \<times> bool) option"

definition featherRunLoopMethods :: run_loop_methods where
  "featherRunLoopMethods =
     \<lparr>ns_runUntilDone = runUntilDone, ns_runUntilDone_withTimeout_timeoutBlock = runUntilDoneWithTimeout\<rparr>"


section \<open>Differences of property lists\<close>

text \<open>What the text of a difference takes from Foundation, and the order in which a set is enumerated.\<close>

record diff_foundation =
  descriptionOf :: "val \<Rightarrow> string"
  classNameOf :: "val \<Rightarrow> string"
  enumerationOrder :: "string list \<Rightarrow> string list"

definition MAX_CHARS :: nat where
  "MAX_CHARS = 60"

definition entriesDescription :: "nat \<Rightarrow> string \<Rightarrow> string" where
  "entriesDescription n desc =
     decimal (int n) @ '' entries: '' @
     (if length desc > MAX_CHARS then take MAX_CHARS desc @ ''...'' else desc)"

text \<open>\<open>NSData\<close> has no method \<open>count\<close>, so the description of data raises.\<close>

fun diffDescription :: "diff_foundation \<Rightarrow> val \<Rightarrow> exn + string" where
  "diffDescription F (VDict d) = Inr (entriesDescription (length d) (descriptionOf F (VDict d)))"
| "diffDescription F (VArray xs) = Inr (entriesDescription (length xs) (descriptionOf F (VArray xs)))"
| "diffDescription F (VData s) = throw (NSInvalidArgumentException ''unrecognized selector count'')"
| "diffDescription F (VString s) =
     Inr (decimal (int (length s)) @ '' characters: '' @ descriptionOf F (VString s))"
| "diffDescription F v = Inr (descriptionOf F v)"

definition newlineText :: string where
  "newlineText = [CHR 0x0A]"

definition hunk :: "string \<Rightarrow> string \<Rightarrow> string" where
  "hunk identifier body = ''@@ '' @ identifier @ '' @@'' @ newlineText @ body"

definition countDifference :: "string \<Rightarrow> nat \<Rightarrow> nat \<Rightarrow> string" where
  "countDifference identifier m n =
     hunk (identifier @ ''.@count'')
       (''- '' @ decimal (int m) @ '' objects'' @ newlineText @ ''+ '' @ decimal (int n) @ '' objects'' @ newlineText)"

definition leafDifference :: "diff_foundation \<Rightarrow> string \<Rightarrow> val \<Rightarrow> val \<Rightarrow> exn + string" where
  "leafDifference F identifier v1 v2 =
     bindExn (diffDescription F v1) (\<lambda>d1.
     bindExn (diffDescription F v2) (\<lambda>d2.
       Inr (hunk identifier
         (''- ['' @ classNameOf F v1 @ ''] '' @ d1 @ newlineText @
          ''+ ['' @ classNameOf F v2 @ ''] '' @ d2 @ newlineText))))"

fun distinctDifferences ::
  "diff_foundation \<Rightarrow> string \<Rightarrow> string \<Rightarrow> dict \<Rightarrow> string list \<Rightarrow> exn + string" where
  "distinctDifferences F sign identifier d [] = Inr []"
| "distinctDifferences F sign identifier d (k # ks) =
     bindExn (MPAssertNotNil (map_of d k) ''value'') (\<lambda>v.
     bindExn (diffDescription F v) (\<lambda>desc.
     bindExn (distinctDifferences F sign identifier d ks) (\<lambda>rest.
       Inr (hunk (identifier @ ''.'' @ k) (sign @ desc @ newlineText) @ rest))))"

definition keysOnlyIn :: "string list \<Rightarrow> dict \<Rightarrow> dict \<Rightarrow> string list" where
  "keysOnlyIn excluded d d' =
     filter (\<lambda>k. k \<notin> set excluded \<and> k \<notin> set (map fst d')) (map fst d)"

definition sharedKeys :: "string list \<Rightarrow> dict \<Rightarrow> dict \<Rightarrow> string list" where
  "sharedKeys excluded d d' =
     filter (\<lambda>k. k \<notin> set excluded \<and> k \<in> set (map fst d')) (map fst d)"

lemma map_of_val_size:
  assumes "Some v = map_of d k"
  shows "size v < size_list (size_prod (\<lambda>_. 0) size) d"
proof -
  have "(k, v) \<in> set d" by (rule map_of_SomeD) (use assms in simp)
  then show ?thesis by (induction d) auto
qed

function diffWithObject ::
  "diff_foundation \<Rightarrow> string list \<Rightarrow> string \<Rightarrow> val \<Rightarrow> val \<Rightarrow> exn + string"
and diffElements ::
  "diff_foundation \<Rightarrow> string list \<Rightarrow> string \<Rightarrow> nat \<Rightarrow> val list \<Rightarrow> val list \<Rightarrow> exn + string"
and diffShared ::
  "diff_foundation \<Rightarrow> string list \<Rightarrow> string \<Rightarrow> dict \<Rightarrow> dict \<Rightarrow> string list \<Rightarrow> exn + string" where
  "diffWithObject F excluded identifier v1 v2 =
     (case (v1, v2) of
        (VArray xs, VArray ys) \<Rightarrow>
          if length xs \<noteq> length ys then Inr (countDifference identifier (length xs) (length ys))
          else diffElements F excluded identifier 0 xs ys
      | (VDict d1, VDict d2) \<Rightarrow>
          bindExn (distinctDifferences F ''- '' identifier d1 (enumerationOrder F (keysOnlyIn excluded d1 d2))) (\<lambda>s1.
          bindExn (distinctDifferences F ''+ '' identifier d2 (enumerationOrder F (keysOnlyIn excluded d2 d1))) (\<lambda>s2.
          bindExn (diffShared F excluded identifier d1 d2 (enumerationOrder F (sharedKeys excluded d1 d2))) (\<lambda>s3.
            Inr (s1 @ s2 @ s3))))
      | _ \<Rightarrow> if v1 = v2 then Inr [] else leafDifference F identifier v1 v2)"
| "diffElements F excluded identifier i (x # xs) (y # ys) =
     bindExn (diffWithObject F excluded (identifier @ ''['' @ decimal (int i) @ '']'') x y) (\<lambda>s.
     bindExn (diffElements F excluded identifier (i + 1) xs ys) (\<lambda>rest. Inr (s @ rest)))"
| "diffElements F excluded identifier i [] ys = Inr []"
| "diffElements F excluded identifier i (x # xs) [] = Inr []"
| "diffShared F excluded identifier d1 d2 [] = Inr []"
| "diffShared F excluded identifier d1 d2 (k # ks) =
     bindExn
       (case (map_of d1 k, map_of d2 k) of
          (Some v1, Some v2) \<Rightarrow> diffWithObject F excluded (identifier @ ''.'' @ k) v1 v2
        | _ \<Rightarrow> Inr [])
       (\<lambda>s. bindExn (diffShared F excluded identifier d1 d2 ks) (\<lambda>rest. Inr (s @ rest)))"
  by pat_completeness auto
termination
  by (relation "inv_image (less_than <*lex*> less_than)
       (\<lambda>x. case x of
          Inl (F, excluded, identifier, v1, v2) \<Rightarrow> (size v1, 0)
        | Inr (Inl (F, excluded, identifier, i, xs, ys)) \<Rightarrow> (size_list size xs, length xs)
        | Inr (Inr (F, excluded, identifier, d1, d2, ks)) \<Rightarrow> (size_list (size_prod (\<lambda>_. 0) size) d1, Suc (length ks)))")
     (auto dest: map_of_val_size)

definition differencesWithPropertyListEncodable ::
  "diff_foundation \<Rightarrow> val \<Rightarrow> val \<Rightarrow> string \<Rightarrow> string list \<Rightarrow> exn + string" where
  "differencesWithPropertyListEncodable F self otherPlist identifier excludedKeys =
     diffWithObject F excludedKeys identifier self otherPlist"

record diff_methods =
  ns_differencesWithPropertyListEncodable :: "val \<Rightarrow> val \<Rightarrow> string \<Rightarrow> string list \<Rightarrow> exn + string"

definition featherDiffMethods :: "diff_foundation \<Rightarrow> diff_methods" where
  "featherDiffMethods F = \<lparr>ns_differencesWithPropertyListEncodable = differencesWithPropertyListEncodable F\<rparr>"


section \<open>Method lookup\<close>

lemma class_getInstanceMethod_chain:
  "class_getInstanceMethod t d sel =
     (case filter (\<lambda>x. instanceMethods t x sel \<noteq> None) (superclassChain d) of
        [] \<Rightarrow> None | x # _ \<Rightarrow> instanceMethods t x sel)"
proof (induction d)
  case (Cls n s ps prs)
  show ?case
  proof (cases "instanceMethods t (Cls n s ps prs) sel")
    case None
    then show ?thesis using Cls by (cases s) auto
  qed auto
qed

text \<open>The classes below \<open>c\<close> on the way from \<open>d\<close> to it.\<close>

definition overridden :: "'imp method_tables \<Rightarrow> cls \<Rightarrow> cls \<Rightarrow> string \<Rightarrow> bool" where
  "overridden t c d sel \<longleftrightarrow>
     list_ex (\<lambda>x. instanceMethods t x sel \<noteq> None) (takeWhile (\<lambda>x. x \<noteq> c) (superclassChain d))"

lemma setInstanceMethod_lookup:
  "class_getInstanceMethod (setInstanceMethod c sel imp t) d sel' =
     (if sel' = sel \<and> isSubclassOfClass d c \<and> \<not> overridden t c d sel then Some imp
      else class_getInstanceMethod t d sel')"
proof (induction d)
  case (Cls n s ps prs)
  show ?case
  proof (cases "Cls n s ps prs = c")
    case True
    then show ?thesis
      by (auto simp: setInstanceMethod_def isSubclassOfClass_def overridden_def split: option.splits)
         (use Cls in \<open>force simp: setInstanceMethod_def split: option.splits\<close>)+
  next
    case False
    then have "instanceMethods (setInstanceMethod c sel imp t) (Cls n s ps prs) = instanceMethods t (Cls n s ps prs)"
      by (auto simp: setInstanceMethod_def)
    then show ?thesis
      using False Cls
      by (auto simp: isSubclassOfClass_def overridden_def split: option.splits)
  qed
qed

lemma replaceMethodImplementation_eq:
  "replaceMethodImplementation self (Some i) sel f t = Inr (setInstanceMethod self sel (f i) t)"
  by (cases "instanceMethods t self sel")
     (simp_all add: replaceMethodImplementation_def MPAssertNotNil_def class_addMethod_def class_replaceMethod_def Let_def)

lemma setInstanceMethod_classMethods [simp]: "classMethods (setInstanceMethod c sel imp t) = classMethods t"
  by (simp add: setInstanceMethod_def)

lemma setInstanceMethod_classLookup:
  "class_getSuperclass c \<noteq> None \<Longrightarrow>
   class_getClassMethod (setInstanceMethod c sel imp t) d sel' = class_getClassMethod t d sel'"
proof (induction d)
  case (Cls n s ps prs)
  have "instanceMethods (setInstanceMethod c sel imp t) (Cls n s ps prs) = instanceMethods t (Cls n s ps prs)"
    if "s = None" using Cls.prems that by (auto simp: setInstanceMethod_def)
  then show ?case using Cls by (cases s) (auto split: option.splits)
qed

text \<open>C29: Replacing an instance method gives the class the implementation that the provider
  makes from the one in force before, inherited or not.  Every subclass that has no
  implementation of its own in between sees the replacement; superclasses, other classes, other
  selectors and class methods keep theirs.\<close>

theorem replaceInstanceMethod_effect:
  assumes "class_getInstanceMethod t c sel = Some imp"
  shows "\<exists>t'. replaceInstanceMethod_implementationProvider (methodReplacement b) c sel swizzler t = Inr t' \<and>
    (\<forall>d s. class_getInstanceMethod t' d s =
       (if s = sel \<and> isSubclassOfClass d c \<and> \<not> overridden t c d sel then Some (swizzler imp)
        else class_getInstanceMethod t d s)) \<and>
    classMethods t' = classMethods t"
  by (rule exI [of _ "setInstanceMethod c sel (swizzler imp) t"])
     (simp add: methodReplacement_def replaceInstanceMethodWithSelector_def assms replaceMethodImplementation_eq
        setInstanceMethod_lookup)

theorem replaceInstanceMethod_effect_witness:
  "\<exists>t'. replaceInstanceMethod_implementationProvider (methodReplacement id) (Cls ''B'' (Some (Cls ''A'' None [] [])) [] [])
      ''run'' (\<lambda>n. n + 1) \<lparr>instanceMethods = (\<lambda>c. if class_name c = ''A'' then [''run'' \<mapsto> 7] else Map.empty),
        classMethods = (\<lambda>c. Map.empty)\<rparr> = Inr t' \<and>
    class_getInstanceMethod t' (Cls ''A'' None [] []) ''run'' = Some (7 :: nat)"
proof -
  let ?A = "Cls ''A'' None [] []"
  let ?t = "\<lparr>instanceMethods = (\<lambda>c. if class_name c = ''A'' then [''run'' \<mapsto> 7 :: nat] else Map.empty),
    classMethods = (\<lambda>c. Map.empty)\<rparr>"
  let ?B = "Cls ''B'' (Some ?A) [] []"
  have "class_getInstanceMethod ?t ?B ''run'' = Some 7" by simp
  from replaceInstanceMethod_effect [OF this, of id "\<lambda>n. n + 1"]
  obtain t' where t': "replaceInstanceMethod_implementationProvider (methodReplacement id) ?B ''run'' (\<lambda>n. n + 1) ?t = Inr t'"
    and lookup: "class_getInstanceMethod t' ?A ''run'' =
      (if ''run'' = ''run'' \<and> isSubclassOfClass ?A ?B \<and> \<not> overridden ?t ?B ?A ''run'' then Some (7 + 1)
       else class_getInstanceMethod ?t ?A ''run'')"
    by blast
  have "class_getInstanceMethod t' ?A ''run'' = Some 7" unfolding lookup by (simp add: isSubclassOfClass_def)
  then show ?thesis using t' by blast
qed

text \<open>C30: Replacing a class method does not replace it: for a class with a superclass the class
  method stays the old implementation, and the new one becomes an instance method of the same
  name.\<close>

theorem replaceClassMethod_ineffective:
  assumes "class_getClassMethod t c sel = Some imp" and "class_getSuperclass c \<noteq> None"
  shows "\<exists>t'. replaceClassMethod_implementationProvider (methodReplacement b) c sel swizzler t = Inr t' \<and>
    class_getClassMethod t' = class_getClassMethod t \<and>
    class_getInstanceMethod t' c sel = Some (swizzler imp)"
proof -
  have "isSubclassOfClass c c" by (cases c) (simp add: isSubclassOfClass_def)
  moreover have "\<not> overridden t c c sel" by (cases c) (simp add: overridden_def)
  ultimately show ?thesis
    using assms(2)
    by (intro exI [of _ "setInstanceMethod c sel (swizzler imp) t"])
       (auto simp: methodReplacement_def replaceClassMethodWithSelector_def assms(1) replaceMethodImplementation_eq
          setInstanceMethod_lookup setInstanceMethod_classLookup fun_eq_iff)
qed

theorem replaceClassMethod_ineffective_witness:
  "\<exists>t'. replaceClassMethod_implementationProvider (methodReplacement id) (Cls ''B'' (Some (Cls ''A'' None [] [])) [] [])
      ''make'' (\<lambda>n. n + 1) \<lparr>instanceMethods = (\<lambda>c. Map.empty), classMethods = (\<lambda>c. [''make'' \<mapsto> 7])\<rparr> = Inr t' \<and>
    class_getClassMethod t' (Cls ''B'' (Some (Cls ''A'' None [] [])) [] []) ''make'' = Some (7 :: nat)"
proof -
  let ?B = "Cls ''B'' (Some (Cls ''A'' None [] [])) [] []"
  let ?t = "\<lparr>instanceMethods = (\<lambda>c. Map.empty), classMethods = (\<lambda>c. [''make'' \<mapsto> 7 :: nat])\<rparr>"
  have old: "class_getClassMethod ?t ?B ''make'' = Some 7" by simp
  have "class_getSuperclass ?B \<noteq> None" by simp
  from replaceClassMethod_ineffective [OF old this, of id "\<lambda>n. n + 1"] show ?thesis using old by metis
qed


section \<open>Turns of the run loop\<close>

lemma spinUntil_Some:
  assumes "finished (n + k)" and "\<And>j. j < k \<Longrightarrow> \<not> finished (n + j)"
  shows "spinUntil finished n = Some (n + k)"
  using assms
proof (induction k arbitrary: n)
  case 0
  then show ?case by (subst spinUntil.simps) simp
next
  case (Suc k)
  have "spinUntil finished (Suc n) = Some (Suc n + k)"
  proof (rule Suc.IH)
    show "finished (Suc n + k)" using Suc.prems(1) by simp
    show "\<not> finished (Suc n + j)" if "j < k" for j using Suc.prems(2) [of "Suc j"] that by simp
  qed
  then show ?case using Suc.prems(2) [of 0] by (subst spinUntil.simps) simp
qed

lemma spinUntil_finished: "spinUntil finished n = Some m \<Longrightarrow> finished m"
  by (rule spinUntil.raw_induct [where P = "\<lambda>finished n m. finished m", rotated]) (auto split: if_splits)

lemma spinUntil_first: "finished m \<Longrightarrow> spinUntil finished 0 = Some (LEAST n. finished n)"
  using spinUntil_Some [of finished 0 "LEAST n. finished n"] not_less_Least [of _ finished]
  by (metis LeastI add_0)



section \<open>Differences and agreement\<close>

fun isContainer :: "val \<Rightarrow> bool" where
  "isContainer (VArray xs) = True"
| "isContainer (VDict d) = True"
| "isContainer v = False"

text \<open>Two property lists agree up to excluded keys, at every level.\<close>

inductive agree :: "string list \<Rightarrow> val \<Rightarrow> val \<Rightarrow> bool" for excluded where
  leaf: "\<not> isContainer v \<Longrightarrow> agree excluded v v"
| array: "list_all2 (agree excluded) xs ys \<Longrightarrow> agree excluded (VArray xs) (VArray ys)"
| dict: "fst ` set d - set excluded = fst ` set d' - set excluded \<Longrightarrow>
    (\<And>k v v'. k \<notin> set excluded \<Longrightarrow> map_of d k = Some v \<Longrightarrow> map_of d' k = Some v' \<Longrightarrow> agree excluded v v') \<Longrightarrow>
    agree excluded (VDict d) (VDict d')"
  monos list.rel_mono_strong

inductive_simps agree_array: "agree excluded (VArray xs) (VArray ys)"
inductive_simps agree_dict: "agree excluded (VDict d) (VDict d')"
inductive_cases agreeE: "agree excluded v v'"

lemma hunk_not_Nil [simp]: "hunk i body \<noteq> []"
  by (simp add: hunk_def)

lemma countDifference_not_Nil [simp]: "countDifference i m n \<noteq> []"
  by (simp add: countDifference_def)

lemma leafDifference_not_Nil [simp]: "leafDifference F i v1 v2 \<noteq> Inr []"
  by (simp add: leafDifference_def bindExn_Inr)

lemma distinctDifferences_Nil [simp]: "distinctDifferences F sign i d ks = Inr [] \<longleftrightarrow> ks = []"
  by (cases ks) (simp_all add: bindExn_Inr)

lemma keys_cases:
  assumes "\<And>ks. set (enumerationOrder F ks) = set ks"
  shows "enumerationOrder F (keysOnlyIn ex d d') = [] \<longleftrightarrow> fst ` set d - set ex \<subseteq> fst ` set d'"
    and "set (enumerationOrder F (sharedKeys ex d d')) = (fst ` set d \<inter> fst ` set d') - set ex"
proof -
  have "enumerationOrder F (keysOnlyIn ex d d') = [] \<longleftrightarrow> set (keysOnlyIn ex d d') = {}"
    using assms [of "keysOnlyIn ex d d'"] by force
  then show "enumerationOrder F (keysOnlyIn ex d d') = [] \<longleftrightarrow> fst ` set d - set ex \<subseteq> fst ` set d'"
    by (auto simp: keysOnlyIn_def)
  show "set (enumerationOrder F (sharedKeys ex d d')) = (fst ` set d \<inter> fst ` set d') - set ex"
    by (auto simp: assms sharedKeys_def)
qed

lemma agree_leaf:
  "\<not> isContainer v1 \<or> \<not> isContainer v2 \<Longrightarrow> agree ex v1 v2 \<longleftrightarrow> v1 = v2"
  "\<not> agree ex (VArray xs) (VDict d)" "\<not> agree ex (VDict d) (VArray xs)"
  by (auto elim: agreeE intro: agree.leaf)

lemma diff_agree:
  "(\<And>ks. set (enumerationOrder F ks) = set ks) \<Longrightarrow>
     diffWithObject F excluded ident v1 v2 = Inr [] \<longleftrightarrow> agree excluded v1 v2"
  "(\<And>ks. set (enumerationOrder F ks) = set ks) \<Longrightarrow> length xs = length ys \<Longrightarrow>
     diffElements F excluded ident i xs ys = Inr [] \<longleftrightarrow> list_all2 (agree excluded) xs ys"
  "(\<And>ks. set (enumerationOrder F ks) = set ks) \<Longrightarrow>
     diffShared F excluded ident d1 d2 ks = Inr [] \<longleftrightarrow>
     (\<forall>k \<in> set ks. \<forall>v v'. map_of d1 k = Some v \<longrightarrow> map_of d2 k = Some v' \<longrightarrow> agree excluded v v')"
proof (induction F excluded ident v1 v2 and F excluded ident i xs ys and F excluded ident d1 d2 ks
    rule: diffWithObject_diffElements_diffShared.induct)
  case (1 F excluded ident v1 v2)
  show ?case
  proof (cases "isContainer v1 \<and> isContainer v2")
    case False
    then have "diffWithObject F excluded ident v1 v2 = (if v1 = v2 then Inr [] else leafDifference F ident v1 v2)"
      by (subst diffWithObject.simps) (auto split: val.splits)
    then show ?thesis using False by (simp add: agree_leaf)
  next
    case True
    then consider xs ys where "v1 = VArray xs" "v2 = VArray ys" | d d' where "v1 = VDict d" "v2 = VDict d'"
      | xs d where "v1 = VArray xs" "v2 = VDict d" | xs d where "v1 = VDict d" "v2 = VArray xs"
      by (cases v1; cases v2) auto
    then show ?thesis
    proof cases
      case 1
      then show ?thesis
        using 1 "1.IH"(1) "1.prems" by (auto simp: agree_array list_all2_lengthD)
    next
      case 2
      then show ?thesis
        using 2 "1.IH"(2) "1.prems" keys_cases [of F, OF "1.prems"]
        by (auto simp: bindExn_Inr agree_dict)
           (metis DiffI IntI domI dom_map_of_conv_image_fst)
    qed (simp_all add: agree_leaf)
  qed
next
  case (2 F excluded ident i x xs y ys)
  then show ?case by (auto simp: bindExn_Inr)
next
  case (6 F excluded ident d1 d2 k ks)
  then show ?case by (auto simp: bindExn_Inr split: option.splits)
qed auto

text \<open>C28: The textual difference of two property lists is empty exactly when they agree up to
  the excluded keys: the same leaves, arrays of the same length that agree element by element,
  and dictionaries with the same keys whose values agree.  This holds for every order in which
  the keys are enumerated.\<close>

theorem differences_empty_iff_agree:
  assumes "\<And>ks. set (enumerationOrder F ks) = set ks"
  shows "ns_differencesWithPropertyListEncodable (featherDiffMethods F) v1 v2 ident excluded = Inr [] \<longleftrightarrow> agree excluded v1 v2"
  using diff_agree(1) [OF assms] by (simp add: featherDiffMethods_def differencesWithPropertyListEncodable_def)

theorem differences_empty_iff_agree_witness:
  "ns_differencesWithPropertyListEncodable
     (featherDiffMethods \<lparr>descriptionOf = (\<lambda>v. []), classNameOf = (\<lambda>v. []), enumerationOrder = rev\<rparr>)
     (VDict [(''a'', VNumber 1), (''b'', VNull)]) (VDict [(''b'', VNumber 2), (''a'', VNumber 1)]) ''x'' [''b''] = Inr []"
proof -
  have "agree [''b''] (VDict [(''a'', VNumber 1), (''b'', VNull)]) (VDict [(''b'', VNumber 2), (''a'', VNumber 1)])"
    by (rule agree.dict) (auto intro: agree.leaf split: if_splits)
  then show ?thesis by (subst differences_empty_iff_agree) simp_all
qed

end
