(* ===== verification/ObjectCategory.thy ===== *)
theory ObjectCategory
  imports ObjectExt
begin

text \<open>
  The category on \<open>NSObject\<close> as its header declares it: class queries, dynamic message sends and
  key-value matching.  The method table is built from the operations of the other theories; the
  two functions of the \<open>MYUtilities\<close> package that read the type encoding of a property are
  parameters.
\<close>


section \<open>Operations\<close>

definition MPNilToNSNull :: "val option \<Rightarrow> val option" where
  "MPNilToNSNull obj = MPNilToObject obj (Some VNull)"

text \<open>Sending a message looks the implementation up along the superclass chain of the receiver's class.\<close>

definition performSelector :: "('o \<Rightarrow> cls) \<Rightarrow> ('o \<Rightarrow> 'o option \<Rightarrow> 'o) method_tables \<Rightarrow> 'o \<Rightarrow> string \<Rightarrow> 'o option \<Rightarrow> exn + 'o" where
  "performSelector classOf t self selector argument =
     (case class_getInstanceMethod t (classOf self) selector of
        None \<Rightarrow> throw (NSInvalidArgumentException ''unrecognized selector'')
      | Some imp \<Rightarrow> Inr (imp self argument))"

definition performNonLeakingSelector ::
  "('o \<Rightarrow> cls) \<Rightarrow> ('o \<Rightarrow> 'o option \<Rightarrow> 'o) method_tables \<Rightarrow> 'o \<Rightarrow> string \<Rightarrow> exn + 'o" where
  "performNonLeakingSelector classOf t self selector = performSelector classOf t self selector None"

definition performNonLeakingSelectorWithObject ::
  "('o \<Rightarrow> cls) \<Rightarrow> ('o \<Rightarrow> 'o option \<Rightarrow> 'o) method_tables \<Rightarrow> 'o \<Rightarrow> string \<Rightarrow> 'o option \<Rightarrow> exn + 'o" where
  "performNonLeakingSelectorWithObject classOf t self selector obj = performSelector classOf t self selector obj"

definition classOfProperty ::
  "(cls \<Rightarrow> string \<Rightarrow> string option) \<Rightarrow> (string \<Rightarrow> cls option) \<Rightarrow> cls \<Rightarrow> string \<Rightarrow> cls option" where
  "classOfProperty MYGetPropertyInfo MYClassFromType self propertyName =
     (case MYGetPropertyInfo self propertyName of
        None \<Rightarrow> None
      | Some propertyType \<Rightarrow> MYClassFromType propertyType)"

definition objectMatchingValueForKey :: "('o \<Rightarrow> string \<Rightarrow> 'b option) \<Rightarrow> 'o \<Rightarrow> string \<Rightarrow> bool \<times> 'b option" where
  "objectMatchingValueForKey valueForKey self key = (True, valueForKey self key)"


section \<open>The method table\<close>

record ('o, 'b) object_methods =
  ns_subclasses :: "runtime \<Rightarrow> cls \<Rightarrow> cls list \<times> runtime"
  ns_descendingClasses :: "runtime \<Rightarrow> cls \<Rightarrow> string set \<times> runtime"
  ns_propertyWithKeyIsReadWrite :: "cls \<Rightarrow> string \<Rightarrow> bool"
  ns_commonAncestorForClass :: "cls option \<Rightarrow> cls option \<Rightarrow> cls option"
  ns_propertiesOfSubclassesForClass ::
    "runtime \<Rightarrow> cls \<Rightarrow> (cls \<Rightarrow> string \<Rightarrow> bool) \<Rightarrow> (string \<rightharpoonup> string set) \<times> runtime"
  ns_propertyKeys :: "runtime \<Rightarrow> cls \<Rightarrow> string set \<times> runtime"
  ns_performNonLeakingSelector :: "('o \<Rightarrow> 'o option \<Rightarrow> 'o) method_tables \<Rightarrow> 'o \<Rightarrow> string \<Rightarrow> exn + 'o"
  ns_performNonLeakingSelector_withObject ::
    "('o \<Rightarrow> 'o option \<Rightarrow> 'o) method_tables \<Rightarrow> 'o \<Rightarrow> string \<Rightarrow> 'o option \<Rightarrow> exn + 'o"
  ns_classOfProperty :: "cls \<Rightarrow> string \<Rightarrow> cls option"
  ns_classesMatchingPattern :: "runtime \<Rightarrow> (cls \<Rightarrow> bool) \<Rightarrow> cls list"
  ns_matchingValueForKey :: "'o \<Rightarrow> string \<Rightarrow> bool \<times> 'b option"

definition featherObjectMethods ::
  "('o \<Rightarrow> cls) \<Rightarrow> ('o \<Rightarrow> string \<Rightarrow> 'b option) \<Rightarrow> (cls \<Rightarrow> string \<Rightarrow> string option) \<Rightarrow> (string \<Rightarrow> cls option) \<Rightarrow>
   ('o, 'b) object_methods" where
  "featherObjectMethods classOf valueForKey MYGetPropertyInfo MYClassFromType =
     \<lparr>ns_subclasses = subclasses,
      ns_descendingClasses = descendingClasses,
      ns_propertyWithKeyIsReadWrite = propertyWithKeyIsReadWrite,
      ns_commonAncestorForClass = commonAncestorForClass,
      ns_propertiesOfSubclassesForClass = propertiesOfSubclassesForClass,
      ns_propertyKeys = propertyKeys,
      ns_performNonLeakingSelector = performNonLeakingSelector classOf,
      ns_performNonLeakingSelector_withObject = performNonLeakingSelectorWithObject classOf,
      ns_classOfProperty = classOfProperty MYGetPropertyInfo MYClassFromType,
      ns_classesMatchingPattern = classesMatchingPattern,
      ns_matchingValueForKey = objectMatchingValueForKey valueForKey\<rparr>"


section \<open>Properties\<close>

lemma propertyKeys_correct:
  assumes "propertyKeysCache_ok (propertyKeysCache rt)"
  shows "\<exists>rt'. propertyKeys rt c = (declaredPropertyKeys c, rt') \<and> propertyKeysCache_ok (propertyKeysCache rt') \<and>
    objc_getClassList rt' = objc_getClassList rt"
proof -
  obtain keys cache where "computePropertyKeys (propertyKeysCache rt) c = (keys, cache)" by force
  with computePropertyKeys_correct [OF assms this] show ?thesis by (auto simp: propertyKeys_def)
qed

lemma propertiesLoop_correct:
  assumes "distinct (map class_name (objc_getClassList rt))" and "set cs \<subseteq> set (objc_getClassList rt)"
    and "propertyKeysCache_ok (propertyKeysCache rt)"
  shows "\<forall>c \<in> set (objc_getClassList rt). fst (propertiesLoop patternBlock (map class_name cs) rt dict) (class_name c) =
    (if c \<in> set cs then Some {k \<in> declaredPropertyKeys c. patternBlock c k} else dict (class_name c))"
  using assms
proof (induction cs arbitrary: rt dict)
  case (Cons d cs)
  obtain rt' where rt': "propertyKeys rt d = (declaredPropertyKeys d, rt')"
    and ok: "propertyKeysCache_ok (propertyKeysCache rt')" and same: "objc_getClassList rt' = objc_getClassList rt"
    using propertyKeys_correct [OF Cons.prems(3), of d] by blast
  have named: "class_name c = class_name d \<longleftrightarrow> c = d" if "c \<in> set (objc_getClassList rt)" for c
    using Cons.prems(1,2) that by (auto simp: distinct_map inj_on_def)
  have "NSClassFromString rt (class_name d) = Some d"
    using Cons.prems(1,2) by (simp add: distinct_names_NSClassFromString)
  moreover define dict' where "dict' = dict(class_name d \<mapsto> {k \<in> declaredPropertyKeys d. patternBlock d k})"
  ultimately have step: "propertiesLoop patternBlock (map class_name (d # cs)) rt dict =
      propertiesLoop patternBlock (map class_name cs) rt' dict'"
    by (simp add: rt' del: fun_upd_apply)
  have "dict' (class_name c) = (if c = d then Some {k \<in> declaredPropertyKeys d. patternBlock d k} else dict (class_name c))"
    if "c \<in> set (objc_getClassList rt)" for c
    using named [OF that] by (simp add: dict'_def)
  then show ?case
    using Cons.IH [of rt' dict'] Cons.prems unfolding step by (auto simp: ok same)
qed simp



text \<open>A message sent after its method was replaced runs the replacement made from the original
  implementation, for the class and for every subclass without an implementation of its own.\<close>

theorem performSelector_replaced:
  assumes "class_getInstanceMethod t c sel = Some imp"
    and "replaceInstanceMethod_implementationProvider (methodReplacement b) c sel swizzler t = Inr t'"
    and "isSubclassOfClass (classOf self) c" and "\<not> overridden t c (classOf self) sel"
  shows "ns_performNonLeakingSelector_withObject (featherObjectMethods classOf valueForKey info typeClass) t' self sel arg =
      Inr (swizzler imp self arg)"
  using assms
  by (auto simp: featherObjectMethods_def performNonLeakingSelectorWithObject_def performSelector_def
      methodReplacement_def replaceInstanceMethodWithSelector_def replaceMethodImplementation_eq
      setInstanceMethod_lookup)

theorem performSelector_replaced_witness:
  "ns_performNonLeakingSelector_withObject
     (featherObjectMethods (\<lambda>x :: nat. Cls ''A'' None [] []) (\<lambda>x k. None :: unit option) (\<lambda>c k. None) (\<lambda>t. None))
     (setInstanceMethod (Cls ''A'' None [] []) ''run'' (\<lambda>s a. Suc (s + 1))
        \<lparr>instanceMethods = (\<lambda>c. [''run'' \<mapsto> (\<lambda>s a. s + 1)]), classMethods = (\<lambda>c. Map.empty)\<rparr>) 4 ''run'' None = Inr 6"
proof -
  let ?t = "\<lparr>instanceMethods = (\<lambda>c. [''run'' \<mapsto> (\<lambda>(s :: nat) (a :: nat option). s + 1)]), classMethods = (\<lambda>c. Map.empty)\<rparr>"
  have "class_getInstanceMethod ?t (Cls ''A'' None [] []) ''run'' = Some (\<lambda>s a. s + 1)" by simp
  moreover from this have "replaceInstanceMethod_implementationProvider (methodReplacement id) (Cls ''A'' None [] []) ''run''
      (\<lambda>imp s a. Suc (imp s a)) ?t =
    Inr (setInstanceMethod (Cls ''A'' None [] []) ''run'' (\<lambda>s a. Suc (s + 1)) ?t)"
    by (simp add: methodReplacement_def replaceInstanceMethodWithSelector_def replaceMethodImplementation_eq)
  ultimately have "ns_performNonLeakingSelector_withObject
     (featherObjectMethods (\<lambda>x :: nat. Cls ''A'' None [] []) (\<lambda>x k. None :: unit option) (\<lambda>c k. None) (\<lambda>t. None))
     (setInstanceMethod (Cls ''A'' None [] []) ''run'' (\<lambda>s a. Suc (s + 1)) ?t) 4 ''run'' None =
    Inr (Suc (4 + 1))"
    by (rule performSelector_replaced) (simp_all add: overridden_def)
  then show ?thesis by simp
qed

end
