(* ===== verification/StringCategory.thy ===== *)
theory StringCategory
  imports StringExt Exceptions
begin

text \<open>
  The interface of the category \<open>NSString (Feather)\<close> as its header declares it: one field for each
  method and property, filled by the operations of \<open>StringExt\<close>.  What the methods take from
  Foundation (Unicode tables, XML entities, the XML parser, URLs, MacRoman) is a record of
  functions.
\<close>


section \<open>Foundation\<close>

record string_foundation =
  capitalizedString :: "string \<Rightarrow> string"
  lowercaseLetterCharacterSet :: "char \<Rightarrow> bool"
  uppercaseLetterCharacterSet :: "char \<Rightarrow> bool"
  alphanumericCharacterSet :: "char \<Rightarrow> bool"
  escapingEntities :: "string \<Rightarrow> string"
  unescapingEntities :: "string \<Rightarrow> string"
  charactersOutsideTags :: "string \<Rightarrow> string"
  hostOfURL :: "string \<Rightarrow> string option"
  macRomanCharacter :: "8 word \<Rightarrow> char"
  macRomanByte :: "char \<Rightarrow> 8 word"
  hasCharactersPtr :: "string \<Rightarrow> bool"

definition stringByEscapingXMLEntities :: "string_foundation \<Rightarrow> string \<Rightarrow> string" where
  "stringByEscapingXMLEntities F self = escapingEntities F self"

definition stringByUnescapingXMLEntities :: "string_foundation \<Rightarrow> string \<Rightarrow> string" where
  "stringByUnescapingXMLEntities F self = unescapingEntities F self"

text \<open>\<open>charactersOutsideTags\<close> is what the delegate of the XML parser collects.\<close>

definition stringByRemovingHTMLTags :: "string_foundation \<Rightarrow> string \<Rightarrow> string" where
  "stringByRemovingHTMLTags F self =
     (let string = stringByReplacingOccurrencesOfString self ''&'' ''&amp;'';
          string = ''<root>'' @ string @ ''</root>'';
          strippedString = charactersOutsideTags F string;
          strippedString = stringByReplacingOccurrencesOfString strippedString ''&amp;'' ''&'';
          strippedString = stringByReplacingOccurrencesOfString strippedString ''&lt;'' ''<''
      in stringByReplacingOccurrencesOfString strippedString ''&gt;'' ''>'')"

text \<open>
  The calls of the enumeration block.  When the characters can be read through a pointer, the
  loop stops at the first null character.
\<close>

fun enumerateFrom :: "nat \<Rightarrow> string \<Rightarrow> (char \<times> nat) list" where
  "enumerateFrom i [] = []"
| "enumerateFrom i (c # cs) = (c, i) # enumerateFrom (i + 1) cs"

definition enumerateCharacters :: "string_foundation \<Rightarrow> string \<Rightarrow> (char \<times> nat) list" where
  "enumerateCharacters F self =
     (if hasCharactersPtr F self then enumerateFrom 0 (takeWhile (\<lambda>c. c \<noteq> CHR 0x00) self)
      else enumerateFrom 0 self)"


section \<open>The interface\<close>

record string_methods =
  str_containsSubstring :: "string \<Rightarrow> string \<Rightarrow> bool"
  str_substringAfter :: "string \<Rightarrow> string \<Rightarrow> string option"
  str_substringBefore :: "string \<Rightarrow> string \<Rightarrow> string option"
  str_stringByTrimmingWhitespace :: "string \<Rightarrow> string"
  str_stringByNormalizingWhitespace :: "string \<Rightarrow> string"
  str_stringByNormalizingWhitespaceAllowLeading :: "bool \<Rightarrow> bool \<Rightarrow> string \<Rightarrow> string"
  str_substringUpToEndOfFirstOccurrenceOfString :: "string \<Rightarrow> string \<Rightarrow> string option"
  str_stringByRemovingWhitespace :: "string \<Rightarrow> string option"
  str_sentenceCasedString :: "string \<Rightarrow> string"
  str_isAllUpperCase :: "string \<Rightarrow> bool"
  str_stringByEscapingNonPrintableAndInvisibleCharacters :: "string \<Rightarrow> string"
  str_stringByUnescapingXMLEntities :: "string \<Rightarrow> string"
  str_stringByEscapingXMLEntities :: "string \<Rightarrow> string"
  str_stringByTrimmingLeadingWhitespace :: "string \<Rightarrow> string"
  str_stringByTrimmingTrailingWhitespace :: "string \<Rightarrow> string"
  str_HTMLStringCleanedFromWebKitArtefacts :: "string \<Rightarrow> string"
  str_stringByRemovingHTMLTags :: "string \<Rightarrow> string"
  str_slugString :: "string \<Rightarrow> string option"
  str_rootDomainForHostName :: "string \<Rightarrow> string option"
  str_stringByTrimmingToLength :: "nat \<Rightarrow> bool \<Rightarrow> string \<Rightarrow> string"
  str_stringWithOSType :: "32 word \<Rightarrow> string"
  str_isValidEmailAddress :: "string \<Rightarrow> bool"
  str_OSType :: "string \<Rightarrow> 32 word option"
  str_enumerateCharacters :: "string \<Rightarrow> (char \<times> nat) list"

definition featherStringMethods :: "string_foundation \<Rightarrow> string_methods" where
  "featherStringMethods F =
     \<lparr>str_containsSubstring = containsSubstring,
      str_substringAfter = substringAfter,
      str_substringBefore = substringBefore,
      str_stringByTrimmingWhitespace = stringByTrimmingWhitespace,
      str_stringByNormalizingWhitespace = stringByNormalizingWhitespace,
      str_stringByNormalizingWhitespaceAllowLeading = stringByNormalizingWhitespaceAllowLeading,
      str_substringUpToEndOfFirstOccurrenceOfString = substringUpToEndOfFirstOccurrenceOfString,
      str_stringByRemovingWhitespace = stringByRemovingWhitespace,
      str_sentenceCasedString = sentenceCasedString (capitalizedString F),
      str_isAllUpperCase = isAllUpperCase (lowercaseLetterCharacterSet F) (uppercaseLetterCharacterSet F),
      str_stringByEscapingNonPrintableAndInvisibleCharacters =
        stringByEscapingNonPrintableAndInvisibleCharacters (alphanumericCharacterSet F),
      str_stringByUnescapingXMLEntities = stringByUnescapingXMLEntities F,
      str_stringByEscapingXMLEntities = stringByEscapingXMLEntities F,
      str_stringByTrimmingLeadingWhitespace = stringByTrimmingLeadingWhitespace,
      str_stringByTrimmingTrailingWhitespace = stringByTrimmingTrailingWhitespace,
      str_HTMLStringCleanedFromWebKitArtefacts = HTMLStringCleanedFromWebKitArtefacts,
      str_stringByRemovingHTMLTags = stringByRemovingHTMLTags F,
      str_slugString = slugString,
      str_rootDomainForHostName = rootDomainForHostName (hostOfURL F),
      str_stringByTrimmingToLength = stringByTrimmingToLength,
      str_stringWithOSType = stringWithOSType (macRomanCharacter F),
      str_isValidEmailAddress = isValidEmailAddress,
      str_OSType = OSType (macRomanByte F),
      str_enumerateCharacters = enumerateCharacters F\<rparr>"

text \<open>The category on mutable strings has one method, which changes the receiver.\<close>

record mutable_string_methods =
  mstr_removeCharactersInSet :: "(char \<Rightarrow> bool) \<Rightarrow> string \<Rightarrow> string option"

definition featherMutableStringMethods :: mutable_string_methods where
  "featherMutableStringMethods = \<lparr>mstr_removeCharactersInSet = removeCharactersInSet\<rparr>"

lemma featherString_fields [simp]:
  "str_stringByNormalizingWhitespace (featherStringMethods F) = stringByNormalizingWhitespace"
  "str_stringByRemovingWhitespace (featherStringMethods F) = stringByRemovingWhitespace"
  "str_stringByTrimmingLeadingWhitespace (featherStringMethods F) = stringByTrimmingLeadingWhitespace"
  "str_stringByTrimmingTrailingWhitespace (featherStringMethods F) = stringByTrimmingTrailingWhitespace"
  "str_containsSubstring (featherStringMethods F) = containsSubstring"
  "str_substringAfter (featherStringMethods F) = substringAfter"
  "str_substringBefore (featherStringMethods F) = substringBefore"
  "str_slugString (featherStringMethods F) = slugString"
  "str_stringWithOSType (featherStringMethods F) = stringWithOSType (macRomanCharacter F)"
  "str_OSType (featherStringMethods F) = OSType (macRomanByte F)"
  "str_stringByTrimmingToLength (featherStringMethods F) = stringByTrimmingToLength"
  "mstr_removeCharactersInSet featherMutableStringMethods = removeCharactersInSet"
  by (simp_all add: featherStringMethods_def featherMutableStringMethods_def)


section \<open>What the category promises\<close>

lemma removeCharactersInSet_filter: "removeCharactersInSet cs s = Some (filter (\<lambda>c. \<not> cs c) s)"
  by (simp add: removeCharactersInSet_def removeLoop_correct)

lemma rangeOfCharacter_None:
  "rangeOfCharacterFromSet cs s 0 (length s) = None \<longleftrightarrow> list_all (\<lambda>c. \<not> cs c) s"
  using rangeOfCharacter_suffix [of cs s 0] by simp

text \<open>C32: Removing characters in place, with its nested search and deletion loops, always ends
  without a range error and leaves exactly the characters outside the set, in order; removing
  whitespace does the same for the whitespace and newline characters.\<close>

theorem removing_characters_filters:
  "mstr_removeCharactersInSet featherMutableStringMethods cs s = Some (filter (\<lambda>c. \<not> cs c) s) \<and>
   str_stringByRemovingWhitespace (featherStringMethods F) s =
     Some (filter (\<lambda>c. \<not> whitespaceAndNewlineCharacterSet c) s)"
proof -
  have "filter (\<lambda>c. \<not> whitespaceAndNewlineCharacterSet c) s = s"
    if "list_all (\<lambda>c. \<not> whitespaceAndNewlineCharacterSet c) s"
    using that by (simp add: list_all_iff)
  then show ?thesis
    by (simp add: removeCharactersInSet_filter stringByRemovingWhitespace_def stringByRemovingCharactersFromSet_def
        rangeOfCharacter_None)
qed

text \<open>C33: Normalising whitespace keeps the words of a string and their order, puts exactly one
  space between them and nothing around them, and is idempotent; trimming at one end removes
  exactly the leading whitespace, or the trailing whitespace and newlines.\<close>

theorem normalizing_whitespace:
  "words (str_stringByNormalizingWhitespace (featherStringMethods F) s) = words s \<and>
   str_stringByNormalizingWhitespace (featherStringMethods F) s = componentsJoinedByString '' '' (words s) \<and>
   str_stringByNormalizingWhitespace (featherStringMethods F)
     (str_stringByNormalizingWhitespace (featherStringMethods F) s) =
     str_stringByNormalizingWhitespace (featherStringMethods F) s \<and>
   str_stringByTrimmingLeadingWhitespace (featherStringMethods F) s = dropWhile whitespaceCharacterSet s \<and>
   str_stringByTrimmingTrailingWhitespace (featherStringMethods F) s =
     rev (dropWhile whitespaceAndNewlineCharacterSet (rev s))"
proof -
  have "words (componentsJoinedByString '' '' (words s)) = words s"
    by (rule words_joined) (rule words_wf)
  then show ?thesis
    using leadingIndex_drop [of 0 s] trailingLength_take [of "length s" s whitespaceAndNewlineCharacterSet]
    by (simp add: normalize_words stringByTrimmingLeadingWhitespace_def stringByTrimmingTrailingWhitespace_def
        stringByTrimmingTrailingCharactersInSet_def)
qed

text \<open>Searching: a string contains a nonempty substring exactly when the parts before and
  after its first occurrence exist, and these parts together with the substring are the string;
  the part before contains no occurrence.\<close>

theorem substring_parts:
  assumes "p \<noteq> []"
  shows "case (str_substringBefore (featherStringMethods F) s p, str_substringAfter (featherStringMethods F) s p) of
      (Some b, Some a) \<Rightarrow> str_containsSubstring (featherStringMethods F) s p \<and> s = b @ p @ a \<and>
        \<not> str_containsSubstring (featherStringMethods F) b p
    | (None, None) \<Rightarrow> \<not> (\<exists>u v. s = u @ p @ v)
    | _ \<Rightarrow> False"
proof (cases "rangeOfString p s")
  case None
  then show ?thesis
    using assms rangeOfString_None [of p s] by (simp add: substringBefore_def substringAfter_def)
next
  case (Some i)
  have "rangeOfString p (take i s) = None"
  proof (rule ccontr)
    assume "rangeOfString p (take i s) \<noteq> None"
    then obtain u v where uv: "take i s = u @ p @ v" using rangeOfString_None [OF assms, of "take i s"] by auto
    have "length u + length p \<le> i" using arg_cong [OF uv, of length] by simp
    then have "length u < i" using assms by (cases p) auto
    then have "\<not> hasPrefix (drop (length u) s) p" by (rule rangeOfString_first [OF Some])
    moreover have "s = u @ p @ v @ drop i s"
      by (metis append.assoc append_take_drop_id uv)
    then have "drop (length u) s = p @ v @ drop i s" by (metis append_eq_conv_conj)
    ultimately show False by (simp add: hasPrefix_iff)
  qed
  then show ?thesis
    using Some rangeOfString_split(1) [OF Some, symmetric]
    by (simp add: substringBefore_def substringAfter_def containsSubstring_def)
qed

text \<open>A Foundation with the ASCII tables and MacRoman as the identity on bytes.\<close>

definition asciiFoundation :: string_foundation where
  "asciiFoundation =
     \<lparr>capitalizedString = map uppercaseCharacter, lowercaseLetterCharacterSet = (\<lambda>c. c \<noteq> uppercaseCharacter c),
      uppercaseLetterCharacterSet = (\<lambda>c. c \<noteq> lowercaseCharacter c), alphanumericCharacterSet = isAlphanumeric,
      escapingEntities = id, unescapingEntities = id, charactersOutsideTags = id, hostOfURL = Some,
      macRomanCharacter = (\<lambda>b. char_of (unat b)), macRomanByte = (\<lambda>c. word_of_nat (of_char c)), hasCharactersPtr = (\<lambda>s. False)\<rparr>"

theorem substring_parts_witness:
  "str_substringBefore (featherStringMethods asciiFoundation) ''a::b'' ''::'' = Some ''a'' \<and>
   str_containsSubstring (featherStringMethods asciiFoundation) ''a::b'' ''::''"
proof -
  have "substringBefore ''a::b'' ''::'' = Some ''a''" "substringAfter ''a::b'' ''::'' = Some ''b''"
    by (simp_all add: substringBefore_def substringAfter_def hasPrefix_def)
  then show ?thesis using substring_parts [where p = "''::''" and F = asciiFoundation and s = "''a::b''"] by simp
qed


lemma byte_bits: "bit (a :: 8 word) (8 + n) = False" "bit a (16 + n) = False" "bit a (24 + n) = False"
  by (auto dest: bit_imp_le_length)

lemma bytes_UInt32:
  "bytesOfUInt32 (ucast a OR push_bit 8 (ucast b) OR push_bit 16 (ucast c) OR push_bit 24 (ucast d)) = [a, b, c, d]"
  (is "bytesOfUInt32 ?w = _")
proof -
  have "ucast ?w = a"
    by (rule bit_word_eqI) (simp add: bit_simps)
  moreover have "ucast (drop_bit 8 ?w) = b"
    by (rule bit_word_eqI) (simp add: bit_simps byte_bits)
  moreover have "ucast (drop_bit 16 ?w) = c"
    by (rule bit_word_eqI) (simp add: bit_simps byte_bits)
  moreover have "ucast (drop_bit 24 ?w) = d"
    by (rule bit_word_eqI) (simp add: bit_simps byte_bits)
  ultimately show ?thesis by (simp add: bytesOfUInt32_def)
qed

text \<open>C34: Four-character codes: the string of a type code leads back to the code for all 32-bit
  codes, and a string of four MacRoman characters is the string of its code.  A string shorter
  than four characters has no code.\<close>

theorem OSType_roundtrip:
  assumes "\<And>b. macRomanByte F (macRomanCharacter F b) = b"
  shows "str_OSType (featherStringMethods F) (str_stringWithOSType (featherStringMethods F) t) = Some t \<and>
    (length s = 4 \<and> list_all (\<lambda>c. macRomanCharacter F (macRomanByte F c) = c) s \<longrightarrow>
      (\<exists>t. str_OSType (featherStringMethods F) s = Some t \<and> str_stringWithOSType (featherStringMethods F) t = s)) \<and>
    (length s < 4 \<longrightarrow> str_OSType (featherStringMethods F) s = None)"
proof (intro conjI impI)
  have "map (macRomanByte F) (map (macRomanCharacter F) bs) = bs" for bs
    by (simp add: assms map_idI)
  then show "str_OSType (featherStringMethods F) (str_stringWithOSType (featherStringMethods F) t) = Some t"
    by (simp add: OSType_def stringWithOSType_def UInt32_bytes Endian32_Swap_involution)
next
  assume s: "length s = 4 \<and> list_all (\<lambda>c. macRomanCharacter F (macRomanByte F c) = c) s"
  then obtain a b c d where abcd: "s = [a, b, c, d]"
    by (auto simp: length_Suc_conv numeral_eq_Suc)
  let ?bytes = "map (macRomanByte F) s"
  obtain w where w: "UInt32OfBytes ?bytes = Some w" using abcd by simp
  then have "bytesOfUInt32 w = ?bytes" using abcd by (auto simp: bytes_UInt32)
  then have "stringWithOSType (macRomanCharacter F) (Endian32_Swap w) = s"
    using s by (simp add: stringWithOSType_def Endian32_Swap_involution list_all_iff map_idI)
  then show "\<exists>t. str_OSType (featherStringMethods F) s = Some t \<and> str_stringWithOSType (featherStringMethods F) t = s"
    using w by (auto simp: OSType_def)
next
  assume "length s < 4"
  then show "str_OSType (featherStringMethods F) s = None"
    by (auto simp: OSType_def numeral_eq_Suc less_Suc_eq length_Suc_conv)
qed

theorem OSType_roundtrip_witness:
  "str_OSType (featherStringMethods asciiFoundation) (str_stringWithOSType (featherStringMethods asciiFoundation) 0x54455854) =
     Some 0x54455854"
proof -
  have "macRomanByte asciiFoundation (macRomanCharacter asciiFoundation b) = b" for b
    using unsigned_less [of b, where 'a = nat] by (simp add: asciiFoundation_def)
  from OSType_roundtrip [OF this] show ?thesis by blast
qed

end
