(* ===== verification/Permutations.thy ===== *)
theory Permutations
  imports Collections "HOL-Library.List_Lexorder"
begin

text \<open>
  \<open>allPermutations\<close> of \<open>NSArray+MPExtensions\<close>: the indices of the array are permuted in place to
  the next permutation in lexicographic order until there is none.  The search for the position
  to change runs from the end of the index array and stops before its start only through the
  comparison with the memory in front of it, the parameter \<open>before\<close>; a second read in front of
  the array has no defined result, which is \<open>None\<close>.
\<close>


section \<open>The next permutation\<close>

text \<open>\<open>slideDown before p k\<close> is the loop over \<open>i\<close> with \<open>k = i + 1\<close>.\<close>

fun slideDown :: "int \<Rightarrow> nat list \<Rightarrow> nat \<Rightarrow> nat option" where
  "slideDown before p 0 = (if before \<ge> int (p ! 0) then None else Some 0)"
| "slideDown before p (Suc i) = (if p ! i \<ge> p ! Suc i then slideDown before p i else Some (Suc i))"

fun findBigger :: "nat list \<Rightarrow> nat \<Rightarrow> nat \<Rightarrow> nat option" where
  "findBigger p x 0 = (if p ! 0 \<le> x then None else Some 0)"
| "findBigger p x (Suc j) = (if p ! Suc j \<le> x then findBigger p x j else Some (Suc j))"

function reverseBetween :: "nat \<Rightarrow> nat \<Rightarrow> nat list \<Rightarrow> nat list" where
  "reverseBetween i j p = (if i < j then reverseBetween (i + 1) (j - 1) (exchangeObjects i j p) else p)"
  by pat_completeness auto
termination
  by (relation "measure (\<lambda>(i, j, p). j - i)") auto

declare reverseBetween.simps [simp del]

text \<open>\<open>Some None\<close> is the null pointer: there is no next permutation.\<close>

definition pc_next_permutation :: "int \<Rightarrow> nat list \<Rightarrow> nat \<Rightarrow> nat list option option" where
  "pc_next_permutation before p lastIndex =
     (case slideDown before p lastIndex of
        None \<Rightarrow> None
      | Some 0 \<Rightarrow> Some None
      | Some (Suc i) \<Rightarrow>
          (case findBigger p (p ! i) lastIndex of
             None \<Rightarrow> None
           | Some j \<Rightarrow> Some (Some (reverseBetween (i + 1) lastIndex (exchangeObjects i j p)))))"

partial_function (option) permutationLoop :: "int \<Rightarrow> 'a list \<Rightarrow> nat \<Rightarrow> nat list \<Rightarrow> 'a list list option" where
  "permutationLoop before self lastIndex perm =
     (case pc_next_permutation before perm lastIndex of
        None \<Rightarrow> None
      | Some None \<Rightarrow> Some [map (\<lambda>i. self ! (perm ! i)) [0..<lastIndex + 1]]
      | Some (Some perm') \<Rightarrow>
          Option.bind (permutationLoop before self lastIndex perm') (\<lambda>perms.
            Some (map (\<lambda>i. self ! (perm ! i)) [0..<lastIndex + 1] # perms)))"

definition allPermutations :: "int \<Rightarrow> 'a list \<Rightarrow> 'a list list option" where
  "allPermutations before self =
     (if length self = 0 then Some []
      else permutationLoop before self (length self - 1) [0..<length self])"


section \<open>Lexicographic order\<close>

lemma append_less_append: "(as @ u :: nat list) < as @ v \<longleftrightarrow> u < v"
  by (induction as) auto

lemma between_prefix:
  "(as @ u :: nat list) < r \<Longrightarrow> r < as @ v \<Longrightarrow> \<exists>r'. r = as @ r' \<and> u < r' \<and> r' < v"
proof (induction as arbitrary: r)
  case (Cons a as)
  then obtain b r' where r: "r = b # r'" by (cases r) auto
  then have "a = b" "as @ u < r'" "r' < as @ v" using Cons.prems by auto
  then show ?case using Cons.IH [of r'] r by auto
qed auto

lemma ascending_least:
  "sorted (xs :: nat list) \<Longrightarrow> mset t = mset xs \<Longrightarrow> xs \<le> t"
proof (induction xs arbitrary: t)
  case (Cons x xs)
  then obtain y t' where t: "t = y # t'" by (cases t) auto
  have "y \<in> set (x # xs)" using Cons.prems(2) t by (metis list.set_intros(1) mset_eq_setD)
  then have "x \<le> y" using Cons.prems(1) by auto
  moreover have "mset t' = mset xs" if "x = y" using Cons.prems(2) t that by simp
  ultimately show ?case using Cons t by (cases "x = y") auto
qed simp

lemma descending_greatest:
  "sorted_wrt (\<ge>) (xs :: nat list) \<Longrightarrow> mset t = mset xs \<Longrightarrow> t \<le> xs"
proof (induction xs arbitrary: t)
  case (Cons x xs)
  then obtain y t' where t: "t = y # t'" by (cases t) auto
  have "y \<in> set (x # xs)" using Cons.prems(2) t by (metis list.set_intros(1) mset_eq_setD)
  then have "y \<le> x" using Cons.prems(1) by auto
  moreover have "mset t' = mset xs" if "x = y" using Cons.prems(2) t that by simp
  ultimately show ?case using Cons t by (cases "x = y") auto
qed simp

text \<open>The step of the algorithm on the list, and that nothing lies between.\<close>

lemma next_is_successor:
  fixes x y :: nat
  assumes "sorted_wrt (\<ge>) (b @ y # c)" and "x < y" and "\<forall>z \<in> set c. z \<le> x"
    and p: "p = as @ x # b @ y # c" and q: "q = as @ y # rev (b @ x # c)" and "distinct p"
  shows "mset q = mset p" and "p < q" and "\<And>r. mset r = mset p \<Longrightarrow> p < r \<Longrightarrow> q \<le> r"
proof -
  show "mset q = mset p" by (simp add: p q)
  show "p < q" using assms(2) by (simp add: p q append_less_append)
  fix r assume mr: "mset r = mset p" and "p < r"
  show "q \<le> r"
  proof (rule ccontr)
    assume "\<not> q \<le> r"
    then have "r < q" by (simp add: not_le)
    then obtain r' where r: "r = as @ r'" and lo: "x # b @ y # c < r'" and hi: "r' < y # rev (b @ x # c)"
      using between_prefix [of as "x # b @ y # c" r "y # rev (b @ x # c)"] \<open>p < r\<close> p q by auto
    have mr': "mset r' = mset (x # b @ y # c)" using mr by (simp add: r p)
    obtain z t where r': "r' = z # t" using lo by (cases r') auto
    have z: "z \<in> set (x # b @ y # c)" using mset_eq_setD [OF mr'] r' by auto
    show False
    proof (cases "z = x")
      case True
      then have "b @ y # c < t" "mset t = mset (b @ y # c)" using lo mr' r' by auto
      then show False using descending_greatest [OF assms(1)] by fastforce
    next
      case False
      then have "x < z" "z \<le> y" using lo hi r' by auto
      then have "z \<in> set b \<or> z = y" using z assms(3) by auto
      moreover have "\<forall>w \<in> set b. y \<le> w" using assms(1) by (auto simp: sorted_wrt_append)
      ultimately have "z = y" using \<open>z \<le> y\<close> by auto
      then have "t < rev (b @ x # c)" "mset t = mset (b @ x # c)" using hi mr' r' by auto
      moreover have "sorted (rev (b @ x # c))"
        using assms(1-3) by (auto simp: sorted_wrt_append sorted_wrt_rev sorted_append)
      ultimately show False using ascending_least [of "rev (b @ x # c)" t] by auto
    qed
  qed
qed


section \<open>The loops on the index array\<close>

lemma slideDown_None: "slideDown before p k = None \<Longrightarrow> before \<ge> int (p ! 0) \<and> (\<forall>m < k. p ! m \<ge> p ! Suc m)"
  by (induction k) (auto split: if_splits simp: less_Suc_eq)

lemma slideDown_0: "slideDown before p k = Some 0 \<Longrightarrow> \<forall>m < k. p ! m \<ge> p ! Suc m"
  by (induction k) (auto split: if_splits simp: less_Suc_eq)

lemma slideDown_Suc:
  "slideDown before p k = Some (Suc i) \<Longrightarrow>
   i < k \<and> p ! i < p ! Suc i \<and> (\<forall>m. i < m \<longrightarrow> m < k \<longrightarrow> p ! m \<ge> p ! Suc m)"
  by (induction k) (auto split: if_splits simp: less_Suc_eq)

lemma findBigger_found:
  "i < k \<Longrightarrow> x < p ! Suc i \<Longrightarrow>
   \<exists>j. findBigger p x k = Some j \<and> i < j \<and> j \<le> k \<and> x < p ! j \<and> (\<forall>m. j < m \<longrightarrow> m \<le> k \<longrightarrow> p ! m \<le> x)"
proof (induction k)
  case (Suc k)
  show ?case
  proof (cases "p ! Suc k \<le> x")
    case True
    then have "i < k" using Suc.prems by (cases "i = k") auto
    then obtain j where "findBigger p x k = Some j" "i < j" "j \<le> k" "x < p ! j"
      "\<forall>m. j < m \<longrightarrow> m \<le> k \<longrightarrow> p ! m \<le> x"
      using Suc.IH Suc.prems(2) by blast
    then show ?thesis using True by (auto simp: le_Suc_eq)
  qed (use Suc.prems in auto)
qed simp

lemma reverseBetween_rev:
  "v \<noteq> [] \<Longrightarrow> reverseBetween (length u) (length u + length v - 1) (u @ v @ w) = u @ rev v @ w"
proof (induction "length v" arbitrary: u v w rule: less_induct)
  case less
  show ?case
  proof (cases "length v = 1")
    case True
    then obtain a where "v = [a]" by (auto simp: length_Suc_conv)
    then show ?thesis by (subst reverseBetween.simps) simp
  next
    case False
    then obtain a v' where "v = a # v'" "v' \<noteq> []" using less.prems by (cases v) auto
    then obtain m z where v: "v = a # m @ [z]" by (cases v' rule: rev_cases) auto
    have swap: "exchangeObjects (length u) (length u + length v - 1) (u @ v @ w) = (u @ [z]) @ m @ [a] @ w"
      unfolding exchangeObjects_def v by (simp add: nth_append list_update_append)
    show ?thesis
    proof (cases "m = []")
      case True
      then show ?thesis
        using swap v by (subst reverseBetween.simps) (simp add: reverseBetween.simps)
    next
      case False
      then have "reverseBetween (length (u @ [z])) (length (u @ [z]) + length m - 1) ((u @ [z]) @ m @ [a] @ w) =
          (u @ [z]) @ rev m @ [a] @ w"
        using less.hyps [of m "u @ [z]" "[a] @ w"] v by simp
      then show ?thesis
        using swap v by (subst reverseBetween.simps) simp
    qed
  qed
qed

lemma descending_nth:
  assumes "\<forall>m < n. (p ! m :: nat) \<ge> p ! Suc m" and "length p = Suc n"
  shows "sorted_wrt (\<ge>) p"
  using assms by (auto simp: sorted_wrt_iff_nth_Suc_transp)

lemma exchange_split:
  "exchangeObjects (length as) (Suc (length as + length b)) (as @ x # b @ y # c) = as @ y # b @ x # c"
  by (simp add: exchangeObjects_def nth_append list_update_append)

text \<open>What one call does to a permutation of distinct indices.\<close>

lemma pc_next_permutation_spec:
  assumes "length p = Suc n" and "distinct p" and "before < int (Max (set p))"
  shows "case pc_next_permutation before p n of
      None \<Rightarrow> False
    | Some None \<Rightarrow> sorted_wrt (\<ge>) p
    | Some (Some q) \<Rightarrow> mset q = mset p \<and> p < q \<and> (\<forall>r. mset r = mset p \<longrightarrow> p < r \<longrightarrow> q \<le> r)"
proof (cases "slideDown before p n")
  case None
  then have *: "before \<ge> int (p ! 0)" "\<forall>m < n. p ! m \<ge> p ! Suc m" using slideDown_None by blast+
  then have "sorted_wrt (\<ge>) p" using descending_nth assms(1) by blast
  then have "\<forall>z \<in> set p. z \<le> p ! 0" using assms(1) by (cases p) auto
  moreover have "Max (set p) \<in> set p" using assms(1) by (intro Max_in) auto
  ultimately show ?thesis using * assms(3) by fastforce
next
  case (Some k)
  show ?thesis
  proof (cases k)
    case 0
    then have "sorted_wrt (\<ge>) p" using Some slideDown_0 descending_nth assms(1) by blast
    then show ?thesis using Some 0 by (simp add: pc_next_permutation_def)
  next
    case (Suc i)
    then have i: "i < n" "p ! i < p ! Suc i" "\<forall>m. i < m \<longrightarrow> m < n \<longrightarrow> p ! m \<ge> p ! Suc m"
      using slideDown_Suc Some by blast+
    obtain j where j: "findBigger p (p ! i) n = Some j" "i < j" "j \<le> n" "p ! i < p ! j"
      "\<forall>m. j < m \<longrightarrow> m \<le> n \<longrightarrow> p ! m \<le> p ! i"
      using findBigger_found [OF i(1,2)] by blast
    define as b c where "as = take i p" and "b = take (j - Suc i) (drop (Suc i) p)" and "c = drop (Suc j) p"
    have ds: "drop (Suc i) p = b @ p ! j # c"
      using j(2,3) assms(1) id_take_nth_drop [of "j - Suc i" "drop (Suc i) p"] by (simp add: b_def c_def)
    have p: "p = as @ p ! i # b @ p ! j # c"
      using id_take_nth_drop [of i p] i(1) assms(1) ds by (simp add: as_def)
    have lengths: "length as = i" "length b = j - Suc i" using i(1) j(3) assms(1) by (simp_all add: as_def b_def)
    have "exchangeObjects i j p = as @ p ! j # b @ p ! i # c"
      using exchange_split [of as b "p ! i" "p ! j" c] lengths j(2) p [symmetric] by simp
    moreover have "length as + Suc (length (b @ p ! i # c)) = Suc n"
      using arg_cong [OF p, of length] assms(1) by simp
    ultimately have q: "reverseBetween (i + 1) n (exchangeObjects i j p) = as @ p ! j # rev (b @ p ! i # c)"
      using reverseBetween_rev [of "b @ p ! i # c" "as @ [p ! j]" "[]"] lengths by simp
    have "sorted_wrt (\<ge>) (drop (Suc i) p)"
      by (rule descending_nth [of "n - Suc i"]) (use i assms(1) in auto)
    then have desc: "sorted_wrt (\<ge>) (b @ p ! j # c)" by (simp only: ds)
    have "\<forall>z \<in> set c. z \<le> p ! i"
      using j(5) assms(1) by (auto simp: c_def in_set_conv_nth)
    then show ?thesis
      using next_is_successor [OF desc j(4) _ p q assms(2)] Some Suc j(1)
      by (simp add: pc_next_permutation_def)
  qed
qed

lemma pc_next_permutation_cases:
  assumes "length p = Suc n" and "distinct p" and "before < int (Max (set p))"
  obtains (finished) "pc_next_permutation before p n = Some None" "sorted_wrt (\<ge>) p"
    | (another) q where "pc_next_permutation before p n = Some (Some q)" "mset q = mset p" "p < q"
        "\<And>r. mset r = mset p \<Longrightarrow> p < r \<Longrightarrow> q \<le> r"
proof (cases "pc_next_permutation before p n")
  case None
  then show ?thesis using pc_next_permutation_spec [OF assms] by simp
next
  case (Some result)
  show ?thesis
  proof (cases result)
    case None
    then show ?thesis using finished pc_next_permutation_spec [OF assms] Some by simp
  next
    case (Some q)
    then show ?thesis
      using another [of q] pc_next_permutation_spec [OF assms] \<open>pc_next_permutation before p n = Some result\<close> by simp
  qed
qed


section \<open>All permutations\<close>

lemma finite_permutations: "finite {r. mset r = mset p}"
proof (rule finite_subset)
  show "{r. mset r = mset p} \<subseteq> {r. set r \<subseteq> set p \<and> length r = length p}"
    by (auto dest: mset_eq_length) (metis mset_eq_setD)
  show "finite {r. set r \<subseteq> set p \<and> length r = length p}" by (simp add: finite_lists_length_eq)
qed

lemma permutationLoop_from:
  assumes "length p = Suc n" and "distinct p" and "before < int (Max (set p))"
  shows "\<exists>ps. permutationLoop before xs n p = Some (map (map ((!) xs)) ps) \<and>
    set ps = {r. mset r = mset p \<and> p \<le> r} \<and> sorted_wrt (<) ps"
  using assms
proof (induction "card {r. mset r = mset p \<and> p < r}" arbitrary: p rule: less_induct)
  case less
  have here: "map (\<lambda>i. xs ! (p ! i)) [0..<n + 1] = map ((!) xs) p"
    by (rule nth_equalityI) (use less.prems(1) in \<open>simp_all del: upt_Suc\<close>)
  consider "pc_next_permutation before p n = Some None" "sorted_wrt (\<ge>) p"
    | q where "pc_next_permutation before p n = Some (Some q)" "mset q = mset p" "p < q"
        "\<And>r. mset r = mset p \<Longrightarrow> p < r \<Longrightarrow> q \<le> r"
    by (rule pc_next_permutation_cases [OF less.prems]) blast+
  then show ?case
  proof cases
    case 1
    then have "{r. mset r = mset p \<and> p \<le> r} = {p}" using descending_greatest by (auto intro: antisym)
    then show ?thesis using 1(1) here by (intro exI [of _ "[p]"]) (simp add: permutationLoop.simps)
  next
    case 2
    have above: "{r. mset r = mset p \<and> p < r} = {r. mset r = mset q \<and> q \<le> r}"
      using 2(2,4) less_le_trans [OF 2(3)] by auto
    have "{r. mset r = mset q \<and> q < r} \<subset> {r. mset r = mset p \<and> p < r}" unfolding above by auto
    then have smaller: "card {r. mset r = mset q \<and> q < r} < card {r. mset r = mset p \<and> p < r}"
      by (intro psubset_card_mono) (auto intro: finite_subset [OF _ finite_permutations [of p]])
    have "length q = Suc n" "distinct q" "before < int (Max (set q))"
      using less.prems mset_eq_length [OF 2(2)] mset_eq_imp_distinct_iff [OF 2(2)] mset_eq_setD [OF 2(2)] by simp_all
    then obtain qs where qs: "permutationLoop before xs n q = Some (map (map ((!) xs)) qs)"
      "set qs = {r. mset r = mset q \<and> q \<le> r}" "sorted_wrt (<) qs"
      using less.hyps [OF smaller] by blast
    have "set (p # qs) = insert p {r. mset r = mset p \<and> p < r}" using qs(2) above by simp
    also have "\<dots> = {r. mset r = mset p \<and> p \<le> r}" by (auto simp: le_less)
    finally have "set (p # qs) = {r. mset r = mset p \<and> p \<le> r}" .
    moreover have "sorted_wrt (<) (p # qs)" using qs(2,3) less_le_trans [OF 2(3)] by simp
    moreover have "permutationLoop before xs n p = Some (map (map ((!) xs)) (p # qs))"
      using 2(1) here qs(1) by (subst permutationLoop.simps) simp
    ultimately show ?thesis by blast
  qed
qed

text \<open>Every rearrangement of a list is a rearrangement of its indices.\<close>

lemma permutation_of_indices:
  "mset ys = mset xs \<Longrightarrow> \<exists>r. mset r = mset [0..<length xs] \<and> ys = map ((!) xs) r"
proof (induction ys arbitrary: xs)
  case (Cons y ys)
  have "y \<in> set xs" using Cons.prems by (metis list.set_intros(1) mset_eq_setD)
  then obtain u v where xs: "xs = u @ y # v" by (auto simp: in_set_conv_decomp)
  then have "mset ys = mset (u @ v)" using Cons.prems by simp
  then obtain r where r: "mset r = mset [0..<length (u @ v)]" "ys = map ((!) (u @ v)) r" using Cons.IH by blast
  define f where "f i = (if i < length u then i else Suc i)" for i
  have "map f [0..<length u] = [0..<length u]" by (rule map_idI) (simp add: f_def)
  moreover have "map f [length u..<length u + length v] = map Suc [length u..<length u + length v]"
    by (rule map_cong) (simp_all add: f_def)
  ultimately have "map f [0..<length (u @ v)] = [0..<length u] @ [Suc (length u)..<length xs]"
    using upt_add_eq_append [of 0 "length u" "length v"] by (simp add: xs map_Suc_upt del: upt_Suc)
  moreover have "mset (map f r) = mset (map f [0..<length (u @ v)])" by (simp only: mset_map r(1))
  ultimately have "mset (map f r) = mset ([0..<length u] @ [Suc (length u)..<length xs])" by simp
  moreover have "[0..<length xs] = [0..<length u] @ length u # [Suc (length u)..<length xs]"
    using upt_add_eq_append [of 0 "length u" "Suc (length v)"] upt_conv_Cons [of "length u" "length u + Suc (length v)"]
    by (simp add: xs del: upt_Suc)
  ultimately have indices: "mset (length u # map f r) = mset [0..<length xs]" by simp
  have "y # ys = map ((!) xs) (length u # map f r)"
    by (simp add: r(2) xs f_def nth_append Suc_diff_le)
  with indices show ?case by (intro exI conjI)
qed simp



end
