(* ===== verification/CollectionCategory.thy ===== *)
theory CollectionCategory
  imports Permutations
begin

text \<open>
  The interfaces of the categories on arrays, mutable arrays, sets, index sets and dictionaries as
  their headers declare them, filled by the operations of \<open>Collections\<close> and \<open>Permutations\<close>, and
  what the documented methods promise.
\<close>


section \<open>Remaining operations\<close>

text \<open>A deep copy copies the containers and shares the other objects.\<close>

fun mutableDeepContainerCopy :: "val \<Rightarrow> val" where
  "mutableDeepContainerCopy (VArray xs) = VArray (map mutableDeepContainerCopy xs)"
| "mutableDeepContainerCopy (VDict d) = VDict (map (\<lambda>(k, v). (k, mutableDeepContainerCopy v)) d)"
| "mutableDeepContainerCopy v = v"

definition arrayDeepContainerCopy :: "val list \<Rightarrow> val list" where
  "arrayDeepContainerCopy self = map mutableDeepContainerCopy self"

definition dictionaryDeepContainerCopy :: "dict \<Rightarrow> dict" where
  "dictionaryDeepContainerCopy self = map (\<lambda>(k, v). (k, mutableDeepContainerCopy v)) self"

definition setDeepContainerCopy :: "val set \<Rightarrow> val set" where
  "setDeepContainerCopy self = mutableDeepContainerCopy ` self"

definition allObjectSubclasses :: "cls list \<Rightarrow> cls set" where
  "allObjectSubclasses self = set self"

text \<open>The block of the set map must not return nil.\<close>

definition setMapObjects :: "('a \<Rightarrow> 'b option) \<Rightarrow> 'a set \<Rightarrow> exn + 'b set" where
  "setMapObjects block self =
     (if \<exists>x \<in> self. block x = None then throw (NSInvalidArgumentException ''object cannot be nil'')
      else Inr ((\<lambda>x. the (block x)) ` self))"

definition MPMutableDictionaryFromTwoDictionaries :: "dict option \<Rightarrow> dict option \<Rightarrow> dict" where
  "MPMutableDictionaryFromTwoDictionaries d1 d2 = MPDictionaryFromTwoDictionaries d1 d2"

datatype MPArrayExtensionErrorCode = MPArrayExtensionErrorCodeUnexpectedArrayData

datatype MPDictionaryExtensionErrorCode = MPDictionaryExtensionErrorCodeUnexpectedDictionaryData

fun arrayErrorCode :: "MPArrayExtensionErrorCode \<Rightarrow> nat" where
  "arrayErrorCode MPArrayExtensionErrorCodeUnexpectedArrayData = 1"

fun dictionaryExtensionErrorCode :: "MPDictionaryExtensionErrorCode \<Rightarrow> nat" where
  "dictionaryExtensionErrorCode MPDictionaryExtensionErrorCodeUnexpectedDictionaryData = 1"


section \<open>Arrays\<close>

record ('a, 'b) array_methods =
  arr_reversedArray :: "'a list \<Rightarrow> 'a list"
  arr_arrayByRandomizingOrder :: "(nat \<Rightarrow> nat) \<Rightarrow> 'a list \<Rightarrow> 'a list"
  arr_mapObjectsUsingBlock :: "('a \<Rightarrow> nat \<Rightarrow> 'b option) \<Rightarrow> 'a list \<Rightarrow> exn + 'b list"
  arr_nilFilteredMapUsingBlock :: "('a \<Rightarrow> nat \<Rightarrow> 'b option) \<Rightarrow> 'a list \<Rightarrow> 'b list"
  arr_firstObjectMatching :: "('a \<Rightarrow> bool) \<Rightarrow> 'a list \<Rightarrow> 'a option"
  arr_firstObjectMatching_index :: "('a \<Rightarrow> bool) \<Rightarrow> 'a list \<Rightarrow> ('a \<times> nat) option"
  arr_filteredArrayMatching :: "('a \<Rightarrow> bool) \<Rightarrow> 'a list \<Rightarrow> 'a list"
  arr_arrayByRemovingObject :: "'a \<Rightarrow> 'a list \<Rightarrow> 'a list"
  arr_arrayByRemovingLastObject :: "'a list \<Rightarrow> 'a list"
  arr_subarrayUpToIncludingIndex :: "nat \<Rightarrow> 'a list \<Rightarrow> 'a list"
  arr_subarrayFromIndex :: "nat \<Rightarrow> 'a list \<Rightarrow> exn + 'a list"

definition featherArrayMethods :: "('a, 'b) array_methods" where
  "featherArrayMethods =
     \<lparr>arr_reversedArray = reversedArray,
      arr_arrayByRandomizingOrder = arrayByRandomizingOrder,
      arr_mapObjectsUsingBlock = mapObjectsUsingBlock,
      arr_nilFilteredMapUsingBlock = nilFilteredMapUsingBlock,
      arr_firstObjectMatching = (\<lambda>p self. map_option fst (firstObjectMatching p self)),
      arr_firstObjectMatching_index = firstObjectMatching,
      arr_filteredArrayMatching = filteredArrayMatching,
      arr_arrayByRemovingObject = arrayByRemovingObject,
      arr_arrayByRemovingLastObject = arrayByRemovingLastObject,
      arr_subarrayUpToIncludingIndex = subarrayUpToIncludingIndex,
      arr_subarrayFromIndex = subarrayFromIndex\<rparr>"

text \<open>The second category, on arrays of values and on the classes of the objects of an array.\<close>

record value_array_methods =
  arr_mutableDeepContainerCopy :: "val list \<Rightarrow> val list"
  arr_allObjectSubclasses :: "cls list \<Rightarrow> cls set"
  arr_allObjectsAreSubclassesOfClasses :: "cls list \<Rightarrow> cls list \<Rightarrow> exn + bool"
  arr_allObjectsAreSubclassesOf :: "cls \<Rightarrow> cls list \<Rightarrow> bool"
  arr_arrayByFlatteningArray :: "val list \<Rightarrow> exn + val list"
  arr_matchingValueForKey :: "(val \<Rightarrow> val option) \<Rightarrow> val list \<Rightarrow> bool \<times> val option option"
  arr_JSONStringRepresentation :: "val list \<Rightarrow> exn + string option"
  arr_decodeFromJSONString :: "bool \<Rightarrow> string \<Rightarrow> decoded"
  arr_allPermutations :: "int \<Rightarrow> val list \<Rightarrow> val list list option"

definition featherValueArrayMethods ::
  "(val \<Rightarrow> string option) \<Rightarrow> (string \<Rightarrow> val option) \<Rightarrow> (val \<Rightarrow> string option) \<Rightarrow> value_array_methods" where
  "featherValueArrayMethods ser de rep =
     \<lparr>arr_mutableDeepContainerCopy = arrayDeepContainerCopy,
      arr_allObjectSubclasses = allObjectSubclasses,
      arr_allObjectsAreSubclassesOfClasses = allObjectsAreSubclassesOfClasses,
      arr_allObjectsAreSubclassesOf = allObjectsAreSubclassesOf,
      arr_arrayByFlatteningArray = arrayByFlatteningArray,
      arr_matchingValueForKey = matchingValueForKey,
      arr_JSONStringRepresentation = (\<lambda>self. JSONStringRepresentation ser de rep (VArray self)),
      arr_decodeFromJSONString = decodeArrayFromJSONString de,
      arr_allPermutations = allPermutations\<rparr>"

record 'a mutable_array_methods =
  marr_popObject :: "'a list \<Rightarrow> 'a option \<times> 'a list"
  marr_pushObject :: "'a \<Rightarrow> 'a list \<Rightarrow> 'a list"
  marr_pushObjectsInArray :: "'a list option \<Rightarrow> 'a list \<Rightarrow> 'a list"
  marr_toggleValue :: "'a \<Rightarrow> 'a list \<Rightarrow> MPValueToggleResult \<times> 'a list"

definition featherMutableArrayMethods :: "'a mutable_array_methods" where
  "featherMutableArrayMethods =
     \<lparr>marr_popObject = popObject, marr_pushObject = pushObject,
      marr_pushObjectsInArray = pushObjectsInArray, marr_toggleValue = toggleValue\<rparr>"


section \<open>Sets, index sets and dictionaries\<close>

record ('a, 'b) set_methods =
  set_mutableDeepContainerCopy :: "val set \<Rightarrow> val set"
  set_mapObjectsUsingBlock :: "('a \<Rightarrow> 'b option) \<Rightarrow> 'a set \<Rightarrow> exn + 'b set"
  set_nilFilteredMapUsingBlock :: "('a \<Rightarrow> 'b option) \<Rightarrow> 'a set \<Rightarrow> 'b set"
  set_filteredSetMatching :: "('a \<Rightarrow> bool) \<Rightarrow> 'a set \<Rightarrow> 'a set"

definition featherSetMethods :: "('a, 'b) set_methods" where
  "featherSetMethods =
     \<lparr>set_mutableDeepContainerCopy = setDeepContainerCopy, set_mapObjectsUsingBlock = setMapObjects,
      set_nilFilteredMapUsingBlock = setNilFilteredMap, set_filteredSetMatching = filteredSetMatching\<rparr>"

record ('a, 'b) index_set_methods =
  iset_mapAssociatedObjects :: "nat list \<Rightarrow> 'a list \<Rightarrow> ('a \<Rightarrow> nat \<Rightarrow> 'b option) \<Rightarrow> exn + 'b list"
  iset_firstAssociatedObject :: "nat list \<Rightarrow> 'a list \<Rightarrow> ('a \<Rightarrow> bool) \<Rightarrow> exn + 'a option"
  iset_firstAssociatedObject_index :: "nat list \<Rightarrow> 'a list \<Rightarrow> ('a \<Rightarrow> bool) \<Rightarrow> exn + ('a \<times> nat) option"
  iset_filteredAssociatedObject :: "nat list \<Rightarrow> 'a list \<Rightarrow> ('a \<Rightarrow> bool) \<Rightarrow> exn + 'a list"

definition featherIndexSetMethods :: "('a, 'b) index_set_methods" where
  "featherIndexSetMethods =
     \<lparr>iset_mapAssociatedObjects = mapAssociatedObjects,
      iset_firstAssociatedObject = (\<lambda>self objects p.
        bindExn (firstAssociatedObject self objects p) (\<lambda>r. Inr (map_option fst r))),
      iset_firstAssociatedObject_index = firstAssociatedObject,
      iset_filteredAssociatedObject = filteredAssociatedObject\<rparr>"

record dictionary_methods =
  dic_mutableDeepContainerCopy :: "dict \<Rightarrow> dict"
  dic_dictionaryOfSetsWithDictionaryOfArrays :: "dict \<Rightarrow> exn + (string \<times> val set) list"
  dic_containsObject :: "val \<Rightarrow> dict \<Rightarrow> bool"
  dic_containsObjectForKey :: "string \<Rightarrow> dict \<Rightarrow> bool"
  dic_anyObjectMatching :: "(string \<Rightarrow> val \<Rightarrow> bool) \<Rightarrow> dict \<Rightarrow> val option"
  dic_dictionaryWithObjectsMatching :: "(string \<Rightarrow> val \<Rightarrow> bool) \<Rightarrow> dict \<Rightarrow> dict"
  dic_decodeFromJSONString :: "bool \<Rightarrow> string \<Rightarrow> decoded"
  dic_JSONStringRepresentation :: "dict \<Rightarrow> exn + string option"

definition featherDictionaryMethods ::
  "(val \<Rightarrow> string option) \<Rightarrow> (string \<Rightarrow> val option) \<Rightarrow> (val \<Rightarrow> string option) \<Rightarrow> dictionary_methods" where
  "featherDictionaryMethods ser de rep =
     \<lparr>dic_mutableDeepContainerCopy = dictionaryDeepContainerCopy,
      dic_dictionaryOfSetsWithDictionaryOfArrays = dictionaryOfSetsWithDictionaryOfArrays,
      dic_containsObject = containsObject,
      dic_containsObjectForKey = containsObjectForKey,
      dic_anyObjectMatching = anyObjectMatching,
      dic_dictionaryWithObjectsMatching = dictionaryWithObjectsMatching,
      dic_decodeFromJSONString = decodeDictionaryFromJSONString de,
      dic_JSONStringRepresentation = (\<lambda>self. JSONStringRepresentation ser de rep (VDict self))\<rparr>"

text \<open>The functions that merge dictionaries.\<close>

record dictionary_functions =
  dic_fromDictionaries :: "dict option list \<Rightarrow> dict"
  dic_fromTwoDictionaries :: "dict option \<Rightarrow> dict option \<Rightarrow> dict"
  dic_mutableForDictionary :: "dict option \<Rightarrow> dict"

definition featherDictionaryFunctions :: dictionary_functions where
  "featherDictionaryFunctions =
     \<lparr>dic_fromDictionaries = MPDictionaryFromDictionaries,
      dic_fromTwoDictionaries = MPDictionaryFromTwoDictionaries,
      dic_mutableForDictionary = MPMutableDictionaryForDictionary\<rparr>"

text \<open>The category for dictionaries that hold a managed object, and the mutable one.\<close>

record managed_dictionary_methods =
  dic_managedObjectType :: "dict \<Rightarrow> string option"
  dic_managedObjectDocumentID :: "dict \<Rightarrow> string option"
  dic_managedObjectRevisionID :: "dict \<Rightarrow> string option"
  dic_isManagedObjectDictionary :: "dict \<Rightarrow> MPManagedObjectDictionaryValidationErrorCode + unit"
  dic_setManagedObjectType :: "string \<Rightarrow> dict \<Rightarrow> exn + dict"

definition featherManagedDictionaryMethods :: "runtime \<Rightarrow> cls \<Rightarrow> managed_dictionary_methods" where
  "featherManagedDictionaryMethods rt managedObject =
     \<lparr>dic_managedObjectType = managedObjectType,
      dic_managedObjectDocumentID = managedObjectDocumentID,
      dic_managedObjectRevisionID = managedObjectRevisionID,
      dic_isManagedObjectDictionary = isManagedObjectDictionary rt managedObject,
      dic_setManagedObjectType = setManagedObjectType\<rparr>"


section \<open>What the categories promise\<close>

lemmas feather_collection_methods =
  featherArrayMethods_def featherValueArrayMethods_def featherMutableArrayMethods_def featherSetMethods_def
  featherIndexSetMethods_def featherDictionaryMethods_def featherDictionaryFunctions_def
  featherManagedDictionaryMethods_def

lemma deepCopy_equal: "mutableDeepContainerCopy v = v"
  by (induction v rule: mutableDeepContainerCopy.induct) (auto intro!: map_idI)

text \<open>The shuffle keeps the elements of an array with their multiplicities, and every
  rearrangement of the array is the result for some sequence of random numbers.\<close>

theorem shuffle_permutes:
  "mset (arr_arrayByRandomizingOrder featherArrayMethods arc4random xs) = mset xs \<and>
   (mset ys = mset xs \<longrightarrow> (\<exists>random. arr_arrayByRandomizingOrder featherArrayMethods random xs = ys))"
proof -
  have "\<exists>random. arrayByRandomizingOrder random xs = ys" if same: "mset ys = mset xs"
  proof -
    obtain rs where rs: "length rs = length xs" "randomizeFrom 0 rs xs = ys"
      using randomizeFrom_reaches [of 0 xs ys] same by auto
    then have "map ((!) rs) [0..<length xs] = rs" by (metis map_nth)
    then show ?thesis using rs(2) by (auto simp: arrayByRandomizingOrder_def intro: exI [of _ "(!) rs"])
  qed
  then show ?thesis
    by (simp add: feather_collection_methods arrayByRandomizingOrder_def randomizeFrom_mset)
qed

theorem shuffle_permutes_witness:
  "\<exists>random. arr_arrayByRandomizingOrder (featherArrayMethods :: (char, char) array_methods) random ''abc'' = ''cab''"
  using shuffle_permutes [of _ "''abc''" "''cab''", where 'b = char] by (auto simp: add_mset_commute)

text \<open>The mutable-array methods: popping after pushing returns the pushed object and the
  array as it was; pushing an array puts its objects in front in their order; toggling adds a
  missing object and removes a present one, says which, and toggling twice restores the set of
  objects.\<close>

theorem mutable_array_methods_correct:
  "marr_popObject featherMutableArrayMethods (marr_pushObject featherMutableArrayMethods x xs) = (Some x, xs) \<and>
   marr_pushObjectsInArray featherMutableArrayMethods (Some ys) xs = ys @ xs \<and>
   (case marr_toggleValue featherMutableArrayMethods x xs of
      (result, zs) \<Rightarrow>
        set zs = (if x \<in> set xs then set xs - {x} else insert x (set xs)) \<and>
        (result = MPValueToggleResultAdded \<longleftrightarrow> x \<notin> set xs) \<and>
        set (snd (marr_toggleValue featherMutableArrayMethods x zs)) = set xs)"
  by (auto simp: feather_collection_methods popObject_def pushObject_def pushObjectsInArray_def toggleValue_def)

text \<open>Looking up the first match, filtering and mapping agree: the first match is the first
  element of the filtered array, at the least matching index; a map whose block never returns nil
  has the length of the array and maps every element with its index.\<close>

theorem array_search_consistent:
  "(case arr_firstObjectMatching_index (featherArrayMethods :: ('a, 'b) array_methods) p xs of
      None \<Rightarrow> arr_filteredArrayMatching (featherArrayMethods :: ('a, 'b) array_methods) p xs = []
    | Some (x, i) \<Rightarrow> i < length xs \<and> x = xs ! i \<and> p x \<and> (\<forall>j < i. \<not> p (xs ! j)) \<and>
        hd (arr_filteredArrayMatching (featherArrayMethods :: ('a, 'b) array_methods) p xs) = x) \<and>
   ((\<forall>x i. f x i \<noteq> None) \<longrightarrow>
     arr_mapObjectsUsingBlock featherArrayMethods f xs =
       Inr (map (\<lambda>i. the (f (xs ! i) i)) [0..<length xs] :: 'b list))"
proof
  have first: "firstMatchingFrom n p xs = None \<longleftrightarrow> filter p xs = []"
    "firstMatchingFrom n p xs = Some (x, i) \<Longrightarrow> hd (filter p xs) = x" for n x i
    by (induction xs arbitrary: n) (auto split: if_splits)
  show "case arr_firstObjectMatching_index (featherArrayMethods :: ('a, 'b) array_methods) p xs of
      None \<Rightarrow> arr_filteredArrayMatching (featherArrayMethods :: ('a, 'b) array_methods) p xs = []
    | Some (x, i) \<Rightarrow> i < length xs \<and> x = xs ! i \<and> p x \<and> (\<forall>j < i. \<not> p (xs ! j)) \<and>
        hd (arr_filteredArrayMatching (featherArrayMethods :: ('a, 'b) array_methods) p xs) = x"
    using first [of 0] firstMatchingFrom_Some [of 0 p xs]
    by (auto simp: feather_collection_methods firstObjectMatching_def filteredArrayMatching_def split: option.splits)
  show "(\<forall>x i. f x i \<noteq> None) \<longrightarrow>
     arr_mapObjectsUsingBlock featherArrayMethods f xs =
       Inr (map (\<lambda>i. the (f (xs ! i) i)) [0..<length xs] :: 'b list)"
    using mapFrom_Inr [of 0 f xs "map (\<lambda>i. the (f (xs ! i) i)) [0..<length xs]"]
    by (auto simp: feather_collection_methods mapObjectsUsingBlock_def)
qed

theorem array_search_consistent_witness:
  "arr_mapObjectsUsingBlock featherArrayMethods (\<lambda>x i. Some (x + i)) [5, 6 :: nat] = Inr [5, 7 :: nat]"
  using array_search_consistent [of "\<lambda>x. True" "[5, 6 :: nat]" "\<lambda>x i. Some (x + i)"] by (simp add: upt_rec)

text \<open>The JSON string of an array or dictionary of JSON values is the serialisation of the
  container itself, although nested containers are serialised and parsed again on the way;
  decoding it gives the container back.\<close>

theorem JSON_string_roundtrip:
  assumes "isJSON (VArray xs)" and "list_all (roundTrips ser de) (containers (VArray xs))"
  shows "\<exists>s. arr_JSONStringRepresentation (featherValueArrayMethods ser de rep) xs = Inr (Some s) \<and>
    arr_decodeFromJSONString (featherValueArrayMethods ser de rep) e s = Decoded (VArray xs)"
proof -
  have "JSONStringRepresentation ser de rep (VArray xs) = Inr (ser (VArray xs))"
    by (rule JSON_identity(1)) (use assms in simp_all)
  moreover have "roundTrips ser de (VArray xs)" using assms(2) by simp
  ultimately show ?thesis
    by (auto simp: feather_collection_methods roundTrips_def decodeArrayFromJSONString_def split: option.splits)
qed

theorem JSON_string_roundtrip_witness:
  "\<exists>s. arr_JSONStringRepresentation
      (featherValueArrayMethods (\<lambda>v. Some ''[[]]'') (\<lambda>s. Some (VArray [])) (\<lambda>v. None)) [] = Inr (Some s) \<and>
    arr_decodeFromJSONString (featherValueArrayMethods (\<lambda>v. Some ''[[]]'') (\<lambda>s. Some (VArray [])) (\<lambda>v. None)) True s =
      Decoded (VArray [])"
  by (rule JSON_string_roundtrip) (simp_all add: roundTrips_def)

text \<open>A dictionary passes the validation as a managed object exactly when it names a loaded
  subclass of \<open>MPManagedObject\<close> and its identifier is that name, a colon and a part without
  colons.\<close>

theorem managed_dictionary_valid_iff:
  "dic_isManagedObjectDictionary (featherManagedDictionaryMethods rt managedObject) d = Inr () \<longleftrightarrow>
     (\<exists>t c u. dic_managedObjectType (featherManagedDictionaryMethods rt managedObject) d = Some t \<and>
        NSClassFromString rt t = Some c \<and> isSubclassOfClass c managedObject \<and>
        dic_managedObjectDocumentID (featherManagedDictionaryMethods rt managedObject) d = Some (t @ '':'' @ u) \<and>
        CHR '':'' \<notin> set t \<and> CHR '':'' \<notin> set u)"
  by (simp add: feather_collection_methods managedObjectType_def managedObjectDocumentID_def isManagedObjectDictionary_iff)

text \<open>Merging dictionaries: a later dictionary wins, keys of all dictionaries are present, nil
  arguments are skipped.\<close>

theorem merged_dictionaries:
  assumes "\<And>d. Some d \<in> set ds \<Longrightarrow> distinct (map fst d)"
  shows "map_of (dic_fromDictionaries featherDictionaryFunctions ds) =
    foldl (++) Map.empty (map (\<lambda>d. case d of Some e \<Rightarrow> map_of e | None \<Rightarrow> Map.empty) ds)"
  using map_of_MPDictionaryFromDictionaries [OF assms] by (simp add: feather_collection_methods)

theorem merged_dictionaries_witness:
  "map_of (dic_fromDictionaries featherDictionaryFunctions
      [Some [(''a'', VNull)], None, Some [(''a'', VNumber 1)]]) ''a'' = Some (VNumber 1)"
  by (subst merged_dictionaries) auto

end
