(* ===== verification/NotificationCategory.thy ===== *)
theory NotificationCategory
  imports Samples
begin

text \<open>
  The interface of the notification categories as the header declares it, the observer protocols
  and how a delivered notification reaches a method of an observer, and the order in which the
  notifications of a change arrive.
\<close>


section \<open>The categories on the notification center\<close>

record notification_methods =
  nc_addRecentChangeObserver :: "nat \<Rightarrow> cls \<Rightarrow> notification_center \<Rightarrow> exn + notification_center"
  nc_addRecentChangeObserver_hasAdded_hasUpdated_hasRemoved ::
    "nat \<Rightarrow> cls \<Rightarrow> notification_center \<Rightarrow> exn + notification_center"
  nc_addPastChangeObserver :: "nat \<Rightarrow> cls \<Rightarrow> notification_center \<Rightarrow> exn + notification_center"
  nc_addPastChangeObserver_didAdd_didUpdate_didRemove ::
    "(MPChangeType \<Rightarrow> bool) \<Rightarrow> nat \<Rightarrow> cls \<Rightarrow> notification_center \<Rightarrow> exn + notification_center"
  nc_notificationNameForRecentChangeOfType :: "MPChangeType \<Rightarrow> cls \<Rightarrow> exn + string"
  nc_notificationNameForPastChangeOfType :: "MPChangeType \<Rightarrow> cls \<Rightarrow> exn + string"
  nc_addObjectSelectionChangeObserver :: "nat \<Rightarrow> notification_center \<Rightarrow> notification_center"
  nc_postMasterSelectionToSingleObject :: "nat \<Rightarrow> dict option \<Rightarrow> notification_center \<Rightarrow> notification_center"
  nc_postDetailSelectionToSingleObject :: "nat \<Rightarrow> dict option \<Rightarrow> notification_center \<Rightarrow> notification_center"
  nc_postMasterSelectionToMultipleObjects :: "nat \<Rightarrow> dict option \<Rightarrow> notification_center \<Rightarrow> notification_center"
  nc_postDetailSelectionToMultipleObjects :: "nat \<Rightarrow> dict option \<Rightarrow> notification_center \<Rightarrow> notification_center"
  nc_managedObjectNotificationNameDictionary :: "exn + name_dictionary"

definition featherNotificationMethods ::
  "runtime \<Rightarrow> known_classes \<Rightarrow> name_dictionary \<Rightarrow> (nat \<Rightarrow> string \<Rightarrow> bool) \<Rightarrow> notification_methods" where
  "featherNotificationMethods rt kc d responds =
     \<lparr>nc_addRecentChangeObserver = addRecentChangeObserver kc d responds,
      nc_addRecentChangeObserver_hasAdded_hasUpdated_hasRemoved = addRecentChangeObserver kc d responds,
      nc_addPastChangeObserver = addPastChangeObserver kc d responds (\<lambda>t. False),
      nc_addPastChangeObserver_didAdd_didUpdate_didRemove = addPastChangeObserver kc d responds,
      nc_notificationNameForRecentChangeOfType = notificationNameForRecentChangeOfType kc d,
      nc_notificationNameForPastChangeOfType = notificationNameForPastChangeOfType kc d,
      nc_addObjectSelectionChangeObserver = addObjectSelectionChangeObserver,
      nc_postMasterSelectionToSingleObject = postNotificationForChangingMasterSelectionToSingleObject,
      nc_postDetailSelectionToSingleObject = postNotificationForChangingDetailSelectionToSingleObject,
      nc_postMasterSelectionToMultipleObjects = postNotificationForChangingMasterSelectionToMultipleObjects,
      nc_postDetailSelectionToMultipleObjects = postNotificationForChangingDetailSelectionToMultipleObjects,
      nc_managedObjectNotificationNameDictionary = managedObjectNotificationNameDictionary rt kc\<rparr>"

record database_notification_methods =
  nc_addObserver_forReplicationOfDatabase :: "nat \<Rightarrow> nat \<Rightarrow> notification_center \<Rightarrow> exn + notification_center"
  nc_notificationNameForReplicationEventType :: "MPReplicationEventType \<Rightarrow> exn + string"
  nc_postNotificationForSharingManagedObject :: "nat \<Rightarrow> notification_center \<Rightarrow> notification_center"
  nc_addManagedObjectSharingObserver :: "nat \<Rightarrow> notification_center \<Rightarrow> notification_center"

definition featherDatabaseNotificationMethods :: database_notification_methods where
  "featherDatabaseNotificationMethods =
     \<lparr>nc_addObserver_forReplicationOfDatabase = addReplicationObserver,
      nc_notificationNameForReplicationEventType = notificationNameForReplicationEventType,
      nc_postNotificationForSharingManagedObject = postNotificationForSharingManagedObject,
      nc_addManagedObjectSharingObserver = addManagedObjectSharingObserver\<rparr>"

text \<open>The shorthand on a notification checks that its object is a managed object.\<close>

definition managedObjectOfNotification :: "'db world \<Rightarrow> delivery \<Rightarrow> exn + nat" where
  "managedObjectOfNotification w notification =
     bindExn (assertThat (objects w (delivered_object notification) \<noteq> None) ''self.object isKindOfClass'') (\<lambda>_.
       Inr (delivered_object notification))"


section \<open>Observer protocols\<close>

text \<open>An observer with state \<open>'s\<close> implements the methods of a protocol; optional methods may be missing.\<close>

record 's replication_observer =
  didCompletePersistentPullReplication :: "delivery \<Rightarrow> 's \<Rightarrow> 's"
  didCompletePersistentPushReplication :: "delivery \<Rightarrow> 's \<Rightarrow> 's"
  didUpdateProgressOfPersistentPullReplication :: "delivery \<Rightarrow> 's \<Rightarrow> 's"
  didUpdateProgressOfPersistentPushReplication :: "delivery \<Rightarrow> 's \<Rightarrow> 's"

record 's sharing_observer =
  didShareManagedObject :: "delivery \<Rightarrow> 's \<Rightarrow> 's"

record 's selection_observer =
  didChangeMasterSelectionToSingleObject :: "(delivery \<Rightarrow> 's \<Rightarrow> 's) option"
  didChangeDetailSelectionToSingleObject :: "(delivery \<Rightarrow> 's \<Rightarrow> 's) option"
  didChangeMasterSelectionToMultipleObjects :: "(delivery \<Rightarrow> 's \<Rightarrow> 's) option"
  didChangeDetailSelectionToMultipleObjects :: "(delivery \<Rightarrow> 's \<Rightarrow> 's) option"

text \<open>The center sends the message that was registered.\<close>

definition sendNotification :: "(string \<rightharpoonup> (delivery \<Rightarrow> 's \<Rightarrow> 's)) \<Rightarrow> delivery \<Rightarrow> 's \<Rightarrow> exn + 's" where
  "sendNotification methods d s =
     (case methods (delivered_selector d) of
        None \<Rightarrow> throw (NSInvalidArgumentException ''unrecognized selector'')
      | Some m \<Rightarrow> Inr (m d s))"

fun sendAll :: "(string \<rightharpoonup> (delivery \<Rightarrow> 's \<Rightarrow> 's)) \<Rightarrow> delivery list \<Rightarrow> 's \<Rightarrow> exn + 's" where
  "sendAll methods [] s = Inr s"
| "sendAll methods (d # ds) s = bindExn (sendNotification methods d s) (\<lambda>s'. sendAll methods ds s')"

definition replicationMethods :: "'s replication_observer \<Rightarrow> string \<rightharpoonup> (delivery \<Rightarrow> 's \<Rightarrow> 's)" where
  "replicationMethods ob = map_of
     [(''didCompletePersistentPullReplication:'', didCompletePersistentPullReplication ob),
      (''didCompletePersistentPushReplication:'', didCompletePersistentPushReplication ob),
      (''didUpdateProgressOfPersistentPullReplication:'', didUpdateProgressOfPersistentPullReplication ob),
      (''didUpdateProgressOfPersistentPushReplication:'', didUpdateProgressOfPersistentPushReplication ob)]"

definition sharingMethods :: "'s sharing_observer \<Rightarrow> string \<rightharpoonup> (delivery \<Rightarrow> 's \<Rightarrow> 's)" where
  "sharingMethods ob = [''didShareManagedObject:'' \<mapsto> didShareManagedObject ob]"

definition selectionMethods :: "'s selection_observer \<Rightarrow> string \<rightharpoonup> (delivery \<Rightarrow> 's \<Rightarrow> 's)" where
  "selectionMethods ob sel =
     (if sel = ''didChangeMasterSelectionToSingleObject:'' then didChangeMasterSelectionToSingleObject ob
      else if sel = ''didChangeDetailSelectionToSingleObject:'' then didChangeDetailSelectionToSingleObject ob
      else if sel = ''didChangeMasterSelectionToMultipleObjects:'' then didChangeMasterSelectionToMultipleObjects ob
      else if sel = ''didChangeDetailSelectionToMultipleObjects:'' then didChangeDetailSelectionToMultipleObjects ob
      else None)"

definition receivedBy :: "nat \<Rightarrow> notification_center \<Rightarrow> delivery list" where
  "receivedBy ob nc = filter (\<lambda>d. delivered_to d = ob) (deliveries nc)"


section \<open>What observers receive\<close>

lemmas notification_method_defs =
  featherNotificationMethods_def featherDatabaseNotificationMethods_def addReplicationObserver_def
  addObjectSelectionChangeObserver_def addManagedObjectSharingObserver_def addObserver_def addObserverForObject_def
  postNotificationForChangingMasterSelectionToSingleObject_def
  postNotificationForChangingDetailSelectionToSingleObject_def
  postNotificationForChangingMasterSelectionToMultipleObjects_def
  postNotificationForChangingDetailSelectionToMultipleObjects_def
  postNotificationForSharingManagedObject_def postNotificationName_def sendNotification_def

lemma observes_simp [simp]:
  "observes name obj \<lparr>observer_address = a, observer_selector = sel, observed_name = n, observed_object = x\<rparr> \<longleftrightarrow>
     n = name \<and> (x = None \<or> x = Some obj)"
  by (auto simp: observes_def split: option.splits)

lemma receivedBy_post:
  "receivedBy ob (postNotification name obj source info nc) = receivedBy ob nc @
     map (\<lambda>x. \<lparr>delivered_to = observer_address x, delivered_selector = observer_selector x,
              delivered_object = obj, delivered_source = source, delivered_userInfo = info\<rparr>)
       (filter (\<lambda>x. observer_address x = ob \<and> observes name obj x) (observations nc))"
  by (simp add: receivedBy_def postNotification_def filter_map o_def conj_commute)

text \<open>A center in which an observer has not been registered and has received nothing.\<close>

definition newcomer :: "nat \<Rightarrow> notification_center \<Rightarrow> bool" where
  "newcomer ob nc \<longleftrightarrow>
     list_all (\<lambda>x. observer_address x \<noteq> ob) (observations nc) \<and> list_all (\<lambda>d. delivered_to d \<noteq> ob) (deliveries nc)"

lemma newcomer_none:
  assumes "newcomer ob nc"
  shows "receivedBy ob nc = []" and "filter (\<lambda>x. observer_address x = ob \<and> P x) (observations nc) = []"
  using assms by (auto simp: newcomer_def receivedBy_def list_all_iff filter_empty_conv)

lemma receivedBy_observations [simp]: "receivedBy ob (nc\<lparr>observations := x\<rparr>) = receivedBy ob nc"
  by (simp add: receivedBy_def)

text \<open>A selection observer receives every posted selection change exactly once, as a message
  to the method of its protocol for that kind of selection, with the selected object and the user
  information of the post.\<close>

theorem selection_reaches_observer:
  assumes "newcomer ob nc" and "didChangeMasterSelectionToSingleObject p = Some m"
    and "nc' = nc_addObjectSelectionChangeObserver (featherNotificationMethods rt kc d r) ob nc"
  shows "\<exists>x. receivedBy ob (nc_postMasterSelectionToSingleObject (featherNotificationMethods rt kc d r) obj info nc') = [x] \<and>
    delivered_object x = obj \<and> delivered_userInfo x = info \<and>
    sendAll (selectionMethods p)
      (receivedBy ob (nc_postMasterSelectionToSingleObject (featherNotificationMethods rt kc d r) obj info nc')) s = Inr (m x s)"
  using assms(2) unfolding assms(3)
  by (simp add: notification_method_defs receivedBy_post newcomer_none [OF assms(1)] selectionMethods_def)

theorem selection_reaches_observer_witness:
  "\<exists>x. receivedBy 5 (nc_postMasterSelectionToSingleObject (featherNotificationMethods sampleRuntime sampleClasses sampleNames (\<lambda>a s. True)) 10 None
      (nc_addObjectSelectionChangeObserver (featherNotificationMethods sampleRuntime sampleClasses sampleNames (\<lambda>a s. True)) 5 sampleCenter)) = [x] \<and>
    delivered_object x = 10"
proof -
  have "newcomer 5 sampleCenter" by (simp add: newcomer_def sampleCenter_def)
  moreover have "didChangeMasterSelectionToSingleObject \<lparr>didChangeMasterSelectionToSingleObject = Some (\<lambda>d s. s),
      didChangeDetailSelectionToSingleObject = None, didChangeMasterSelectionToMultipleObjects = None,
      didChangeDetailSelectionToMultipleObjects = None\<rparr> = Some (\<lambda>d (s :: unit). s)" by simp
  ultimately show ?thesis
    using selection_reaches_observer [OF _ _ refl, of 5 sampleCenter _ "\<lambda>d s. s" sampleRuntime sampleClasses sampleNames
        "\<lambda>a s. True" 10 None "()"] by metis
qed

text \<open>The completion of a push reaches a replication observer as the completion of a pull:
  the method for push replications is never called, and observers of other databases receive
  nothing.\<close>

theorem push_reported_as_pull:
  assumes "newcomer ob nc"
    and "nc_addObserver_forReplicationOfDatabase featherDatabaseNotificationMethods ob db nc = Inr nc'"
    and "nc_notificationNameForReplicationEventType featherDatabaseNotificationMethods
      MPReplicationEventTypePersistentPushComplete = Inr push"
  shows "(\<exists>x. receivedBy ob (postNotification push db None None nc') = [x] \<and>
      sendAll (replicationMethods p) [x] s = Inr (didCompletePersistentPullReplication p x s)) \<and>
    (db' \<noteq> db \<longrightarrow> receivedBy ob (postNotification push db' None None nc') = [])"
proof -
  have nc': "nc' = nc\<lparr>observations := observations nc @
      [\<lparr>observer_address = ob, observer_selector = ''didCompletePersistentPullReplication:'',
        observed_name = ''MPReplicationPersistentPullComplete'', observed_object = Some db\<rparr>,
       \<lparr>observer_address = ob, observer_selector = ''didCompletePersistentPullReplication:'',
        observed_name = ''MPReplicationPersistentPushComplete'', observed_object = Some db\<rparr>]\<rparr>"
    using assms(2) by (simp add: notification_method_defs)
  have "push = ''MPReplicationPersistentPushComplete''" using assms(3) by (simp add: notification_method_defs)
  then show ?thesis
    by (simp add: nc' receivedBy_post newcomer_none [OF assms(1)] replicationMethods_def sendNotification_def)
qed

theorem push_reported_as_pull_witness:
  "\<exists>nc'. nc_addObserver_forReplicationOfDatabase featherDatabaseNotificationMethods 5 4 sampleCenter = Inr nc' \<and>
     receivedBy 5 (postNotification ''MPReplicationPersistentPushComplete'' 7 None None nc') = []"
proof -
  obtain nc' where nc': "nc_addObserver_forReplicationOfDatabase featherDatabaseNotificationMethods 5 4 sampleCenter = Inr nc'"
    by (simp add: notification_method_defs)
  have "newcomer 5 sampleCenter" by (simp add: newcomer_def sampleCenter_def)
  moreover have "nc_notificationNameForReplicationEventType featherDatabaseNotificationMethods
      MPReplicationEventTypePersistentPushComplete = Inr ''MPReplicationPersistentPushComplete''"
    by (simp add: featherDatabaseNotificationMethods_def)
  ultimately have "receivedBy 5 (postNotification ''MPReplicationPersistentPushComplete'' 7 None None nc') = []"
    using conjunct2 [OF push_reported_as_pull [OF _ nc', of _ _ _ 7]] by simp
  then show ?thesis using nc' by blast
qed

text \<open>A change of a managed object is announced in a fixed order: the observers of recent
  changes receive it before the observers of past changes, in the order of their registration,
  with the changed object and the source of the change; no notification has both meanings, and
  the delegate counts the change once if it counts changes.\<close>

theorem change_announced_in_order:
  assumes "notifyChange kc d checks t source self a w = Inr w'"
  shows "\<exists>moc mo pkg pkg' recent past.
    controllers w self = Some moc \<and> objects w a = Some mo \<and>
    packages w (moc_package moc) = Some pkg \<and> packages w' (moc_package moc) = Some pkg' \<and>
    nc_notificationNameForRecentChangeOfType (featherNotificationMethods rt kc d r) t (mo_class mo) = Inr recent \<and>
    nc_notificationNameForPastChangeOfType (featherNotificationMethods rt kc d r) t (mo_class mo) = Inr past \<and>
    deliveries (pkg_notificationCenter pkg') = deliveries (pkg_notificationCenter pkg) @
      deliveriesTo recent a source (pkg_notificationCenter pkg) @ deliveriesTo past a source (pkg_notificationCenter pkg) \<and>
    pkg_changeCount pkg' = pkg_changeCount pkg + (if pkg_delegateCountsChanges pkg then 1 else 0)"
proof -
  obtain moc :: objects_controller and mo :: managed_object and pkg :: package_controller and recent past where f:
    "controllers w self = Some moc" "objects w a = Some mo" "mo_controller mo = Some self"
    "packages w (moc_package moc) = Some pkg"
    "notificationNameForRecentChangeOfType kc d t (mo_class mo) = Inr recent"
    "notificationNameForPastChangeOfType kc d t (mo_class mo) = Inr past"
    "w' = putPackage (moc_package moc) (updateChangeCount (pkg\<lparr>pkg_notificationCenter :=
        postNotificationName past a source (postNotificationName recent a source (pkg_notificationCenter pkg))\<rparr>)) w"
    using assms by (rule notifyChange_Inr) (rule that)
  then show ?thesis by (simp add: featherNotificationMethods_def updateChangeCount_def)
qed


theorem change_announced_in_order_witness:
  "\<exists>w' pkg'. notifyChange sampleClasses sampleNames False MPChangeTypeAdd None 2 10 sampleWorld = Inr w' \<and>
     packages w' 3 = Some pkg' \<and> pkg_changeCount pkg' = 1"
proof -
  obtain w' where w': "notifyChange sampleClasses sampleNames False MPChangeTypeAdd None 2 10 sampleWorld = Inr w'"
    by (simp add: notifyChange_def callbackContext_def postChange_def getController_def getObject_def getPackage_def
        MPAssertNotNil_def notificationNameForRecentChangeOfType_def notificationNameForPastChangeOfType_def
        lookupNames_def isManagedObjectClass_def isSubclassOfClass_def sample_defs)
  from change_announced_in_order [OF w', of sampleRuntime "\<lambda>a s. True"] w' show ?thesis
    by (auto simp: sampleObjectsController_def samplePackage_def)
qed

end
