(* ===== verification/References.thy ===== *)
theory References
  imports Repository
begin

text \<open>
  How managed objects refer to each other: properties that hold another object or an array of
  objects as identifiers, prototypes and editors, dictionaries that name an object within the
  registry of database packages, and the forms an object takes on a pasteboard.
\<close>


section \<open>The registry of packages\<close>

text \<open>\<open>fullyQualifiedIdentifier\<close> is the identifier that each package computes for itself.\<close>

record package_registry =
  fullyQualifiedIdentifier :: "nat \<Rightarrow> string"
  databasePackageControllerRegistry :: "string \<rightharpoonup> nat"

definition registerDatabasePackageController :: "nat \<Rightarrow> package_registry \<Rightarrow> exn + package_registry" where
  "registerDatabasePackageController p r =
     (let i = fullyQualifiedIdentifier r p; existing = databasePackageControllerRegistry r i
      in bindExn (assertThat (existing = None \<or> existing = Some p) ''Another package controller already registered'') (\<lambda>_.
           Inr (if existing = None
                then r\<lparr>databasePackageControllerRegistry := (databasePackageControllerRegistry r)(i \<mapsto> p)\<rparr> else r)))"

definition deregisterDatabasePackageController :: "nat \<Rightarrow> package_registry \<Rightarrow> package_registry" where
  "deregisterDatabasePackageController p r =
     r\<lparr>databasePackageControllerRegistry :=
        (databasePackageControllerRegistry r)(fullyQualifiedIdentifier r p := None)\<rparr>"

definition databasePackageControllerWithFullyQualifiedIdentifier :: "string \<Rightarrow> package_registry \<Rightarrow> nat option" where
  "databasePackageControllerWithFullyQualifiedIdentifier i r = databasePackageControllerRegistry r i"


section \<open>Objects by identifier in a package\<close>

definition controllerIn :: "'db services \<Rightarrow> nat \<Rightarrow> cls \<Rightarrow> 'db world \<Rightarrow> exn + nat option \<times> 'db world" where
  "controllerIn svc p c w =
     bindExn (getPackage p w) (\<lambda>pkg.
     bindExn (controllerForManagedObjectClass (svc_classes svc) c pkg) (\<lambda>(m, pkg').
       Inr (m, putPackage p pkg' w)))"

text \<open>A message to a controller that is nil answers nil.\<close>

definition fetchFrom ::
  "'db services \<Rightarrow> nat option \<Rightarrow> string \<Rightarrow> 'db world \<Rightarrow> (exn + nat option \<times> 'db world) option" where
  "fetchFrom svc moc i w =
     (case moc of None \<Rightarrow> Some (Inr (None, w)) | Some m \<Rightarrow> objectWithIdentifier svc m i w)"

definition packageObjectWithIdentifier ::
  "'db services \<Rightarrow> nat \<Rightarrow> string \<Rightarrow> 'db world \<Rightarrow> (exn + nat option \<times> 'db world) option" where
  "packageObjectWithIdentifier svc p i w =
     bindCall (Some (managedObjectClassOf svc i)) (\<lambda>c.
     bindCall (Some (controllerIn svc p c w)) (\<lambda>(moc, w1). fetchFrom svc moc i w1))"

text \<open>The package of the controller of an object, nil for an object without a controller.\<close>

definition packageOfObject :: "nat \<Rightarrow> 'db world \<Rightarrow> exn + nat option" where
  "packageOfObject a w =
     bindExn (getObject a w) (\<lambda>mo.
       case mo_controller mo of
         None \<Rightarrow> Inr None
       | Some m \<Rightarrow> bindExn (getController m w) (\<lambda>moc. Inr (Some (moc_package moc))))"

definition prototype :: "'db services \<Rightarrow> nat \<Rightarrow> 'db world \<Rightarrow> (exn + nat option \<times> 'db world) option" where
  "prototype svc a w =
     (case getValueOfProperty (svc_ops svc) a ''prototype'' w of
        None \<Rightarrow> Some (Inr (None, w))
      | Some v \<Rightarrow>
          bindCall (Some (packageOfObject a w)) (\<lambda>p.
            case p of
              None \<Rightarrow> Some (Inr (None, w))
            | Some p \<Rightarrow>
                (case v of
                   VString i \<Rightarrow>
                     bindCall (packageObjectWithIdentifier svc p i w) (\<lambda>(r, w1).
                     bindCall (Some (assertThat (case r of None \<Rightarrow> True | Some b \<Rightarrow>
                         (case objects w1 b of None \<Rightarrow> False
                          | Some mo \<Rightarrow> isSubclassOfClass (mo_class mo) (class_MPManagedObject (svc_classes svc))))
                         ''Unexpected prototype object'')) (\<lambda>_. Some (Inr (r, w1))))
                 | _ \<Rightarrow> Some (throw (NSInternalInconsistencyException ''documentID isKindOfClass'')))))"


section \<open>Arrays of references\<close>

fun fetchIdentifiers ::
  "'db services \<Rightarrow> nat option \<Rightarrow> val list \<Rightarrow> 'db world \<Rightarrow> (exn + nat list \<times> 'db world) option" where
  "fetchIdentifiers svc p [] w = Some (Inr ([], w))"
| "fetchIdentifiers svc p (v # rest) w =
     (case v of
        VString i \<Rightarrow>
          bindCall (Some (managedObjectClassOf svc i)) (\<lambda>c.
          bindCall (case p of None \<Rightarrow> Some (Inr (None, w)) | Some p \<Rightarrow> Some (controllerIn svc p c w)) (\<lambda>(moc, w1).
          bindCall (fetchFrom svc moc i w1) (\<lambda>(r, w2).
          bindCall (fetchIdentifiers svc p rest w2) (\<lambda>(as, w3).
            Some (Inr (case r of None \<Rightarrow> as | Some a \<Rightarrow> a # as, w3))))))
      | _ \<Rightarrow> Some (throw (NSInternalInconsistencyException ''documentID isKindOfClass'')))"

text \<open>
  The comparison of the classes of the identifiers has no effect on the result; only the class
  named by the first identifier is checked.
\<close>

definition getValueOfObjectIdentifierArrayProperty ::
  "'db services \<Rightarrow> nat \<Rightarrow> string \<Rightarrow> 'db world \<Rightarrow> (exn + nat list \<times> 'db world) option" where
  "getValueOfObjectIdentifierArrayProperty svc a k w =
     (case getValueOfProperty (svc_ops svc) a k w of
        None \<Rightarrow> Some (Inr ([], w))
      | Some (VArray []) \<Rightarrow> Some (Inr ([], w))
      | Some (VArray (VString i # rest)) \<Rightarrow>
          bindCall (Some (MPAssertNotNil (NSClassFromString (svc_runtime svc) (componentsSeparatedByString '':'' i ! 0)) ''moClass'')) (\<lambda>c.
          bindCall (Some (assertThat (isSubclassOfClass c (class_MPManagedObject (svc_classes svc))) ''moClass'')) (\<lambda>_.
          bindCall (Some (packageOfObject a w)) (\<lambda>p. fetchIdentifiers svc p (VString i # rest) w)))
      | Some v \<Rightarrow> Some (throw (NSInvalidArgumentException ''componentsSeparatedByString:'')))"

definition setObjectIdentifierSetValueForManagedObjectArray ::
  "'db services \<Rightarrow> nat \<Rightarrow> nat list \<Rightarrow> string \<Rightarrow> 'db world \<Rightarrow> exn + 'db world" where
  "setObjectIdentifierSetValueForManagedObjectArray svc a objs k w =
     setObjectIdentifierArrayValueForManagedObjectArray svc a objs k w"

definition getValueOfObjectIdentifierSetProperty ::
  "'db services \<Rightarrow> nat \<Rightarrow> string \<Rightarrow> 'db world \<Rightarrow> (exn + nat set \<times> 'db world) option" where
  "getValueOfObjectIdentifierSetProperty svc a k w =
     bindCall (getValueOfObjectIdentifierArrayProperty svc a k w) (\<lambda>(as, w1). Some (Inr (set as, w1)))"

definition setEditors :: "'db services \<Rightarrow> nat \<Rightarrow> nat list \<Rightarrow> 'db world \<Rightarrow> exn + 'db world" where
  "setEditors svc a editors w = setObjectIdentifierArrayValueForManagedObjectArray svc a editors ''editorIDs'' w"

definition editors :: "'db services \<Rightarrow> nat \<Rightarrow> 'db world \<Rightarrow> (exn + nat list \<times> 'db world) option" where
  "editors svc a w = getValueOfObjectIdentifierArrayProperty svc a ''editorIDs'' w"


section \<open>Properties that hold an object\<close>

definition databaseOf :: "nat option \<Rightarrow> 'db world \<Rightarrow> exn + nat option" where
  "databaseOf m w =
     (case m of None \<Rightarrow> Inr None | Some m \<Rightarrow> bindExn (getController m w) (\<lambda>moc. Inr (moc_database moc)))"

definition databaseForModelProperty ::
  "'db services \<Rightarrow> nat \<Rightarrow> string \<Rightarrow> 'db world \<Rightarrow> exn + nat \<times> 'db world" where
  "databaseForModelProperty svc a k w =
     bindExn (getObject a w) (\<lambda>mo.
     bindExn (MPAssertNotNil (svc_classOfProperty svc (mo_class mo) k) ''cls isSubclassOfClass'') (\<lambda>c.
     bindExn (assertThat (isSubclassOfClass c (class_MPManagedObject (svc_classes svc))) ''cls isSubclassOfClass'') (\<lambda>_.
     bindExn (packageOfObject a w) (\<lambda>p.
     bindExn (case p of None \<Rightarrow> Inr (None, w) | Some p \<Rightarrow> controllerIn svc p c w) (\<lambda>(m, w1).
     bindExn (databaseOf m w1) (\<lambda>db.
       case db of
         Some d \<Rightarrow> Inr (d, w1)
       | None \<Rightarrow>
           bindExn (case sharedShoebox w1 of None \<Rightarrow> Inr (None, w1) | Some p \<Rightarrow> controllerIn svc p c w1) (\<lambda>(m', w2).
           bindExn (databaseOf m' w2) (\<lambda>db'.
           bindExn (MPAssertNotNil db' ''db'') (\<lambda>d. Inr (d, w2))))))))))"

text \<open>
  The controller for the class of the property: for a concrete class the one in the package
  that owns the database (\<open>packageOfDatabase\<close>), otherwise the one for the class that the
  identifier names, which must be a subclass.
\<close>

definition controllerForModelProperty ::
  "(nat \<Rightarrow> nat option) \<Rightarrow> 'db services \<Rightarrow> nat \<Rightarrow> string \<Rightarrow> string \<Rightarrow> cls \<Rightarrow> 'db world \<Rightarrow>
   exn + (cls \<times> nat) \<times> 'db world" where
  "controllerForModelProperty packageOfDatabase svc a k objectID c w =
     (if isConcrete (svc_runtime svc) c
      then
        bindExn (databaseForModelProperty svc a k w) (\<lambda>(db, w1).
        bindExn (case packageOfDatabase db of None \<Rightarrow> Inr (None, w1) | Some p \<Rightarrow> controllerIn svc p c w1) (\<lambda>(m, w2).
        bindExn (MPAssertNotNil m ''moc'') (\<lambda>m.
        bindExn (getController m w2) (\<lambda>moc.
        bindExn (assertThat (isSubclassOfClass c (moc_managedObjectClass moc)) ''cls is not subclass'') (\<lambda>_.
          Inr ((c, m), w2))))))
      else
        (let components = componentsSeparatedByString '':'' objectID
         in bindExn (assertThat (length components \<ge> 2) ''Unexpected component count'') (\<lambda>_.
            bindExn (MPAssertNotNil (NSClassFromString (svc_runtime svc) (components ! 0)) ''concreteClass'') (\<lambda>concrete.
            bindExn (assertThat (isSubclassOfClass concrete c) ''Expecting a subclass'') (\<lambda>_.
            bindExn (packageOfObject a w) (\<lambda>p.
            bindExn (case p of None \<Rightarrow> Inr (None, w) | Some p \<Rightarrow> controllerIn svc p concrete w) (\<lambda>(m, w1).
            bindExn (MPAssertNotNil m ''Missing controller'') (\<lambda>m. Inr ((concrete, m), w1)))))))))"

definition getModelProperty ::
  "(nat \<Rightarrow> nat option) \<Rightarrow> 'db services \<Rightarrow> nat \<Rightarrow> string \<Rightarrow> 'db world \<Rightarrow> (exn + nat option \<times> 'db world) option" where
  "getModelProperty packageOfDatabase svc a k w =
     (case getValueOfProperty (svc_ops svc) a k w of
        None \<Rightarrow> Some (Inr (None, w))
      | Some (VString i) \<Rightarrow>
          bindCall (Some (getObject a w)) (\<lambda>mo.
          bindCall (Some (MPAssertNotNil (svc_classOfProperty svc (mo_class mo) k) ''cls'')) (\<lambda>c.
          bindCall (Some (assertThat (isSubclassOfClass c (class_MPManagedObject (svc_classes svc))) ''cls'')) (\<lambda>_.
          bindCall (Some (controllerForModelProperty packageOfDatabase svc a k i c w)) (\<lambda>((c', m), w1).
            if conformsToProtocol c' ''MPReferencableObject''
            then
              bindCall (objectWithIdentifier svc m i w1) (\<lambda>(r, w2).
                case r of
                  Some b \<Rightarrow> Some (Inr (Some b, w2))
                | None \<Rightarrow>
                    bindCall (case sharedShoebox w2 of None \<Rightarrow> Some (Inr (None, w2))
                              | Some p \<Rightarrow> Some (controllerIn svc p c' w2)) (\<lambda>(m', w3). fetchFrom svc m' i w3))
            else objectWithIdentifier svc m i w1))))
      | Some v \<Rightarrow> Some (throw (NSInvalidArgumentException ''componentsSeparatedByString:'')))"


section \<open>Dictionaries that name an object\<close>

definition referableDictionaryRepresentation ::
  "package_registry \<Rightarrow> 'db services \<Rightarrow> nat \<Rightarrow> 'db world \<Rightarrow> exn + dict option" where
  "referableDictionaryRepresentation r svc a w =
     bindExn (documentID (svc_ops svc) a w) (\<lambda>i.
       if isDeleted (svc_ops svc) a w then Inr None
       else
         bindExn (packageOfObject a w) (\<lambda>p.
         bindExn (MPAssertNotNil p ''Failed to resolve package controller'') (\<lambda>p.
         bindExn (MPAssertNotNil (databasePackageControllerWithFullyQualifiedIdentifier (fullyQualifiedIdentifier r p) r)
             ''Failed to resolve package controller'') (\<lambda>_.
         bindExn (MPAssertNotNil (objectType (svc_ops svc) a w) ''Missing objectType'') (\<lambda>_.
         bindExn (getObject a w) (\<lambda>mo.
           Inr (Some [(''_id'', VString i), (''objectType'', VString (class_name (mo_class mo))),
             (''databasePackageID'', VString (fullyQualifiedIdentifier r p))])))))))"

text \<open>In a debug build an unknown package raises, in a release build the result is nil.\<close>

definition objectWithReferableDictionaryRepresentation ::
  "bool \<Rightarrow> package_registry \<Rightarrow> 'db services \<Rightarrow> dict \<Rightarrow> 'db world \<Rightarrow> (exn + nat option \<times> 'db world) option" where
  "objectWithReferableDictionaryRepresentation debug r svc d w =
     bindCall (Some (MPAssertNotNil (case stringForKey d ''objectType'' of None \<Rightarrow> None
         | Some t \<Rightarrow> NSClassFromString (svc_runtime svc) t) ''Missing object type'')) (\<lambda>c.
       case (case stringForKey d ''databasePackageID'' of None \<Rightarrow> None
             | Some i \<Rightarrow> databasePackageControllerWithFullyQualifiedIdentifier i r) of
         None \<Rightarrow>
           if debug then Some (throw (NSInternalInconsistencyException ''Failed to find package controller''))
           else Some (Inr (None, w))
       | Some p \<Rightarrow>
           bindCall (Some (controllerIn svc p c w)) (\<lambda>(m, w1).
           bindCall (Some (MPAssertNotNil m ''moc'')) (\<lambda>m.
           bindCall (Some (MPAssertNotNil (managedObjectDocumentID d) ''objectID'')) (\<lambda>i.
           bindCall (objectWithIdentifier svc m i w1) (\<lambda>(obj, w2).
           bindCall (Some (MPAssertNotNil obj ''obj'')) (\<lambda>a. Some (Inr (Some a, w2))))))))"


section \<open>The pasteboard\<close>

text \<open>The constants have these values; two of them are equal.\<close>

definition MPPasteboardTypeManagedObjectFull :: string where
  "MPPasteboardTypeManagedObjectFull = ''com.piipari.mo.id.plist''"

definition MPPasteboardTypeManagedObjectID :: string where
  "MPPasteboardTypeManagedObjectID = ''com.piipari.mo.id.plist''"

definition MPPasteboardTypeManagedObjectIDArray :: string where
  "MPPasteboardTypeManagedObjectIDArray = ''com.piipari.mo.array.plist''"

definition pasteboardTypes :: "string list" where
  "pasteboardTypes =
     [MPPasteboardTypeManagedObjectFull, MPPasteboardTypeManagedObjectID, MPPasteboardTypeManagedObjectIDArray]"

text \<open>The property list, before serialisation, that an object offers for a type.\<close>

definition pasteboardPropertyListForType ::
  "package_registry \<Rightarrow> 'db services \<Rightarrow> nat \<Rightarrow> string \<Rightarrow> 'db world \<Rightarrow> exn + val option" where
  "pasteboardPropertyListForType r svc a type w =
     bindExn (documentID (svc_ops svc) a w) (\<lambda>_.
       if isDeleted (svc_ops svc) a w then Inr None
       else
         bindExn (assertThat (type \<in> set pasteboardTypes) ''type'') (\<lambda>_.
           if type = MPPasteboardTypeManagedObjectFull
           then
             bindExn (packageOfObject a w) (\<lambda>p.
             bindExn (MPAssertNotNil p ''databasePackageID'') (\<lambda>p.
             bindExn (MPAssertNotNil (databasePackageControllerWithFullyQualifiedIdentifier (fullyQualifiedIdentifier r p) r)
                 ''databasePackageID'') (\<lambda>_.
               Inr (Some (VDict (dictUpdate ''databasePackageID'' (VString (fullyQualifiedIdentifier r p))
                 (case propertiesToSave (svc_ops svc) a w of None \<Rightarrow> [] | Some d \<Rightarrow> d)))))))
           else if type = MPPasteboardTypeManagedObjectID
           then
             bindExn (referableDictionaryRepresentation r svc a w) (\<lambda>d. Inr (map_option VDict d))
           else
             bindExn (referableDictionaryRepresentation r svc a w) (\<lambda>d.
             bindExn (MPAssertNotNil d ''object'') (\<lambda>d. Inr (Some (VArray [VDict d]))))))"

fun pasteboardObjectIDPropertyListForObjects ::
  "package_registry \<Rightarrow> 'db services \<Rightarrow> nat list \<Rightarrow> 'db world \<Rightarrow> exn + val list" where
  "pasteboardObjectIDPropertyListForObjects r svc [] w = Inr []"
| "pasteboardObjectIDPropertyListForObjects r svc (a # as) w =
     bindExn (referableDictionaryRepresentation r svc a w) (\<lambda>d.
     bindExn (MPAssertNotNil d ''Objects do not form a valid property list'') (\<lambda>d.
     bindExn (pasteboardObjectIDPropertyListForObjects r svc as w) (\<lambda>rest. Inr (VDict d # rest))))"

definition promisedPasteboardTypes :: "string set" where
  "promisedPasteboardTypes =
     {''public.utf8-plain-text'', ''NSStringPboardType'', ''public.rtf'', ''com.apple.flat-rtfd''}"

definition initWithPasteboardPropertyList ::
  "bool \<Rightarrow> package_registry \<Rightarrow> 'db services \<Rightarrow> cls \<Rightarrow> dict \<Rightarrow> string \<Rightarrow> 'db world \<Rightarrow>
   (exn + nat option \<times> 'db world) option" where
  "initWithPasteboardPropertyList debug r svc self d type w =
     bindCall (Some (assertThat (type \<in> set pasteboardTypes) ''type'')) (\<lambda>_.
     bindCall (Some (assertThat (case managedObjectType d of None \<Rightarrow> False
         | Some t \<Rightarrow> NSClassFromString (svc_runtime svc) t = Some self) ''managedObjectType'')) (\<lambda>_.
     bindCall (objectWithReferableDictionaryRepresentation debug r svc d w) (\<lambda>(obj, w1).
       case obj of
         None \<Rightarrow> Some (Inr (None, w1))
       | Some a \<Rightarrow>
           if type = MPPasteboardTypeManagedObjectFull
           then bindCall (Some (setValuesForPropertiesWithDictionary svc a d w1)) (\<lambda>w2. Some (Inr (Some a, w2)))
           else Some (Inr (Some a, w1)))))"


section \<open>References resolve\<close>

lemma bindCall_Inr [simp]: "bindCall (Some (Inr x)) f = f x"
  by (simp add: bindCall_def)

text \<open>A package whose tables are consistent finds the controller that the class walk names.\<close>

lemma controllerIn_finds:
  assumes "packages w p = Some pkg" and "table_ok (svc_classes svc) classes pkg"
    and "lookupValid (svc_classes svc) classes c"
    and "controllerWalk (svc_classes svc) (controllerProperties pkg) c = Inr (Some (k, m))"
  obtains pkg' where "controllerIn svc p c w = Inr (Some m, putPackage p pkg' w)"
    "table_ok (svc_classes svc) classes pkg'" "controllerProperties pkg' = controllerProperties pkg"
proof -
  obtain pkg' where "lookupController (svc_classes svc) c pkg = Inr (Some m, pkg')"
    and pkg': "table_ok (svc_classes svc) classes pkg'" "controllerProperties pkg' = controllerProperties pkg"
    using lookupController_correct [OF assms(2,3)] assms(4) by auto
  then have "controllerIn svc p c w = Inr (Some m, putPackage p pkg' w)"
    using assms(1) by (simp add: controllerIn_def controllerForManagedObjectClass_def getPackage_def MPAssertNotNil_def)
  then show thesis using pkg' by (rule that)
qed

text \<open>An object that its package finds in the cache of its controller.\<close>

definition resolvable :: "'db services \<Rightarrow> cls list \<Rightarrow> nat \<Rightarrow> nat \<Rightarrow> 'db world \<Rightarrow> bool" where
  "resolvable svc classes p b w \<longleftrightarrow>
     (\<exists>i c k m moc mo pkg. packages w p = Some pkg \<and> table_ok (svc_classes svc) classes pkg \<and>
        modelDocumentID (svc_ops svc) (cbl w) b = Some i \<and> managedObjectClassOf svc i = Inr c \<and>
        lookupValid (svc_classes svc) classes c \<and>
        controllerWalk (svc_classes svc) (controllerProperties pkg) c = Inr (Some (k, m)) \<and>
        controllers w m = Some moc \<and> moc_objectCache moc i = Some b \<and> objects w b = Some mo \<and>
        mo_controller mo = Some m \<and> isSubclassOfClass c (moc_managedObjectClass moc) \<and>
        isSubclassOfClass (mo_class mo) (moc_managedObjectClass moc))"

lemma resolvable_package:
  assumes "resolvable svc classes p b w" and "packages w p = Some pkg"
    and "table_ok (svc_classes svc) classes pkg'" and "controllerProperties pkg' = controllerProperties pkg"
  shows "resolvable svc classes p b (putPackage p pkg' w)"
  using assms unfolding resolvable_def put_fields by (simp only: fun_upd_same) (metis option.inject)

lemma fetch_resolvable:
  assumes "resolvable svc classes p b w"
  obtains i c m pkg pkg' where "modelDocumentID (svc_ops svc) (cbl w) b = Some i" "managedObjectClassOf svc i = Inr c"
    "packages w p = Some pkg" "controllerIn svc p c w = Inr (Some m, putPackage p pkg' w)"
    "table_ok (svc_classes svc) classes pkg'" "controllerProperties pkg' = controllerProperties pkg"
    "objectWithIdentifier svc m i (putPackage p pkg' w) = Some (Inr (Some b, putPackage p pkg' w))"
    "lookupValid (svc_classes svc) classes c"
proof -
  from assms obtain i c k m moc mo pkg where pkg: "packages w p = Some pkg" "table_ok (svc_classes svc) classes pkg"
    and i: "modelDocumentID (svc_ops svc) (cbl w) b = Some i" "managedObjectClassOf svc i = Inr c"
    and v: "lookupValid (svc_classes svc) classes c"
      "controllerWalk (svc_classes svc) (controllerProperties pkg) c = Inr (Some (k, m))"
    and moc: "controllers w m = Some moc" "moc_objectCache moc i = Some b" "objects w b = Some mo"
      "mo_controller mo = Some m" "isSubclassOfClass c (moc_managedObjectClass moc)"
      "isSubclassOfClass (mo_class mo) (moc_managedObjectClass moc)"
    unfolding resolvable_def by blast
  obtain pkg' where pkg': "controllerIn svc p c w = Inr (Some m, putPackage p pkg' w)"
    "table_ok (svc_classes svc) classes pkg'" "controllerProperties pkg' = controllerProperties pkg"
    using controllerIn_finds [OF pkg v] by blast
  have "fetchLocally svc m i (putPackage p pkg' w) = Inr (Some (Some b, putPackage p pkg' w))"
    using fetchLocally_cached [of "putPackage p pkg' w" m moc i b svc c mo] moc i(2) by simp
  then have "objectWithIdentifier svc m i (putPackage p pkg' w) = Some (Inr (Some b, putPackage p pkg' w))"
    by (simp add: objectWithIdentifier.simps)
  with i pkg(1) pkg' v(1) show thesis using that by blast
qed

lemma fetchIdentifiers_resolvable:
  assumes "map (modelDocumentID (svc_ops svc) (cbl w)) bs = map Some ids"
    and "\<forall>b \<in> set bs. resolvable svc classes p b w"
  shows "\<exists>w'. fetchIdentifiers svc (Some p) (map VString ids) w = Some (Inr (bs, w'))"
  using assms
proof (induction bs arbitrary: ids w)
  case (Cons b bs)
  then obtain i' ids' where ids: "ids = i' # ids'" by (cases ids) auto
  obtain i c m pkg pkg' where i: "modelDocumentID (svc_ops svc) (cbl w) b = Some i" "managedObjectClassOf svc i = Inr c"
    and pkg: "packages w p = Some pkg" "controllerIn svc p c w = Inr (Some m, putPackage p pkg' w)"
      "table_ok (svc_classes svc) classes pkg'" "controllerProperties pkg' = controllerProperties pkg"
    and f: "objectWithIdentifier svc m i (putPackage p pkg' w) = Some (Inr (Some b, putPackage p pkg' w))"
    using fetch_resolvable [of svc classes p b w] Cons.prems by (metis list.set_intros(1))
  have "\<forall>b \<in> set bs. resolvable svc classes p b (putPackage p pkg' w)"
    using Cons.prems resolvable_package [OF _ pkg(1,3,4)] by simp
  then obtain w' where "fetchIdentifiers svc (Some p) (map VString ids') (putPackage p pkg' w) = Some (Inr (bs, w'))"
    using Cons.IH [of "putPackage p pkg' w" ids'] Cons.prems(1) ids by auto
  moreover have "i' = i" using Cons.prems(1) ids i(1) by simp
  ultimately show ?case using ids i pkg(2) f by (simp add: fetchFrom_def)
qed simp

lemma mapFrom_Some: "mapFrom n (\<lambda>x _. g x) xs = Inr ys \<Longrightarrow> map g xs = map Some ys"
  by (induction n "\<lambda>x (_ :: nat). g x" xs arbitrary: ys rule: mapFrom.induct) (auto simp: bindExn_Inr split: option.splits)

lemma resolvable_setValue:
  assumes "property_laws (svc_ops svc)" and "setValue svc a v k w = Inr w'" and "resolvable svc classes p b w"
  shows "resolvable svc classes p b w'"
proof -
  have docs: "modelDocumentID (svc_ops svc) (cbl w') b = modelDocumentID (svc_ops svc) (cbl w) b" for b
    using setValue_frame [OF assms(1,2)] by (simp add: frame_def)
  have obj: "\<exists>mo'. objects w' b = Some mo' \<and> mo_controller mo' = mo_controller mo \<and> mo_class mo' = mo_class mo"
    if "objects w b = Some mo" for mo
    using setValue_graph(3) [OF assms(2), of b] that by (cases "objects w' b") (auto simp: mo_core_def)
  show ?thesis
    using assms(3) obj unfolding resolvable_def docs setValue_graph(1,2) [OF assms(2)] by metis
qed

lemma resolvable_first:
  assumes "resolvable svc classes p b w" and "modelDocumentID (svc_ops svc) (cbl w) b = Some i"
  shows "\<exists>c. NSClassFromString (svc_runtime svc) (componentsSeparatedByString '':'' i ! 0) = Some c \<and>
    isSubclassOfClass c (class_MPManagedObject (svc_classes svc))"
proof -
  obtain c where "managedObjectClassOf svc i = Inr c" "lookupValid (svc_classes svc) classes c"
    using assms unfolding resolvable_def by auto
  then show ?thesis
    by (auto simp: managedObjectClassOf_def managedObjectClassFromDocumentID_def Let_def bindExn_Inr lookupValid_def
        isManagedObjectClass_def split: if_splits)
qed

text \<open>C16: Storing objects in a property that keeps their identifiers and reading the property back
  gives the same objects in the same order, when the package of the object finds each of them
  under its identifier.\<close>

theorem identifierArray_roundtrip:
  assumes "property_laws (svc_ops svc)" and "\<not> isDeleted (svc_ops svc) a w"
    and "setObjectIdentifierArrayValueForManagedObjectArray svc a bs k w = Inr w'"
    and "packageOfObject a w = Inr (Some p)" and "\<forall>b \<in> set bs. resolvable svc classes p b w"
  shows "\<exists>w''. getValueOfObjectIdentifierArrayProperty svc a k w' = Some (Inr (bs, w''))"
proof -
  obtain ids where ids: "map (modelDocumentID (svc_ops svc) (cbl w)) bs = map Some ids"
    and set: "setValue svc a (Some (VArray (map VString ids))) k w = Inr w'"
    using assms(3)
    by (auto simp: setObjectIdentifierArrayValueForManagedObjectArray_def mapObjectsUsingBlock_def bindExn_Inr
        dest: mapFrom_Some)
  have docs: "modelDocumentID (svc_ops svc) (cbl w') = modelDocumentID (svc_ops svc) (cbl w)"
    using setValue_frame [OF assms(1) set] by (auto simp: frame_def)
  have res: "\<forall>b \<in> set bs. resolvable svc classes p b w'"
    using assms(5) resolvable_setValue [OF assms(1) set] by blast
  from ids [folded docs] res
  obtain w'' where w'': "fetchIdentifiers svc (Some p) (map VString ids) w' = Some (Inr (bs, w''))"
    using fetchIdentifiers_resolvable by blast
  have pkg: "packageOfObject a w' = Inr (Some p)"
    using assms(4) setValue_graph(3) [OF set, of a]
    by (cases "objects w' a") (auto simp: packageOfObject_def bindExn_Inr setValue_graph(1) [OF set] mo_core_def
        getObject_def getController_def MPAssertNotNil_def split: option.splits)
  show ?thesis
  proof (cases ids)
    case Nil
    then show ?thesis using setValue_stores [OF assms(1) set] assms(2) ids
      by (simp add: getValueOfObjectIdentifierArrayProperty_def)
  next
    case (Cons i rest)
    then obtain b bs' where "bs = b # bs'" "modelDocumentID (svc_ops svc) (cbl w') b = Some i"
      using ids unfolding docs by (cases bs) auto
    then show ?thesis
      using resolvable_first [of svc classes p b w' i] res w'' Cons pkg setValue_stores [OF assms(1) set] assms(2)
      by (auto simp: getValueOfObjectIdentifierArrayProperty_def MPAssertNotNil_def assertThat_def)
  qed
qed

text \<open>C15: The dictionary that names an object leads back to that very object, when its package is
  registered under its own identifier and finds the object under its identifier.\<close>

theorem referable_roundtrip:
  assumes "referableDictionaryRepresentation r svc a w = Inr (Some d)"
    and "packageOfObject a w = Inr (Some p)" and "registerDatabasePackageController p r = Inr r'"
    and "resolvable svc classes p a w" and "modelDocumentID (svc_ops svc) (cbl w) a = Some i"
    and "objects w a = Some mo" and "managedObjectClassOf svc i = Inr (mo_class mo)"
  shows "\<exists>w'. objectWithReferableDictionaryRepresentation debug r' svc d w = Some (Inr (Some a, w'))"
proof -
  obtain c m pkg pkg' where c: "managedObjectClassOf svc i = Inr c"
    and pkg: "packages w p = Some pkg" "controllerIn svc p c w = Inr (Some m, putPackage p pkg' w)"
    and f: "objectWithIdentifier svc m i (putPackage p pkg' w) = Some (Inr (Some a, putPackage p pkg' w))"
    using fetch_resolvable [OF assms(4)] assms(5) by (metis option.inject)
  have c_eq: "c = mo_class mo" using c assms(7) by simp
  have cls: "NSClassFromString (svc_runtime svc) (class_name (mo_class mo)) = Some (mo_class mo)"
    using managedObjectClassFromDocumentID_prefix(2) [of "svc_runtime svc" "svc_classes svc" i] assms(7)
      NSClassFromString_name by (fastforce simp: managedObjectClassOf_def)
  have d: "d = [(''_id'', VString i), (''objectType'', VString (class_name (mo_class mo))),
      (''databasePackageID'', VString (fullyQualifiedIdentifier r p))]"
    using assms(1,2,5,6) by (auto simp: referableDictionaryRepresentation_def documentID_def bindExn_Inr split: if_splits)
  have "databasePackageControllerRegistry r' (fullyQualifiedIdentifier r p) = Some p"
    using assms(3) by (auto simp: registerDatabasePackageController_def Let_def bindExn_Inr split: if_splits)
  then show ?thesis
    using cls pkg(2) f
    by (simp add: objectWithReferableDictionaryRepresentation_def d c_eq stringForKey_def managedObjectDocumentID_def
        databasePackageControllerWithFullyQualifiedIdentifier_def MPAssertNotNil_def)
qed

text \<open>The identifier form of an object is never put on the pasteboard: its type is the type of
  the full form, so an object offers all its properties under both names.\<close>

theorem pasteboard_identifier_form_is_full:
  assumes "pasteboardPropertyListForType r svc a MPPasteboardTypeManagedObjectID w = Inr (Some v)"
  shows "\<exists>i. v = VDict (dictUpdate ''databasePackageID'' i
    (case propertiesToSave (svc_ops svc) a w of None \<Rightarrow> [] | Some d \<Rightarrow> d))"
  using assms
  by (auto simp: pasteboardPropertyListForType_def MPPasteboardTypeManagedObjectID_def
      MPPasteboardTypeManagedObjectFull_def bindExn_Inr split: if_splits)


section \<open>A package that finds its note\<close>

definition sampleFindingPackage :: package_controller where
  "sampleFindingPackage = samplePackage\<lparr>controllerProperties := [''notesController'' \<mapsto> Some 2]\<rparr>"

definition sampleFindingWorld :: "memory_store world" where
  "sampleFindingWorld = sampleWorld\<lparr>packages := [3 \<mapsto> sampleFindingPackage],
     controllers := [2 \<mapsto> sampleObjectsController\<lparr>moc_objectCache := [''MPNote:0001'' \<mapsto> 10]\<rparr>],
     cbl := [(10, noModel\<lparr>st_documentID := Some ''MPNote:0001'', st_database := 4,
       st_properties := [(''objectType'', VString ''MPNote'')]\<rparr>)]\<rparr>"

lemma sampleFinding_fields [simp]:
  "objects sampleFindingWorld = objects sampleWorld" "packages sampleFindingWorld = [3 \<mapsto> sampleFindingPackage]"
  "controllers sampleFindingWorld = [2 \<mapsto> sampleObjectsController\<lparr>moc_objectCache := [''MPNote:0001'' \<mapsto> 10]\<rparr>]"
  "storedModel (cbl sampleFindingWorld) 10 = noModel\<lparr>st_documentID := Some ''MPNote:0001'', st_database := 4,
       st_properties := [(''objectType'', VString ''MPNote'')]\<rparr>"
  by (simp_all add: sampleFindingWorld_def storedModel_def)

lemma sample_walk: "controllerWalk sampleClasses (controllerProperties sampleFindingPackage) sampleNote =
    Inr (Some (''notesController'', 2))"
  by (code_simp)

lemma sample_resolvable: "resolvable sampleServices [sampleNote] 3 10 sampleFindingWorld"
proof -
  have "table_ok sampleClasses [sampleNote] sampleFindingPackage"
    by (simp add: table_ok_def sampleFindingPackage_def samplePackage_def)
  moreover have "lookupValid sampleClasses [sampleNote] sampleNote"
    by (simp add: lookupValid_def isManagedObjectClass_def isSubclassOfClass_def sample_defs)
  ultimately show ?thesis
    unfolding resolvable_def
    using sample_walk sample_class
    by (auto simp: sampleObject_def sampleObjectsController_def isSubclassOfClass_def sampleNote_def)
qed

lemma sample_package: "packageOfObject 10 sampleFindingWorld = Inr (Some 3)"
  by (simp add: packageOfObject_def getObject_def getController_def MPAssertNotNil_def sampleObject_def
      sampleObjectsController_def)

theorem identifierArray_roundtrip_witness:
  "\<exists>w' w''. setObjectIdentifierArrayValueForManagedObjectArray sampleServices 10 [10, 10] ''relatedIDs'' sampleFindingWorld = Inr w' \<and>
     getValueOfObjectIdentifierArrayProperty sampleServices 10 ''relatedIDs'' w' = Some (Inr ([10, 10], w''))"
proof -
  have live: "\<not> isDeleted memory_ops 10 sampleFindingWorld" by (simp add: isDeleted_def noModel_def)
  obtain w' where w': "setObjectIdentifierArrayValueForManagedObjectArray sampleServices 10 [10, 10] ''relatedIDs''
      sampleFindingWorld = Inr w'"
    by (simp add: setObjectIdentifierArrayValueForManagedObjectArray_def mapObjectsUsingBlock_def MPAssertNotNil_def
        setValue_def live guardIdentity_def embeddedValueFor_scalar getObject_def)
  then show ?thesis
    using identifierArray_roundtrip [of sampleServices 10 sampleFindingWorld "[10, 10]" "''relatedIDs''" w' 3 "[sampleNote]"]
      live sample_resolvable sample_package memory_laws by simp
qed

theorem referable_roundtrip_witness:
  "\<exists>d r' w'. referableDictionaryRepresentation
       \<lparr>fullyQualifiedIdentifier = (\<lambda>p. ''package''), databasePackageControllerRegistry = [''package'' \<mapsto> 3]\<rparr>
       sampleServices 10 sampleFindingWorld = Inr (Some d) \<and>
     objectWithReferableDictionaryRepresentation True r' sampleServices d sampleFindingWorld = Some (Inr (Some 10, w'))"
proof -
  let ?r = "\<lparr>fullyQualifiedIdentifier = (\<lambda>p. ''package''), databasePackageControllerRegistry = [''package'' \<mapsto> 3]\<rparr>"
  have "registerDatabasePackageController 3 ?r = Inr ?r" by (simp add: registerDatabasePackageController_def Let_def)
  moreover obtain d where "referableDictionaryRepresentation ?r sampleServices 10 sampleFindingWorld = Inr (Some d)"
    by (simp add: referableDictionaryRepresentation_def sample_package documentID_def isDeleted_def noModel_def
        databasePackageControllerWithFullyQualifiedIdentifier_def MPAssertNotNil_def objectType_def
        getValueOfProperty_def getObject_def)
  ultimately show ?thesis
    using referable_roundtrip [of ?r sampleServices 10 sampleFindingWorld d 3 ?r "[sampleNote]" "''MPNote:0001''" sampleObject True]
      sample_package sample_resolvable sample_class by (auto simp: sampleObject_def)
qed

theorem pasteboard_identifier_form_is_full_witness:
  "\<exists>v i. pasteboardPropertyListForType
       \<lparr>fullyQualifiedIdentifier = (\<lambda>p. ''package''), databasePackageControllerRegistry = [''package'' \<mapsto> 3]\<rparr>
       sampleServices 10 MPPasteboardTypeManagedObjectID sampleFindingWorld = Inr (Some v) \<and>
     v = VDict (dictUpdate ''databasePackageID'' i [(''objectType'', VString ''MPNote'')])"
proof -
  let ?r = "\<lparr>fullyQualifiedIdentifier = (\<lambda>p. ''package''), databasePackageControllerRegistry = [''package'' \<mapsto> 3]\<rparr>"
  obtain v where v: "pasteboardPropertyListForType ?r sampleServices 10 MPPasteboardTypeManagedObjectID sampleFindingWorld = Inr (Some v)"
    by (simp add: pasteboardPropertyListForType_def pasteboardTypes_def MPPasteboardTypeManagedObjectID_def
        MPPasteboardTypeManagedObjectFull_def sample_package documentID_def isDeleted_def noModel_def
        databasePackageControllerWithFullyQualifiedIdentifier_def MPAssertNotNil_def)
  have "propertiesToSave memory_ops 10 sampleFindingWorld = Some [(''objectType'', VString ''MPNote'')]"
    by (simp add: propertiesToSave_def)
  then show ?thesis using v pasteboard_identifier_form_is_full [OF v] by simp
qed

end
