(* ===== verification/Attachments.thy ===== *)
theory Attachments
  imports Saving
begin

text \<open>
  Attachments of managed objects: creating them from strings and files, and attaching the
  contents of a file, which replaces an attachment of the same name only when the contents differ.
\<close>


section \<open>Operations\<close>

text \<open>
  The surroundings: reading a file or the content of an attachment, guessing the type of a
  file, and the digest with which contents are compared.
\<close>

record 'db file_services =
  dataWithContentsOfURL :: "string \<Rightarrow> ns_error option + string"
  attachmentData :: "'db \<Rightarrow> nat \<Rightarrow> string \<Rightarrow> ns_error option + string"
  isFileURL :: "string \<Rightarrow> bool"
  mimeTypeForFileAtURL :: "string \<Rightarrow> ns_error option + string"
  sha1Digest :: "string \<Rightarrow> string"

definition createAttachmentWithString ::
  "'db services \<Rightarrow> nat \<Rightarrow> string \<Rightarrow> string \<Rightarrow> string option \<Rightarrow> 'db world \<Rightarrow> (ns_error option + unit) \<times> 'db world" where
  "createAttachmentWithString svc a name string type w =
     (case type of
        None \<Rightarrow> (Inl (Some (managedObjectError MPManagedObjectErrorCodeTypeMissing)), w)
      | Some t \<Rightarrow> (Inr (), putCbl (modelSetAttachment (svc_ops svc) (cbl w) a name t string) w))"

text \<open>The type that is found for a file is not used: without a type the call always fails.\<close>

definition createAttachmentWithContentsOfURL ::
  "'db file_services \<Rightarrow> 'db services \<Rightarrow> nat \<Rightarrow> string \<Rightarrow> string \<Rightarrow> string option \<Rightarrow> 'db world \<Rightarrow>
   (ns_error option + unit) \<times> 'db world" where
  "createAttachmentWithContentsOfURL fs svc a name url type w =
     (case (if type = None \<and> isFileURL fs url then mimeTypeForFileAtURL fs url else Inr '''') of
        Inl err \<Rightarrow> (Inl err, w)
      | Inr _ \<Rightarrow>
          (case type of
             None \<Rightarrow> (Inl (Some (managedObjectError MPManagedObjectErrorCodeTypeMissing)), w)
           | Some t \<Rightarrow>
               (case dataWithContentsOfURL fs url of
                  Inl err \<Rightarrow> (Inl err, w)
                | Inr body \<Rightarrow> (Inr (), putCbl (modelSetAttachment (svc_ops svc) (cbl w) a name t body) w))))"

definition attachmentExists :: "'db services \<Rightarrow> nat \<Rightarrow> string \<Rightarrow> 'db world \<Rightarrow> bool" where
  "attachmentExists svc a name w =
     (case modelAttachmentNames (svc_ops svc) (cbl w) a of None \<Rightarrow> False | Some ns \<Rightarrow> filter (\<lambda>n. n = name) ns \<noteq> [])"

text \<open>Whether the contents match, and the world in which a differing attachment is removed.\<close>

definition compareAttachment ::
  "'db file_services \<Rightarrow> 'db services \<Rightarrow> nat \<Rightarrow> string \<Rightarrow> string \<Rightarrow> 'db world \<Rightarrow> ns_error option + bool \<times> 'db world" where
  "compareAttachment fs svc a name url w =
     (if attachmentExists svc a name w
      then
        (case attachmentData fs (cbl w) a name of
           Inl err \<Rightarrow> Inl err
         | Inr old \<Rightarrow>
             (case dataWithContentsOfURL fs url of
                Inl err \<Rightarrow> Inl err
              | Inr new \<Rightarrow>
                  if sha1Digest fs old = sha1Digest fs new then Inr (True, w)
                  else Inr (False, putCbl (modelRemoveAttachment (svc_ops svc) (cbl w) a name) w)))
      else Inr (False, w))"

text \<open>The store reads the file when the attachment is set from a URL; \<open>contentOfFile\<close> is what it finds there.\<close>

definition attachContentsOfURL ::
  "'db file_services \<Rightarrow> (string \<Rightarrow> string) \<Rightarrow> 'db services \<Rightarrow> nat \<Rightarrow> string \<Rightarrow> string \<Rightarrow> string \<Rightarrow> 'db world \<Rightarrow>
   exn + (ns_error option + unit) \<times> 'db world" where
  "attachContentsOfURL fs contentOfFile svc a url name contentType w =
     (case compareAttachment fs svc a name url w of
        Inl err \<Rightarrow> Inr (Inl err, w)
      | Inr (True, w1) \<Rightarrow> Inr (Inr (), w1)
      | Inr (False, w1) \<Rightarrow>
          (let w2 = putCbl (modelSetAttachment (svc_ops svc) (cbl w1) a name contentType (contentOfFile url)) w1
           in bindExn (MPAssertNotNil (modelAttachment (svc_ops svc) (cbl w2) a name) ''No attachment found'') (\<lambda>_.
                saveWithError svc a w2)))"


section \<open>What attaching promises\<close>

lemma setValue_attachments:
  assumes "attachment_laws (svc_ops svc)" and "setValue svc a v k w = Inr w'"
  shows "modelAttachment (svc_ops svc) (cbl w') = modelAttachment (svc_ops svc) (cbl w)"
  using assms(2)
  by (rule setValue_effect) (use assms(1) in \<open>auto simp: attachment_laws_def intro!: ext\<close>)

lemma updateTimestamps_attachments:
  assumes "attachment_laws (svc_ops svc)" and "updateTimestamps svc a w = Inr w'"
  shows "modelAttachment (svc_ops svc) (cbl w') = modelAttachment (svc_ops svc) (cbl w)"
  using assms(2) setValue_attachments [OF assms(1)]
  by (auto simp: updateTimestamps_def setCreatedAt_def setUpdatedAt_def bindExn_Inr split: if_splits)

lemma willSave_cbl: "willSaveObject m a w = Inr w' \<Longrightarrow> cbl w' = cbl w"
  by (auto simp: willSaveObject_def bindExn_Inr split: if_splits)

lemma prepareSave_attachments:
  assumes "attachment_laws (svc_ops svc)" and "prepareSave svc a w = Inr w'"
  shows "modelAttachment (svc_ops svc) (cbl w') = modelAttachment (svc_ops svc) (cbl w)"
  using assms(2)
  by (auto simp: prepareSave_def bindExn_Inr split: if_splits dest!: setValue_attachments [OF assms(1)]
      updateTimestamps_attachments [OF assms(1)] cloudKitChangeTag_graph(3) willSave_cbl)

lemma save_attachments:
  assumes "attachment_laws (svc_ops svc)" and "saveWithError svc a w = Inr (Inr (), w')"
  shows "modelAttachment (svc_ops svc) (cbl w') b n = modelAttachment (svc_ops svc) (cbl w) b n"
proof (cases "isClean (svc_ops svc) a w")
  case False
  with assms(2) obtain w1 db w2 where w1: "prepareSave svc a w = Inr w1" and db: "modelSave (svc_ops svc) (cbl w1) a = Inr db"
    and w2: "clearEmbeddedNeedsSave svc a (putCbl db w1) = Inr w2" and w': "saveCompleted svc a w2 = Inr w'"
    by (rule saveWithError_Inr) auto
  have "cbl w' = cbl w2" using w' by (rule saveCompleted_effect) auto
  then have "cbl w' = db" using clearEmbeddedNeedsSave_graph(4) [OF w2] by simp
  then show ?thesis
    using prepareSave_attachments [OF assms(1) w1] db assms(1) by (auto simp: attachment_laws_def)
qed (use assms(2) in \<open>simp add: saveWithError_def\<close>)

text \<open>Files and attachments that can be read have the content that the store keeps.\<close>

definition readable_files :: "'db cbl_ops \<Rightarrow> 'db file_services \<Rightarrow> (string \<Rightarrow> string) \<Rightarrow> bool" where
  "readable_files ops fs contentOfFile \<longleftrightarrow>
     (\<forall>db a n t c. modelAttachment ops db a n = Some (t, c) \<longrightarrow> attachmentData fs db a n = Inr c) \<and>
     (\<forall>u c. dataWithContentsOfURL fs u = Inr c \<longrightarrow> contentOfFile u = c)"

lemma attachmentExists_iff:
  "attachment_laws (svc_ops svc) \<Longrightarrow> attachmentExists svc a n w \<longleftrightarrow> modelAttachment (svc_ops svc) (cbl w) a n \<noteq> None"
  by (auto simp: attachmentExists_def attachment_laws_def filter_empty_conv split: option.splits)

lemma compareAttachment_same:
  assumes "attachment_laws (svc_ops svc)" and "readable_files (svc_ops svc) fs contentOfFile"
    and "modelAttachment (svc_ops svc) (cbl w) a n = Some (t, c)" and "dataWithContentsOfURL fs url = Inr new"
    and "sha1Digest fs c = sha1Digest fs new"
  shows "compareAttachment fs svc a n url w = Inr (True, w)"
  using assms attachmentExists_iff [OF assms(1), of a n w]
  by (simp add: compareAttachment_def readable_files_def)

text \<open>C25: Attaching the contents of a readable file leaves the object with an attachment of that
  name whose digest is the digest of the file, and attaching the same file again changes and
  saves nothing.\<close>

theorem attach_idempotent:
  assumes "attachment_laws (svc_ops svc)" and "readable_files (svc_ops svc) fs contentOfFile"
    and "dataWithContentsOfURL fs url = Inr new"
    and "attachContentsOfURL fs contentOfFile svc a url n contentType w = Inr (Inr (), w')"
  shows "(\<exists>t c. modelAttachment (svc_ops svc) (cbl w') a n = Some (t, c) \<and> sha1Digest fs c = sha1Digest fs new) \<and>
    attachContentsOfURL fs contentOfFile svc a url n contentType w' = Inr (Inr (), w')"
proof -
  have stored: "\<exists>t c. modelAttachment (svc_ops svc) (cbl w') a n = Some (t, c) \<and> sha1Digest fs c = sha1Digest fs new"
  proof (cases "compareAttachment fs svc a n url w")
    case (Inr r)
    obtain same w1 where r: "r = (same, w1)" by force
    show ?thesis
    proof (cases same)
      case True
      then have "w1 = w" "attachmentExists svc a n w"
        and digest: "\<exists>c. attachmentData fs (cbl w) a n = Inr c \<and> sha1Digest fs c = sha1Digest fs new"
        using Inr r assms(3) by (auto simp: compareAttachment_def split: if_splits sum.splits)
      moreover have "w' = w1" using assms(4) Inr r True by (simp add: attachContentsOfURL_def)
      ultimately show ?thesis
        using attachmentExists_iff [OF assms(1), of a n w] assms(2) by (auto simp: readable_files_def)
    next
      case False
      let ?w2 = "putCbl (modelSetAttachment (svc_ops svc) (cbl w1) a n contentType (contentOfFile url)) w1"
      have "saveWithError svc a ?w2 = Inr (Inr (), w')"
        using assms(4) Inr r False by (auto simp: attachContentsOfURL_def Let_def bindExn_Inr)
      from save_attachments [OF assms(1) this, of a n]
      have "modelAttachment (svc_ops svc) (cbl w') a n = Some (contentType, contentOfFile url)"
        using assms(1) by (simp add: attachment_laws_def)
      then show ?thesis using assms(2,3) by (auto simp: readable_files_def)
    qed
  qed (use assms(4) in \<open>simp add: attachContentsOfURL_def\<close>)
  then show ?thesis
    using compareAttachment_same [OF assms(1,2) _ assms(3)] by (auto simp: attachContentsOfURL_def)
qed

text \<open>A note that already has the attachment.\<close>

definition sampleFiles :: "memory_store file_services" where
  "sampleFiles = \<lparr>dataWithContentsOfURL = (\<lambda>u. Inr ''body''),
     attachmentData = (\<lambda>db a n. case modelAttachment memory_ops db a n of None \<Rightarrow> Inl None | Some (t, c) \<Rightarrow> Inr c),
     isFileURL = (\<lambda>u. True), mimeTypeForFileAtURL = (\<lambda>u. Inr ''text/plain''), sha1Digest = id\<rparr>"

theorem attach_idempotent_witness:
  "\<exists>w. attachContentsOfURL sampleFiles (\<lambda>u. ''body'') sampleServices 10 ''file'' ''note'' ''text/plain'' w = Inr (Inr (), w) \<and>
     (\<exists>t c. modelAttachment memory_ops (cbl w) 10 ''note'' = Some (t, c) \<and> c = ''body'')"
proof -
  let ?w = "putCbl (modelSetAttachment memory_ops sampleStore 10 ''note'' ''text/plain'' ''body'') sampleWorld"
  have readable: "readable_files memory_ops sampleFiles (\<lambda>u. ''body'')"
    by (simp add: readable_files_def sampleFiles_def)
  have "modelAttachment memory_ops (cbl ?w) 10 ''note'' = Some (''text/plain'', ''body'')"
    using memory_attachment_laws by (simp add: attachment_laws_def)
  then have "compareAttachment sampleFiles sampleServices 10 ''note'' ''file'' ?w = Inr (True, ?w)"
    using compareAttachment_same [of sampleServices sampleFiles "\<lambda>u. ''body''" ?w 10 "''note''" "''text/plain''" "''body''" "''file''"]
      memory_attachment_laws readable by (simp add: sampleFiles_def)
  then have "attachContentsOfURL sampleFiles (\<lambda>u. ''body'') sampleServices 10 ''file'' ''note'' ''text/plain'' ?w = Inr (Inr (), ?w)"
    by (simp add: attachContentsOfURL_def)
  then show ?thesis
    using attach_idempotent [of sampleServices sampleFiles "\<lambda>u. ''body''" "''file''" "''body''" 10 "''note''" "''text/plain''" ?w ?w]
      memory_attachment_laws readable
    by (intro exI [of _ ?w]) (simp add: sampleFiles_def)
qed

end
