(* ===== verification/DeepSaver.thy ===== *)
theory DeepSaver
  imports Embedding
begin

text \<open>
  \<open>MPDeepSaver\<close>: saving an object and then, property by property, the objects it holds that
  need saving.  The saver works inside the block with which it asks for the matching properties
  of the class, so it visits every property of the class and of its subclasses.
\<close>


section \<open>Operations\<close>

text \<open>
  \<open>traversal\<close> is the order in which a set of property names is traversed, \<open>objectAt\<close> finds the
  object that a property with a managed object holds, and \<open>collectionClass\<close> tells the class of a
  property that holds an array or set from one that holds a dictionary.
\<close>

datatype collection_kind = ArrayOrSet | Dictionary | OtherKind

record 'db deep_services =
  traversal :: "string set \<Rightarrow> string list"
  objectAt :: "string \<Rightarrow> 'db world \<Rightarrow> nat option"
  collectionKind :: "cls option \<Rightarrow> collection_kind"

fun classOfRef :: "embedding_ref \<Rightarrow> 'db world \<Rightarrow> exn + cls" where
  "classOfRef (EmbeddingManaged a) w = bindExn (getObject a w) (\<lambda>mo. Inr (mo_class mo))"
| "classOfRef (EmbeddingEmbedded e) w = bindExn (getEmbedded e w) (\<lambda>eo. Inr (eo_class eo))"

fun needsSaveOfRef :: "'db cbl_ops \<Rightarrow> embedding_ref \<Rightarrow> 'db world \<Rightarrow> bool" where
  "needsSaveOfRef ops (EmbeddingManaged a) w = modelNeedsSave ops (cbl w) a"
| "needsSaveOfRef ops (EmbeddingEmbedded e) w = (case embeddedObjects w e of None \<Rightarrow> False | Some eo \<Rightarrow> eo_needsSave eo)"

definition visitedKeys :: "'db deep_services \<Rightarrow> runtime \<Rightarrow> cls \<Rightarrow> string list" where
  "visitedKeys ds rt c =
     concat (map (\<lambda>d. traversal ds (fst (propertyKeys rt d))) (fst (subclasses rt c) @ [c]))"

definition heldObject :: "'db deep_services \<Rightarrow> val \<Rightarrow> 'db world \<Rightarrow> embedding_ref option" where
  "heldObject ds v w =
     (case v of
        VEmbedded e \<Rightarrow> Some (EmbeddingEmbedded e)
      | VManaged i \<Rightarrow> map_option EmbeddingManaged (objectAt ds i w)
      | _ \<Rightarrow> None)"

text \<open>\<open>save\<close> is the deep save; its answer is not looked at.\<close>

type_synonym 'db deep_save = "embedding_ref \<Rightarrow> 'db world \<Rightarrow> (exn + (ns_error option + unit) \<times> 'db world) option"

definition saveHeld ::
  "'db deep_services \<Rightarrow> 'db services \<Rightarrow> 'db deep_save \<Rightarrow> val \<Rightarrow> 'db world \<Rightarrow> (exn + 'db world) option" where
  "saveHeld ds svc save v w =
     (case heldObject ds v w of
        None \<Rightarrow> Some (throw (NSInvalidArgumentException ''needsSave''))
      | Some r \<Rightarrow>
          if needsSaveOfRef (svc_ops svc) r w
          then bindCall (save r w) (\<lambda>(_, w1). Some (Inr w1)) else Some (Inr w))"

fun saveElements ::
  "'db deep_services \<Rightarrow> 'db services \<Rightarrow> 'db deep_save \<Rightarrow> val list \<Rightarrow> 'db world \<Rightarrow> (exn + 'db world) option" where
  "saveElements ds svc save [] w = Some (Inr w)"
| "saveElements ds svc save (v # vs) w =
     bindCall (saveHeld ds svc save v w) (\<lambda>w1. saveElements ds svc save vs w1)"

definition savesDirectly :: "'db services \<Rightarrow> cls option \<Rightarrow> string \<Rightarrow> bool" where
  "savesDirectly svc propClass key \<longleftrightarrow>
     (case propClass of None \<Rightarrow> False | Some p \<Rightarrow>
        isSubclassOfClass p (class_MPManagedObject (svc_classes svc)) \<or>
        isSubclassOfClass p (class_MPEmbeddedObject (svc_classes svc))) \<and>
     key \<noteq> ''evaluatedObject'' \<and> \<not> hasPrefix key ''parent'' \<and> \<not> hasPrefix key ''cached''"

definition visitKey ::
  "'db deep_services \<Rightarrow> 'db services \<Rightarrow> 'db deep_save \<Rightarrow> embedding_ref \<Rightarrow> cls \<Rightarrow> string \<Rightarrow> 'db world \<Rightarrow>
   (exn + 'db world) option" where
  "visitKey ds svc save obj c key w =
     (let propClass = svc_classOfProperty svc c key; v = svc_valueForKey svc obj key w
      in if hasPrefix key ''effective'' then Some (Inr w)
         else if savesDirectly svc propClass key
         then (case v of None \<Rightarrow> Some (Inr w) | Some x \<Rightarrow> saveHeld ds svc save x w)
         else if hasPrefix key ''embedded''
         then
           (case collectionKind ds propClass of
              ArrayOrSet \<Rightarrow>
                (case v of None \<Rightarrow> Some (Inr w) | Some (VArray vs) \<Rightarrow> saveElements ds svc save vs w
                 | Some x \<Rightarrow> Some (throw (NSInvalidArgumentException ''countByEnumeratingWithState'')))
            | Dictionary \<Rightarrow>
                (case v of None \<Rightarrow> Some (Inr w) | Some (VDict d) \<Rightarrow> saveElements ds svc save (map snd d) w
                 | Some x \<Rightarrow> Some (throw (NSInvalidArgumentException ''countByEnumeratingWithState'')))
            | OtherKind \<Rightarrow> Some (throw (NSInternalInconsistencyException ''Unexpected type with key'')))
         else Some (Inr w))"

fun visitKeys ::
  "'db deep_services \<Rightarrow> 'db services \<Rightarrow> 'db deep_save \<Rightarrow> embedding_ref \<Rightarrow> cls \<Rightarrow> string list \<Rightarrow> 'db world \<Rightarrow>
   (exn + 'db world) option" where
  "visitKeys ds svc save obj c [] w = Some (Inr w)"
| "visitKeys ds svc save obj c (key # rest) w =
     bindCall (visitKey ds svc save obj c key w) (\<lambda>w1. visitKeys ds svc save obj c rest w1)"

text \<open>The fuel bounds the depth of the graph; \<open>None\<close> means that it was exceeded.\<close>

fun deepSaveWithError :: "'db deep_services \<Rightarrow> 'db services \<Rightarrow> nat \<Rightarrow> 'db deep_save" where
  "deepSaveWithError ds svc 0 obj w = None"
| "deepSaveWithError ds svc (Suc n) obj w =
     bindCall (saveEmbedding svc obj w) (\<lambda>(r, w1).
       case r of
         Inl err \<Rightarrow> Some (Inr (Inl err, w1))
       | Inr _ \<Rightarrow>
           bindCall (Some (classOfRef obj w1)) (\<lambda>c.
           bindCall (visitKeys ds svc (deepSaveWithError ds svc n) obj c (visitedKeys ds (svc_runtime svc) c) w1) (\<lambda>w2.
             Some (Inr (Inr (), w2)))))"

text \<open>A debug build raises when a deep save fails; otherwise the error is posted.\<close>

definition deepSave ::
  "bool \<Rightarrow> 'db deep_services \<Rightarrow> 'db services \<Rightarrow> nat \<Rightarrow> nat \<Rightarrow> 'db world \<Rightarrow> (exn + bool \<times> 'db world) option" where
  "deepSave debug ds svc n a w =
     bindCall (deepSaveWithError ds svc n (EmbeddingManaged a) w) (\<lambda>(r, w1).
       case r of
         Inr _ \<Rightarrow> Some (Inr (True, w1))
       | Inl err \<Rightarrow>
           if debug then Some (throw (NSInternalInconsistencyException ''Encountered an error when saving''))
           else bindCall (Some (postError a err w1)) (\<lambda>w2. Some (Inr (False, w2))))"


section \<open>What a deep save answers\<close>

lemma bindCall_Some: "bindCall m f = Some (Inr y) \<longleftrightarrow> (\<exists>x. m = Some (Inr x) \<and> f x = Some (Inr y))"
  by (auto simp: bindCall_def split: option.splits sum.splits)

text \<open>More fuel does not change a result.\<close>

definition refines :: "'db deep_save \<Rightarrow> 'db deep_save \<Rightarrow> bool" where
  "refines f g \<longleftrightarrow> (\<forall>r w x. f r w = Some x \<longrightarrow> g r w = Some x)"

lemma bindCall_Some': "bindCall m f = Some y \<longleftrightarrow>
    (\<exists>e. m = Some (Inl e) \<and> y = Inl e) \<or> (\<exists>x. m = Some (Inr x) \<and> f x = Some y)"
  by (auto simp: bindCall_def split: option.splits sum.splits)

lemma saveHeld_refines: "refines f g \<Longrightarrow> saveHeld ds svc f v w = Some x \<Longrightarrow> saveHeld ds svc g v w = Some x"
  unfolding refines_def by (fastforce simp: saveHeld_def bindCall_Some' split: option.splits if_splits)

lemma saveElements_refines:
  "refines f g \<Longrightarrow> saveElements ds svc f vs w = Some x \<Longrightarrow> saveElements ds svc g vs w = Some x"
  by (induction vs arbitrary: w) (auto simp: bindCall_Some' dest: saveHeld_refines)

lemma visitKey_refines:
  "refines f g \<Longrightarrow> visitKey ds svc f r c k w = Some x \<Longrightarrow> visitKey ds svc g r c k w = Some x"
  by (auto simp: visitKey_def Let_def split: if_splits option.splits val.splits collection_kind.splits
      dest: saveHeld_refines saveElements_refines)

lemma visitKeys_refines:
  "refines f g \<Longrightarrow> visitKeys ds svc f r c ks w = Some x \<Longrightarrow> visitKeys ds svc g r c ks w = Some x"
  by (induction ks arbitrary: w) (auto simp: bindCall_Some' dest: visitKey_refines)

lemma bindCall_refines:
  "bindCall m f = Some x \<Longrightarrow> (\<And>y. m = Some (Inr y) \<Longrightarrow> f y = Some x \<Longrightarrow> g y = Some x) \<Longrightarrow> bindCall m g = Some x"
  by (auto simp: bindCall_Some')

lemma bindCall_refines': "bindCall m f = Some x \<Longrightarrow> (\<And>y. m = Some y \<Longrightarrow> m' = Some y) \<Longrightarrow> bindCall m' f = Some x"
  by (auto simp: bindCall_Some')

lemma deepSave_step:
  assumes "refines (deepSaveWithError ds svc n) (deepSaveWithError ds svc m)"
    and "deepSaveWithError ds svc (Suc n) r w = Some x"
  shows "deepSaveWithError ds svc (Suc m) r w = Some x"
  using assms(2) unfolding deepSaveWithError.simps
proof (rule bindCall_refines, goal_cases)
  case (1 y)
  obtain s w1 where y: "y = (s, w1)" by force
  show ?case
  proof (cases s)
    case (Inr u)
    have visits: "visitKeys ds svc (deepSaveWithError ds svc m) r c ks w1 = Some z"
      if "visitKeys ds svc (deepSaveWithError ds svc n) r c ks w1 = Some z" for c ks z
      by (rule visitKeys_refines [OF assms(1) that])
    show ?thesis
      using 1(2) unfolding y Inr prod.case sum.case
      by (rule bindCall_refines) (erule bindCall_refines', erule visits)
  qed (use 1(2) y in simp)
qed

lemma deepSave_fuel: "refines (deepSaveWithError ds svc n) (deepSaveWithError ds svc (Suc n))"
proof (induction n)
  case (Suc n)
  then show ?case using deepSave_step [OF Suc.IH] unfolding refines_def by blast
qed (simp add: refines_def)

lemma sample_saved_object:
  assumes "saveWithError sampleServices 10 sampleWorld = Inr (Inr (), w')"
  shows "map_option mo_isNewObject (objects w' 10) = Some False"
proof -
  have "\<not> isClean (svc_ops sampleServices) 10 sampleWorld" by (simp add: isClean_def)
  with assms obtain w2 where "saveCompleted sampleServices 10 w2 = Inr w'"
    by (rule saveWithError_Inr) auto
  then show ?thesis by (rule saveCompleted_effect)
qed

text \<open>The answer of a deep save is the answer to saving the object itself: when that save fails
  nothing else is visited, and when it succeeds the deep save succeeds, whatever becomes of the
  objects it holds.  A result does not depend on the bound on the depth.\<close>

theorem deepSave_answers_own_save:
  assumes "deepSaveWithError ds svc n obj w = Some (Inr (r, w'))"
  shows "(\<exists>w1. saveEmbedding svc obj w = Some (Inr (r, w1)) \<and> (\<forall>err. r = Inl err \<longrightarrow> w' = w1)) \<and>
    (\<forall>m \<ge> n. deepSaveWithError ds svc m obj w = Some (Inr (r, w')))"
proof
  obtain k where n: "n = Suc k" using assms by (cases n) auto
  show "\<exists>w1. saveEmbedding svc obj w = Some (Inr (r, w1)) \<and> (\<forall>err. r = Inl err \<longrightarrow> w' = w1)"
  proof -
    obtain r1 w1 where s: "saveEmbedding svc obj w = Some (Inr (r1, w1))" and rest: "(case r1 of
        Inl err \<Rightarrow> Some (Inr (Inl err, w1))
      | Inr _ \<Rightarrow> bindCall (Some (classOfRef obj w1)) (\<lambda>c.
          bindCall (visitKeys ds svc (deepSaveWithError ds svc k) obj c (visitedKeys ds (svc_runtime svc) c) w1) (\<lambda>w2.
            Some (Inr (Inr (), w2))))) = Some (Inr (r, w'))"
      using assms unfolding n by (auto simp: bindCall_Some)
    show ?thesis
      using s rest by (cases r1) (auto simp: bindCall_Some)
  qed
  show "\<forall>m \<ge> n. deepSaveWithError ds svc m obj w = Some (Inr (r, w'))"
  proof (intro allI impI)
    fix m assume "n \<le> m"
    then show "deepSaveWithError ds svc m obj w = Some (Inr (r, w'))"
    proof (induction m rule: dec_induct)
      case (step k)
      then show ?case using deepSave_fuel [of ds svc k] unfolding refines_def by blast
    qed (rule assms)
  qed
qed

theorem deepSave_answers_own_save_witness:
  "\<exists>w'. deepSaveWithError \<lparr>traversal = (\<lambda>_. []), objectAt = (\<lambda>i w. None), collectionKind = (\<lambda>c. OtherKind)\<rparr>
      sampleServices 1 (EmbeddingManaged 10) sampleWorld = Some (Inr (Inr (), w')) \<and>
    (\<forall>m \<ge> 1. deepSaveWithError \<lparr>traversal = (\<lambda>_. []), objectAt = (\<lambda>i w. None), collectionKind = (\<lambda>c. OtherKind)\<rparr>
      sampleServices m (EmbeddingManaged 10) sampleWorld = Some (Inr (Inr (), w')))"
proof -
  let ?ds = "\<lparr>traversal = (\<lambda>_. []), objectAt = (\<lambda>i (w :: memory_store world). None), collectionKind = (\<lambda>c. OtherKind)\<rparr>"
  have none: "visitedKeys ?ds rt c = []" for rt c by (simp add: visitedKeys_def concat_eq_Nil_conv)
  obtain w' where s: "saveWithError sampleServices 10 sampleWorld = Inr (Inr (), w')" using sample_saved by blast
  then have "saveEmbedding sampleServices (EmbeddingManaged 10) sampleWorld = Some (Inr (Inr (), w'))"
    by (subst saveEmbedding.simps) simp
  moreover have "map_option mo_isNewObject (objects w' 10) = Some False"
    using s by (rule sample_saved_object)
  ultimately have "deepSaveWithError ?ds sampleServices 1 (EmbeddingManaged 10) sampleWorld = Some (Inr (Inr (), w'))"
    by (auto simp: none bindCall_def getObject_def MPAssertNotNil_def)
  then show ?thesis
    using conjunct2 [OF deepSave_answers_own_save [of ?ds sampleServices 1 "EmbeddingManaged 10" sampleWorld "Inr ()" w']]
    by (intro exI [of _ w'] conjI)
qed

end
