(* ===== verification/ManagedInterface.thy ===== *)
theory ManagedInterface
  imports DeepSaver References Attachments
begin

text \<open>
  \<open>MPManagedObject\<close> as its headers declare it: one method table for each group of the
  interface, filled with the operations of the development, the small accessors that the other
  theories do not need, and the proxy that saves after every change.
\<close>


section \<open>Identity, sharing and prototypes\<close>

text \<open>
  A dynamic property without an accessor of its own is read through the reflective accessor of
  the dynamic object.  \<open>isModerated\<close>, \<open>isAccepted\<close> and \<open>isRejected\<close> are of this
  kind: the methods of the implementation have other names.
\<close>

definition dynamicValue :: "'db services \<Rightarrow> nat \<Rightarrow> string \<Rightarrow> 'db world \<Rightarrow> val option" where
  "dynamicValue svc a k w = svc_valueForKey svc (EmbeddingManaged a) k w"

record 'db identity_methods =
  mo_get_controller :: "nat \<Rightarrow> 'db world \<Rightarrow> exn + nat option"
  mo_documentID :: "nat \<Rightarrow> 'db world \<Rightarrow> exn + string"
  mo_prefixlessDocumentID :: "nat \<Rightarrow> 'db world \<Rightarrow> exn + string"
  mo_createdAt :: "nat \<Rightarrow> 'db world \<Rightarrow> int option"
  mo_updatedAt :: "nat \<Rightarrow> 'db world \<Rightarrow> int option"
  mo_sessionID :: "nat \<Rightarrow> 'db world \<Rightarrow> val option"
  mo_get_cloudKitChangeTag :: "nat \<Rightarrow> 'db world \<Rightarrow> exn + val option \<times> 'db world"
  mo_creator :: "nat \<Rightarrow> 'db world \<Rightarrow> (exn + nat option \<times> 'db world) option"
  mo_editors :: "nat \<Rightarrow> 'db world \<Rightarrow> (exn + nat list \<times> 'db world) option"

definition featherIdentityMethods :: "(nat \<Rightarrow> nat option) \<Rightarrow> 'db services \<Rightarrow> 'db identity_methods" where
  "featherIdentityMethods packageOfDatabase svc =
     \<lparr>mo_get_controller = (\<lambda>a w. bindExn (getObject a w) (\<lambda>mo. Inr (mo_controller mo))),
      mo_documentID = documentID (svc_ops svc),
      mo_prefixlessDocumentID = prefixlessDocumentID (svc_ops svc),
      mo_createdAt = createdAt (svc_ops svc),
      mo_updatedAt = updatedAt (svc_ops svc),
      mo_sessionID = (\<lambda>a w. dynamicValue svc a ''sessionID'' w),
      mo_get_cloudKitChangeTag = cloudKitChangeTag (svc_ops svc),
      mo_creator = (\<lambda>a w. getModelProperty packageOfDatabase svc a ''creator'' w),
      mo_editors = editors svc\<rparr>"

text \<open>The identifiers of the creator and of the current user are passed to \<open>mo_shareWithError\<close>.\<close>

record 'db sharing_methods =
  mo_shared :: "nat \<Rightarrow> 'db world \<Rightarrow> bool"
  mo_shareWithError :: "string option \<Rightarrow> string option \<Rightarrow> nat \<Rightarrow> 'db world \<Rightarrow> exn + (ns_error option + unit) \<times> 'db world"
  mo_moderationState :: "nat \<Rightarrow> 'db world \<Rightarrow> int"
  mo_isModerated :: "nat \<Rightarrow> 'db world \<Rightarrow> bool"
  mo_isAccepted :: "nat \<Rightarrow> 'db world \<Rightarrow> bool"
  mo_accept :: "nat \<Rightarrow> 'db world \<Rightarrow> exn + 'db world"
  mo_isRejected :: "nat \<Rightarrow> 'db world \<Rightarrow> bool"
  mo_reject :: "nat \<Rightarrow> 'db world \<Rightarrow> exn + 'db world"

definition featherSharingMethods :: "'db services \<Rightarrow> 'db sharing_methods" where
  "featherSharingMethods svc =
     \<lparr>mo_shared = isShared (svc_ops svc),
      mo_shareWithError = shareWithError svc,
      mo_moderationState = moderationState (svc_ops svc),
      mo_isModerated = (\<lambda>a w. boolValue (dynamicValue svc a ''isModerated'' w)),
      mo_isAccepted = (\<lambda>a w. boolValue (dynamicValue svc a ''isAccepted'' w)),
      mo_accept = accept svc,
      mo_isRejected = (\<lambda>a w. boolValue (dynamicValue svc a ''isRejected'' w)),
      mo_reject = reject svc\<rparr>"

definition prototypeTransformedValueForPropertiesDictionaryKey ::
  "'db cbl_ops \<Rightarrow> nat \<Rightarrow> string \<Rightarrow> nat \<Rightarrow> 'db world \<Rightarrow> val option" where
  "prototypeTransformedValueForPropertiesDictionaryKey ops a key copy w = getValueOfProperty ops a key w"

text \<open>\<open>capitalized\<close> is \<open>capitalizedString\<close>.\<close>

record 'db prototype_methods =
  mo_prototypeTransformedValue :: "nat \<Rightarrow> string \<Rightarrow> nat \<Rightarrow> 'db world \<Rightarrow> val option"
  mo_humanReadableNameForPropertyKey :: "string \<Rightarrow> string"
  mo_prototypeID :: "nat \<Rightarrow> 'db world \<Rightarrow> val option"
  mo_prototype :: "nat \<Rightarrow> 'db world \<Rightarrow> (exn + nat option \<times> 'db world) option"
  mo_hasPrototype :: "nat \<Rightarrow> 'db world \<Rightarrow> bool"
  mo_canFormPrototype :: bool
  mo_formsPrototypeWhenShared :: bool
  mo_locked :: "nat \<Rightarrow> 'db world \<Rightarrow> bool"
  mo_userContributed :: "nat \<Rightarrow> 'db world \<Rightarrow> bool"
  mo_setUserContributed :: "nat \<Rightarrow> bool \<Rightarrow> 'db world \<Rightarrow> exn + 'db world"

definition featherPrototypeMethods :: "(string \<Rightarrow> string) \<Rightarrow> 'db services \<Rightarrow> 'db prototype_methods" where
  "featherPrototypeMethods capitalized svc =
     \<lparr>mo_prototypeTransformedValue = prototypeTransformedValueForPropertiesDictionaryKey (svc_ops svc),
      mo_humanReadableNameForPropertyKey = capitalized,
      mo_prototypeID = prototypeID (svc_ops svc),
      mo_prototype = prototype svc,
      mo_hasPrototype = hasPrototype (svc_ops svc),
      mo_canFormPrototype = True,
      mo_formsPrototypeWhenShared = False,
      mo_locked = isLocked (svc_ops svc),
      mo_userContributed = isUserContributed (svc_ops svc),
      mo_setUserContributed = setUserContributed svc\<rparr>"

record key_methods =
  mo_cloudKitIgnoredKeys :: "string list"
  mo_valueCodingKeyForPersistedPropertyKey :: "string \<Rightarrow> string"
  mo_persistedPropertyKeyForValueCodingKey :: "string \<Rightarrow> string"

definition featherKeyMethods :: key_methods where
  "featherKeyMethods =
     \<lparr>mo_cloudKitIgnoredKeys = [''id'', ''collection'', ''containedObjectID''],
      mo_valueCodingKeyForPersistedPropertyKey = (\<lambda>k. k),
      mo_persistedPropertyKeyForValueCodingKey = (\<lambda>k. k)\<rparr>"


section \<open>Saving and deleting\<close>

text \<open>The bound of the deep save is an argument of the methods that save deeply.\<close>

record 'db saving_methods =
  mo_lock :: "nat \<Rightarrow> 'db world \<Rightarrow> exn + 'db world"
  mo_unlock :: "nat \<Rightarrow> 'db world \<Rightarrow> exn + 'db world"
  mo_save :: "nat \<Rightarrow> 'db world \<Rightarrow> exn + bool \<times> 'db world"
  mo_deepSaveWithError :: "nat \<Rightarrow> nat \<Rightarrow> 'db world \<Rightarrow> (exn + (ns_error option + unit) \<times> 'db world) option"
  mo_deepSave :: "nat \<Rightarrow> nat \<Rightarrow> 'db world \<Rightarrow> (exn + bool \<times> 'db world) option"
  mo_saveModels :: "cls \<Rightarrow> nat list \<Rightarrow> 'db world \<Rightarrow> exn + bool \<times> 'db world"
  mo_isDeleted :: "nat \<Rightarrow> 'db world \<Rightarrow> bool"
  mo_deleteDocument :: "nat \<Rightarrow> 'db world \<Rightarrow> exn + bool \<times> 'db world"
  mo_deleteObject :: "nat \<Rightarrow> 'db world \<Rightarrow> exn + bool \<times> 'db world"

definition featherSavingMethods :: "bool \<Rightarrow> 'db deep_services \<Rightarrow> 'db services \<Rightarrow> 'db saving_methods" where
  "featherSavingMethods debug ds svc =
     \<lparr>mo_lock = lock svc,
      mo_unlock = unlock svc,
      mo_save = saveSilently svc,
      mo_deepSaveWithError = (\<lambda>n a w. deepSaveWithError ds svc n (EmbeddingManaged a) w),
      mo_deepSave = deepSave debug ds svc,
      mo_saveModels = saveModels svc,
      mo_isDeleted = isDeleted (svc_ops svc),
      mo_deleteDocument = deleteDocument svc,
      mo_deleteObject = deleteDocument svc\<rparr>"

text \<open>\<open>MPAutosavingManagedObjectProxy\<close>: \<open>setValueForKey\<close> is the key-value setter of the object.\<close>

record autosaving_proxy =
  proxy_managedObject :: nat

definition initWithObject :: "nat option \<Rightarrow> exn + autosaving_proxy" where
  "initWithObject obj = bindExn (MPAssertNotNil obj ''o'') (\<lambda>a. Inr \<lparr>proxy_managedObject = a\<rparr>)"

definition proxySetValue ::
  "(nat \<Rightarrow> val option \<Rightarrow> string \<Rightarrow> 'db world \<Rightarrow> exn + 'db world) \<Rightarrow> 'db services \<Rightarrow> autosaving_proxy \<Rightarrow>
   val option \<Rightarrow> string \<Rightarrow> 'db world \<Rightarrow> exn + bool \<times> 'db world" where
  "proxySetValue setValueForKey svc p v k w =
     bindExn (setValueForKey (proxy_managedObject p) v k w) (\<lambda>w1. saveSilently svc (proxy_managedObject p) w1)"


section \<open>Full-text strings\<close>

text \<open>
  A class names the properties it indexes, none by default.  \<open>valueForKey\<close> gives the
  strings of the properties, \<open>fullTextNormalizedString\<close> is the normalisation of Core Foundation.
\<close>

definition indexableStringForPropertyKey :: "(string \<Rightarrow> string option) \<Rightarrow> string \<Rightarrow> string option" where
  "indexableStringForPropertyKey valueForKey propertyKey = valueForKey propertyKey"

fun tokenizeFrom :: "(string \<Rightarrow> string) \<Rightarrow> (string \<Rightarrow> string option) \<Rightarrow> nat \<Rightarrow> nat \<Rightarrow> string list \<Rightarrow> string" where
  "tokenizeFrom normalized valueForKey n i [] = []"
| "tokenizeFrom normalized valueForKey n i (key # rest) =
     (case map_option normalized (indexableStringForPropertyKey valueForKey key) of
        None \<Rightarrow> []
      | Some s \<Rightarrow> s @ (if i < n - 1 then '' '' else [])) @ tokenizeFrom normalized valueForKey n (i + 1) rest"

definition tokenizedFullTextString ::
  "(string \<Rightarrow> string) \<Rightarrow> string list option \<Rightarrow> (string \<Rightarrow> string option) \<Rightarrow> string option" where
  "tokenizedFullTextString normalized keys valueForKey =
     (case keys of
        None \<Rightarrow> None
      | Some ks \<Rightarrow> if ks = [] then None else Some (tokenizeFrom normalized valueForKey (length ks) 0 ks))"


record indexing_methods =
  mo_indexablePropertyKeys :: "string list option"
  mo_indexableStringForPropertyKey :: "(string \<Rightarrow> string option) \<Rightarrow> string \<Rightarrow> string option"
  mo_tokenizedFullTextString :: "string list option \<Rightarrow> (string \<Rightarrow> string option) \<Rightarrow> string option"

definition featherIndexingMethods :: "(string \<Rightarrow> string) \<Rightarrow> indexing_methods" where
  "featherIndexingMethods normalized =
     \<lparr>mo_indexablePropertyKeys = None,
      mo_indexableStringForPropertyKey = indexableStringForPropertyKey,
      mo_tokenizedFullTextString = tokenizedFullTextString normalized\<rparr>"


section \<open>Embedded objects in dictionaries and single properties\<close>

fun embeddedEntries ::
  "(string \<Rightarrow> val option) \<Rightarrow> 'db services \<Rightarrow> nat \<Rightarrow> string \<Rightarrow> dict \<Rightarrow> 'db world \<Rightarrow>
   exn + (string \<times> nat) list \<times> 'db world" where
  "embeddedEntries de svc a k [] w = Inr ([], w)"
| "embeddedEntries de svc a k ((key, v) # rest) w =
     bindExn (embeddedElement de svc a k v w) (\<lambda>(r, w1).
     bindExn (MPAssertNotNil r ''object cannot be nil'') (\<lambda>e.
     bindExn (embeddedEntries de svc a k rest w1) (\<lambda>(es, w2). Inr ((key, e) # es, w2))))"

definition getEmbeddedObjectDictionaryProperty ::
  "(string \<Rightarrow> val option) \<Rightarrow> 'db services \<Rightarrow> nat \<Rightarrow> string \<Rightarrow> 'db world \<Rightarrow>
   exn + (string \<times> nat) list \<times> 'db world" where
  "getEmbeddedObjectDictionaryProperty de svc a k w =
     (case getValueOfProperty (svc_ops svc) a k w of
        None \<Rightarrow> Inr ([], w)
      | Some (VDict d) \<Rightarrow> embeddedEntries de svc a k d w
      | Some v \<Rightarrow> throw (NSInvalidArgumentException ''allKeys''))"

text \<open>A dictionary entry that is itself a dictionary is replaced by the object of the whole dictionary.\<close>

fun cacheEntries ::
  "(string \<Rightarrow> val option) \<Rightarrow> 'db services \<Rightarrow> nat \<Rightarrow> string \<Rightarrow> dict \<Rightarrow> dict \<Rightarrow> 'db world \<Rightarrow>
   exn + dict \<times> 'db world" where
  "cacheEntries de svc a k whole [] w = Inr ([], w)"
| "cacheEntries de svc a k whole ((key, v) # rest) w =
     bindExn (embeddedElement de svc a k (case v of VDict d \<Rightarrow> VDict whole | _ \<Rightarrow> v) w) (\<lambda>(r, w1).
     bindExn (MPAssertNotNil r ''Expecting a non-nil object to cache'') (\<lambda>e.
     bindExn (managedCacheEmbedded a e w1) (\<lambda>w2.
     bindExn (cacheEntries de svc a k whole rest w2) (\<lambda>(es, w3). Inr ((key, VEmbedded e) # es, w3)))))"

definition setEmbeddedObjectDictionary ::
  "(string \<Rightarrow> val option) \<Rightarrow> 'db services \<Rightarrow> nat \<Rightarrow> dict \<Rightarrow> string \<Rightarrow> 'db world \<Rightarrow> exn + 'db world" where
  "setEmbeddedObjectDictionary de svc a d k w =
     bindExn (cacheEntries de svc a k d d w) (\<lambda>(es, w1). setValue svc a (Some (VDict es)) k w1)"

text \<open>The value of a property that holds one embedded object: unsaved, or decoded from the document.\<close>

definition cacheDecoded ::
  "'db services \<Rightarrow> nat \<Rightarrow> string \<Rightarrow> nat option \<times> 'db world \<Rightarrow> nat option \<times> 'db world" where
  "cacheDecoded svc a k r =
     (case r of
        (None, w) \<Rightarrow> (None, w)
      | (Some e, w) \<Rightarrow> (Some e, putCbl (modelCacheValue (svc_ops svc) (cbl w) a (Some (VEmbedded e)) k False) w))"

definition embeddedPropertyValue ::
  "(string \<Rightarrow> val option) \<Rightarrow> 'db services \<Rightarrow> nat \<Rightarrow> string \<Rightarrow> 'db world \<Rightarrow> exn + nat option \<times> 'db world" where
  "embeddedPropertyValue de svc a k w =
     (case modelUnsavedValue (svc_ops svc) (cbl w) a k of
        None \<Rightarrow>
          (case modelDocumentProperty (svc_ops svc) (cbl w) a k of
             None \<Rightarrow> Inr (None, w)
           | Some (VString s) \<Rightarrow>
               bindExn (decodeEmbeddedObject de svc a (VString s) k w) (\<lambda>r. Inr (cacheDecoded svc a k r))
           | Some (VDict d) \<Rightarrow>
               bindExn (decodeEmbeddedObject de svc a (VDict d) k w) (\<lambda>r. Inr (cacheDecoded svc a k r))
           | Some (VEmbedded e) \<Rightarrow> Inr (cacheDecoded svc a k (Some e, w))
           | Some v \<Rightarrow> Inr (None, w))
      | Some (VString s) \<Rightarrow>
          bindExn (decodeEmbeddedObject de svc a (VString s) k w) (\<lambda>r. Inr (cacheDecoded svc a k r))
      | Some (VDict d) \<Rightarrow>
          bindExn (decodeEmbeddedObject de svc a (VDict d) k w) (\<lambda>r. Inr (cacheDecoded svc a k r))
      | Some (VEmbedded e) \<Rightarrow> Inr (Some e, w)
      | Some v \<Rightarrow> throw (NSInternalInconsistencyException ''value isKindOfClass''))"

definition getEmbeddedObjectProperty ::
  "(string \<Rightarrow> val option) \<Rightarrow> 'db services \<Rightarrow> nat \<Rightarrow> string \<Rightarrow> 'db world \<Rightarrow> exn + nat option \<times> 'db world" where
  "getEmbeddedObjectProperty de svc a k w =
     bindExn (embeddedPropertyValue de svc a k w) (\<lambda>(r, w1).
     bindExn (getObject a w1) (\<lambda>mo.
       case (svc_classOfProperty svc (mo_class mo) k, r) of
         (Some c, Some e) \<Rightarrow>
           bindExn (getEmbedded e w1) (\<lambda>eo.
           bindExn (assertThat (isSubclassOfClass (eo_class eo) c) ''value isKindOfClass'') (\<lambda>_. Inr (r, w1)))
       | _ \<Rightarrow> Inr (r, w1)))"


section \<open>The class, its instances and their representations\<close>

text \<open>\<open>capturedGroups\<close> gives the groups that a regular expression captures in a string.\<close>

definition humanReadableName :: "(string \<Rightarrow> string \<Rightarrow> string list) \<Rightarrow> cls \<Rightarrow> string option" where
  "humanReadableName capturedGroups c =
     (case capturedGroups (class_name c) ''MP(.*)'' of [] \<Rightarrow> None | s # _ \<Rightarrow> Some s)"

record class_methods =
  mo_idForNewDocumentInDatabase :: "cls \<Rightarrow> string \<Rightarrow> string"
  mo_validateRevision :: "revision \<Rightarrow> bool"
  mo_requiresProperty :: "string \<Rightarrow> bool"
  mo_shouldTrackSessionID :: bool
  mo_managedObjectClassFromDocumentID :: "string \<Rightarrow> exn + cls"
  mo_canonicalizedIdentifierStringForString :: "string \<Rightarrow> string"
  mo_humanReadableName :: "cls \<Rightarrow> string option"

definition featherClassMethods :: "(string \<Rightarrow> string \<Rightarrow> string list) \<Rightarrow> runtime \<Rightarrow> known_classes \<Rightarrow> class_methods" where
  "featherClassMethods capturedGroups rt kc =
     \<lparr>mo_idForNewDocumentInDatabase = classIdForNewDocument,
      mo_validateRevision = (\<lambda>r. True),
      mo_requiresProperty = (\<lambda>k. False),
      mo_shouldTrackSessionID = False,
      mo_managedObjectClassFromDocumentID = managedObjectClassFromDocumentID rt kc,
      mo_canonicalizedIdentifierStringForString = canonicalizedIdentifierStringForString,
      mo_humanReadableName = humanReadableName capturedGroups\<rparr>"

record 'db representation_methods =
  mo_nonIdentifiableProperties :: "nat \<Rightarrow> 'db world \<Rightarrow> dict"
  mo_referableDictionaryRepresentation :: "nat \<Rightarrow> 'db world \<Rightarrow> exn + dict option"
  mo_objectWithReferableDictionaryRepresentation :: "dict \<Rightarrow> 'db world \<Rightarrow> (exn + nat option \<times> 'db world) option"
  mo_pasteboardObjectIDPropertyListForObjects :: "nat list \<Rightarrow> 'db world \<Rightarrow> exn + val list"
  mo_promisedPasteboardTypes :: "string set"
  mo_JSONStringRepresentation :: "nat \<Rightarrow> 'db world \<Rightarrow> exn + (ns_error option + string) option"
  mo_JSONEncodableDictionaryRepresentation :: "nat \<Rightarrow> 'db world \<Rightarrow> dict option"

definition featherRepresentationMethods ::
  "bool \<Rightarrow> (val \<Rightarrow> ns_error option + string) \<Rightarrow> package_registry \<Rightarrow> 'db services \<Rightarrow> 'db representation_methods" where
  "featherRepresentationMethods debug enc r svc =
     \<lparr>mo_nonIdentifiableProperties = nonIdentifiableProperties (svc_ops svc),
      mo_referableDictionaryRepresentation = referableDictionaryRepresentation r svc,
      mo_objectWithReferableDictionaryRepresentation = objectWithReferableDictionaryRepresentation debug r svc,
      mo_pasteboardObjectIDPropertyListForObjects = pasteboardObjectIDPropertyListForObjects r svc,
      mo_promisedPasteboardTypes = promisedPasteboardTypes,
      mo_JSONStringRepresentation = JSONStringRepresentationOfObject enc (svc_ops svc),
      mo_JSONEncodableDictionaryRepresentation = JSONEncodableDictionaryRepresentation (svc_ops svc)\<rparr>"

text \<open>The class and the address of the object being initialised come first.\<close>

record 'db initialisers =
  mo_isConcrete :: "cls \<Rightarrow> bool"
  mo_initWithNewDocument :: "cls \<Rightarrow> nat \<Rightarrow> nat option \<Rightarrow> 'db world \<Rightarrow> exn + 'db world"
  mo_initWithNewDocument_properties_documentID ::
    "cls \<Rightarrow> nat \<Rightarrow> nat option \<Rightarrow> dict option \<Rightarrow> string option \<Rightarrow> 'db world \<Rightarrow> exn + 'db world"
  mo_initWithNewDocument_prototype_documentID ::
    "cls \<Rightarrow> nat \<Rightarrow> nat option \<Rightarrow> nat option \<Rightarrow> string option \<Rightarrow> 'db world \<Rightarrow> exn + 'db world"
  mo_initCopyOfManagedObject :: "cls \<Rightarrow> nat \<Rightarrow> nat \<Rightarrow> nat option \<Rightarrow> 'db world \<Rightarrow> exn + 'db world"

definition featherInitialisers :: "'db services \<Rightarrow> 'db initialisers" where
  "featherInitialisers svc =
     \<lparr>mo_isConcrete = isConcrete (svc_runtime svc),
      mo_initWithNewDocument = (\<lambda>c a m w. initWithNewDocumentForController svc c a m None None w),
      mo_initWithNewDocument_properties_documentID = initWithNewDocumentForController svc,
      mo_initWithNewDocument_prototype_documentID =
        (\<lambda>c a m proto i w. initWithNewDocumentForController svc c a m None i w),
      mo_initCopyOfManagedObject = initCopyOfManagedObject svc\<rparr>"

record 'db reference_methods =
  mo_setObjectIdentifierArray :: "nat \<Rightarrow> nat list \<Rightarrow> string \<Rightarrow> 'db world \<Rightarrow> exn + 'db world"
  mo_getObjectIdentifierArray :: "nat \<Rightarrow> string \<Rightarrow> 'db world \<Rightarrow> (exn + nat list \<times> 'db world) option"
  mo_setObjectIdentifierSet :: "nat \<Rightarrow> nat list \<Rightarrow> string \<Rightarrow> 'db world \<Rightarrow> exn + 'db world"
  mo_getObjectIdentifierSet :: "nat \<Rightarrow> string \<Rightarrow> 'db world \<Rightarrow> (exn + nat set \<times> 'db world) option"
  mo_setDictionaryEmbeddedValue :: "nat \<Rightarrow> val \<Rightarrow> string \<Rightarrow> string \<Rightarrow> 'db world \<Rightarrow> exn + 'db world"
  mo_getDictionaryEmbeddedValue :: "nat \<Rightarrow> string \<Rightarrow> string \<Rightarrow> 'db world \<Rightarrow> exn + val option"

definition featherReferenceMethods :: "'db services \<Rightarrow> 'db reference_methods" where
  "featherReferenceMethods svc =
     \<lparr>mo_setObjectIdentifierArray = setObjectIdentifierArrayValueForManagedObjectArray svc,
      mo_getObjectIdentifierArray = getValueOfObjectIdentifierArrayProperty svc,
      mo_setObjectIdentifierSet = setObjectIdentifierSetValueForManagedObjectArray svc,
      mo_getObjectIdentifierSet = getValueOfObjectIdentifierSetProperty svc,
      mo_setDictionaryEmbeddedValue = setDictionaryEmbeddedValue svc,
      mo_getDictionaryEmbeddedValue = getValueForDictionaryEmbeddedKey (svc_ops svc)\<rparr>"

record 'db attachment_methods =
  mo_attachContentsOfURL :: "nat \<Rightarrow> string \<Rightarrow> string \<Rightarrow> string \<Rightarrow> 'db world \<Rightarrow> exn + (ns_error option + unit) \<times> 'db world"
  mo_createAttachment_withString ::
    "nat \<Rightarrow> string \<Rightarrow> string \<Rightarrow> string option \<Rightarrow> 'db world \<Rightarrow> (ns_error option + unit) \<times> 'db world"
  mo_createAttachment_withContentsOfURL ::
    "nat \<Rightarrow> string \<Rightarrow> string \<Rightarrow> string option \<Rightarrow> 'db world \<Rightarrow> (ns_error option + unit) \<times> 'db world"

definition featherAttachmentMethods ::
  "'db file_services \<Rightarrow> (string \<Rightarrow> string) \<Rightarrow> 'db services \<Rightarrow> 'db attachment_methods" where
  "featherAttachmentMethods fs contentOfFile svc =
     \<lparr>mo_attachContentsOfURL = attachContentsOfURL fs contentOfFile svc,
      mo_createAttachment_withString = createAttachmentWithString svc,
      mo_createAttachment_withContentsOfURL = createAttachmentWithContentsOfURL fs svc\<rparr>"

definition objectSpecifierKey :: "cls \<Rightarrow> string" where
  "objectSpecifierKey c = ''all'' @ pluralizedString (removingMPPrefix (class_name c))"

definition singular :: "cls \<Rightarrow> string" where
  "singular c = camelCased (removingMPPrefix (class_name c))"

definition plural :: "cls \<Rightarrow> string" where
  "plural c = pluralizedString (singular c)"

record 'db scripting_methods =
  mo_objectSpecifierKeyOfClass :: "cls \<Rightarrow> string"
  mo_objectSpecifierKey :: "nat \<Rightarrow> 'db world \<Rightarrow> exn + string"
  mo_singular :: "cls \<Rightarrow> string"
  mo_plural :: "cls \<Rightarrow> string"

definition featherScriptingMethods :: "'db scripting_methods" where
  "featherScriptingMethods =
     \<lparr>mo_objectSpecifierKeyOfClass = objectSpecifierKey,
      mo_objectSpecifierKey = (\<lambda>a w. bindExn (getObject a w) (\<lambda>mo. Inr (objectSpecifierKey (mo_class mo)))),
      mo_singular = singular,
      mo_plural = plural\<rparr>"

text \<open>The protected interface; \<open>de\<close> decodes JSON.\<close>

definition setController :: "nat \<Rightarrow> nat option \<Rightarrow> 'db world \<Rightarrow> exn + 'db world" where
  "setController a m w = bindExn (getObject a w) (\<lambda>mo. Inr (putObject a (mo\<lparr>mo_controller := m\<rparr>) w))"

record 'db protected_methods =
  mo_objectType :: "nat \<Rightarrow> 'db world \<Rightarrow> val option"
  mo_setObjectType :: "nat \<Rightarrow> string \<Rightarrow> 'db world \<Rightarrow> exn + 'db world"
  mo_setController :: "nat \<Rightarrow> nat option \<Rightarrow> 'db world \<Rightarrow> exn + 'db world"
  mo_setShared :: "nat \<Rightarrow> bool \<Rightarrow> 'db world \<Rightarrow> exn + 'db world"
  mo_setModerationState :: "nat \<Rightarrow> MPManagedObjectModerationState \<Rightarrow> 'db world \<Rightarrow> exn + 'db world"
  mo_setPrototype :: "nat \<Rightarrow> nat option \<Rightarrow> 'db world \<Rightarrow> exn + 'db world"
  mo_setEmbeddedObjectArray :: "nat \<Rightarrow> val \<Rightarrow> string \<Rightarrow> 'db world \<Rightarrow> exn + 'db world"
  mo_getEmbeddedObjectArrayProperty :: "nat \<Rightarrow> string \<Rightarrow> 'db world \<Rightarrow> exn + nat list \<times> 'db world"
  mo_getEmbeddedObjectDictionaryProperty :: "nat \<Rightarrow> string \<Rightarrow> 'db world \<Rightarrow> exn + (string \<times> nat) list \<times> 'db world"
  mo_setEmbeddedObjectDictionary :: "nat \<Rightarrow> dict \<Rightarrow> string \<Rightarrow> 'db world \<Rightarrow> exn + 'db world"
  mo_setEmbeddedObject :: "nat \<Rightarrow> nat option \<Rightarrow> string \<Rightarrow> 'db world \<Rightarrow> exn + 'db world"
  mo_getEmbeddedObjectProperty :: "nat \<Rightarrow> string \<Rightarrow> 'db world \<Rightarrow> exn + nat option \<times> 'db world"
  mo_decodeEmbeddedObject :: "nat \<Rightarrow> val \<Rightarrow> string \<Rightarrow> 'db world \<Rightarrow> exn + nat option \<times> 'db world"
  mo_setCloudKitChangeTag :: "nat \<Rightarrow> string option \<Rightarrow> 'db world \<Rightarrow> exn + 'db world"

definition featherProtectedMethods :: "(string \<Rightarrow> val option) \<Rightarrow> 'db services \<Rightarrow> 'db protected_methods" where
  "featherProtectedMethods de svc =
     \<lparr>mo_objectType = objectType (svc_ops svc),
      mo_setObjectType = setObjectType svc,
      mo_setController = setController,
      mo_setShared = setShared svc,
      mo_setModerationState = setModerationState svc,
      mo_setPrototype = setPrototype svc,
      mo_setEmbeddedObjectArray = setEmbeddedObjectArray de svc,
      mo_getEmbeddedObjectArrayProperty = getEmbeddedObjectArrayProperty de svc,
      mo_getEmbeddedObjectDictionaryProperty = getEmbeddedObjectDictionaryProperty de svc,
      mo_setEmbeddedObjectDictionary = setEmbeddedObjectDictionary de svc,
      mo_setEmbeddedObject = setEmbeddedObject svc,
      mo_getEmbeddedObjectProperty = getEmbeddedObjectProperty de svc,
      mo_decodeEmbeddedObject = decodeEmbeddedObject de svc,
      mo_setCloudKitChangeTag = setCloudKitChangeTag\<rparr>"


section \<open>What the interface promises\<close>

text \<open>The full-text string of an object whose indexed properties all have a string is the
  normalised strings, separated by single spaces.\<close>

fun separatedBySpaces :: "string list \<Rightarrow> string" where
  "separatedBySpaces [] = []"
| "separatedBySpaces [s] = s"
| "separatedBySpaces (s # t # rest) = s @ '' '' @ separatedBySpaces (t # rest)"

lemma tokenizeFrom_separated:
  assumes "\<forall>k \<in> set ks. valueForKey k \<noteq> None" and "n = i + length ks"
  shows "tokenizeFrom normalized valueForKey n i ks =
    separatedBySpaces (map (\<lambda>k. normalized (the (valueForKey k))) ks)"
  using assms
proof (induction ks arbitrary: i)
  case (Cons k ks)
  obtain s where s: "valueForKey k = Some s" using Cons.prems(1) by auto
  have "tokenizeFrom normalized valueForKey n (i + 1) ks =
      separatedBySpaces (map (\<lambda>k. normalized (the (valueForKey k))) ks)"
    by (rule Cons.IH) (use Cons.prems in simp_all)
  then show ?case using s Cons.prems(2) by (cases ks) (simp_all add: indexableStringForPropertyKey_def)
qed simp

theorem fullText_separated:
  assumes "ks \<noteq> []" and "\<forall>k \<in> set ks. valueForKey k \<noteq> None"
  shows "mo_tokenizedFullTextString (featherIndexingMethods normalized) (Some ks) valueForKey =
    Some (separatedBySpaces (map (\<lambda>k. normalized (the (valueForKey k))) ks))"
  using assms tokenizeFrom_separated [of ks valueForKey "length ks" 0 normalized]
  by (simp add: featherIndexingMethods_def tokenizedFullTextString_def)

theorem fullText_separated_witness:
  "mo_tokenizedFullTextString (featherIndexingMethods id) (Some [''title'', ''desc'']) (\<lambda>k. Some k) = Some ''title desc''"
  by (subst fullText_separated) simp_all

text \<open>A value set through the autosaving proxy is stored and, when the call reports success, the
  object has no unsaved changes left.\<close>

lemma saveSilently_True:
  assumes "saveSilently svc a w = Inr (True, w')"
  shows "saveWithError svc a w = Inr (Inr (), w')"
  using assms by (rule saveSilently_Inr) auto

lemma saved_isClean:
  assumes "saving_laws (svc_ops svc)" and "saveWithError svc a w = Inr (Inr (), w')"
  shows "isClean (svc_ops svc) a w'"
proof (cases "isClean (svc_ops svc) a w")
  case True
  then show ?thesis using assms(2) by (simp add: saveWithError_def)
next
  case False
  with assms(2) obtain w1 db w2 where db: "modelSave (svc_ops svc) (cbl w1) a = Inr db"
    and w2: "clearEmbeddedNeedsSave svc a (putCbl db w1) = Inr w2" and w': "saveCompleted svc a w2 = Inr w'"
    by (rule saveWithError_Inr) auto
  have "cbl w' = cbl w2" using w' by (rule saveCompleted_effect) auto
  then have "cbl w' = db" using clearEmbeddedNeedsSave_graph(4) [OF w2] by simp
  then show ?thesis using assms(1) db by (auto simp: isClean_def saving_laws_def)
qed

theorem autosaving_proxy_saves:
  assumes "property_laws (svc_ops svc)" and "saving_laws (svc_ops svc)"
    and "initWithObject (Some a) = Inr p" and "\<not> isDeleted (svc_ops svc) a w" and "\<not> isDict v"
    and "k \<notin> saveKeys" and "proxySetValue (setValue svc) svc p v k w = Inr (True, w')"
  shows "getValueOfProperty (svc_ops svc) a k w' = v \<and> isClean (svc_ops svc) a w'"
proof -
  have p: "proxy_managedObject p = a" using assms(3) by (auto simp: initWithObject_def MPAssertNotNil_def)
  then obtain w1 where w1: "setValue svc a v k w = Inr w1" and s: "saveSilently svc a w1 = Inr (True, w')"
    using assms(7) by (auto simp: proxySetValue_def bindExn_Inr)
  note s = saveSilently_True [OF s]
  have "getValueOfProperty (svc_ops svc) a k w' = getValueOfProperty (svc_ops svc) a k w1"
    using saveWithError_frame [OF assms(1,2) s] assms(6) by (blast intro: frame_get)
  then show ?thesis
    using setValue_stores [OF assms(1) w1 assms(5,4)] saved_isClean [OF assms(2) s] by simp
qed

lemma sample_proxy:
  "\<exists>w'. proxySetValue (setValue sampleServices) sampleServices \<lparr>proxy_managedObject = 10\<rparr> (Some (VString ''t'')) ''title''
     sampleWorld = Inr (True, w')"
proof -
  let ?put = "\<lambda>v k (w :: memory_store world). putCbl (modelSetValue memory_ops (cbl w) 10 v k) w"
  let ?w1 = "?put (Some (VString ''t'')) ''title'' sampleWorld"
  have set: "setValue sampleServices 10 (Some (VString ''t'')) ''title'' sampleWorld = Inr ?w1"
    by (simp add: sample_setValue)
  have stamps: "updateTimestamps sampleServices 10 ?w1 =
      Inr (?put (Some (VNumber 7)) ''updatedAt'' (?put (Some (VNumber 7)) ''createdAt'' ?w1))"
    by (simp add: updateTimestamps_def createdAt_def getValueOfProperty_def setCreatedAt_def setUpdatedAt_def
        setValue_def isDeleted_def guardIdentity_def embeddedValueFor_scalar getObject_def MPAssertNotNil_def)
  have none: "embeddedProperties sampleServices sampleNote = {}"
    by (simp add: embeddedProperties_def propertiesOfSubclassesForClass_def propertyKeys_def
        subclasses_def computeSubclasses_def NSClassFromString_def sample_defs split: prod.splits)
  have "\<exists>w'. saveWithError sampleServices 10 ?w1 = Inr (Inr (), w')"
    using stamps
    by (simp add: saveWithError_def isClean_def prepareSave_def willSaveObject_def none
        cloudKitChangeTag_def getValueOfProperty_def clearEmbeddedNeedsSave_def embeddedIn_def
        saveCompleted_def didSaveObject_def notifyChange_def callbackContext_def postChange_def
        notificationNameForRecentChangeOfType_def notificationNameForPastChangeOfType_def lookupNames_def
        isManagedObjectClass_def isSubclassOfClass_def getObject_def getController_def getPackage_def
        MPAssertNotNil_def sampleObject_def sampleObjectsController_def sampleNames_def sampleClasses_def
        sampleNote_def sampleManagedObject_def sampleNSObject_def)
  then show ?thesis using set by (auto simp: proxySetValue_def saveSilently_def)
qed

theorem autosaving_proxy_saves_witness:
  "\<exists>w'. proxySetValue (setValue sampleServices) sampleServices \<lparr>proxy_managedObject = 10\<rparr> (Some (VString ''t'')) ''title''
     sampleWorld = Inr (True, w') \<and> getValueOfProperty memory_ops 10 ''title'' w' = Some (VString ''t'') \<and>
     isClean memory_ops 10 w'"
proof -
  obtain w' where w': "proxySetValue (setValue sampleServices) sampleServices \<lparr>proxy_managedObject = 10\<rparr>
      (Some (VString ''t'')) ''title'' sampleWorld = Inr (True, w')"
    using sample_proxy by blast
  moreover have "initWithObject (Some 10) = Inr \<lparr>proxy_managedObject = 10\<rparr>"
    by (simp add: initWithObject_def MPAssertNotNil_def)
  ultimately show ?thesis
    using autosaving_proxy_saves [of sampleServices 10 "\<lparr>proxy_managedObject = 10\<rparr>" sampleWorld "Some (VString ''t'')" "''title''" w']
      memory_laws by (auto simp: isDeleted_def)
qed

end
