(* ===== verification/EmbeddedInterface.thy ===== *)
theory EmbeddedInterface
  imports ManagedInterface
begin

text \<open>
  \<open>MPEmbeddedObject\<close> and the protocol of the objects that embed others, as the headers
  declare them: the method tables, the flag that is cleared down the embedded properties, the
  references to embedded objects that go to the pasteboard, and the saves that report errors.
\<close>


section \<open>Clearing the need to save\<close>

fun markHeld ::
  "(embedding_ref \<Rightarrow> 'db world \<Rightarrow> (exn + 'db world) option) \<Rightarrow> 'db deep_services \<Rightarrow> 'db services \<Rightarrow> embedding_ref \<Rightarrow>
   string list \<Rightarrow> 'db world \<Rightarrow> (exn + 'db world) option" where
  "markHeld mark ds svc r [] w = Some (Inr w)"
| "markHeld mark ds svc r (key # rest) w =
     bindCall
       (case svc_valueForKey svc r key w of
          None \<Rightarrow> Some (Inr w)
        | Some v \<Rightarrow>
            (case heldObject ds v w of
               None \<Rightarrow> Some (throw (NSInvalidArgumentException ''markNeedsNoSave''))
             | Some r' \<Rightarrow> mark r' w))
       (\<lambda>w1. markHeld mark ds svc r rest w1)"

text \<open>
  \<open>traversal\<close> enumerates the embedded properties of the class.  The flag of a managed
  object is left alone.  The fuel bounds the nesting of embedded objects.
\<close>

fun markNeedsNoSave ::
  "'db deep_services \<Rightarrow> 'db services \<Rightarrow> nat \<Rightarrow> embedding_ref \<Rightarrow> 'db world \<Rightarrow> (exn + 'db world) option" where
  "markNeedsNoSave ds svc 0 r w = None"
| "markNeedsNoSave ds svc (Suc n) (EmbeddingManaged a) w =
     bindCall (Some (getObject a w)) (\<lambda>mo.
       markHeld (markNeedsNoSave ds svc n) ds svc (EmbeddingManaged a)
         (traversal ds (embeddedProperties svc (mo_class mo))) w)"
| "markNeedsNoSave ds svc (Suc n) (EmbeddingEmbedded e) w =
     bindCall (Some (getEmbedded e w)) (\<lambda>eo.
     bindCall (Some (assertThat (eo_embeddingObject eo \<noteq> None) ''Expecting an embedding object'')) (\<lambda>_.
       markHeld (markNeedsNoSave ds svc n) ds svc (EmbeddingEmbedded e)
         (traversal ds (embeddedProperties svc (eo_class eo)))
         (putEmbedded e (eo\<lparr>eo_needsSave := False\<rparr>) w)))"


section \<open>The protocol of embedding objects\<close>

text \<open>\<open>cacheValue\<close> of an embedded object takes the flag but always passes YES on.\<close>

record 'db embedding_protocol =
  em_needsSave :: "embedding_ref \<Rightarrow> 'db world \<Rightarrow> bool"
  em_markNeedsSave :: "embedding_ref \<Rightarrow> 'db world \<Rightarrow> (exn + 'db world) option"
  em_markNeedsNoSave :: "nat \<Rightarrow> embedding_ref \<Rightarrow> 'db world \<Rightarrow> (exn + 'db world) option"
  em_save :: "embedding_ref \<Rightarrow> 'db world \<Rightarrow> (exn + (ns_error option + unit) \<times> 'db world) option"
  em_embeddedObjectWithIdentifier :: "embedding_ref \<Rightarrow> string \<Rightarrow> 'db world \<Rightarrow> exn + nat option"
  em_cacheEmbeddedObjectByIdentifier :: "embedding_ref \<Rightarrow> nat \<Rightarrow> 'db world \<Rightarrow> exn + 'db world"
  em_cacheValue :: "embedding_ref \<Rightarrow> val option \<Rightarrow> string \<Rightarrow> bool \<Rightarrow> 'db world \<Rightarrow> (exn + 'db world) option"

definition cacheValueChanged ::
  "(embedding_ref \<Rightarrow> string \<Rightarrow> 'db world \<Rightarrow> bool) \<Rightarrow> 'db services \<Rightarrow> embedding_ref \<Rightarrow> val option \<Rightarrow> string \<Rightarrow> bool \<Rightarrow>
   'db world \<Rightarrow> (exn + 'db world) option" where
  "cacheValueChanged scalar svc r v k changed w =
     (case r of
        EmbeddingManaged a \<Rightarrow> Some (Inr (putCbl (modelCacheValue (svc_ops svc) (cbl w) a v k changed) w))
      | EmbeddingEmbedded e \<Rightarrow> cacheValue (svc_ops svc) scalar (svc_valueForKey svc) r v k w)"

definition featherEmbeddingProtocol ::
  "(embedding_ref \<Rightarrow> string \<Rightarrow> 'db world \<Rightarrow> bool) \<Rightarrow> 'db deep_services \<Rightarrow> 'db services \<Rightarrow> 'db embedding_protocol" where
  "featherEmbeddingProtocol scalar ds svc =
     \<lparr>em_needsSave = needsSaveOfRef (svc_ops svc),
      em_markNeedsSave = markNeedsSave (svc_ops svc),
      em_markNeedsNoSave = markNeedsNoSave ds svc,
      em_save = saveEmbedding svc,
      em_embeddedObjectWithIdentifier = embeddedObjectWithIdentifier,
      em_cacheEmbeddedObjectByIdentifier = cacheEmbeddedObjectByIdentifier,
      em_cacheValue = cacheValueChanged scalar svc\<rparr>"

record 'db embedded_property_containing =
  em_embeddedProperties :: "cls \<Rightarrow> string set"
  em_willUpdateEmbeddedObject :: "embedding_ref \<Rightarrow> nat \<Rightarrow> string \<Rightarrow> 'db world \<Rightarrow> 'db world"

definition featherEmbeddedPropertyContaining :: "'db services \<Rightarrow> 'db embedded_property_containing" where
  "featherEmbeddedPropertyContaining svc =
     \<lparr>em_embeddedProperties = embeddedProperties svc,
      em_willUpdateEmbeddedObject = (\<lambda>r e k w. w)\<rparr>"


section \<open>Saving\<close>

text \<open>The second component is the error that is posted to the default notification center.\<close>

definition embeddedSave ::
  "'db services \<Rightarrow> nat \<Rightarrow> 'db world \<Rightarrow> (exn + (bool \<times> ns_error option option) \<times> 'db world) option" where
  "embeddedSave svc e w =
     bindCall (saveEmbedding svc (EmbeddingEmbedded e) w) (\<lambda>(r, w1).
       Some (Inr (case r of Inr _ \<Rightarrow> (True, None) | Inl err \<Rightarrow> (False, Some err), w1)))"

text \<open>The errors of a deep save go to the package of the embedding managed object.\<close>

definition embeddedDeepSave ::
  "bool \<Rightarrow> 'db deep_services \<Rightarrow> 'db services \<Rightarrow> nat \<Rightarrow> nat \<Rightarrow> 'db world \<Rightarrow> (exn + bool \<times> 'db world) option" where
  "embeddedDeepSave debug ds svc n e w =
     bindCall (deepSaveWithError ds svc n (EmbeddingEmbedded e) w) (\<lambda>(r, w1).
       case r of
         Inr _ \<Rightarrow> Some (Inr (True, w1))
       | Inl err \<Rightarrow>
           if debug then Some (throw (NSInternalInconsistencyException ''Encountered an error when saving''))
           else
             (case embeddingManagedObject e w1 of
                None \<Rightarrow> None
              | Some None \<Rightarrow> Some (Inr (False, w1))
              | Some (Some a) \<Rightarrow> bindCall (Some (postError a err w1)) (\<lambda>w2. Some (Inr (False, w2)))))"


section \<open>References\<close>

definition embeddedDatabaseForModelProperty ::
  "'db services \<Rightarrow> nat \<Rightarrow> string \<Rightarrow> 'db world \<Rightarrow> (exn + nat \<times> 'db world) option" where
  "embeddedDatabaseForModelProperty svc e k w =
     bindCall (databaseEmbedder e w) (\<lambda>a.
     bindCall (Some (getEmbedded e w)) (\<lambda>eo.
     bindCall (Some (packageOfObject a w)) (\<lambda>p.
     bindCall (Some (MPAssertNotNil (svc_classOfProperty svc (eo_class eo) k) ''Unexpected class'')) (\<lambda>c.
     bindCall (Some (case p of None \<Rightarrow> Inr (None, w) | Some p \<Rightarrow> controllerIn svc p c w)) (\<lambda>(m, w1).
     bindCall (Some (case m of
          Some _ \<Rightarrow> Inr (m, w1)
        | None \<Rightarrow> (case sharedShoebox w1 of None \<Rightarrow> Inr (None, w1) | Some s \<Rightarrow> controllerIn svc s c w1))) (\<lambda>(m', w2).
     bindCall (Some (databaseOf m' w2)) (\<lambda>db.
     bindCall (Some (MPAssertNotNil db ''inferredDB'')) (\<lambda>d. Some (Inr (d, w2))))))))))"

text \<open>The identifier of the object that embeds, nil when there is none.\<close>

definition embeddingObjectID :: "'db services \<Rightarrow> embedding_ref option \<Rightarrow> 'db world \<Rightarrow> exn + string option" where
  "embeddingObjectID svc r w =
     (case r of
        None \<Rightarrow> Inr None
      | Some (EmbeddingEmbedded e) \<Rightarrow> Inr (identifierAt w e)
      | Some (EmbeddingManaged a) \<Rightarrow> bindExn (documentID (svc_ops svc) a w) (\<lambda>i. Inr (Some i)))"

definition embeddedReferableDictionaryRepresentation ::
  "package_registry \<Rightarrow> 'db services \<Rightarrow> nat \<Rightarrow> 'db world \<Rightarrow> (exn + dict option) option" where
  "embeddedReferableDictionaryRepresentation r svc e w =
     bindCall (Some (getEmbedded e w)) (\<lambda>eo.
     bindCall (Some (embeddingObjectID svc (eo_embeddingObject eo) w)) (\<lambda>o'.
       case o' of
         None \<Rightarrow> Some (Inr None)
       | Some oid \<Rightarrow>
           (case embeddingManagedObject e w of
              None \<Rightarrow> None
            | Some None \<Rightarrow> Some (throw (NSInternalInconsistencyException ''Failed to resolve package controller''))
            | Some (Some a) \<Rightarrow>
                bindCall (Some (documentID (svc_ops svc) a w)) (\<lambda>mid.
                bindCall (Some (packageOfObject a w)) (\<lambda>p.
                bindCall (Some (MPAssertNotNil p ''Failed to resolve package controller'')) (\<lambda>p.
                bindCall (Some (assertThat (databasePackageControllerWithFullyQualifiedIdentifier
                    (fullyQualifiedIdentifier r p) r \<noteq> None) ''Failed to resolve package controller'')) (\<lambda>_.
                bindCall (Some (MPAssertNotNil (eo_identifier eo) ''_id'')) (\<lambda>i.
                bindCall (Some (MPAssertNotNil (eo_embeddingKey eo) ''embeddingKey'')) (\<lambda>key.
                  Some (Inr (Some
                    [(''_id'', VString i), (''embeddingObject'', VString oid), (''embeddingKey'', VString key),
                     (''embeddingManagedObject'', VString mid),
                     (''databasePackageID'', VString (fullyQualifiedIdentifier r p))]))))))))))) "

text \<open>A reference leads to the value that the managed object has under the embedding key.\<close>

definition embeddedObjectWithReferableDictionaryRepresentation ::
  "package_registry \<Rightarrow> 'db services \<Rightarrow> dict \<Rightarrow> 'db world \<Rightarrow> (exn + val option \<times> 'db world) option" where
  "embeddedObjectWithReferableDictionaryRepresentation r svc d w =
     bindCall (Some (MPAssertNotNil (case stringForKey d ''databasePackageID'' of None \<Rightarrow> None
         | Some i \<Rightarrow> databasePackageControllerWithFullyQualifiedIdentifier i r) ''pkgc'')) (\<lambda>p.
     bindCall (Some (MPAssertNotNil (stringForKey d ''embeddingManagedObject'') ''identifier'')) (\<lambda>i.
     bindCall (packageObjectWithIdentifier svc p i w) (\<lambda>(obj, w1).
       case obj of
         None \<Rightarrow> Some (Inr (None, w1))
       | Some a \<Rightarrow>
           bindCall (Some (MPAssertNotNil (stringForKey d ''embeddingKey'') ''key'')) (\<lambda>key.
             Some (Inr (svc_valueForKey svc (EmbeddingManaged a) key w1, w1))))))"


section \<open>The interface of embedded objects\<close>

text \<open>
  \<open>changedNames\<close> is never given a value, so it is nil.  The fuel of the dictionary
  form and of the deep save is an argument; the class comes first in the initialisers.
\<close>

record 'db embedded_methods =
  eo_get_identifier :: "nat \<Rightarrow> 'db world \<Rightarrow> string option"
  eo_get_embeddingObject :: "nat \<Rightarrow> 'db world \<Rightarrow> exn + embedding_ref option"
  eo_get_embeddingKey :: "nat \<Rightarrow> 'db world \<Rightarrow> exn + string option"
  eo_changedNames :: "nat \<Rightarrow> 'db world \<Rightarrow> string set option"
  eo_databaseForModelProperty :: "nat \<Rightarrow> string \<Rightarrow> 'db world \<Rightarrow> (exn + nat \<times> 'db world) option"
  eo_initWithEmbeddingObject ::
    "cls \<Rightarrow> embedding_ref option \<Rightarrow> string option \<Rightarrow> string \<Rightarrow> nat \<Rightarrow> 'db world \<Rightarrow> exn + nat \<times> 'db world"
  eo_initWithDictionary ::
    "cls \<Rightarrow> dict \<Rightarrow> embedding_ref option \<Rightarrow> string option \<Rightarrow> string \<Rightarrow> nat \<Rightarrow> 'db world \<Rightarrow> exn + nat \<times> 'db world"
  eo_dictionaryRepresentation :: "nat \<Rightarrow> nat \<Rightarrow> 'db world \<Rightarrow> (exn + dict \<times> 'db world) option"
  eo_externalize :: "nat \<Rightarrow> nat \<Rightarrow> 'db world \<Rightarrow> (exn + dict \<times> 'db world) option"
  eo_JSONStringRepresentation :: "nat \<Rightarrow> nat \<Rightarrow> 'db world \<Rightarrow> (exn + (ns_error option + string) \<times> 'db world) option"
  eo_embeddingManagedObject :: "nat \<Rightarrow> 'db world \<Rightarrow> nat option option"
  eo_embeddedObjectWithJSONString ::
    "string option \<Rightarrow> embedding_ref \<Rightarrow> string \<Rightarrow> string \<Rightarrow> nat \<Rightarrow> 'db world \<Rightarrow> exn + nat option \<times> 'db world"
  eo_embeddedObjectWithDictionary ::
    "dict \<Rightarrow> embedding_ref \<Rightarrow> string \<Rightarrow> string \<Rightarrow> nat \<Rightarrow> 'db world \<Rightarrow> exn + nat option \<times> 'db world"
  eo_objectWithReferableDictionaryRepresentation :: "dict \<Rightarrow> 'db world \<Rightarrow> (exn + val option \<times> 'db world) option"
  eo_saveWithError :: "nat \<Rightarrow> 'db world \<Rightarrow> (exn + (ns_error option + unit) \<times> 'db world) option"
  eo_deepSaveWithError :: "nat \<Rightarrow> nat \<Rightarrow> 'db world \<Rightarrow> (exn + (ns_error option + unit) \<times> 'db world) option"
  eo_deepSave :: "nat \<Rightarrow> nat \<Rightarrow> 'db world \<Rightarrow> (exn + bool \<times> 'db world) option"
  eo_save :: "nat \<Rightarrow> 'db world \<Rightarrow> (exn + (bool \<times> ns_error option option) \<times> 'db world) option"

text \<open>\<open>enc\<close> is the JSON encoder, \<open>de\<close> the decoder.\<close>

record 'db embedded_surroundings =
  es_debug :: bool
  es_enc :: "val \<Rightarrow> ns_error option + string"
  es_de :: "string \<Rightarrow> val option"
  es_base64 :: "string \<Rightarrow> string"
  es_jsonDate :: "int \<Rightarrow> string"
  es_registry :: package_registry
  es_deep :: "'db deep_services"

definition featherEmbeddedMethods :: "'db embedded_surroundings \<Rightarrow> 'db services \<Rightarrow> 'db embedded_methods" where
  "featherEmbeddedMethods es svc =
     \<lparr>eo_get_identifier = (\<lambda>e w. identifierAt w e),
      eo_get_embeddingObject = (\<lambda>e w. bindExn (getEmbedded e w) (\<lambda>eo. Inr (eo_embeddingObject eo))),
      eo_get_embeddingKey = (\<lambda>e w. bindExn (getEmbedded e w) (\<lambda>eo. Inr (eo_embeddingKey eo))),
      eo_changedNames = (\<lambda>e w. None),
      eo_databaseForModelProperty = embeddedDatabaseForModelProperty svc,
      eo_initWithEmbeddingObject = initWithEmbeddingObject,
      eo_initWithDictionary = initWithDictionary,
      eo_dictionaryRepresentation = dictionaryRepresentation (es_base64 es) (es_jsonDate es),
      eo_externalize = dictionaryRepresentation (es_base64 es) (es_jsonDate es),
      eo_JSONStringRepresentation = (\<lambda>n e w.
        bindCall (dictionaryRepresentation (es_base64 es) (es_jsonDate es) n e w) (\<lambda>(d, w1).
          Some (Inr (es_enc es (VDict d), w1)))),
      eo_embeddingManagedObject = embeddingManagedObject,
      eo_embeddedObjectWithJSONString = embeddedObjectWithJSONString (es_de es) (svc_runtime svc) (svc_classes svc),
      eo_embeddedObjectWithDictionary = embeddedObjectWithDictionary (svc_runtime svc) (svc_classes svc),
      eo_objectWithReferableDictionaryRepresentation =
        embeddedObjectWithReferableDictionaryRepresentation (es_registry es) svc,
      eo_saveWithError = (\<lambda>e w. saveEmbedding svc (EmbeddingEmbedded e) w),
      eo_deepSaveWithError = (\<lambda>n e w. deepSaveWithError (es_deep es) svc n (EmbeddingEmbedded e) w),
      eo_deepSave = embeddedDeepSave (es_debug es) (es_deep es) svc,
      eo_save = embeddedSave svc\<rparr>"

record 'db embedded_protected_methods =
  eo_setEmbeddingObject :: "nat \<Rightarrow> embedding_ref option \<Rightarrow> 'db world \<Rightarrow> exn + 'db world"
  eo_setEmbeddingKey :: "nat \<Rightarrow> string option \<Rightarrow> 'db world \<Rightarrow> exn + 'db world"
  eo_get_properties :: "nat \<Rightarrow> 'db world \<Rightarrow> exn + dict"
  eo_setNeedsSave :: "nat \<Rightarrow> bool \<Rightarrow> 'db world \<Rightarrow> exn + 'db world"
  eo_cacheValue :: "nat \<Rightarrow> val option \<Rightarrow> string \<Rightarrow> bool \<Rightarrow> 'db world \<Rightarrow> (exn + 'db world) option"

definition featherEmbeddedProtectedMethods ::
  "(embedding_ref \<Rightarrow> string \<Rightarrow> 'db world \<Rightarrow> bool) \<Rightarrow> 'db services \<Rightarrow> 'db embedded_protected_methods" where
  "featherEmbeddedProtectedMethods scalar svc =
     \<lparr>eo_setEmbeddingObject = (\<lambda>e r w. bindExn (getEmbedded e w) (\<lambda>eo.
        Inr (putEmbedded e (eo\<lparr>eo_embeddingObject := r\<rparr>) w))),
      eo_setEmbeddingKey = setEmbeddingKey,
      eo_get_properties = (\<lambda>e w. bindExn (getEmbedded e w) (\<lambda>eo. Inr (eo_properties eo))),
      eo_setNeedsSave = (\<lambda>e b w. bindExn (getEmbedded e w) (\<lambda>eo. Inr (putEmbedded e (eo\<lparr>eo_needsSave := b\<rparr>) w))),
      eo_cacheValue = (\<lambda>e. cacheValueChanged scalar svc (EmbeddingEmbedded e))\<rparr>"


section \<open>What the interface promises\<close>

text \<open>Clearing the need to save changes nothing but flags of embedded objects, and only to NO.\<close>

definition flagsCleared :: "'db world \<Rightarrow> 'db world \<Rightarrow> bool" where
  "flagsCleared w w' \<longleftrightarrow> (\<exists>es. w' = w\<lparr>embeddedObjects := (\<lambda>e.
     if e \<in> es then map_option (\<lambda>eo. eo\<lparr>eo_needsSave := False\<rparr>) (embeddedObjects w e) else embeddedObjects w e)\<rparr>)"

lemma flagsCleared_refl: "flagsCleared w w"
  unfolding flagsCleared_def by (rule exI [of _ "{}"]) simp

lemma flagsCleared_trans:
  assumes "flagsCleared w w1" and "flagsCleared w1 w2"
  shows "flagsCleared w w2"
proof -
  obtain A B where w1: "w1 = w\<lparr>embeddedObjects := (\<lambda>e. if e \<in> A
      then map_option (\<lambda>eo. eo\<lparr>eo_needsSave := False\<rparr>) (embeddedObjects w e) else embeddedObjects w e)\<rparr>"
    and w2: "w2 = w1\<lparr>embeddedObjects := (\<lambda>e. if e \<in> B
      then map_option (\<lambda>eo. eo\<lparr>eo_needsSave := False\<rparr>) (embeddedObjects w1 e) else embeddedObjects w1 e)\<rparr>"
    using assms unfolding flagsCleared_def by blast
  show ?thesis
    unfolding flagsCleared_def w2 w1
    by (rule exI [of _ "A \<union> B"]) (auto simp: fun_eq_iff map_option.compositionality o_def)
qed

lemma flagsCleared_one:
  assumes "embeddedObjects w e = Some eo"
  shows "flagsCleared w (putEmbedded e (eo\<lparr>eo_needsSave := False\<rparr>) w)"
  unfolding flagsCleared_def putEmbedded_def
  by (rule exI [of _ "{e}"]) (use assms in \<open>auto simp: fun_eq_iff\<close>)

lemma flagsCleared_clean:
  assumes "flagsCleared w w'" and "\<not> needsSaveOfRef ops (EmbeddingEmbedded e) w"
  shows "\<not> needsSaveOfRef ops (EmbeddingEmbedded e) w'"
  using assms by (auto simp: flagsCleared_def split: option.splits)

lemma markHeld_clears:
  assumes "\<And>r w w'. mark r w = Some (Inr w') \<Longrightarrow> flagsCleared w w'"
    and "markHeld mark ds svc r keys w = Some (Inr w')"
  shows "flagsCleared w w'"
  using assms(2)
proof (induction keys arbitrary: w)
  case (Cons k keys)
  then obtain w1 where *: "flagsCleared w w1" and w1: "markHeld mark ds svc r keys w1 = Some (Inr w')"
    using assms(1) flagsCleared_refl
    by (fastforce simp: bindCall_Some throw_def split: option.splits)
  show ?case using flagsCleared_trans [OF * Cons.IH [OF w1]] .
qed (simp add: flagsCleared_refl)

lemma markNeedsNoSave_clears: "markNeedsNoSave ds svc n r w = Some (Inr w') \<Longrightarrow> flagsCleared w w'"
proof (induction n arbitrary: r w w')
  case (Suc n)
  show ?case
  proof (cases r)
    case (EmbeddingManaged a)
    then show ?thesis using Suc.prems markHeld_clears [OF Suc.IH] by (auto simp: bindCall_Some)
  next
    case (EmbeddingEmbedded e)
    then obtain eo where eo: "embeddedObjects w e = Some eo"
      and rest: "markHeld (markNeedsNoSave ds svc n) ds svc r (traversal ds (embeddedProperties svc (eo_class eo)))
        (putEmbedded e (eo\<lparr>eo_needsSave := False\<rparr>) w) = Some (Inr w')"
      using Suc.prems by (auto simp: bindCall_Some)
    show ?thesis using flagsCleared_trans [OF flagsCleared_one [OF eo] markHeld_clears [OF Suc.IH rest]] .
  qed
qed simp

text \<open>Marking an embedded object as saved clears its flag, and changes nothing but flags.\<close>

theorem markNeedsNoSave_only_clears:
  assumes "em_markNeedsNoSave (featherEmbeddingProtocol scalar ds svc) n (EmbeddingEmbedded e) w = Some (Inr w')"
  shows "\<not> em_needsSave (featherEmbeddingProtocol scalar ds svc) (EmbeddingEmbedded e) w' \<and> flagsCleared w w'"
proof -
  have all: "markNeedsNoSave ds svc n (EmbeddingEmbedded e) w = Some (Inr w')"
    using assms by (simp add: featherEmbeddingProtocol_def)
  then obtain m eo where eo: "embeddedObjects w e = Some eo"
    and rest: "markHeld (markNeedsNoSave ds svc m) ds svc (EmbeddingEmbedded e)
        (traversal ds (embeddedProperties svc (eo_class eo)))
        (putEmbedded e (eo\<lparr>eo_needsSave := False\<rparr>) w) = Some (Inr w')"
    by (cases n) (auto simp: bindCall_Some)
  have "\<not> needsSaveOfRef (svc_ops svc) (EmbeddingEmbedded e) w'"
    by (rule flagsCleared_clean [OF markHeld_clears [OF markNeedsNoSave_clears rest]]) simp_all
  then show ?thesis using markNeedsNoSave_clears [OF all] by (simp add: featherEmbeddingProtocol_def)
qed

definition sampleDeep :: "memory_store deep_services" where
  "sampleDeep = \<lparr>traversal = (\<lambda>ks. []), objectAt = (\<lambda>i w. None), collectionKind = (\<lambda>c. OtherKind)\<rparr>"

theorem markNeedsNoSave_only_clears_witness:
  "\<exists>w'. markNeedsNoSave sampleDeep sampleServices 1 (EmbeddingEmbedded 31) sampleTags = Some (Inr w') \<and>
     \<not> needsSaveOfRef memory_ops (EmbeddingEmbedded 31) w' \<and> flagsCleared sampleTags w'"
proof -
  have "\<exists>w'. markNeedsNoSave sampleDeep sampleServices 1 (EmbeddingEmbedded 31) sampleTags = Some (Inr w')"
    by (simp add: sampleDeep_def bindCall_def getEmbedded_def MPAssertNotNil_def assertThat_def sampleTags_def sampleTagAt_def)
  then obtain w' where w': "markNeedsNoSave sampleDeep sampleServices 1 (EmbeddingEmbedded 31) sampleTags = Some (Inr w')" ..
  show ?thesis
    using w' markNeedsNoSave_only_clears [of "\<lambda>r k w. True" sampleDeep sampleServices 1 31 sampleTags w']
    by (intro exI [of _ w']) (simp_all add: featherEmbeddingProtocol_def)
qed

text \<open>The reference to an embedded object, however deep, leads to the value of the managed
  object under the last embedding key.  Only for an object that the managed object embeds
  directly is that the object itself.\<close>

lemma package_finds_resolvable:
  assumes "resolvable svc classes p a w" and "modelDocumentID (svc_ops svc) (cbl w) a = Some i"
  obtains w' where "packageObjectWithIdentifier svc p i w = Some (Inr (Some a, w'))"
proof -
  obtain c m pkg pkg' where "managedObjectClassOf svc i = Inr c" "controllerIn svc p c w = Inr (Some m, putPackage p pkg' w)"
    "objectWithIdentifier svc m i (putPackage p pkg' w) = Some (Inr (Some a, putPackage p pkg' w))"
    using fetch_resolvable [OF assms(1)] assms(2) by (metis option.inject)
  then have "packageObjectWithIdentifier svc p i w = Some (Inr (Some a, putPackage p pkg' w))"
    by (simp add: packageObjectWithIdentifier_def fetchFrom_def)
  then show thesis by (rule that)
qed

text \<open>C17: The reference form of an embedded object resolves, while its package is registered, to the
  value that the managed object at the end of the embedding chain holds under the embedding key.\<close>

theorem embedded_reference_resolves:
  assumes "embeddedReferableDictionaryRepresentation r svc e w = Some (Inr (Some d))"
    and "embeddedObjects w e = Some eo" and "eo_embeddingKey eo = Some key"
    and "embedding_path w (EmbeddingEmbedded e) es a" and "packageOfObject a w = Inr (Some p)"
    and "databasePackageControllerRegistry r (fullyQualifiedIdentifier r p) = Some p"
    and "resolvable svc classes p a w" and "modelDocumentID (svc_ops svc) (cbl w) a = Some i"
  shows "\<exists>w'. embeddedObjectWithReferableDictionaryRepresentation r svc d w =
    Some (Inr (svc_valueForKey svc (EmbeddingManaged a) key w', w'))"
proof -
  have walk: "embeddingManagedObject e w = Some (Some a)"
    using embeddingWalk_path [OF assms(4)] assms(2) by (simp add: embeddingManagedObject_def embeddingWalk.simps)
  obtain oid j where "d = [(''_id'', VString j), (''embeddingObject'', VString oid), (''embeddingKey'', VString key),
      (''embeddingManagedObject'', VString i), (''databasePackageID'', VString (fullyQualifiedIdentifier r p))]"
    using assms(1-3,5,8) walk
    by (auto simp: embeddedReferableDictionaryRepresentation_def bindCall_Some documentID_def split: option.splits)
  moreover obtain w' where "packageObjectWithIdentifier svc p i w = Some (Inr (Some a, w'))"
    using package_finds_resolvable [OF assms(7,8)] .
  ultimately show ?thesis
    using assms(6)
    by (simp add: embeddedObjectWithReferableDictionaryRepresentation_def stringForKey_def MPAssertNotNil_def
        databasePackageControllerWithFullyQualifiedIdentifier_def)
qed

theorem embedded_reference_resolves_witness:
  "\<exists>d w'. embeddedReferableDictionaryRepresentation
       \<lparr>fullyQualifiedIdentifier = (\<lambda>p. ''package''), databasePackageControllerRegistry = [''package'' \<mapsto> 3]\<rparr>
       sampleServices 30 (sampleFindingWorld\<lparr>embeddedObjects := embeddedObjects sampleTags\<rparr>) = Some (Inr (Some d)) \<and>
     embeddedObjectWithReferableDictionaryRepresentation
       \<lparr>fullyQualifiedIdentifier = (\<lambda>p. ''package''), databasePackageControllerRegistry = [''package'' \<mapsto> 3]\<rparr>
       sampleServices d (sampleFindingWorld\<lparr>embeddedObjects := embeddedObjects sampleTags\<rparr>) =
       Some (Inr (svc_valueForKey sampleServices (EmbeddingManaged 10) ''tag'' w', w'))"
proof -
  let ?r = "\<lparr>fullyQualifiedIdentifier = (\<lambda>p. ''package''), databasePackageControllerRegistry = [''package'' \<mapsto> 3]\<rparr>"
  let ?w = "sampleFindingWorld\<lparr>embeddedObjects := embeddedObjects sampleTags\<rparr>"
  let ?eo = "sampleTagAt ''MPTag:30'' (EmbeddingManaged 10)"
  have e: "embeddedObjects ?w 30 = Some ?eo" by (simp add: sampleTags_def)
  have path: "embedding_path ?w (EmbeddingEmbedded 30) [30] 10"
    by (rule embedding_path.embedded [OF e]) (auto simp: sampleTagAt_def intro: embedding_path.managed)
  have pk: "packageOfObject 10 ?w = Inr (Some 3)"
    by (simp add: packageOfObject_def getObject_def getController_def MPAssertNotNil_def sampleObject_def
        sampleObjectsController_def)
  have res: "resolvable sampleServices [sampleNote] 3 10 ?w"
    using sample_resolvable by (simp add: resolvable_def)
  have i: "modelDocumentID memory_ops (cbl ?w) 10 = Some ''MPNote:0001''"
    by simp
  have doc: "documentID memory_ops 10 ?w = Inr ''MPNote:0001''"
    by (simp add: documentID_def)
  have walk: "embeddingManagedObject 30 ?w = Some (Some 10)"
    using embeddingWalk_path [OF path] e by (simp add: embeddingManagedObject_def embeddingWalk.simps)
  have "\<exists>d. embeddedReferableDictionaryRepresentation ?r sampleServices 30 ?w = Some (Inr (Some d))"
    using e doc pk walk
    by (simp add: embeddedReferableDictionaryRepresentation_def embeddingObjectID_def sampleTagAt_def getEmbedded_def
        MPAssertNotNil_def databasePackageControllerWithFullyQualifiedIdentifier_def eo_identifier_def stringForKey_def
        assertThat_def)
  then obtain d where d: "embeddedReferableDictionaryRepresentation ?r sampleServices 30 ?w = Some (Inr (Some d))" ..
  show ?thesis
    using d embedded_reference_resolves [of ?r sampleServices 30 ?w d ?eo "''tag''" "[30]" 10 3 "[sampleNote]" "''MPNote:0001''"]
      e path pk res i by (auto simp: sampleTagAt_def)
qed

end
