(* ===== verification/Databases.thy ===== *)
theory Databases
  imports EmbeddedInterface
begin

text \<open>
  \<open>MPDatabase\<close>: a named database of a package with its replications, the names of its
  filters, the validation of new revisions and its metadata document, and how a change of a
  document reaches the controllers of the package.  The databases and replications of
  Couchbase Lite are given by what the code sets on them.
\<close>


section \<open>State\<close>

datatype MPDatabaseErrorCode =
    MPDatabaseErrorCodeUnknown
  | MPDatabaseErrorCodeRemoteUnconfigured
  | MPDatabaseErrorCodeRemoteInvalid
  | MPDatabaseErrorCodePushAlreadyInProgress
  | MPDatabaseErrorCodePullAlreadyInProgress

datatype replication_direction = PushReplication | PullReplication

record replication =
  repl_address :: nat
  repl_direction :: replication_direction
  repl_remote :: string
  repl_continuous :: bool
  repl_filter :: "string option"
  repl_started :: bool
  repl_observed :: bool

type_synonym filter_block = "revision \<Rightarrow> dict \<Rightarrow> exn + bool"

text \<open>\<open>db_filters\<close> are the filters that the wrapped database knows by name.\<close>

record database =
  db_name :: string
  db_server :: nat
  db_database :: nat
  db_package :: "nat option"
  db_pushFilterName :: "string option"
  db_pullFilterName :: "string option"
  db_filters :: "string \<rightharpoonup> filter_block"
  db_currentPulls :: "replication list"
  db_currentPushes :: "replication list"
  db_cachedMetadata :: "string option"
  db_cachedLocalMetadata :: "string option"


section \<open>Opening\<close>

definition sanitizedDatabaseIDWithString :: "string \<Rightarrow> string" where
  "sanitizedDatabaseIDWithString s = filter (\<lambda>c. c \<noteq> CHR ''.'') s"

text \<open>
  \<open>databaseNamed\<close> opens or creates the database of the server under a name, with the
  filters known there; \<open>ensureCreated\<close> is not looked at.
\<close>

definition initWithServer ::
  "(nat \<Rightarrow> string \<Rightarrow> ns_error option + nat \<times> (string \<rightharpoonup> filter_block)) \<Rightarrow> nat \<Rightarrow> nat option \<Rightarrow> string \<Rightarrow> bool \<Rightarrow>
   string option \<Rightarrow> string option \<Rightarrow> exn + (ns_error option + database)" where
  "initWithServer databaseNamed server package name ensureCreated pushFilterName pullFilterName =
     bindExn (assertThat (package \<noteq> None) ''packageController'') (\<lambda>_.
       Inr (case databaseNamed server (sanitizedDatabaseIDWithString name) of
              Inl err \<Rightarrow> Inl err
            | Inr (d, filters) \<Rightarrow>
                Inr \<lparr>db_name = name, db_server = server, db_database = d, db_package = package,
                     db_pushFilterName = pushFilterName, db_pullFilterName = pullFilterName, db_filters = filters,
                     db_currentPulls = [], db_currentPushes = [], db_cachedMetadata = None,
                     db_cachedLocalMetadata = None\<rparr>))"


section \<open>Validation of revisions\<close>

text \<open>
  The answer, and whether the validation context was told to reject the revision.
  \<open>failing\<close> tells whether the debugging defaults make this save fail, \<open>validates\<close>
  is \<open>validateRevision:\<close> of the classes.
\<close>

definition validateRevision ::
  "(cls \<Rightarrow> revision \<Rightarrow> bool) \<Rightarrow> runtime \<Rightarrow> bool \<Rightarrow> string option \<Rightarrow> revision \<Rightarrow> bool \<times> bool" where
  "validateRevision validates rt failing docID r =
     (if failing then (False, True)
      else if revision_isDeletion r then (True, False)
      else
        (let i = (case docID of Some j \<Rightarrow> Some j | None \<Rightarrow> stringForKey (revision_properties r) ''_id'');
             prefixed = (\<lambda>p. case i of None \<Rightarrow> False | Some j \<Rightarrow> hasPrefix j p)
         in case managedObjectType (revision_properties r) of
              Some t \<Rightarrow>
                if \<not> prefixed t then (False, True)
                else
                  (case NSClassFromString rt t of
                     None \<Rightarrow> (False, True)
                   | Some c \<Rightarrow> if \<not> validates c r then (False, True) else (True, False))
            | None \<Rightarrow> (prefixed ''MPMetadata'' \<or> prefixed ''MPLocalMetadata'', False)))"

text \<open>The validation block ignores the answer: a revision is stored unless it was rejected.\<close>

definition validationBlock ::
  "(cls \<Rightarrow> revision \<Rightarrow> bool) \<Rightarrow> runtime \<Rightarrow> bool \<Rightarrow> string option \<Rightarrow> revision \<Rightarrow> exn + bool" where
  "validationBlock validates rt failing docID r =
     bindExn (assertThat (stringForKey (revision_properties r) ''objectType'' \<noteq> Some ''MPElement'')
         ''Unexpected objectType'') (\<lambda>_.
       Inr (\<not> snd (validateRevision validates rt failing docID r)))"


section \<open>Filters\<close>

definition qualifiedPushFilterName :: "database \<Rightarrow> string option" where
  "qualifiedPushFilterName db = map_option (\<lambda>n. db_name db @ ''/'' @ n) (db_pushFilterName db)"

definition filterWithQualifiedName :: "string \<Rightarrow> database \<Rightarrow> filter_block option" where
  "filterWithQualifiedName name db = db_filters db (db_name db @ ''/'' @ name)"

definition defineFilterNamed :: "string \<Rightarrow> filter_block \<Rightarrow> database \<Rightarrow> exn + database" where
  "defineFilterNamed name block db =
     bindExn (assertThat (db_filters db name = None) ''Expecting a filter not to exist'') (\<lambda>_.
       Inr (db\<lparr>db_filters := (db_filters db)(name \<mapsto> block)\<rparr>))"

definition validateFilters :: "database \<Rightarrow> exn + unit" where
  "validateFilters db =
     (case db_pushFilterName db of
        None \<Rightarrow> Inr ()
      | Some n \<Rightarrow>
          if filterWithQualifiedName n db = None
          then throw (NSExceptionNamed ''MPFilterValidationException'' (''Filter with name '' @ n @ '' is missing.''))
          else Inr ())"


section \<open>Replication\<close>

text \<open>\<open>applies\<close> is the answer of the package, \<open>a\<close> the address of the new replication.\<close>

definition pushToDatabaseAtURL :: "bool \<Rightarrow> nat \<Rightarrow> string \<Rightarrow> database \<Rightarrow> exn + replication \<times> database" where
  "pushToDatabaseAtURL applies a url db =
     bindExn (validateFilters db) (\<lambda>_.
       let r = \<lparr>repl_address = a, repl_direction = PushReplication, repl_remote = url, repl_continuous = False,
                repl_filter = (if applies then qualifiedPushFilterName db else None), repl_started = True,
                repl_observed = True\<rparr>
       in Inr (r, db\<lparr>db_currentPushes := r # db_currentPushes db\<rparr>))"

definition pullFromDatabaseAtURL :: "bool \<Rightarrow> nat \<Rightarrow> string \<Rightarrow> database \<Rightarrow> exn + replication \<times> database" where
  "pullFromDatabaseAtURL applies a url db =
     bindExn (validateFilters db) (\<lambda>_.
       let r = \<lparr>repl_address = a, repl_direction = PullReplication, repl_remote = url, repl_continuous = False,
                repl_filter = (if applies then db_pullFilterName db else None), repl_started = True,
                repl_observed = False\<rparr>
       in Inr (r, db\<lparr>db_currentPulls := r # db_currentPulls db\<rparr>))"

text \<open>The remote URL is asked of the package; its validation always succeeds.\<close>

definition pushToRemote :: "exn + string \<Rightarrow> bool \<Rightarrow> nat \<Rightarrow> database \<Rightarrow> exn + replication \<times> database" where
  "pushToRemote remoteDatabaseURL applies a db =
     bindExn remoteDatabaseURL (\<lambda>url. pushToDatabaseAtURL applies a url db)"

definition pullFromRemote :: "exn + string \<Rightarrow> bool \<Rightarrow> nat \<Rightarrow> database \<Rightarrow> exn + replication \<times> database" where
  "pullFromRemote remoteDatabaseURL applies a db =
     bindExn remoteDatabaseURL (\<lambda>url. pullFromDatabaseAtURL applies a url db)"

text \<open>
  The database at a path is opened by a manager of its own and pushes into this one;
  \<open>internalURL\<close> is the address of this database.
\<close>

definition pullFromDatabaseAtPath ::
  "(string \<Rightarrow> ns_error option + unit) \<Rightarrow> string \<Rightarrow> nat \<Rightarrow> string \<Rightarrow> database \<Rightarrow> ns_error option + replication" where
  "pullFromDatabaseAtPath openDatabase internalURL a path db =
     (case openDatabase path of
        Inl err \<Rightarrow> Inl err
      | Inr _ \<Rightarrow> Inr \<lparr>repl_address = a, repl_direction = PushReplication, repl_remote = internalURL,
          repl_continuous = False, repl_filter = db_pullFilterName db, repl_started = True, repl_observed = False\<rparr>)"

text \<open>Only a replication that is observed reports its end.\<close>

definition replicationDidChange ::
  "nat \<Rightarrow> bool \<Rightarrow> ns_error option \<Rightarrow> database \<Rightarrow> notification_center \<Rightarrow> exn + database \<times> notification_center" where
  "replicationDidChange a stopped lastError db nc =
     (if \<not> stopped then Inr (db, nc)
      else
        bindExn (case lastError of None \<Rightarrow> Inr nc | Some e \<Rightarrow> postErrorNotification (Some e) nc) (\<lambda>nc'.
          Inr (db\<lparr>db_currentPushes := filter (\<lambda>r. repl_address r \<noteq> a) (db_currentPushes db),
                  db_currentPulls := filter (\<lambda>r. repl_address r \<noteq> a) (db_currentPulls db)\<rparr>, nc')))"

text \<open>
  \<open>ensureCreated\<close> is \<open>ensureRemoteDatabaseCreated:\<close>, which is abstract.  The two
  replications are created and observed, but not started.
\<close>

definition databaseSyncWithRemote ::
  "(exn + (ns_error option + unit)) \<Rightarrow> (exn + string) \<Rightarrow> nat \<Rightarrow> nat \<Rightarrow> database \<Rightarrow>
   exn + (ns_error option + unit) \<times> database" where
  "databaseSyncWithRemote ensureCreated remoteDatabaseURL a b db =
     bindExn (validateFilters db) (\<lambda>_.
     bindExn ensureCreated (\<lambda>r.
       case r of
         Inl err \<Rightarrow> Inr (Inl err, db)
       | Inr _ \<Rightarrow>
           bindExn remoteDatabaseURL (\<lambda>url.
             let repl = (\<lambda>c d. \<lparr>repl_address = c, repl_direction = d, repl_remote = url, repl_continuous = True,
                          repl_filter = None, repl_started = False, repl_observed = True\<rparr>)
             in Inr (Inr (), db\<lparr>db_currentPulls := repl a PullReplication # db_currentPulls db,
                               db_currentPushes := repl b PushReplication # db_currentPushes db\<rparr>))))"


section \<open>Metadata\<close>

text \<open>The metadata document is saved when it is first asked for; an error is posted.\<close>

definition metadata ::
  "(string \<Rightarrow> ns_error option + unit) \<Rightarrow> database \<Rightarrow> notification_center \<Rightarrow> exn + string \<times> database \<times> notification_center" where
  "metadata saveDocument db nc =
     (case db_cachedMetadata db of
        Some i \<Rightarrow> Inr (i, db, nc)
      | None \<Rightarrow>
          (let i = ''MPMetadata:'' @ db_name db
           in bindExn (case saveDocument i of Inr _ \<Rightarrow> Inr nc | Inl err \<Rightarrow> postErrorNotification err nc) (\<lambda>nc'.
                Inr (i, db\<lparr>db_cachedMetadata := Some i\<rparr>, nc'))))"

definition localMetadata ::
  "(string \<Rightarrow> ns_error option + unit) \<Rightarrow> database \<Rightarrow> notification_center \<Rightarrow> exn + string \<times> database \<times> notification_center" where
  "localMetadata saveDocument db nc =
     (case db_cachedLocalMetadata db of
        Some i \<Rightarrow> Inr (i, db, nc)
      | None \<Rightarrow>
          (let i = ''_local/MPMetadata:'' @ db_name db
           in bindExn (case saveDocument i of Inr _ \<Rightarrow> Inr nc | Inl err \<Rightarrow> postErrorNotification err nc) (\<lambda>nc'.
                Inr (i, db\<lparr>db_cachedLocalMetadata := Some i\<rparr>, nc'))))"

text \<open>Saving a metadata object posts an error to the default notification center.\<close>

definition metadataSave ::
  "(string \<Rightarrow> ns_error option + unit) \<Rightarrow> string \<Rightarrow> notification_center \<Rightarrow> exn + bool \<times> notification_center" where
  "metadataSave saveDocument i defaultCenter =
     (case saveDocument i of
        Inr _ \<Rightarrow> Inr (True, defaultCenter)
      | Inl err \<Rightarrow> bindExn (postErrorNotification err defaultCenter) (\<lambda>nc. Inr (False, nc)))"


section \<open>Changes of documents\<close>

definition controllerForDocument ::
  "'db services \<Rightarrow> nat \<Rightarrow> nat \<Rightarrow> cbl_document \<Rightarrow> 'db world \<Rightarrow> exn + nat \<times> 'db world" where
  "controllerForDocument svc p d doc w =
     bindExn (MPAssertNotNil (document_objectType doc) ''Expecting non-nil object type'') (\<lambda>t.
     bindExn (MPAssertNotNil (NSClassFromString (svc_runtime svc) t) ''Expecting non-nil managed object class'') (\<lambda>c.
     bindExn (assertThat (isSubclassOfClass c (class_MPManagedObject (svc_classes svc)) \<and>
         c \<noteq> class_MPManagedObject (svc_classes svc)) ''Managed object class must be a subclass'') (\<lambda>_.
     bindExn (controllerIn svc p c w) (\<lambda>(m, w1).
     bindExn (MPAssertNotNil m ''Expecting non-nil managed objects controller'') (\<lambda>m.
     bindExn (getController m w1) (\<lambda>moc.
     bindExn (assertThat (moc_database moc = Some d) ''Managed object must belong to this database'') (\<lambda>_.
       Inr (m, w1))))))))"

text \<open>\<open>didChangeDocument:source:\<close> of the package; \<open>d\<close> is the database of the document.\<close>

definition packageDidChangeDocument ::
  "'db services \<Rightarrow> nat \<Rightarrow> nat \<Rightarrow> string \<Rightarrow> cbl_document \<Rightarrow> MPManagedObjectChangeSource \<Rightarrow> 'db world \<Rightarrow> exn + 'db world" where
  "packageDidChangeDocument svc p d i doc source w =
     (case document_objectType doc of
        None \<Rightarrow> Inr w
      | Some t \<Rightarrow>
          bindExn (controllerForDocument svc p d doc w) (\<lambda>(m, w1).
          bindExn (MPAssertNotNil (NSClassFromString (svc_runtime svc) t) ''managedObjectClass'') (\<lambda>c.
          bindExn (modelForDocument svc c p d i doc w1) (\<lambda>(a, w2).
            didChangeDocument (svc_classes svc) (svc_names svc) doc m a source w2))))"

record document_change =
  change_documentID :: string
  change_revisionID :: string

text \<open>
  \<open>deletedDocument\<close> finds a document including deleted ones, through a controller.
  A change of an unknown document counts as a deletion when it is the current revision.
\<close>

definition handleChange ::
  "(nat \<Rightarrow> string \<Rightarrow> cbl_document option) \<Rightarrow> 'db services \<Rightarrow> nat \<Rightarrow> nat \<Rightarrow> bool \<Rightarrow> document_change \<Rightarrow> 'db world \<Rightarrow>
   (exn + 'db world) option" where
  "handleChange deletedDocument svc p d isExternalChange change w =
     (let i = change_documentID change;
          src = (if isExternalChange then MPManagedObjectChangeSourceExternal else MPManagedObjectChangeSourceAPI)
      in case existingDocumentWithID (svc_ops svc) (cbl w) d i of
           Some doc \<Rightarrow> Some (packageDidChangeDocument svc p d i doc src w)
         | None \<Rightarrow>
             bindCall (Some (managedObjectClassOf svc i)) (\<lambda>c.
             bindCall (Some (controllerIn svc p c w)) (\<lambda>(m, w1).
               case m of
                 None \<Rightarrow> Some (Inr w1)
               | Some m \<Rightarrow>
                   if (case deletedDocument m i of None \<Rightarrow> False
                       | Some doc \<Rightarrow> map_option revisionID (document_currentRevision doc) = Some (change_revisionID change))
                   then
                     bindCall (objectWithIdentifier svc m i w1) (\<lambda>(obj, w2).
                       case obj of
                         None \<Rightarrow> Some (Inr w2)
                       | Some a \<Rightarrow> Some (didDeleteObject (svc_classes svc) (svc_names svc) m a w2))
                   else Some (Inr w1))))"

fun databaseDidChange ::
  "(nat \<Rightarrow> string \<Rightarrow> cbl_document option) \<Rightarrow> 'db services \<Rightarrow> nat option \<Rightarrow> nat \<Rightarrow> bool \<Rightarrow> document_change list \<Rightarrow>
   'db world \<Rightarrow> (exn + 'db world) option" where
  "databaseDidChange deletedDocument svc None d isExternalChange changes w = Some (Inr w)"
| "databaseDidChange deletedDocument svc (Some p) d isExternalChange [] w = Some (Inr w)"
| "databaseDidChange deletedDocument svc (Some p) d isExternalChange (change # rest) w =
     bindCall (handleChange deletedDocument svc p d isExternalChange change w) (\<lambda>w1.
       databaseDidChange deletedDocument svc (Some p) d isExternalChange rest w1)"


section \<open>Objects of identifiers\<close>

text \<open>A row of the query for identifiers; a row without a document may be in another database.\<close>

record document_row =
  drow_key :: string
  drow_documentID :: string
  drow_document :: "cbl_document option"

fun managedObjectsForRows ::
  "'db services \<Rightarrow> nat \<Rightarrow> nat \<Rightarrow> document_row list \<Rightarrow> 'db world \<Rightarrow> (exn + nat list \<times> 'db world) option" where
  "managedObjectsForRows svc p d [] w = Some (Inr ([], w))"
| "managedObjectsForRows svc p d (row # rest) w =
     bindCall
       (case drow_document row of
          None \<Rightarrow> packageObjectWithIdentifier svc p (drow_key row) w
        | Some doc \<Rightarrow>
            bindCall (Some (managedObjectClassOf svc (drow_documentID row))) (\<lambda>c.
            bindCall (Some (modelForDocument svc c p d (drow_documentID row) doc w)) (\<lambda>(a, w1).
              Some (Inr (Some a, w1)))))
       (\<lambda>(obj, w1).
         bindCall (managedObjectsForRows svc p d rest w1) (\<lambda>(objs, w2).
           Some (Inr (case obj of None \<Rightarrow> objs | Some a \<Rightarrow> a # objs, w2))))"

text \<open>\<open>documents\<close> is the query for identifiers; an error of it is logged, and gives no rows.\<close>

definition getManagedObjectsWithIDs ::
  "(string list \<Rightarrow> document_row list option) \<Rightarrow> 'db services \<Rightarrow> nat option \<Rightarrow> nat \<Rightarrow> string list \<Rightarrow> 'db world \<Rightarrow>
   (exn + nat list \<times> 'db world) option" where
  "getManagedObjectsWithIDs documents svc package d ids w =
     bindCall (Some (MPAssertNotNil package ''packageController'')) (\<lambda>p.
       managedObjectsForRows svc p d (case documents ids of None \<Rightarrow> [] | Some rows \<Rightarrow> rows) w)"

text \<open>A query that fails posts its error to the center of the package.\<close>

definition runQuery ::
  "(ns_error option + query_row list) \<Rightarrow> notification_center \<Rightarrow> exn + query_row list option \<times> notification_center" where
  "runQuery rows nc =
     (case rows of
        Inr rs \<Rightarrow> Inr (Some rs, nc)
      | Inl err \<Rightarrow> bindExn (postErrorNotification err nc) (\<lambda>nc'. Inr (None, nc')))"


section \<open>The interfaces\<close>

text \<open>\<open>saveDocument\<close> saves a metadata document, \<open>databaseNamed\<close> opens a database of a server.\<close>

record database_methods =
  dbm_name :: "database \<Rightarrow> string"
  dbm_server :: "database \<Rightarrow> nat"
  dbm_database :: "database \<Rightarrow> nat"
  dbm_metadata :: "database \<Rightarrow> notification_center \<Rightarrow> exn + string \<times> database \<times> notification_center"
  dbm_identifier :: "database \<Rightarrow> notification_center \<Rightarrow> exn + string \<times> database \<times> notification_center"
  dbm_localMetadata :: "database \<Rightarrow> notification_center \<Rightarrow> exn + string \<times> database \<times> notification_center"
  dbm_packageController :: "database \<Rightarrow> nat option"
  dbm_initWithServer :: "nat \<Rightarrow> nat option \<Rightarrow> string \<Rightarrow> bool \<Rightarrow> exn + (ns_error option + database)"
  dbm_initWithServer_filterNames ::
    "nat \<Rightarrow> nat option \<Rightarrow> string \<Rightarrow> bool \<Rightarrow> string option \<Rightarrow> string option \<Rightarrow> exn + (ns_error option + database)"

definition featherDatabaseMethods ::
  "(nat \<Rightarrow> string \<Rightarrow> ns_error option + nat \<times> (string \<rightharpoonup> filter_block)) \<Rightarrow> (string \<Rightarrow> ns_error option + unit) \<Rightarrow>
   database_methods" where
  "featherDatabaseMethods databaseNamed saveDocument =
     \<lparr>dbm_name = db_name,
      dbm_server = db_server,
      dbm_database = db_database,
      dbm_metadata = metadata saveDocument,
      dbm_identifier = metadata saveDocument,
      dbm_localMetadata = localMetadata saveDocument,
      dbm_packageController = db_package,
      dbm_initWithServer = (\<lambda>server package name ensureCreated.
        initWithServer databaseNamed server package name ensureCreated None None),
      dbm_initWithServer_filterNames = initWithServer databaseNamed\<rparr>"

record replication_methods =
  dbm_sanitizedDatabaseIDWithString :: "string \<Rightarrow> string"
  dbm_pushToRemote :: "nat \<Rightarrow> database \<Rightarrow> exn + replication \<times> database"
  dbm_pullFromRemote :: "nat \<Rightarrow> database \<Rightarrow> exn + replication \<times> database"
  dbm_pullFromDatabaseAtURL :: "nat \<Rightarrow> string \<Rightarrow> database \<Rightarrow> exn + replication \<times> database"
  dbm_pushToDatabaseAtURL :: "nat \<Rightarrow> string \<Rightarrow> database \<Rightarrow> exn + replication \<times> database"
  dbm_pullFromDatabaseAtPath :: "nat \<Rightarrow> string \<Rightarrow> database \<Rightarrow> ns_error option + replication"
  dbm_syncWithRemote :: "nat \<Rightarrow> nat \<Rightarrow> database \<Rightarrow> exn + (ns_error option + unit) \<times> database"

text \<open>
  The package applies filters to every push and pull; its remote URLs and the creation of the
  remote database are abstract.
\<close>

definition featherReplicationMethods ::
  "(string \<Rightarrow> ns_error option + unit) \<Rightarrow> (database \<Rightarrow> string) \<Rightarrow> replication_methods" where
  "featherReplicationMethods openDatabase internalURL =
     \<lparr>dbm_sanitizedDatabaseIDWithString = sanitizedDatabaseIDWithString,
      dbm_pushToRemote = pushToRemote (throw (MPAbstractMethodException ''remoteDatabaseURLForLocalDatabase:'')) True,
      dbm_pullFromRemote = pullFromRemote (throw (MPAbstractMethodException ''remoteDatabaseURLForLocalDatabase:'')) True,
      dbm_pullFromDatabaseAtURL = pullFromDatabaseAtURL True,
      dbm_pushToDatabaseAtURL = pushToDatabaseAtURL True,
      dbm_pullFromDatabaseAtPath = (\<lambda>a path db. pullFromDatabaseAtPath openDatabase (internalURL db) a path db),
      dbm_syncWithRemote = databaseSyncWithRemote (throw (MPAbstractMethodException ''ensureRemoteDatabaseCreated:''))
        (throw (MPAbstractMethodException ''remoteDatabaseURLForLocalDatabase:''))\<rparr>"

record filter_methods =
  dbm_pullFilterName :: "database \<Rightarrow> string option"
  dbm_pushFilterName :: "database \<Rightarrow> string option"
  dbm_qualifiedPullFilterName :: "database \<Rightarrow> string option"
  dbm_qualifiedPushFilterName :: "database \<Rightarrow> string option"
  dbm_defineFilterNamed :: "string \<Rightarrow> filter_block \<Rightarrow> database \<Rightarrow> exn + database"
  dbm_filterWithQualifiedName :: "string \<Rightarrow> database \<Rightarrow> filter_block option"
  dbm_remoteDatabaseURL :: "database \<Rightarrow> exn + string"
  dbm_remoteServiceURL :: "database \<Rightarrow> exn + string"
  dbm_remoteDatabaseExists :: "database \<Rightarrow> bool"
  dbm_remoteDatabaseCredentials :: "database \<Rightarrow> exn + string \<times> string"

definition featherFilterMethods :: "(database \<Rightarrow> exn + string \<times> string) \<Rightarrow> filter_methods" where
  "featherFilterMethods credentials =
     \<lparr>dbm_pullFilterName = db_pullFilterName,
      dbm_pushFilterName = db_pushFilterName,
      dbm_qualifiedPullFilterName = db_pullFilterName,
      dbm_qualifiedPushFilterName = qualifiedPushFilterName,
      dbm_defineFilterNamed = defineFilterNamed,
      dbm_filterWithQualifiedName = filterWithQualifiedName,
      dbm_remoteDatabaseURL = (\<lambda>db. throw (MPAbstractMethodException ''remoteDatabaseURLForLocalDatabase:'')),
      dbm_remoteServiceURL = (\<lambda>db. throw (MPAbstractMethodException ''remoteServiceURLForLocalDatabase:'')),
      dbm_remoteDatabaseExists = (\<lambda>db. False),
      dbm_remoteDatabaseCredentials = credentials\<rparr>"

record 'db dynamic_object_methods =
  dyn_setValuesForPropertiesWithDictionary :: "nat \<Rightarrow> dict \<Rightarrow> 'db world \<Rightarrow> exn + 'db world"

definition featherDynamicObjectMethods :: "'db services \<Rightarrow> 'db dynamic_object_methods" where
  "featherDynamicObjectMethods svc = \<lparr>dyn_setValuesForPropertiesWithDictionary = setValuesForPropertiesWithDictionary svc\<rparr>"

text \<open>The back pointer of a database is to its \<open>MPDatabase\<close>; \<open>isOpen\<close> is that of Couchbase Lite.\<close>

record 'db cbl_database_methods =
  cdb_packageController :: "database option \<Rightarrow> nat option"
  cdb_isOpen :: "nat \<Rightarrow> bool"
  cdb_getManagedObjectsWithIDs :: "database \<Rightarrow> string list \<Rightarrow> 'db world \<Rightarrow> (exn + nat list \<times> 'db world) option"
  cdb_getDocumentsWithIDs :: "string list \<Rightarrow> document_row list option"
  cdb_plainObjectsFromQueryEnumeratorKeys :: "query_row list \<Rightarrow> val list"

definition featherCBLDatabaseMethods ::
  "(nat \<Rightarrow> bool) \<Rightarrow> (string list \<Rightarrow> document_row list option) \<Rightarrow> 'db services \<Rightarrow> 'db cbl_database_methods" where
  "featherCBLDatabaseMethods isOpen documents svc =
     \<lparr>cdb_packageController = (\<lambda>db. case db of None \<Rightarrow> None | Some d \<Rightarrow> db_package d),
      cdb_isOpen = isOpen,
      cdb_getManagedObjectsWithIDs = (\<lambda>db ids w.
        getManagedObjectsWithIDs documents svc (db_package db) (db_database db) ids w),
      cdb_getDocumentsWithIDs = documents,
      cdb_plainObjectsFromQueryEnumeratorKeys = map row_key\<rparr>"

record query_methods =
  cbq_run :: "(ns_error option + query_row list) \<Rightarrow> notification_center \<Rightarrow> exn + query_row list option \<times> notification_center"

definition featherQueryMethods :: query_methods where
  "featherQueryMethods = \<lparr>cbq_run = runQuery\<rparr>"

record metadata_methods =
  md_save :: "string \<Rightarrow> notification_center \<Rightarrow> exn + bool \<times> notification_center"

definition featherMetadataMethods :: "(string \<Rightarrow> ns_error option + unit) \<Rightarrow> metadata_methods" where
  "featherMetadataMethods saveDocument = \<lparr>md_save = metadataSave saveDocument\<rparr>"


section \<open>What databases promise\<close>

text \<open>A revision of a typed document that passes the validation block has an identifier that
  starts with its type, its type names a class, and that class accepts it.\<close>

theorem stored_revision_valid:
  assumes "validationBlock validates rt failing (Some i) r = Inr True" and "\<not> revision_isDeletion r"
    and "managedObjectType (revision_properties r) = Some t"
  shows "hasPrefix i t \<and> t \<noteq> ''MPElement'' \<and> (\<exists>c. NSClassFromString rt t = Some c \<and> validates c r)"
  using assms
  by (auto simp: validationBlock_def validateRevision_def managedObjectType_def Let_def
      split: if_splits option.splits)

definition sampleRevision :: revision where
  "sampleRevision = \<lparr>revisionID = ''1-a'', revision_properties = [(''objectType'', VString ''MPNote'')],
     revision_isDeletion = False\<rparr>"

theorem stored_revision_valid_witness:
  "hasPrefix ''MPNote:1'' ''MPNote'' \<and>
   (\<exists>c. NSClassFromString sampleRuntime ''MPNote'' = Some c \<and> (\<lambda>c r. True) c sampleRevision)"
  using stored_revision_valid [of "\<lambda>c r. True" sampleRuntime False "''MPNote:1''" sampleRevision "''MPNote''"]
  by (auto simp: validationBlock_def validateRevision_def managedObjectType_def stringForKey_def sampleRevision_def
      NSClassFromString_def sample_defs hasPrefix_def Let_def)

text \<open>A document without a type whose identifier is not that of a metadata document fails the
  validation, but since it is not rejected it is stored all the same.\<close>

theorem untyped_revision_stored:
  assumes "managedObjectType (revision_properties r) = None" and "map_of (revision_properties r) ''objectType'' = None"
    and "\<not> hasPrefix i ''MPMetadata''" and "\<not> hasPrefix i ''MPLocalMetadata''" and "\<not> revision_isDeletion r"
  shows "fst (validateRevision validates rt False (Some i) r) = False \<and>
    validationBlock validates rt False (Some i) r = Inr True"
  using assms by (simp add: validationBlock_def validateRevision_def stringForKey_def Let_def)

theorem untyped_revision_stored_witness:
  "fst (validateRevision (\<lambda>c r. True) sampleRuntime False (Some ''x'') (sampleRevision\<lparr>revision_properties := []\<rparr>)) = False \<and>
   validationBlock (\<lambda>c r. True) sampleRuntime False (Some ''x'') (sampleRevision\<lparr>revision_properties := []\<rparr>) = Inr True"
  by (rule untyped_revision_stored)
     (simp_all add: managedObjectType_def stringForKey_def hasPrefix_def sampleRevision_def)

text \<open>A push filter is defined under its plain name but looked for under the qualified name, so
  a database that has a push filter can neither push nor pull nor synchronise.\<close>

theorem push_filter_never_validates:
  assumes "initWithServer databaseNamed server p name created (Some n) pull = Inr (Inr db)"
    and "databaseNamed server (sanitizedDatabaseIDWithString name) = Inr (d, Map.empty)"
    and "defineFilterNamed n block db = Inr db'"
  shows "\<exists>e. exceptionName e = ''MPFilterValidationException'' \<and>
    pushToDatabaseAtURL applies a url db' = Inl e \<and> pullFromDatabaseAtURL applies a url db' = Inl e \<and>
    databaseSyncWithRemote ensured remote a b db' = Inl e"
proof -
  have "db_pushFilterName db' = Some n" "filterWithQualifiedName n db' = None"
    using assms
    by (auto simp: initWithServer_def defineFilterNamed_def filterWithQualifiedName_def bindExn_Inr split: if_splits)
  then show ?thesis
    by (simp add: pushToDatabaseAtURL_def pullFromDatabaseAtURL_def databaseSyncWithRemote_def validateFilters_def throw_def)
qed

theorem push_filter_never_validates_witness:
  "\<exists>db db' e. initWithServer (\<lambda>s n. Inr (1, Map.empty)) 0 (Some 3) ''notes'' True (Some ''accepted'') None = Inr (Inr db) \<and>
     defineFilterNamed ''accepted'' (\<lambda>r ps. Inr True) db = Inr db' \<and>
     exceptionName e = ''MPFilterValidationException'' \<and> pushToDatabaseAtURL True 7 ''http://h/notes'' db' = Inl e"
proof -
  obtain db where db: "initWithServer (\<lambda>s n. Inr (1, Map.empty)) 0 (Some 3) ''notes'' True (Some ''accepted'') None = Inr (Inr db)"
    by (simp add: initWithServer_def)
  then obtain db' where db': "defineFilterNamed ''accepted'' (\<lambda>r ps. Inr True) db = Inr db'"
    by (auto simp: initWithServer_def defineFilterNamed_def)
  show ?thesis
    using db db' push_filter_never_validates [OF db _ db', of 1 True 7 "''http://h/notes''" "Inr (Inr ())" "Inr []" 8]
    by auto
qed

text \<open>A one-off push is recorded while it runs and leaves no trace once it has stopped; a pull
  is recorded but not observed, so its record stays.\<close>

theorem one_off_replications:
  assumes "pushToDatabaseAtURL applies a url db = Inr (r, db1)" and "a \<notin> repl_address ` set (db_currentPushes db)"
    and "a \<notin> repl_address ` set (db_currentPulls db)"
    and "pullFromDatabaseAtURL applies' b url' db = Inr (r', db2)"
  shows "r \<in> set (db_currentPushes db1) \<and> repl_observed r \<and>
    replicationDidChange a True None db1 nc = Inr (db, nc) \<and>
    r' \<in> set (db_currentPulls db2) \<and> \<not> repl_observed r'"
proof -
  have "filter (\<lambda>r. repl_address r \<noteq> a) rs = rs" if "a \<notin> repl_address ` set rs" for rs
    using that by (auto simp: filter_id_conv)
  note same = this [OF assms(2)] this [OF assms(3)]
  obtain r0 where r: "r = r0" "db1 = db\<lparr>db_currentPushes := r0 # db_currentPushes db\<rparr>"
    "repl_address r0 = a" "repl_observed r0"
    using assms(1) by (auto simp: pushToDatabaseAtURL_def bindExn_Inr Let_def)
  have r': "r' \<in> set (db_currentPulls db2)" "\<not> repl_observed r'"
    using assms(4) by (auto simp: pullFromDatabaseAtURL_def bindExn_Inr Let_def)
  have "replicationDidChange a True None db1 nc = Inr (db, nc)"
    using same r by (simp add: replicationDidChange_def)
  then show ?thesis using r r' by simp
qed

theorem one_off_replications_witness:
  "\<exists>db db1 db2 r r'. initWithServer (\<lambda>s n. Inr (1, Map.empty)) 0 (Some 3) ''notes'' True None None = Inr (Inr db) \<and>
     pushToDatabaseAtURL True 7 ''http://h/notes'' db = Inr (r, db1) \<and>
     pullFromDatabaseAtURL True 8 ''http://h/notes'' db = Inr (r', db2) \<and>
     replicationDidChange 7 True None db1 sampleCenter = Inr (db, sampleCenter) \<and> \<not> repl_observed r'"
proof -
  let ?db = "\<lparr>db_name = ''notes'', db_server = 0, db_database = 1, db_package = Some 3, db_pushFilterName = None,
    db_pullFilterName = None, db_filters = Map.empty, db_currentPulls = [], db_currentPushes = [],
    db_cachedMetadata = None, db_cachedLocalMetadata = None\<rparr>"
  have db: "initWithServer (\<lambda>s n. Inr (1, Map.empty)) 0 (Some 3) ''notes'' True None None = Inr (Inr ?db)"
    by (simp add: initWithServer_def)
  obtain r db1 where push: "pushToDatabaseAtURL True 7 ''http://h/notes'' ?db = Inr (r, db1)"
    by (simp add: pushToDatabaseAtURL_def validateFilters_def Let_def)
  obtain r' db2 where pull: "pullFromDatabaseAtURL True 8 ''http://h/notes'' ?db = Inr (r', db2)"
    by (simp add: pullFromDatabaseAtURL_def validateFilters_def Let_def)
  show ?thesis
    using db push pull one_off_replications [OF push _ _ pull, of sampleCenter] by auto
qed

end
