(* ===== verification/Packages.thy ===== *)
theory Packages
  imports Databases "HOL-Library.List_Lexorder" "HOL-Library.Char_ord"
begin

text \<open>
  \<open>MPDatabasePackageController\<close>: the databases and controllers of a package, how a
  package is opened, bootstrapped, copied, saved and closed, the start of replications of all
  databases, the ports of the listener and the snapshots.  The file system is a parameter; its
  state is abstract.
\<close>


section \<open>State\<close>

datatype MPDatabasePackageControllerErrorCode =
    MPDatabasePackageControllerErrorCodeUnknown
  | MPDatabasePackageControllerErrorCodeNoSuchSnapshot
  | MPDatabasePackageControllerErrorCodeUnexpectedResponse
  | MPDatabasePackageControllerErrorCodeFileNotDirectory
  | MPDatabasePackageControllerErrorCodeDirectoryAlreadyExists
  | MPDatabasePackageControllerErrorCodeCannotInitializeSharedDatabases
  | MPDatabasePackageControllerErrorCodeDictionaryRepresentationInvalid
  | MPDatabasePackageControllerErrorCodeNoDatabases
  | MPDatabasePackageControllerErrorCodeOngoingTransaction
  | MPDatabasePackageControllerErrorCodeRootURLMissing
  | MPDatabasePackageControllerErrorCodeBundledDataInitializationFailed
  | MPDatabasePackageControllerErrorCodeMismatchingPackageIdentifier

primrec packageErrorCode :: "MPDatabasePackageControllerErrorCode \<Rightarrow> nat" where
  "packageErrorCode MPDatabasePackageControllerErrorCodeUnknown = 0"
| "packageErrorCode MPDatabasePackageControllerErrorCodeNoSuchSnapshot = 1"
| "packageErrorCode MPDatabasePackageControllerErrorCodeUnexpectedResponse = 2"
| "packageErrorCode MPDatabasePackageControllerErrorCodeFileNotDirectory = 3"
| "packageErrorCode MPDatabasePackageControllerErrorCodeDirectoryAlreadyExists = 4"
| "packageErrorCode MPDatabasePackageControllerErrorCodeCannotInitializeSharedDatabases = 5"
| "packageErrorCode MPDatabasePackageControllerErrorCodeDictionaryRepresentationInvalid = 6"
| "packageErrorCode MPDatabasePackageControllerErrorCodeNoDatabases = 7"
| "packageErrorCode MPDatabasePackageControllerErrorCodeOngoingTransaction = 8"
| "packageErrorCode MPDatabasePackageControllerErrorCodeRootURLMissing = 9"
| "packageErrorCode MPDatabasePackageControllerErrorCodeBundledDataInitializationFailed = 10"
| "packageErrorCode MPDatabasePackageControllerErrorCodeMismatchingPackageIdentifier = 11"

definition packageError :: "MPDatabasePackageControllerErrorCode \<Rightarrow> ns_error" where
  "packageError c = \<lparr>error_domain = ''MPDatabasePackageControllerErrorDomain'', error_code = packageErrorCode c\<rparr>"

text \<open>The optional methods of the delegate may be missing.\<close>

record package_delegate =
  packageRootURL :: "string option"
  delegate_updateChangeCount :: "(nat \<Rightarrow> nat) option"
  packageControllerRequiresListener :: "bool option"
  packageControllerRequiresPlaceholderContent :: "bool option"

text \<open>
  A package: its databases under their addresses, the controllers registered with it in the
  order of enumeration of their set, each with the address of its database, the properties
  \<open>nameDatabase\<close> that hold a database, and the names of the registered views, which are
  nil until the end of the initialisation.
\<close>

record package_state =
  ps_path :: string
  ps_identifier :: string
  ps_session :: string
  ps_token :: nat
  ps_databases :: "nat \<rightharpoonup> database"
  ps_controllers :: "(nat \<times> nat) list"
  ps_databaseProperties :: "string \<rightharpoonup> nat"
  ps_viewNames :: "string set option"
  ps_databasesReset :: "nat list option"
  ps_delegate :: "package_delegate option"
  ps_listenerPort :: "nat option"
  ps_listenerRuns :: bool
  ps_pulls :: "nat list"
  ps_completedPulls :: "nat list"
  ps_pullCompletionHandler :: "nat option"
  ps_activeDraft :: "nat option"

definition nameOfDatabase :: "package_state \<Rightarrow> nat \<Rightarrow> string" where
  "nameOfDatabase ps d = (case ps_databases ps d of None \<Rightarrow> [] | Some db \<Rightarrow> db_name db)"

definition registerManagedObjectsController :: "nat \<Rightarrow> nat \<Rightarrow> package_state \<Rightarrow> exn + package_state" where
  "registerManagedObjectsController m d ps =
     bindExn (assertThat (m \<notin> fst ` set (ps_controllers ps)) ''containsObject'') (\<lambda>_.
       Inr (ps\<lparr>ps_controllers := ps_controllers ps @ [(m, d)]\<rparr>))"

text \<open>A message to a set that is nil has no effect.\<close>

definition registerViewName :: "string \<Rightarrow> package_state \<Rightarrow> exn + package_state" where
  "registerViewName viewName ps =
     (case ps_viewNames ps of
        None \<Rightarrow> Inr ps
      | Some names \<Rightarrow>
          bindExn (assertThat (viewName \<notin> names) ''registeredViewNames'') (\<lambda>_.
            Inr (ps\<lparr>ps_viewNames := Some (insert viewName names)\<rparr>)))"


section \<open>The databases of a package\<close>

definition databases :: "package_state \<Rightarrow> nat list" where
  "databases ps = remdups (map snd (ps_controllers ps))"

definition orderedDatabases :: "package_state \<Rightarrow> nat list" where
  "orderedDatabases ps = sort_key (nameOfDatabase ps) (databases ps)"

definition databasesByName :: "package_state \<Rightarrow> string \<rightharpoonup> nat" where
  "databasesByName ps = map_of (rev (map (\<lambda>d. (nameOfDatabase ps d, d)) (databases ps)))"

definition databaseWithName :: "string \<Rightarrow> package_state \<Rightarrow> exn + nat" where
  "databaseWithName name ps =
     bindExn (assertThat (name \<in> nameOfDatabase ps ` set (databases ps)) ''Unexpected name'') (\<lambda>_.
       MPAssertNotNil (ps_databaseProperties ps (name @ ''Database'')) ''Unexpected db key'')"

text \<open>The class method; \<open>primary\<close> is the name of the primary database.\<close>

definition databaseNames :: "string option \<Rightarrow> string list" where
  "databaseNames primary = (case primary of None \<Rightarrow> [''snapshots''] | Some n \<Rightarrow> [n, ''snapshots''])"

definition primaryDatabase :: "string option \<Rightarrow> package_state \<Rightarrow> exn + nat" where
  "primaryDatabase primary ps =
     MPAssertNotNil (ps_databaseProperties ps ((case primary of None \<Rightarrow> ''(null)'' | Some n \<Rightarrow> n) @ ''Database'')) ''db''"

definition setPrimaryDatabase :: "string option \<Rightarrow> nat option \<Rightarrow> package_state \<Rightarrow> exn + package_state" where
  "setPrimaryDatabase primary db ps =
     (case primary of
        Some n \<Rightarrow> bindExn (assertThat (db = None) ''!primaryDatabase'') (\<lambda>_. Inr ps)
      | None \<Rightarrow> throw (NSInternalInconsistencyException ''primaryDatabaseIvar''))"


section \<open>Files\<close>

text \<open>
  \<open>fs_copy\<close> asks the delegate of the file manager, given by a predicate on file names,
  for every item; an item that is refused is skipped without an error.
\<close>

record 'fs file_system =
  fs_exists :: "string \<Rightarrow> 'fs \<Rightarrow> bool"
  fs_isDirectory :: "string \<Rightarrow> 'fs \<Rightarrow> bool"
  fs_contents :: "string \<Rightarrow> 'fs \<Rightarrow> ns_error option + string list"
  fs_remove :: "string \<Rightarrow> 'fs \<Rightarrow> ns_error option + 'fs"
  fs_createDirectory :: "string \<Rightarrow> 'fs \<Rightarrow> ns_error option + 'fs"
  fs_copy :: "(string \<Rightarrow> bool) \<Rightarrow> string \<Rightarrow> string \<Rightarrow> 'fs \<Rightarrow> ns_error option + 'fs"
  fs_write :: "string \<Rightarrow> string \<Rightarrow> 'fs \<Rightarrow> ns_error option + 'fs"

definition appendingPathComponent :: "string \<Rightarrow> string \<Rightarrow> string" where
  "appendingPathComponent path component = path @ ''/'' @ component"

definition pathForDatabase :: "'fs file_system \<Rightarrow> package_state \<Rightarrow> string \<Rightarrow> 'fs \<Rightarrow> string option" where
  "pathForDatabase fs ps name s =
     (let dbPath = appendingPathComponent (ps_path ps) name @ ''.cblite''
      in if \<not> fs_exists fs dbPath s \<or> fs_isDirectory fs dbPath s then None else Some dbPath)"

definition shouldCopyItem :: "string \<Rightarrow> bool" where
  "shouldCopyItem filename \<longleftrightarrow> \<not> hasPrefix filename ''snapshot''"

fun copyContents ::
  "'fs file_system \<Rightarrow> string \<Rightarrow> string \<Rightarrow> string list \<Rightarrow> 'fs \<Rightarrow> (ns_error option + unit) \<times> 'fs" where
  "copyContents fs path root [] s = (Inr (), s)"
| "copyContents fs path root (f # rest) s =
     (case fs_copy fs shouldCopyItem (appendingPathComponent path f) (appendingPathComponent root f) s of
        Inl err \<Rightarrow> (Inl err, s)
      | Inr s' \<Rightarrow> copyContents fs path root rest s')"

text \<open>\<open>wantsError\<close> tells whether the caller passed an error pointer.\<close>

definition makeTemporaryCopy ::
  "'fs file_system \<Rightarrow> string \<Rightarrow> string option \<Rightarrow> bool \<Rightarrow> bool \<Rightarrow> bool \<Rightarrow> 'fs \<Rightarrow> (ns_error option + unit) \<times> 'fs" where
  "makeTemporaryCopy fs path rootURL overwrite failIfExists wantsError s =
     (case rootURL of
        None \<Rightarrow>
          (Inl (if wantsError then Some (packageError MPDatabasePackageControllerErrorCodeRootURLMissing) else None), s)
      | Some root \<Rightarrow>
          if fs_exists fs root s \<and> \<not> overwrite
          then
            (if wantsError \<and> failIfExists
             then (Inl (Some (packageError (if fs_isDirectory fs root s
                      then MPDatabasePackageControllerErrorCodeDirectoryAlreadyExists
                      else MPDatabasePackageControllerErrorCodeFileNotDirectory))), s)
             else (Inr (), s))
          else
            (case (if fs_exists fs root s then fs_remove fs root s else Inr s) of
               Inl err \<Rightarrow> (Inl err, s)
             | Inr s1 \<Rightarrow>
                 (case fs_createDirectory fs root s1 of
                    Inl err \<Rightarrow> (Inl err, s1)
                  | Inr s2 \<Rightarrow>
                      (case fs_contents fs path s2 of
                         Inl err \<Rightarrow> (Inl err, s2)
                       | Inr contents \<Rightarrow> copyContents fs path root contents s2))))"

text \<open>\<open>bootstrapURL\<close> is the directory of the bundled databases, nil unless overridden.\<close>

definition bootstrapDatabase ::
  "'fs file_system \<Rightarrow> string \<Rightarrow> string option \<Rightarrow> string \<Rightarrow> 'fs \<Rightarrow> exn + (ns_error option + unit) \<times> 'fs" where
  "bootstrapDatabase fs directory bootstrapURL name s =
     (case bootstrapURL of
        None \<Rightarrow> Inr (Inr (), s)
      | Some url \<Rightarrow>
          (let file = name @ ''.cblite''; attachments = name @ '' attachments'';
               source = appendingPathComponent url file; target = appendingPathComponent directory file;
               sourceAttachments = appendingPathComponent url attachments;
               targetAttachments = appendingPathComponent directory attachments
           in bindExn (assertThat (fs_exists fs source s) ''Expected to find'') (\<lambda>_.
              if fs_exists fs target s then Inr (Inr (), s)
              else
                (case fs_copy fs (\<lambda>f. True) source target s of
                   Inl err \<Rightarrow> Inr (Inl err, s)
                 | Inr s1 \<Rightarrow>
                     if \<not> fs_exists fs sourceAttachments s1 \<or> fs_exists fs targetAttachments s1 then Inr (Inr (), s1)
                     else
                       (case fs_copy fs (\<lambda>f. True) sourceAttachments targetAttachments s1 of
                          Inl err \<Rightarrow> Inr (Inl err, s1)
                        | Inr s2 \<Rightarrow> Inr (Inr (), s2))))))"


section \<open>Opening a package\<close>

text \<open>
  \<open>openNamed\<close> initialises the database of a name at a fresh address.  A database file
  that SQLite does not recognise is removed and created again.
\<close>

definition isCorrupted :: "ns_error option \<Rightarrow> bool" where
  "isCorrupted err \<longleftrightarrow> (case err of None \<Rightarrow> False | Some e \<Rightarrow> error_domain e = ''SQLite'' \<and> error_code e = 26)"

text \<open>
  \<open>pks_filterNames\<close> gives the push and pull filter that a subclass names for a
  database, if any, and \<open>pks_createFilter\<close> makes the block of a filter that the
  database does not have yet.
\<close>

record 'fs package_services =
  pks_files :: "'fs file_system"
  pks_bootstrapURL :: "string \<Rightarrow> string option"
  pks_filterNames :: "string \<Rightarrow> string list"
  pks_createFilter :: "string \<Rightarrow> database \<Rightarrow> exn + filter_block"
  pks_openNamed :: "string \<Rightarrow> 'fs \<Rightarrow> (ns_error option + nat \<times> database) \<times> 'fs"

definition openDatabase ::
  "'fs package_services \<Rightarrow> string \<Rightarrow> string \<Rightarrow> 'fs \<Rightarrow> (ns_error option + (nat \<times> database) \<times> bool) \<times> 'fs" where
  "openDatabase pks directory name s =
     (case pks_openNamed pks name s of
        (Inr db, s1) \<Rightarrow> (Inr (db, False), s1)
      | (Inl err, s1) \<Rightarrow>
          if \<not> isCorrupted err then (Inl err, s1)
          else
            (let file = appendingPathComponent directory (name @ ''.cblite'')
             in case (if fs_exists (pks_files pks) file s1 then fs_remove (pks_files pks) file s1 else Inr s1) of
                  Inl err \<Rightarrow> (Inl err, s1)
                | Inr s2 \<Rightarrow>
                    (case pks_openNamed pks name s2 of
                       (Inr db, s3) \<Rightarrow> (Inr (db, True), s3)
                     | (Inl err, s3) \<Rightarrow> (Inl err, s3))))"

definition filterBlockWithName ::
  "(string \<Rightarrow> database \<Rightarrow> exn + filter_block) \<Rightarrow> string \<Rightarrow> database \<Rightarrow> exn + filter_block" where
  "filterBlockWithName create name db =
     (case filterWithQualifiedName name db of Some block \<Rightarrow> Inr block | None \<Rightarrow> create name db)"

fun defineFilters ::
  "(string \<Rightarrow> database \<Rightarrow> exn + filter_block) \<Rightarrow> string list \<Rightarrow> database \<Rightarrow> exn + database" where
  "defineFilters create [] db = Inr db"
| "defineFilters create (name # rest) db =
     bindExn (filterBlockWithName create name db) (\<lambda>block.
     bindExn (defineFilterNamed name block db) (\<lambda>db'. defineFilters create rest db'))"

text \<open>The loop over the names of the databases.\<close>

fun openDatabases ::
  "'fs package_services \<Rightarrow> string list \<Rightarrow> package_state \<Rightarrow> 'fs \<Rightarrow>
   exn + (ns_error option + package_state) \<times> 'fs" where
  "openDatabases pks [] ps s = Inr (Inr ps, s)"
| "openDatabases pks (name # rest) ps s =
     bindExn (bootstrapDatabase (pks_files pks) (ps_path ps) (pks_bootstrapURL pks name) name s) (\<lambda>(r, s1).
       case r of
         Inl err \<Rightarrow> Inr (Inl err, s1)
       | Inr _ \<Rightarrow>
           (case openDatabase pks (ps_path ps) name s1 of
              (Inl err, s2) \<Rightarrow> Inr (Inl err, s2)
            | (Inr ((d, db), wasReset), s2) \<Rightarrow>
                bindExn (defineFilters (pks_createFilter pks) (pks_filterNames pks name) db) (\<lambda>db'.
                  openDatabases pks rest
                    (ps\<lparr>ps_databases := (ps_databases ps)(d \<mapsto> db'),
                        ps_databaseProperties := (ps_databaseProperties ps)(db_name db @ ''Database'' \<mapsto> d),
                        ps_databasesReset := (if wasReset
                          then Some ((case ps_databasesReset ps of None \<Rightarrow> [] | Some ds \<Rightarrow> ds) @ [d])
                          else ps_databasesReset ps)\<rparr>) s2)))"

text \<open>The listener is started unless the process is a tool or a service; the delegate decides if it answers.\<close>

definition requiresListener :: "bool \<Rightarrow> bool \<Rightarrow> bool \<Rightarrow> package_delegate option \<Rightarrow> bool" where
  "requiresListener commandLineTool xpcService synchronizesPeerlessly delegate =
     (case (case delegate of None \<Rightarrow> None | Some d \<Rightarrow> packageControllerRequiresListener d) of
        Some b \<Rightarrow> b
      | None \<Rightarrow> \<not> commandLineTool \<and> \<not> xpcService \<and> synchronizesPeerlessly)"

text \<open>
  The initialisation: the databases, then the controllers for contributors, contributor
  identities and snapshots (\<open>newController\<close>, given the class name and the database), and
  last the set of view names, after the controllers have configured their views.
\<close>

fun addControllers ::
  "(string \<Rightarrow> nat \<Rightarrow> package_state \<Rightarrow> exn + (ns_error option + package_state)) \<Rightarrow> (string \<times> nat) list \<Rightarrow> package_state \<Rightarrow>
   exn + (ns_error option + package_state)" where
  "addControllers newController [] ps = Inr (Inr ps)"
| "addControllers newController ((c, d) # rest) ps =
     bindExn (newController c d ps) (\<lambda>r.
       case r of Inl err \<Rightarrow> Inr (Inl err) | Inr ps' \<Rightarrow> addControllers newController rest ps')"

definition initWithPath ::
  "'fs package_services \<Rightarrow> (string \<Rightarrow> nat \<Rightarrow> package_state \<Rightarrow> exn + (ns_error option + package_state)) \<Rightarrow> bool \<Rightarrow>
   (string \<times> string \<times> nat) \<Rightarrow> string option \<Rightarrow> string option \<Rightarrow> package_delegate option \<Rightarrow> 'fs \<Rightarrow>
   exn + (ns_error option + package_state) \<times> 'fs" where
  "initWithPath pks newController isMainThread ids primary path delegate s =
     bindExn (assertThat isMainThread ''isMainThread'') (\<lambda>_.
     bindExn (MPAssertNotNil path ''Expecting a non-nil path'') (\<lambda>p.
     bindExn (openDatabases pks (databaseNames primary)
         \<lparr>ps_path = p, ps_identifier = p @ ''::'' @ fst ids, ps_session = fst (snd ids), ps_token = snd (snd ids),
          ps_databases = Map.empty, ps_controllers = [], ps_databaseProperties = Map.empty, ps_viewNames = None,
          ps_databasesReset = None, ps_delegate = delegate, ps_listenerPort = None, ps_listenerRuns = False, ps_pulls = [],
          ps_completedPulls = [], ps_pullCompletionHandler = None, ps_activeDraft = None\<rparr> s) (\<lambda>(r, s1).
       case r of
         Inl err \<Rightarrow> Inr (Inl err, s1)
       | Inr ps \<Rightarrow>
           bindExn (primaryDatabase primary ps) (\<lambda>d.
           bindExn (MPAssertNotNil (ps_databaseProperties ps ''snapshotsDatabase'') ''_snapshotsDatabase'') (\<lambda>sd.
           bindExn (addControllers newController
               [(''MPContributorsController'', d), (''MPContributorIdentitiesController'', d),
                (''MPSnapshotsController'', sd)] ps) (\<lambda>r'.
             case r' of
               Inl err \<Rightarrow> Inr (Inl err, s1)
             | Inr ps' \<Rightarrow> Inr (Inr (ps'\<lparr>ps_viewNames := Some {}\<rparr>), s1)))))))"


section \<open>Closing and saving\<close>

text \<open>
  The answer, or the databases whose servers are closed.  The error pointer is read before it is
  written, so \<open>previous\<close> is the error it held.
\<close>

definition closePackage ::
  "(nat \<Rightarrow> int) \<Rightarrow> ns_error option \<Rightarrow> package_state \<Rightarrow> exn + (ns_error option + nat list) \<times> package_state" where
  "closePackage transactionLevel previous ps =
     (if list_ex (\<lambda>d. transactionLevel d > 0) (databases ps)
      then Inr (Inl (if previous = None then None
                     else Some (packageError MPDatabasePackageControllerErrorCodeOngoingTransaction)), ps)
      else
        bindExn (assertThat (databases ps \<noteq> []) ''databases.count > 0'') (\<lambda>_.
          Inr (Inr (databases ps), ps\<lparr>ps_listenerRuns := False\<rparr>)))"

fun checkpointDatabases :: "(nat \<Rightarrow> ns_error option + unit) \<Rightarrow> nat list \<Rightarrow> ns_error option + unit" where
  "checkpointDatabases checkpoint [] = Inr ()"
| "checkpointDatabases checkpoint (d # ds) =
     (case checkpoint d of Inl err \<Rightarrow> Inl err | Inr _ \<Rightarrow> checkpointDatabases checkpoint ds)"

text \<open>\<open>compact:\<close> has the same loop over the ordered databases.\<close>

definition compactDatabases :: "(nat \<Rightarrow> ns_error option + unit) \<Rightarrow> package_state \<Rightarrow> ns_error option + unit" where
  "compactDatabases compact ps = checkpointDatabases compact (orderedDatabases ps)"

text \<open>
  \<open>documents\<close> gives the properties of the documents of a database, nil for a row
  without a document or properties.
\<close>

definition packageDictionaryRepresentation :: "(nat \<Rightarrow> dict option list) \<Rightarrow> package_state \<Rightarrow> string \<rightharpoonup> dict list" where
  "packageDictionaryRepresentation documents ps =
     map_of (rev (map (\<lambda>d. (nameOfDatabase ps d, List.map_filter (\<lambda>p. p) (documents d))) (databases ps)))"

text \<open>
  \<open>encoded\<close> is the JSON data of the dictionary representation.  The manifest is written
  without an error; the copy of the package runs with the queues of the databases suspended.
\<close>

definition saveToURL ::
  "'fs file_system \<Rightarrow> (nat \<Rightarrow> ns_error option + unit) \<Rightarrow> string \<Rightarrow> (ns_error option + string) \<Rightarrow> package_state \<Rightarrow> string \<Rightarrow>
   'fs \<Rightarrow> (ns_error option + unit) \<times> 'fs" where
  "saveToURL fs checkpoint manifest encoded ps url s =
     (if orderedDatabases ps = []
      then (Inl (Some (packageError MPDatabasePackageControllerErrorCodeNoDatabases)), s)
      else
        (case fs_write fs (appendingPathComponent (ps_path ps) ''manifest.json'') manifest s of
           Inl err \<Rightarrow> (Inl None, s)
         | Inr s1 \<Rightarrow>
             (case encoded of
                Inl err \<Rightarrow> (Inl err, s1)
              | Inr content \<Rightarrow>
                  (case fs_write fs (appendingPathComponent (ps_path ps) ''dictionary.json'') content s1 of
                     Inl err \<Rightarrow> (Inl err, s1)
                   | Inr s2 \<Rightarrow>
                       (case checkpointDatabases checkpoint (orderedDatabases ps) of
                          Inl err \<Rightarrow> (Inl err, s2)
                        | Inr _ \<Rightarrow>
                            (case fs_copy fs (\<lambda>f. True) (ps_path ps) url s2 of
                               Inl err \<Rightarrow> (Inl err, s2)
                             | Inr s3 \<Rightarrow> (Inr (), s3)))))))"


section \<open>Replicating all databases\<close>

text \<open>
  The errors of the databases that fail to start are collected by name; \<open>start\<close> starts
  the replication of a database.  A failure without an error leaves no entry, and an exception
  of one of them ends the loop.
\<close>

fun startAll ::
  "(nat \<Rightarrow> exn + (ns_error option + unit)) \<Rightarrow> package_state \<Rightarrow> nat list \<Rightarrow> exn + (string \<times> ns_error) list" where
  "startAll start ps [] = Inr []"
| "startAll start ps (d # ds) =
     bindExn (start d) (\<lambda>r. bindExn (startAll start ps ds) (\<lambda>errs.
       Inr (case r of Inl (Some e) \<Rightarrow> (nameOfDatabase ps d, e) # errs | _ \<Rightarrow> errs)))"

definition pushToRemoteWithErrorDictionary ::
  "(nat \<Rightarrow> exn + (ns_error option + unit)) \<Rightarrow> package_state \<Rightarrow> exn + bool \<times> (string \<times> ns_error) list" where
  "pushToRemoteWithErrorDictionary push ps =
     bindExn (startAll push ps (databases ps)) (\<lambda>errs. Inr (errs = [], errs))"

definition pullFromRemoteWithErrorDictionary ::
  "(nat \<Rightarrow> exn + (ns_error option + unit)) \<Rightarrow> package_state \<Rightarrow> exn + (string \<times> ns_error) list" where
  "pullFromRemoteWithErrorDictionary pull ps = startAll pull ps (databases ps)"

definition syncWithRemote ::
  "(nat \<Rightarrow> exn + (ns_error option + unit)) \<Rightarrow> bool \<Rightarrow> package_state \<Rightarrow> exn + bool \<times> (string \<times> ns_error) list" where
  "syncWithRemote sync synchronizesSnapshots ps =
     bindExn (startAll sync ps (filter (\<lambda>d. ps_databaseProperties ps ''snapshotsDatabase'' \<noteq> Some d \<or> synchronizesSnapshots)
         (databases ps))) (\<lambda>errs. Inr (errs = [], errs))"

definition remoteDatabaseCredentialsForLocalDatabase :: "nat \<Rightarrow> package_state \<Rightarrow> exn + string \<times> string" where
  "remoteDatabaseCredentialsForLocalDatabase d ps =
     bindExn (assertThat (d \<in> set (databases ps)) ''containsObject'') (\<lambda>_. Inr (''Administrator'', ''f00bar1''))"


section \<open>The listener\<close>

definition MPDatabasePackageListenerMaxRetryCount :: nat where
  "MPDatabasePackageListenerMaxRetryCount = 30"

text \<open>
  \<open>start\<close> starts a listener at a port, which Couchbase Lite takes as a 16-bit number.
  The result is the last error, if any, and the ports that were tried.
\<close>

function tryPorts ::
  "(16 word \<Rightarrow> ns_error option) \<Rightarrow> 64 word \<Rightarrow> nat \<Rightarrow> ns_error option \<times> 16 word list" where
  "tryPorts start port retries =
     (let port' = port + of_nat retries; p = ucast port'
      in case start p of
           None \<Rightarrow> (None, [p])
         | Some e \<Rightarrow>
             if retries + 1 < MPDatabasePackageListenerMaxRetryCount
             then (case tryPorts start port' (retries + 1) of (r, ps) \<Rightarrow> (r, p # ps))
             else (Some e, [p]))"
  by pat_completeness auto
termination
  by (relation "measure (\<lambda>(start, port, retries). MPDatabasePackageListenerMaxRetryCount - retries)") auto

declare tryPorts.simps [simp del]

definition startListener ::
  "bool \<Rightarrow> bool \<Rightarrow> (16 word \<Rightarrow> ns_error option) \<Rightarrow> 64 word \<Rightarrow> package_state \<Rightarrow>
   exn + (ns_error option + unit) \<times> package_state" where
  "startListener commandLineTool xpcService start packagesOpened ps =
     bindExn (assertThat (\<not> commandLineTool) ''isCommandLineTool'') (\<lambda>_.
     bindExn (assertThat (\<not> xpcService) ''isXPCService'') (\<lambda>_.
     bindExn (assertThat (ps_listenerPort ps = None) ''!_databaseListener'') (\<lambda>_.
       case tryPorts start (10000 + packagesOpened) 0 of
         (Some e, ports) \<Rightarrow> Inr (Inl (Some e), ps\<lparr>ps_listenerPort := Some (unat (last ports))\<rparr>)
       | (None, ports) \<Rightarrow> Inr (Inr (), ps\<lparr>ps_listenerPort := Some (unat (last ports)), ps_listenerRuns := True\<rparr>))))"

definition stopListener :: "package_state \<Rightarrow> exn + package_state" where
  "stopListener ps =
     bindExn (assertThat (ps_listenerPort ps \<noteq> None) ''Expecting there to be a listener'') (\<lambda>_.
       Inr (ps\<lparr>ps_listenerRuns := False\<rparr>))"


section \<open>Snapshots\<close>

text \<open>
  The addresses of the new objects are arguments, and \<open>documentOf\<close> gives the current
  revision identifier and the properties of the document of an object.  A snapshotted object
  is created with the snapshots controller as its controller.
\<close>

definition snapshotObject ::
  "'db services \<Rightarrow> cls \<Rightarrow> nat \<Rightarrow> string \<Rightarrow> string \<times> dict \<Rightarrow> nat \<Rightarrow> nat \<Rightarrow> 'db world \<Rightarrow>
   exn + (ns_error option + unit) \<times> 'db world" where
  "snapshotObject svc snapshottedClass sc snapshotID document a so w =
     bindExn (documentID (svc_ops svc) a w) (\<lambda>i.
     bindExn (getObject a w) (\<lambda>mo.
     bindExn (initWithNewDocumentForController svc snapshottedClass so (Some sc) None
         (Some (class_name snapshottedClass @ '':'' @ i @ '':'' @ fst document)) w) (\<lambda>w1.
     bindExn (setValue svc so (Some (VManaged snapshotID)) ''snapshot'' w1) (\<lambda>w2.
     bindExn (setValue svc so (Some (VString (class_name (mo_class mo)))) ''snapshottedObjectClass'' w2) (\<lambda>w3.
     bindExn (setValue svc so (Some (VManaged i)) ''snapshottedObject'' w3) (\<lambda>w4.
     bindExn (setValue svc so (Some (VString (fst document))) ''snapshottedRevisionID'' w4) (\<lambda>w5.
     bindExn (setValue svc so (Some (VDict (snd document))) ''snapshottedProperties'' w5) (\<lambda>w6.
       saveWithError svc so w6))))))))"

fun snapshotObjects ::
  "'db services \<Rightarrow> cls \<Rightarrow> nat \<Rightarrow> string \<Rightarrow> (nat \<Rightarrow> string \<times> dict) \<Rightarrow> nat list \<Rightarrow> 'db world \<Rightarrow>
   exn + (ns_error option + unit) \<times> 'db world" where
  "snapshotObjects svc snapshottedClass sc snapshotID documentOf [] w = Inr (Inr (), w)"
| "snapshotObjects svc snapshottedClass sc snapshotID documentOf (a # rest) w =
     bindExn (snapshotObject svc snapshottedClass sc snapshotID (documentOf a) a (svc_fresh svc w) w) (\<lambda>(r, w1).
       case r of
         Inl err \<Rightarrow> Inr (Inl err, w1)
       | Inr _ \<Rightarrow> snapshotObjects svc snapshottedClass sc snapshotID documentOf rest w1)"

text \<open>
  \<open>objectsOf\<close> gives all objects of a controller.  The error of saving the snapshot
  itself is not handed to the caller.
\<close>

definition newSnapshotWithName ::
  "'db services \<Rightarrow> cls \<Rightarrow> cls \<Rightarrow> nat \<Rightarrow> (nat \<Rightarrow> string \<times> dict) \<Rightarrow> (nat \<Rightarrow> nat list) \<Rightarrow> package_state \<Rightarrow> string \<Rightarrow> nat \<Rightarrow>
   'db world \<Rightarrow> exn + (ns_error option + nat) \<times> 'db world" where
  "newSnapshotWithName svc snapshotClass snapshottedClass sc documentOf objectsOf ps name s w =
     (let snapshotID = class_name snapshotClass @ '':'' @ name;
          others = filter (\<lambda>m. m \<noteq> sc) (map fst (ps_controllers ps))
      in bindExn (assertThat (length (ps_controllers ps) > 1) ''_managedObjectsControllers.count > 1'') (\<lambda>_.
         bindExn (initWithNewDocumentForController svc snapshotClass s (Some sc) None (Some snapshotID) w) (\<lambda>w1.
         bindExn (setValue svc s (Some (VString name)) ''name'' w1) (\<lambda>w2.
         bindExn (setValue svc s (Some (VNumber (svc_now svc))) ''timestamp'' w2) (\<lambda>w3.
         bindExn (saveWithError svc s w3) (\<lambda>(r, w4).
           case r of
             Inl err \<Rightarrow> Inr (Inl None, w4)
           | Inr _ \<Rightarrow>
               bindExn (snapshotObjects svc snapshottedClass sc snapshotID documentOf (concat (map objectsOf others)) w4)
                 (\<lambda>(r', w5). case r' of Inl err \<Rightarrow> Inr (Inl err, w5) | Inr _ \<Rightarrow> Inr (Inr s, w5))))))))"

text \<open>
  A snapshotted object on the way back: the class it names, its document, revision and
  properties.  The objects are changed but not saved: the list of objects to save stays empty.
  The document of a name always exists, so a missing snapshot is not noticed.
\<close>

record snapshotted_object =
  so_class :: cls
  so_documentID :: string
  so_revisionID :: string
  so_properties :: dict

fun restoreObjects ::
  "cls \<Rightarrow> 'db services \<Rightarrow> nat \<Rightarrow> (nat \<Rightarrow> string \<Rightarrow> cbl_document) \<Rightarrow> (nat \<Rightarrow> string \<times> dict) \<Rightarrow>
   snapshotted_object list \<Rightarrow> 'db world \<Rightarrow> exn + 'db world" where
  "restoreObjects snapshottedClass svc p documentWithID documentOf [] w = Inr w"
| "restoreObjects snapshottedClass svc p documentWithID documentOf (so # rest) w =
     bindExn (assertThat (isSubclassOfClass (so_class so) (class_MPManagedObject (svc_classes svc))) ''cls'') (\<lambda>_.
     bindExn (assertThat (\<not> isSubclassOfClass (so_class so) snapshottedClass) ''cls'') (\<lambda>_.
     bindExn (controllerIn svc p (so_class so) w) (\<lambda>(m, w1).
     bindExn (MPAssertNotNil m ''moc'') (\<lambda>m.
     bindExn (getController m w1) (\<lambda>moc.
     bindExn (MPAssertNotNil (moc_database moc) ''db'') (\<lambda>d.
     bindExn (modelForDocument svc (so_class so) p d (so_documentID so) (documentWithID d (so_documentID so)) w1)
       (\<lambda>(a, w2).
         bindExn
           (if fst (documentOf a) = so_revisionID so \<and> \<not> modelNeedsSave (svc_ops svc) (cbl w2) a
            then bindExn (assertThat (snd (documentOf a) = so_properties so) ''isEqual'') (\<lambda>_. Inr w2)
            else setValuesForPropertiesWithDictionary svc a (so_properties so) w2)
           (\<lambda>w3. restoreObjects snapshottedClass svc p documentWithID documentOf rest w3))))))))"

definition restoreFromSnapshotWithName ::
  "cls \<Rightarrow> 'db services \<Rightarrow> nat \<Rightarrow> (nat \<Rightarrow> string \<Rightarrow> cbl_document) \<Rightarrow> (nat \<Rightarrow> string \<times> dict) \<Rightarrow>
   snapshotted_object list \<Rightarrow> 'db world \<Rightarrow> exn + (ns_error option + unit) \<times> 'db world" where
  "restoreFromSnapshotWithName snapshottedClass svc p documentWithID documentOf snapshottedObjects w =
     bindExn (restoreObjects snapshottedClass svc p documentWithID documentOf snapshottedObjects w) (\<lambda>w1. Inr (Inr (), w1))"

end
