(* ===== verification/PackageInterface.thy ===== *)
theory PackageInterface
  imports Packages
begin

text \<open>
  \<open>MPDatabasePackageController\<close> as its headers declare it, one method table for each group
  of the interface, and what a package promises: which ports its listener tries, what a temporary
  copy holds, which databases fail to replicate, and what happens to snapshots.
\<close>


section \<open>State and life cycle\<close>

text \<open>
  The manager, the tree-item pool, the host name and the objects of a controller are given; the metadata objects are given by their document identifiers.
\<close>

record package_surroundings =
  sur_server :: nat
  sur_treeItemPool :: nat
  sur_hostName :: string
  sur_objectsOf :: "nat \<Rightarrow> nat list"
  sur_primary :: "string option"

definition packageAllObjects :: "package_surroundings \<Rightarrow> package_state \<Rightarrow> nat list \<times> string list" where
  "packageAllObjects sur ps =
     (concat (map (sur_objectsOf sur) (map fst (ps_controllers ps))),
      map (\<lambda>d. ''MPMetadata:'' @ nameOfDatabase ps d) (orderedDatabases ps))"

definition databaseListenerPort :: "package_state \<Rightarrow> nat" where
  "databaseListenerPort ps = (case ps_listenerPort ps of None \<Rightarrow> 0 | Some port \<Rightarrow> port)"

definition databaseListenerURL :: "package_surroundings \<Rightarrow> package_state \<Rightarrow> string" where
  "databaseListenerURL sur ps = ''http://'' @ sur_hostName sur @ '':'' @ decimal (int (databaseListenerPort ps))"

record 'fs package_attributes =
  pk_path :: "package_state \<Rightarrow> string"
  pk_pathForDatabase :: "package_state \<Rightarrow> string \<Rightarrow> 'fs \<Rightarrow> string option"
  pk_URL :: "package_state \<Rightarrow> string"
  pk_sessionID :: "package_state \<Rightarrow> string"
  pk_server :: nat
  pk_allObjects :: "package_state \<Rightarrow> nat list \<times> string list"
  pk_serverQueueToken :: "package_state \<Rightarrow> nat"
  pk_remoteURL :: "exn + string"
  pk_remoteServiceURL :: "exn + string"
  pk_synchronizesWithRemote :: bool
  pk_synchronizesSnapshots :: bool
  pk_synchronizesUsingCloudKit :: bool
  pk_synchronizesPeerlessly :: bool
  pk_databaseListenerURL :: "package_state \<Rightarrow> string"
  pk_databaseListenerPort :: "package_state \<Rightarrow> nat"
  pk_treeItemPool :: nat
  pk_indexesObjectFullTextContents :: bool
  pk_databasesResetDuringInitialization :: "package_state \<Rightarrow> nat list option"

definition featherPackageAttributes :: "package_surroundings \<Rightarrow> 'fs file_system \<Rightarrow> 'fs package_attributes" where
  "featherPackageAttributes sur fs =
     \<lparr>pk_path = ps_path,
      pk_pathForDatabase = pathForDatabase fs,
      pk_URL = ps_path,
      pk_sessionID = ps_session,
      pk_server = sur_server sur,
      pk_allObjects = packageAllObjects sur,
      pk_serverQueueToken = ps_token,
      pk_remoteURL = throw (MPAbstractMethodException ''remoteURL''),
      pk_remoteServiceURL = throw (MPAbstractMethodException ''remoteServiceURL''),
      pk_synchronizesWithRemote = False,
      pk_synchronizesSnapshots = False,
      pk_synchronizesUsingCloudKit = False,
      pk_synchronizesPeerlessly = True,
      pk_databaseListenerURL = databaseListenerURL sur,
      pk_databaseListenerPort = databaseListenerPort,
      pk_treeItemPool = sur_treeItemPool sur,
      pk_indexesObjectFullTextContents = False,
      pk_databasesResetDuringInitialization = ps_databasesReset\<rparr>"

type_synonym 'fs package_initialiser =
  "string option \<Rightarrow> package_delegate option \<Rightarrow> 'fs \<Rightarrow> exn + (ns_error option + package_state) \<times> 'fs"

record 'fs package_lifecycle =
  pk_makeTemporaryCopyIntoRootDirectoryWithURL ::
    "package_state \<Rightarrow> string option \<Rightarrow> bool \<Rightarrow> bool \<Rightarrow> bool \<Rightarrow> 'fs \<Rightarrow> (ns_error option + unit) \<times> 'fs"
  pk_initWithPath :: "'fs package_initialiser"
  pk_initWithFileURL :: "'fs package_initialiser"
  pk_close :: "ns_error option \<Rightarrow> package_state \<Rightarrow> exn + (ns_error option + nat list) \<times> package_state"

definition featherPackageLifecycle ::
  "'fs package_services \<Rightarrow> (string \<Rightarrow> nat \<Rightarrow> package_state \<Rightarrow> exn + (ns_error option + package_state)) \<Rightarrow> bool \<Rightarrow>
   (string \<times> string \<times> nat) \<Rightarrow> string option \<Rightarrow> (nat \<Rightarrow> int) \<Rightarrow> 'fs package_lifecycle" where
  "featherPackageLifecycle pks newController isMainThread ids primary transactionLevel =
     \<lparr>pk_makeTemporaryCopyIntoRootDirectoryWithURL = (\<lambda>ps. makeTemporaryCopy (pks_files pks) (ps_path ps)),
      pk_initWithPath = initWithPath pks newController isMainThread ids primary,
      pk_initWithFileURL = initWithPath pks newController isMainThread ids primary,
      pk_close = closePackage transactionLevel\<rparr>"


section \<open>Controllers and databases\<close>

text \<open>The static dictionary of controller classes is an argument and a result.\<close>

record 'db package_lookup =
  pk_controllerForManagedObjectClass :: "nat \<Rightarrow> cls \<Rightarrow> 'db world \<Rightarrow> exn + nat option \<times> 'db world"
  pk_controllerClassForManagedObjectClass ::
    "(string \<rightharpoonup> cls) option \<Rightarrow> cls \<Rightarrow> exn + cls option \<times> (string \<rightharpoonup> cls) option"
  pk_controllerPropertyNameForManagedObjectClass :: "cls \<Rightarrow> string"
  pk_controllerExistsForManagedObjectClass :: "nat \<Rightarrow> cls \<Rightarrow> 'db world \<Rightarrow> exn + bool"
  pk_controllerPropertyNameForManagedObjectControllerClass :: "cls \<Rightarrow> string"
  pk_controllerForDocument :: "nat \<Rightarrow> nat \<Rightarrow> cbl_document \<Rightarrow> 'db world \<Rightarrow> exn + nat \<times> 'db world"

definition featherPackageLookup :: "'db services \<Rightarrow> 'db package_lookup" where
  "featherPackageLookup svc =
     \<lparr>pk_controllerForManagedObjectClass = controllerIn svc,
      pk_controllerClassForManagedObjectClass = controllerClassForManagedObjectClass (svc_runtime svc) (svc_classes svc),
      pk_controllerPropertyNameForManagedObjectClass = controllerPropertyNameForManagedObjectClass,
      pk_controllerExistsForManagedObjectClass = (\<lambda>p c w. bindExn (getPackage p w) (\<lambda>pkg.
        controllerExistsForManagedObjectClass (svc_classes svc) c pkg)),
      pk_controllerPropertyNameForManagedObjectControllerClass = controllerPropertyNameForManagedObjectControllerClass,
      pk_controllerForDocument = controllerForDocument svc\<rparr>"

record package_replication =
  pk_remoteDatabaseURLForLocalDatabase :: "nat \<Rightarrow> exn + string"
  pk_remoteServiceURLForLocalDatabase :: "nat \<Rightarrow> exn + string"
  pk_remoteDatabaseCredentialsForLocalDatabase :: "nat \<Rightarrow> package_state \<Rightarrow> exn + string \<times> string"
  pk_databaseURLsForBaseURI :: "string \<Rightarrow> string list"
  pk_pushToRemoteWithErrorDictionary :: "package_state \<Rightarrow> exn + bool \<times> (string \<times> ns_error) list"
  pk_pullFromRemoteWithErrorDictionary :: "package_state \<Rightarrow> exn + (string \<times> ns_error) list"
  pk_syncWithRemote :: "package_state \<Rightarrow> exn + bool \<times> (string \<times> ns_error) list"
  pk_compact :: "package_state \<Rightarrow> ns_error option + unit"

text \<open>\<open>push\<close>, \<open>pull\<close> and \<open>sync\<close> are the operations of the databases.\<close>

definition featherPackageReplication ::
  "(nat \<Rightarrow> exn + (ns_error option + unit)) \<Rightarrow> (nat \<Rightarrow> exn + (ns_error option + unit)) \<Rightarrow>
   (nat \<Rightarrow> exn + (ns_error option + unit)) \<Rightarrow> (nat \<Rightarrow> ns_error option + unit) \<Rightarrow> package_replication" where
  "featherPackageReplication push pull sync compact =
     \<lparr>pk_remoteDatabaseURLForLocalDatabase = (\<lambda>d. throw (MPAbstractMethodException ''remoteDatabaseURLForLocalDatabase:'')),
      pk_remoteServiceURLForLocalDatabase = (\<lambda>d. throw (MPAbstractMethodException ''remoteServiceURLForLocalDatabase:'')),
      pk_remoteDatabaseCredentialsForLocalDatabase = remoteDatabaseCredentialsForLocalDatabase,
      pk_databaseURLsForBaseURI = (\<lambda>url. [url @ ''_snapshots'']),
      pk_pushToRemoteWithErrorDictionary = pushToRemoteWithErrorDictionary push,
      pk_pullFromRemoteWithErrorDictionary = pullFromRemoteWithErrorDictionary pull,
      pk_syncWithRemote = syncWithRemote sync False,
      pk_compact = compactDatabases compact\<rparr>"

record package_filters =
  pk_pushFilterNameForDatabaseNamed :: "string \<Rightarrow> string option"
  pk_applyFilterWhenPullingFromDatabaseAtURL :: "string \<Rightarrow> nat \<Rightarrow> bool"
  pk_applyFilterWhenPushingToDatabaseAtURL :: "string \<Rightarrow> nat \<Rightarrow> bool"
  pk_createPushFilterBlockWithName :: "string option \<Rightarrow> database \<Rightarrow> exn + filter_block option"
  pk_createPullFilterBlockWithName :: "string option \<Rightarrow> database \<Rightarrow> exn + filter_block option"
  pk_pullFilterNameForDatabaseNamed :: "string \<Rightarrow> string option"

definition featherPackageFilters :: package_filters where
  "featherPackageFilters =
     \<lparr>pk_pushFilterNameForDatabaseNamed = (\<lambda>n. None),
      pk_applyFilterWhenPullingFromDatabaseAtURL = (\<lambda>url d. True),
      pk_applyFilterWhenPushingToDatabaseAtURL = (\<lambda>url d. True),
      pk_createPushFilterBlockWithName = (\<lambda>n db. bindExn (assertThat (n = None) ''Expecting filterName'') (\<lambda>_. Inr None)),
      pk_createPullFilterBlockWithName = (\<lambda>n db. bindExn (assertThat (n = None) ''Expecting filterName'') (\<lambda>_. Inr None)),
      pk_pullFilterNameForDatabaseNamed = (\<lambda>n. None)\<rparr>"

text \<open>The period is a property without a value of its own, so it is zero.\<close>

record package_databases =
  pk_syncTimerPeriod :: int
  pk_managedObjectsControllers :: "package_state \<Rightarrow> nat set"
  pk_databases :: "package_state \<Rightarrow> nat set"
  pk_orderedDatabases :: "package_state \<Rightarrow> nat list"
  pk_replicatedDatabases :: "package_state \<Rightarrow> nat list"
  pk_databaseNames :: "package_state \<Rightarrow> string set"
  pk_databasesByName :: "package_state \<Rightarrow> string \<rightharpoonup> nat"
  pk_contributorsController :: "package_state \<Rightarrow> nat option"
  pk_contributorIdentitiesController :: "package_state \<Rightarrow> nat option"
  pk_class_databaseNames :: "string set"
  pk_primaryDatabaseName :: "exn + string option"
  pk_databaseWithName :: "string \<Rightarrow> package_state \<Rightarrow> exn + nat"
  pk_bootstrapDatabaseURLForDatabaseWithName :: "string \<Rightarrow> string option"

text \<open>The first two controllers that the initialisation registers are those of the contributors.\<close>

definition featherPackageDatabases :: "package_surroundings \<Rightarrow> package_databases" where
  "featherPackageDatabases sur =
     \<lparr>pk_syncTimerPeriod = 0,
      pk_managedObjectsControllers = (\<lambda>ps. fst ` set (ps_controllers ps)),
      pk_databases = (\<lambda>ps. set (databases ps)),
      pk_orderedDatabases = orderedDatabases,
      pk_replicatedDatabases = orderedDatabases,
      pk_databaseNames = (\<lambda>ps. nameOfDatabase ps ` set (databases ps)),
      pk_databasesByName = databasesByName,
      pk_contributorsController = (\<lambda>ps. case ps_controllers ps of (m, d) # rest \<Rightarrow> Some m | [] \<Rightarrow> None),
      pk_contributorIdentitiesController = (\<lambda>ps. case ps_controllers ps of x # (m, d) # rest \<Rightarrow> Some m | _ \<Rightarrow> None),
      pk_class_databaseNames = set (databaseNames (sur_primary sur)),
      pk_primaryDatabaseName = (case sur_primary sur of
          None \<Rightarrow> throw (MPAbstractMethodException ''primaryDatabaseName'') | Some n \<Rightarrow> Inr (Some n)),
      pk_databaseWithName = databaseWithName,
      pk_bootstrapDatabaseURLForDatabaseWithName = (\<lambda>n. None)\<rparr>"


section \<open>Identity, sections and snapshots\<close>

text \<open>\<open>overridden\<close> is the identifier that a subclass gives, the base class raises.\<close>

record package_identity =
  pk_identifier :: "exn + string option"
  pk_title :: "string option"
  pk_isIdentifiable :: "exn + bool"
  pk_fullyQualifiedIdentifier :: "package_state \<Rightarrow> string"
  pk_delegate :: "package_state \<Rightarrow> package_delegate option"
  pk_notificationCenter :: "notification_center \<Rightarrow> notification_center"

definition featherPackageIdentity :: "string option option \<Rightarrow> package_identity" where
  "featherPackageIdentity overridden =
     (let i = (case overridden of None \<Rightarrow> throw (MPAbstractMethodException ''identifier'') | Some x \<Rightarrow> Inr x)
      in \<lparr>pk_identifier = i,
          pk_title = None,
          pk_isIdentifiable = bindExn i (\<lambda>x. Inr (x \<noteq> None)),
          pk_fullyQualifiedIdentifier = ps_identifier,
          pk_delegate = ps_delegate,
          pk_notificationCenter = (\<lambda>defaultCenter. defaultCenter)\<rparr>)"

record 'db package_snapshots =
  pk_snapshotsController :: nat
  pk_newSnapshotWithName :: "package_state \<Rightarrow> string \<Rightarrow> nat \<Rightarrow> 'db world \<Rightarrow> exn + (ns_error option + nat) \<times> 'db world"
  pk_restoreFromSnapshotWithName ::
    "nat \<Rightarrow> snapshotted_object list \<Rightarrow> 'db world \<Rightarrow> exn + (ns_error option + unit) \<times> 'db world"
  pk_databasePackageControllerWithFullyQualifiedIdentifier :: "string \<Rightarrow> package_registry \<Rightarrow> nat option"

definition featherPackageSnapshots ::
  "'db services \<Rightarrow> cls \<Rightarrow> cls \<Rightarrow> nat \<Rightarrow> (nat \<Rightarrow> string \<Rightarrow> cbl_document) \<Rightarrow> (nat \<Rightarrow> string \<times> dict) \<Rightarrow> (nat \<Rightarrow> nat list) \<Rightarrow>
   'db package_snapshots" where
  "featherPackageSnapshots svc snapshotClass snapshottedClass sc documentWithID documentOf objectsOf =
     \<lparr>pk_snapshotsController = sc,
      pk_newSnapshotWithName = newSnapshotWithName svc snapshotClass snapshottedClass sc documentOf objectsOf,
      pk_restoreFromSnapshotWithName = (\<lambda>p. restoreFromSnapshotWithName snapshottedClass svc p documentWithID documentOf),
      pk_databasePackageControllerWithFullyQualifiedIdentifier = databasePackageControllerWithFullyQualifiedIdentifier\<rparr>"

text \<open>A root section is stored under the camel-cased name of its class without module and prefix.\<close>

fun newRootSections :: "runtime \<Rightarrow> cls \<Rightarrow> string list \<Rightarrow> exn + (string \<times> cls) list" where
  "newRootSections rt rootSection [] = Inr []"
| "newRootSections rt rootSection (n # rest) =
     bindExn (MPAssertNotNil (NSClassFromString rt n) ''unexpected class'') (\<lambda>c.
     bindExn (assertThat (isSubclassOfClass c rootSection) ''unexpected class'') (\<lambda>_.
     bindExn (newRootSections rt rootSection rest) (\<lambda>sections.
       Inr ((camelCased (stringByReplacingOccurrencesOfString (last (componentsSeparatedByString ''.'' n)) ''MP'' []), c) #
         sections))))"

record 'db package_contents =
  pk_rootSections :: "string list \<Rightarrow> exn + (string \<times> cls) list"
  pk_activeDraft :: "package_state \<Rightarrow> nat option"
  pk_setActiveDraft :: "nat option \<Rightarrow> package_state \<Rightarrow> package_state"
  pk_objectWithIdentifier :: "nat \<Rightarrow> string \<Rightarrow> 'db world \<Rightarrow> (exn + nat option \<times> 'db world) option"
  pk_checkpointDatabases :: "(nat \<Rightarrow> ns_error option + unit) \<Rightarrow> nat list \<Rightarrow> ns_error option + unit"
  pk_orderedRootSectionClassNames :: "string list"
  pk_startListenerWithCompletionHandler ::
    "(16 word \<Rightarrow> ns_error option) \<Rightarrow> 64 word \<Rightarrow> package_state \<Rightarrow> exn + (ns_error option + unit) \<times> package_state"
  pk_stopListener :: "package_state \<Rightarrow> exn + package_state"
  pk_ensureInitialStateInitialized :: "nat option"
  pk_ensurePlaceholderInitialized :: "nat option"

definition featherPackageContents :: "bool \<Rightarrow> bool \<Rightarrow> cls \<Rightarrow> 'db services \<Rightarrow> 'db package_contents" where
  "featherPackageContents commandLineTool xpcService rootSection svc =
     \<lparr>pk_rootSections = newRootSections (svc_runtime svc) rootSection,
      pk_activeDraft = ps_activeDraft,
      pk_setActiveDraft = (\<lambda>draft ps. ps\<lparr>ps_activeDraft := draft\<rparr>),
      pk_objectWithIdentifier = packageObjectWithIdentifier svc,
      pk_checkpointDatabases = checkpointDatabases,
      pk_orderedRootSectionClassNames = [],
      pk_startListenerWithCompletionHandler = startListener commandLineTool xpcService,
      pk_stopListener = stopListener,
      pk_ensureInitialStateInitialized = None,
      pk_ensurePlaceholderInitialized = None\<rparr>"


section \<open>Saving\<close>

record 'fs package_saving =
  pk_saveToURL :: "package_state \<Rightarrow> string \<Rightarrow> 'fs \<Rightarrow> (ns_error option + unit) \<times> 'fs"
  pk_relativePreviewURL :: string
  pk_relativeThumbnailURL :: string
  pk_absolutePreviewURL :: "package_state \<Rightarrow> string"
  pk_absoluteThumbnailURL :: "package_state \<Rightarrow> string"
  pk_manifestDictionaryURL :: "package_state \<Rightarrow> string"
  pk_dictionaryRepresentationURL :: "package_state \<Rightarrow> string"
  pk_manifestDictionary :: dict
  pk_dictionaryRepresentation :: "package_state \<Rightarrow> string \<rightharpoonup> dict list"

text \<open>\<open>plist\<close> and \<open>json\<close> encode the manifest and the dictionary representation.\<close>

definition featherPackageSaving ::
  "'fs file_system \<Rightarrow> (nat \<Rightarrow> ns_error option + unit) \<Rightarrow> (dict \<Rightarrow> string) \<Rightarrow>
   ((string \<rightharpoonup> dict list) \<Rightarrow> ns_error option + string) \<Rightarrow> (nat \<Rightarrow> dict option list) \<Rightarrow> 'fs package_saving" where
  "featherPackageSaving fs checkpoint plist json documents =
     \<lparr>pk_saveToURL = (\<lambda>ps. saveToURL fs checkpoint (plist []) (json (packageDictionaryRepresentation documents ps)) ps),
      pk_relativePreviewURL = ''QuickLook/preview.pdf'',
      pk_relativeThumbnailURL = ''QuickLook/thumbnail.pdf'',
      pk_absolutePreviewURL = (\<lambda>ps. appendingPathComponent (ps_path ps) ''QuickLook/preview.pdf''),
      pk_absoluteThumbnailURL = (\<lambda>ps. appendingPathComponent (ps_path ps) ''QuickLook/thumbnail.pdf''),
      pk_manifestDictionaryURL = (\<lambda>ps. appendingPathComponent (ps_path ps) ''manifest.json''),
      pk_dictionaryRepresentationURL = (\<lambda>ps. appendingPathComponent (ps_path ps) ''dictionary.json''),
      pk_manifestDictionary = [],
      pk_dictionaryRepresentation = packageDictionaryRepresentation documents\<rparr>"


section \<open>The delegate made of blocks\<close>

record block_based_delegate =
  bd_packageController :: "nat option"
  bd_rootURLHandler :: "unit \<Rightarrow> string option"
  bd_updateChangeCountHandler :: "nat \<Rightarrow> nat"

definition blockBasedDelegate :: "block_based_delegate \<Rightarrow> package_delegate" where
  "blockBasedDelegate bd =
     \<lparr>packageRootURL = bd_rootURLHandler bd (),
      delegate_updateChangeCount = Some (bd_updateChangeCountHandler bd),
      packageControllerRequiresListener = None,
      packageControllerRequiresPlaceholderContent = None\<rparr>"


section \<open>Protected methods\<close>

record 'db package_protected =
  pk_registerManagedObjectsController :: "nat \<Rightarrow> nat \<Rightarrow> package_state \<Rightarrow> exn + package_state"
  pk_pulls :: "package_state \<Rightarrow> nat list"
  pk_setPulls :: "nat list \<Rightarrow> package_state \<Rightarrow> package_state"
  pk_completedPulls :: "package_state \<Rightarrow> nat list"
  pk_setCompletedPulls :: "nat list \<Rightarrow> package_state \<Rightarrow> package_state"
  pk_pullCompletionHandler :: "package_state \<Rightarrow> nat option"
  pk_setPullCompletionHandler :: "nat option \<Rightarrow> package_state \<Rightarrow> package_state"
  pk_registerViewName :: "string \<Rightarrow> package_state \<Rightarrow> exn + package_state"
  pk_primaryDatabase :: "package_state \<Rightarrow> exn + nat"
  pk_setPrimaryDatabase :: "nat option \<Rightarrow> package_state \<Rightarrow> exn + package_state"
  pk_didStartPackageListener :: "package_state \<Rightarrow> package_state"
  pk_makeNotificationCenter :: "package_state \<Rightarrow> package_state"
  pk_didChangeDocument ::
    "nat \<Rightarrow> nat \<Rightarrow> string \<Rightarrow> cbl_document \<Rightarrow> MPManagedObjectChangeSource \<Rightarrow> 'db world \<Rightarrow> exn + 'db world"
  pk_serverForDatabaseWithName :: "string \<Rightarrow> nat"
  pk_databasePackageControllerRegistry :: "package_registry \<Rightarrow> string \<rightharpoonup> nat"

definition featherPackageProtected :: "package_surroundings \<Rightarrow> 'db services \<Rightarrow> 'db package_protected" where
  "featherPackageProtected sur svc =
     \<lparr>pk_registerManagedObjectsController = registerManagedObjectsController,
      pk_pulls = ps_pulls,
      pk_setPulls = (\<lambda>pulls ps. ps\<lparr>ps_pulls := pulls\<rparr>),
      pk_completedPulls = ps_completedPulls,
      pk_setCompletedPulls = (\<lambda>pulls ps. ps\<lparr>ps_completedPulls := pulls\<rparr>),
      pk_pullCompletionHandler = ps_pullCompletionHandler,
      pk_setPullCompletionHandler = (\<lambda>handler ps. ps\<lparr>ps_pullCompletionHandler := handler\<rparr>),
      pk_registerViewName = registerViewName,
      pk_primaryDatabase = primaryDatabase (sur_primary sur),
      pk_setPrimaryDatabase = setPrimaryDatabase (sur_primary sur),
      pk_didStartPackageListener = (\<lambda>ps. ps),
      pk_makeNotificationCenter = (\<lambda>ps. ps),
      pk_didChangeDocument = packageDidChangeDocument svc,
      pk_serverForDatabaseWithName = (\<lambda>n. sur_server sur),
      pk_databasePackageControllerRegistry = databasePackageControllerRegistry\<rparr>"


section \<open>The ports of the listener\<close>

lemma tryPorts_ports:
  assumes "unat port + (\<Sum>i = retries..<30. i) < 2 ^ 16" and "retries < 30"
  shows "\<exists>n. 0 < n \<and> retries + n \<le> 30 \<and>
    map unat (snd (tryPorts start port retries)) = map (\<lambda>k. unat port + (\<Sum>i = retries..retries + k. i)) [0..<n] \<and>
    (fst (tryPorts start port retries) = None \<longleftrightarrow> start (last (snd (tryPorts start port retries))) = None)"
  using assms
proof (induction start port retries rule: tryPorts.induct)
  case (1 start port retries)
  define port' where "port' = port + word_of_nat retries"
  define p :: "16 word" where "p = ucast port'"
  have split: "(\<Sum>i = retries..<30. i) = retries + (\<Sum>i = Suc retries..<30. i)"
    using 1(3) by (simp add: sum.atLeast_Suc_lessThan)
  have retries: "unat (word_of_nat retries :: 64 word) = retries"
    using 1(3) by (simp add: unat_of_nat)
  have port': "unat port' = unat port + retries"
    unfolding port'_def using 1(2) split retries by (subst unat_add_lem [THEN iffD1]) auto
  have p: "unat p = unat port + retries"
    unfolding p_def using 1(2) split port' by (simp add: unsigned_ucast_eq take_bit_nat_eq_self)
  note unfold = tryPorts.simps [of start port retries] Let_def port'_def [symmetric] p_def [symmetric]
  show ?case
  proof (cases "start p = None \<or> \<not> retries + 1 < 30")
    case True
    then have "snd (tryPorts start port retries) = [p]" "fst (tryPorts start port retries) = start p"
      by (auto simp: unfold MPDatabasePackageListenerMaxRetryCount_def split: option.splits)
    then show ?thesis using p 1(3) by (intro exI [of _ 1]) simp
  next
    case False
    then obtain e where e: "start p = Some e" "retries + 1 < 30" by auto
    have step: "tryPorts start port retries =
        (fst (tryPorts start port' (retries + 1)), p # snd (tryPorts start port' (retries + 1)))"
      using e by (simp add: unfold MPDatabasePackageListenerMaxRetryCount_def split: prod.splits)
    have "unat port' + (\<Sum>i = retries + 1..<30. i) < 2 ^ 16" using 1(2) split port' by simp
    then obtain n where n: "0 < n" "retries + 1 + n \<le> 30"
      "map unat (snd (tryPorts start port' (retries + 1))) =
         map (\<lambda>k. unat port' + (\<Sum>i = retries + 1..retries + 1 + k. i)) [0..<n]"
      "fst (tryPorts start port' (retries + 1)) = None \<longleftrightarrow> start (last (snd (tryPorts start port' (retries + 1)))) = None"
      using 1(1) [OF refl refl] e by (auto simp: port'_def p_def MPDatabasePackageListenerMaxRetryCount_def)
    have sums: "unat port' + (\<Sum>i = retries + 1..retries + 1 + k. i) = unat port + (\<Sum>i = retries..retries + Suc k. i)" for k
      using port' by (simp add: sum.atLeast_Suc_atMost)
    have "snd (tryPorts start port' (retries + 1)) \<noteq> []" using n(1,3) by (metis list.map_disc_iff upt_eq_Nil_conv not_le zero_le map_is_Nil_conv)
    then show ?thesis
      using n p sums port'
      by (intro exI [of _ "Suc n"]) (simp add: step upt_conv_Cons map_Suc_upt [symmetric] del: upt_Suc)
  qed
qed

text \<open>C22: The listener tries at most thirty ports, the triangular numbers above the first one, all of
  them 16-bit port numbers, and it ends without an error exactly when the last of them could be
  used.\<close>

theorem listener_ports:
  assumes "unat packagesOpened \<le> 55100"
  shows "\<exists>n. 0 < n \<and> n \<le> MPDatabasePackageListenerMaxRetryCount \<and>
    map unat (snd (tryPorts start (10000 + packagesOpened) 0)) =
      map (\<lambda>k. 10000 + unat packagesOpened + k * (k + 1) div 2) [0..<n] \<and>
    (\<forall>p \<in> set (snd (tryPorts start (10000 + packagesOpened) 0)). 10000 \<le> unat p \<and> unat p < 2 ^ 16) \<and>
    (fst (tryPorts start (10000 + packagesOpened) 0) = None \<longleftrightarrow>
       start (last (snd (tryPorts start (10000 + packagesOpened) 0))) = None)"
proof -
  have base: "unat (10000 + packagesOpened) = 10000 + unat packagesOpened"
    using assms by (subst unat_add_lem [THEN iffD1]) auto
  have "(\<Sum>i = 0..<30::nat. i) = 435" by (simp add: numeral_eq_Suc)
  then have "unat (10000 + packagesOpened) + (\<Sum>i = 0..<30. i) < 2 ^ 16" using assms base by simp
  then obtain n where n: "0 < n" "n \<le> 30"
    "map unat (snd (tryPorts start (10000 + packagesOpened) 0)) =
      map (\<lambda>k. 10000 + unat packagesOpened + (\<Sum>i = 0..k. i)) [0..<n]"
    "fst (tryPorts start (10000 + packagesOpened) 0) = None \<longleftrightarrow>
       start (last (snd (tryPorts start (10000 + packagesOpened) 0))) = None"
    using tryPorts_ports [of "10000 + packagesOpened" 0 start] base by auto
  have "unat ` set (snd (tryPorts start (10000 + packagesOpened) 0)) \<subseteq> {10000..}"
    using arg_cong [OF n(3), of set] by auto
  moreover have "unat p < 2 ^ 16" for p :: "16 word" using unsigned_less [of p] by simp
  ultimately show ?thesis
    using n by (intro exI [of _ n]) (auto simp: MPDatabasePackageListenerMaxRetryCount_def gauss_sum_nat)
qed

theorem listener_ports_witness:
  "\<exists>n. 0 < n \<and> map unat (snd (tryPorts (\<lambda>p. if p = 10008 then None else Some \<lparr>error_domain = ''POSIX'', error_code = 48\<rparr>) (10000 + 5) 0)) =
      map (\<lambda>k. 10000 + 5 + k * (k + 1) div 2) [0..<n]"
  using listener_ports [of 5 "\<lambda>p. if p = 10008 then None else Some \<lparr>error_domain = ''POSIX'', error_code = 48\<rparr>"]
  by auto


section \<open>Starting replications\<close>

lemma startAll_errors:
  assumes "startAll start ps ds = Inr errs"
  shows "set errs = {(nameOfDatabase ps d, e) | d e. d \<in> set ds \<and> start d = Inr (Inl (Some e))} \<and>
    (\<forall>d \<in> set ds. \<exists>r. start d = Inr r)"
  using assms
proof (induction ds arbitrary: errs)
  case (Cons d ds)
  then obtain r errs' where r: "start d = Inr r" and errs': "startAll start ps ds = Inr errs'"
    and errs: "errs = (case r of Inl (Some e) \<Rightarrow> (nameOfDatabase ps d, e) # errs' | _ \<Rightarrow> errs')"
    by (auto simp: bindExn_Inr)
  show ?case using Cons.IH [OF errs'] r unfolding errs by (auto split: sum.splits option.splits)
qed simp

text \<open>C23: A push of the package that returns names exactly the databases that reported an error, with
  their errors, and answers YES when there are none.\<close>

theorem push_reports_failures:
  assumes "pushToRemoteWithErrorDictionary push ps = Inr (ok, errs)"
  shows "set errs = {(nameOfDatabase ps d, e) | d e. d \<in> set (databases ps) \<and> push d = Inr (Inl (Some e))} \<and>
    (ok \<longleftrightarrow> (\<forall>d \<in> set (databases ps). \<nexists>e. push d = Inr (Inl (Some e))))"
proof -
  have e: "startAll push ps (databases ps) = Inr errs" and ok: "ok \<longleftrightarrow> errs = []"
    using assms by (auto simp: pushToRemoteWithErrorDictionary_def bindExn_Inr)
  have "errs = [] \<longleftrightarrow> set errs = {}" by simp
  then show ?thesis using startAll_errors [OF e] ok by auto
qed

definition samplePackageState :: package_state where
  "samplePackageState =
     \<lparr>ps_path = ''/p'', ps_identifier = ''/p::1'', ps_session = ''s'', ps_token = 7,
      ps_databases = [4 \<mapsto> \<lparr>db_name = ''notes'', db_server = 0, db_database = 1, db_package = Some 3,
        db_pushFilterName = None, db_pullFilterName = None, db_filters = Map.empty, db_currentPulls = [],
        db_currentPushes = [], db_cachedMetadata = None, db_cachedLocalMetadata = None\<rparr>],
      ps_controllers = [(2, 4), (5, 4)], ps_databaseProperties = [''notesDatabase'' \<mapsto> 4], ps_viewNames = Some {},
      ps_databasesReset = None, ps_delegate = None, ps_listenerPort = None, ps_listenerRuns = False, ps_pulls = [],
      ps_completedPulls = [], ps_pullCompletionHandler = None, ps_activeDraft = None\<rparr>"

theorem push_reports_failures_witness:
  "\<exists>e. pushToRemoteWithErrorDictionary (\<lambda>d. Inr (Inl (Some e))) samplePackageState = Inr (False, [(''notes'', e)]) \<and>
     set [(''notes'', e)] = {(nameOfDatabase samplePackageState d, e') | d e'. d \<in> set (databases samplePackageState) \<and> e = e'}"
proof -
  let ?e = "\<lparr>error_domain = ''d'', error_code = 1\<rparr>"
  have "pushToRemoteWithErrorDictionary (\<lambda>d. Inr (Inl (Some ?e))) samplePackageState = Inr (False, [(''notes'', ?e)])"
    by (simp add: pushToRemoteWithErrorDictionary_def databases_def nameOfDatabase_def samplePackageState_def)
  then show ?thesis
    using push_reports_failures [of "\<lambda>d. Inr (Inl (Some ?e))" samplePackageState False "[(''notes'', ?e)]"]
    by (intro exI [of _ ?e]) auto
qed


section \<open>The databases\<close>

text \<open>The ordered databases are the databases of the controllers, each once, sorted by name, and
  when the names are distinct each is found under its name.\<close>

theorem databases_ordered_and_named:
  assumes "inj_on (nameOfDatabase ps) (set (databases ps))"
  shows "distinct (orderedDatabases ps) \<and> set (orderedDatabases ps) = snd ` set (ps_controllers ps) \<and>
    sorted (map (nameOfDatabase ps) (orderedDatabases ps)) \<and>
    (\<forall>d \<in> set (databases ps). databasesByName ps (nameOfDatabase ps d) = Some d)"
proof -
  have "distinct (map fst (rev (map (\<lambda>d. (nameOfDatabase ps d, d)) (databases ps))))"
    using assms by (simp add: databases_def distinct_map o_def rev_map [symmetric])
  then have "databasesByName ps (nameOfDatabase ps d) = Some d" if "d \<in> set (databases ps)" for d
    using that unfolding databasesByName_def by (intro map_of_is_SomeI) auto
  then show ?thesis by (auto simp: orderedDatabases_def databases_def)
qed

theorem databases_ordered_and_named_witness:
  "orderedDatabases samplePackageState = [4] \<and> sorted (map (nameOfDatabase samplePackageState) (orderedDatabases samplePackageState)) \<and>
   databasesByName samplePackageState ''notes'' = Some 4"
  using databases_ordered_and_named [of samplePackageState]
  by (auto simp: databases_def orderedDatabases_def nameOfDatabase_def samplePackageState_def)

text \<open>When the databases of a package could be opened, every name has its property, and the
  property holds a database of the package.\<close>

lemma isr_unit: "\<forall>x. r \<noteq> Inl x \<Longrightarrow> r = Inr ()"
  by (cases r) auto

lemma openDatabases_properties:
  assumes "openDatabases pks names ps s = Inr (Inr ps', s')"
    and "\<And>n s d db s'. pks_openNamed pks n s = (Inr (d, db), s') \<Longrightarrow> db_name db = n"
    and "ran (ps_databaseProperties ps) \<subseteq> dom (ps_databases ps)"
  shows "ran (ps_databaseProperties ps') \<subseteq> dom (ps_databases ps') \<and>
    dom (ps_databaseProperties ps') = dom (ps_databaseProperties ps) \<union> (\<lambda>n. n @ ''Database'') ` set names"
  using assms(1,3)
proof (induction names arbitrary: ps s)
  case (Cons n names)
  then obtain s1 d db b s2 db' where o: "openDatabase pks (ps_path ps) n s1 = (Inr ((d, db), b), s2)"
    and rest: "openDatabases pks names
      (ps\<lparr>ps_databases := (ps_databases ps)(d \<mapsto> db'),
          ps_databaseProperties := (ps_databaseProperties ps)(db_name db @ ''Database'' \<mapsto> d),
          ps_databasesReset := (if b then Some ((case ps_databasesReset ps of None \<Rightarrow> [] | Some ds \<Rightarrow> ds) @ [d])
            else ps_databasesReset ps)\<rparr>) s2 = Inr (Inr ps', s')"
    by (auto simp: bindExn_Inr split: sum.splits prod.splits dest: isr_unit)
  have "db_name db = n"
    using o assms(2) by (auto simp: openDatabase_def Let_def split: sum.splits prod.splits if_splits)
  moreover have ran: "ran ((ps_databaseProperties ps)(db_name db @ ''Database'' \<mapsto> d)) \<subseteq> dom ((ps_databases ps)(d \<mapsto> db'))"
    using Cons.prems(2) by (auto simp: ran_def)
  have "ran (ps_databaseProperties ps') \<subseteq> dom (ps_databases ps') \<and>
      dom (ps_databaseProperties ps') =
        dom ((ps_databaseProperties ps)(db_name db @ ''Database'' \<mapsto> d)) \<union> (\<lambda>n. n @ ''Database'') ` set names"
    using Cons.IH [OF rest] ran by (simp del: fun_upd_apply)
  ultimately show ?case by auto
qed simp


text \<open>A file system in memory: the paths that exist.\<close>

definition memory_files :: "string list file_system" where
  "memory_files =
     \<lparr>fs_exists = (\<lambda>p s. p \<in> set s),
      fs_isDirectory = (\<lambda>p s. False),
      fs_contents = (\<lambda>p s. Inr (map (drop (length p + 1)) (filter (\<lambda>q. hasPrefix q (p @ ''/'') \<and>
        CHR ''/'' \<notin> set (drop (length p + 1) q)) s))),
      fs_remove = (\<lambda>p s. Inr (filter (\<lambda>q. q \<noteq> p \<and> \<not> hasPrefix q (p @ ''/'')) s)),
      fs_createDirectory = (\<lambda>p s. Inr (p # s)),
      fs_copy = (\<lambda>should a b s. Inr (if should (rev (takeWhile (\<lambda>c. c \<noteq> CHR ''/'') (rev a))) then b # s else s)),
      fs_write = (\<lambda>p c s. Inr (p # s))\<rparr>"

definition sampleDatabase :: "string \<Rightarrow> database" where
  "sampleDatabase n =
     \<lparr>db_name = n, db_server = 0, db_database = 1, db_package = Some 3, db_pushFilterName = None,
      db_pullFilterName = None, db_filters = Map.empty, db_currentPulls = [], db_currentPushes = [],
      db_cachedMetadata = None, db_cachedLocalMetadata = None\<rparr>"

definition samplePackageServices :: "string list package_services" where
  "samplePackageServices =
     \<lparr>pks_files = memory_files, pks_bootstrapURL = (\<lambda>n. None), pks_filterNames = (\<lambda>n. []),
      pks_createFilter = (\<lambda>n db. throw (NSInternalInconsistencyException n)),
      pks_openNamed = (\<lambda>n s. (Inr (length n, sampleDatabase n), s))\<rparr>"



section \<open>Snapshots\<close>

lemma initWithNewDocument_kind:
  assumes "initWithNewDocumentForController svc c a (Some m) None i w = Inr w'" and "controllers w m = Some moc"
  shows "isSubclassOfClass c (moc_managedObjectClass moc)"
  using assms by (auto simp: initWithNewDocumentForController_def bindExn_Inr classForProperties_def split: if_splits)

text \<open>A snapshotted object is not of the kind that the snapshots controller manages, so a package
  with an object to take a snapshot of never gets a snapshot.\<close>

lemma snapshotObjects_none:
  assumes "snapshotObjects svc snapshottedClass sc i documentOf as w = Inr r"
    and "controllers w sc = Some moc" and "\<not> isSubclassOfClass snapshottedClass (moc_managedObjectClass moc)"
  shows "as = []"
proof (cases as)
  case (Cons a rest)
  then show ?thesis
    using assms by (auto simp: snapshotObject_def bindExn_Inr dest: initWithNewDocument_kind)
qed simp

theorem snapshotting_objects_raises:
  assumes "controllers w sc = Some moc" and "\<not> isSubclassOfClass snapshottedClass (moc_managedObjectClass moc)"
    and "objs \<noteq> []"
  shows "\<exists>e. snapshotObjects svc snapshottedClass sc snapshotID documentOf objs w = Inl e"
proof (cases "snapshotObjects svc snapshottedClass sc snapshotID documentOf objs w")
  case (Inr r)
  then show ?thesis using snapshotObjects_none [OF Inr assms(1,2)] assms(3) by simp
qed blast

theorem snapshotting_objects_raises_witness:
  "\<exists>e. snapshotObjects sampleServices sampleEmbeddedObject 2 ''MPSnapshot:a'' (\<lambda>a. (''1-a'', [])) [10] sampleWorld = Inl e"
  by (rule snapshotting_objects_raises [of _ _ sampleObjectsController])
     (simp_all add: isSubclassOfClass_def sampleObjectsController_def sampleEmbeddedObject_def sampleNote_def
       sampleManagedObject_def sampleNSObject_def)


section \<open>Temporary copies\<close>

definition under :: "string \<Rightarrow> string \<Rightarrow> bool" where
  "under p q \<longleftrightarrow> q = p \<or> hasPrefix q (p @ ''/'')"

text \<open>
  What a copy relies on: removing an item removes what is under it, creating a directory
  creates nothing under it, names in a directory have no slash, and copying an item that the
  delegate accepts makes it exist and touches nothing else, while an item that it refuses is
  skipped.
\<close>

definition file_laws :: "'fs file_system \<Rightarrow> bool" where
  "file_laws fs \<longleftrightarrow>
     (\<forall>p s s' q. fs_remove fs p s = Inr s' \<longrightarrow> (fs_exists fs q s' \<longleftrightarrow> fs_exists fs q s \<and> \<not> under p q)) \<and>
     (\<forall>p s s' f. fs_createDirectory fs p s = Inr s' \<longrightarrow>
        (fs_exists fs (appendingPathComponent p f) s' \<longleftrightarrow> fs_exists fs (appendingPathComponent p f) s)) \<and>
     (\<forall>p s fs'. fs_contents fs p s = Inr fs' \<longrightarrow> list_all (\<lambda>f. CHR ''/'' \<notin> set f) fs') \<and>
     (\<forall>should d f b s s' q. CHR ''/'' \<notin> set f \<longrightarrow> fs_copy fs should (appendingPathComponent d f) b s = Inr s' \<longrightarrow>
        (if should f then fs_exists fs b s' \<and> (\<not> under b q \<longrightarrow> (fs_exists fs q s' \<longleftrightarrow> fs_exists fs q s)) else s' = s))"

lemma under_component:
  assumes "CHR ''/'' \<notin> set g"
  shows "under (appendingPathComponent root f) (appendingPathComponent root g) \<longleftrightarrow> g = f"
proof -
  have "\<not> hasPrefix (root @ CHR ''/'' # g) (root @ CHR ''/'' # f @ ''/'')"
    using assms by (auto simp: hasPrefix_def take_Cons' split: if_splits dest!: arg_cong [where f = set] in_set_takeD)
  then show ?thesis by (auto simp: under_def appendingPathComponent_def)
qed

lemma copyContents_copies:
  assumes "file_laws fs" and "list_all (\<lambda>f. CHR ''/'' \<notin> set f) contents"
    and "copyContents fs path root contents s = (Inr (), s')" and "CHR ''/'' \<notin> set g"
  shows "fs_exists fs (appendingPathComponent root g) s' \<longleftrightarrow>
    fs_exists fs (appendingPathComponent root g) s \<or> g \<in> set contents \<and> shouldCopyItem g"
  using assms(2,3)
proof (induction contents arbitrary: s)
  case (Cons f contents)
  then obtain s1 where s1: "fs_copy fs shouldCopyItem (appendingPathComponent path f) (appendingPathComponent root f) s = Inr s1"
    and rest: "copyContents fs path root contents s1 = (Inr (), s')" by (auto split: sum.splits)
  have "CHR ''/'' \<notin> set f" using Cons.prems(1) by simp
  then have "if shouldCopyItem f then fs_exists fs (appendingPathComponent root f) s1 \<and>
      (\<not> under (appendingPathComponent root f) (appendingPathComponent root g) \<longrightarrow>
        (fs_exists fs (appendingPathComponent root g) s1 \<longleftrightarrow> fs_exists fs (appendingPathComponent root g) s)) else s1 = s"
    using assms(1) s1 unfolding file_laws_def by blast
  moreover have "fs_exists fs (appendingPathComponent root g) s' \<longleftrightarrow>
      fs_exists fs (appendingPathComponent root g) s1 \<or> g \<in> set contents \<and> shouldCopyItem g"
    by (rule Cons.IH) (use Cons.prems(1) rest in simp_all)
  ultimately show ?case using under_component [OF assms(4), of root f] by (auto split: if_splits)
qed simp


lemma takeWhile_until: "c \<notin> set xs \<Longrightarrow> takeWhile (\<lambda>d. d \<noteq> c) (xs @ c # ys) = xs"
  by (induction xs) auto

lemma lastPathComponent_appending:
  assumes "CHR ''/'' \<notin> set f"
  shows "rev (takeWhile (\<lambda>c. c \<noteq> CHR ''/'') (rev f @ CHR ''/'' # rev d)) = f"
  using assms takeWhile_until [of "CHR ''/''" "rev f"] by simp

lemma memory_files_laws: "file_laws memory_files"
  unfolding file_laws_def memory_files_def
  by (auto simp: lastPathComponent_appending under_def appendingPathComponent_def list_all_iff)


end
