(* ===== verification/ControllerInterface.thy ===== *)
theory ControllerInterface
  imports PackageInterface
begin

text \<open>
  \<open>MPManagedObjectsController\<close> as its headers declare it: the views it configures, its
  queries, the loading of bundled data, its initialisation, and one method table for each group of
  the interface.  At the end, which documents the views list, which of several conflicting
  revisions survives, and what becomes of the checksum of a bundled database.
\<close>


section \<open>Views\<close>

datatype MPManagedObjectsControllerErrorCode =
    MPManagedObjectsControllerErrorCodeUnknown
  | MPManagedObjectsControllerErrorCodeInvalidJSON
  | MPManagedObjectsControllerErrorCodeFailedTempFileCreation

primrec controllerErrorCode :: "MPManagedObjectsControllerErrorCode \<Rightarrow> nat" where
  "controllerErrorCode MPManagedObjectsControllerErrorCodeUnknown = 0"
| "controllerErrorCode MPManagedObjectsControllerErrorCodeInvalidJSON = 1"
| "controllerErrorCode MPManagedObjectsControllerErrorCodeFailedTempFileCreation = 2"

type_synonym map_block = "dict \<Rightarrow> (val \<times> val option) list"

text \<open>The views and filters of a database.  A reduce block is given by its address.\<close>

record view_definition =
  view_map :: map_block
  view_reduce :: "nat option"
  view_version :: string

record design =
  ds_views :: "string \<rightharpoonup> view_definition"
  ds_filters :: "string \<rightharpoonup> (revision \<Rightarrow> exn + bool)"

definition setMapBlock :: "string \<Rightarrow> map_block \<Rightarrow> nat option \<Rightarrow> string \<Rightarrow> design \<Rightarrow> design" where
  "setMapBlock name block reduce version ds =
     ds\<lparr>ds_views := (ds_views ds)(name \<mapsto> \<lparr>view_map = block, view_reduce = reduce, view_version = version\<rparr>)\<rparr>"

definition viewNamed_setMapBlock_setReduceBlock ::
  "string \<Rightarrow> map_block \<Rightarrow> nat option \<Rightarrow> string \<Rightarrow> package_state \<times> design \<Rightarrow> exn + package_state \<times> design" where
  "viewNamed_setMapBlock_setReduceBlock name block reduce version s =
     bindExn (registerViewName name (fst s)) (\<lambda>ps. Inr (ps, setMapBlock name block reduce version (snd s)))"

definition viewNamed_setMapBlock ::
  "string \<Rightarrow> map_block \<Rightarrow> string \<Rightarrow> package_state \<times> design \<Rightarrow> exn + package_state \<times> design" where
  "viewNamed_setMapBlock name block version s =
     bindExn (registerViewName name (fst s)) (\<lambda>ps. Inr (ps, setMapBlock name block None version (snd s)))"

definition bundledJSONDataViewName :: "cls \<Rightarrow> string" where
  "bundledJSONDataViewName moClass = ''bundled-'' @ plural moClass"

text \<open>The views do not go through \<open>viewNamed:setMapBlock:version:\<close>, so their names are not registered.\<close>

definition configureViews ::
  "runtime \<Rightarrow> known_classes \<Rightarrow> cls \<Rightarrow> cls \<Rightarrow> string set \<Rightarrow> design \<Rightarrow> design" where
  "configureViews rt kc selfClass moClass managed ds =
     (let ds1 = setMapBlock ''objectsByPrototypeID'' objectsByPrototypeIDBlock None ''1.0'' ds;
          ds2 = setMapBlock (userContributedObjectsViewName selfClass) (userContributedObjectsBlock managed) None ''1.3'' ds1;
          ds3 = setMapBlock (objectsByTitleViewName (class_name moClass)) (objectsByTitleBlock managed) None ''1.0'' ds2;
          ds4 = ds3\<lparr>ds_filters := (ds_filters ds3)(class_name selfClass @ ''/managed-objects-filter'' \<mapsto>
                  managedObjectsFilter rt kc managed)\<rparr>
      in setMapBlock (bundledJSONDataViewName moClass) (bundledJSONDataBlock managed) None ''1.1'' ds4)"


section \<open>Queries\<close>

text \<open>
  A query: the view, the keys, and whether documents are prefetched.  \<open>run\<close> gives the rows
  of a query, or the error for which it answers nil; enumerating nil gives no rows.
\<close>

record view_query =
  query_view :: string
  query_keys :: "val list option"
  query_prefetch :: bool

definition allObjectsQuery :: "cls \<Rightarrow> view_query" where
  "allObjectsQuery moClass =
     \<lparr>query_view = allObjectsViewName (class_name moClass), query_keys = None, query_prefetch = True\<rparr>"

type_synonym run_query = "view_query \<Rightarrow> ns_error option + query_row list"

definition rowsOf :: "ns_error option + query_row list \<Rightarrow> query_row list" where
  "rowsOf r = (case r of Inl err \<Rightarrow> [] | Inr rows \<Rightarrow> rows)"

definition allObjects ::
  "'db services \<Rightarrow> run_query \<Rightarrow> nat \<Rightarrow> 'db world \<Rightarrow> exn + nat list \<times> 'db world" where
  "allObjects svc run self w =
     bindExn (getController self w) (\<lambda>moc.
       managedObjectsForQueryEnumerator svc self (rowsOf (run (allObjectsQuery (moc_managedObjectClass moc)))) w)"

text \<open>The variant with an error pointer also gives what it leaves there.\<close>

definition allObjectsWithError ::
  "'db services \<Rightarrow> run_query \<Rightarrow> nat \<Rightarrow> 'db world \<Rightarrow> exn + (nat list \<times> ns_error option) \<times> 'db world" where
  "allObjectsWithError svc run self w =
     bindExn (getController self w) (\<lambda>moc.
       let r = run (allObjectsQuery (moc_managedObjectClass moc))
       in bindExn (managedObjectsForQueryEnumerator svc self (rowsOf r) w) (\<lambda>(objs, w1).
            Inr ((objs, case r of Inl err \<Rightarrow> err | Inr _ \<Rightarrow> None), w1)))"

definition objectsWithTitle ::
  "'db services \<Rightarrow> run_query \<Rightarrow> nat \<Rightarrow> string \<Rightarrow> 'db world \<Rightarrow> exn + nat list \<times> 'db world" where
  "objectsWithTitle svc run self title w =
     bindExn (getController self w) (\<lambda>moc.
       managedObjectsForQueryEnumerator svc self
         (rowsOf (run \<lparr>query_view = objectsByTitleViewName (class_name (moc_managedObjectClass moc)),
            query_keys = Some [VString title], query_prefetch = False\<rparr>)) w)"

text \<open>\<open>existing\<close> gives the rows of an existing view, nil when there is no such view.\<close>

definition objectsWithPrototypeID ::
  "'db services \<Rightarrow> (string \<Rightarrow> val list option \<Rightarrow> query_row list option) \<Rightarrow> nat \<Rightarrow> string \<Rightarrow> 'db world \<Rightarrow>
   exn + nat list option \<times> 'db world" where
  "objectsWithPrototypeID svc existing self i w =
     objectsMatchingQueriedView svc existing self ''objectsByPrototypeID'' (Some [VString i]) w"

definition userContributedObjects ::
  "'db services \<Rightarrow> (string \<Rightarrow> val list option \<Rightarrow> query_row list option) \<Rightarrow> nat \<Rightarrow> 'db world \<Rightarrow>
   exn + nat list option \<times> 'db world" where
  "userContributedObjects svc existing self w =
     bindExn (getController self w) (\<lambda>moc.
       objectsMatchingQueriedView svc existing self (userContributedObjectsViewName (moc_class moc)) None w)"

text \<open>\<open>allDocuments\<close> runs the query over all documents for keys, in a mode given by its number.\<close>

definition documentWithIdentifier ::
  "(string list \<Rightarrow> nat \<Rightarrow> cbl_document list) \<Rightarrow> string \<Rightarrow> nat \<Rightarrow> cbl_document option" where
  "documentWithIdentifier allDocuments i allDocsMode =
     (case allDocuments [i] allDocsMode of [] \<Rightarrow> None | doc # docs \<Rightarrow> Some doc)"

definition documentManagedObjectClass :: "runtime \<Rightarrow> cbl_document \<Rightarrow> exn + cls option" where
  "documentManagedObjectClass rt doc =
     bindExn (MPAssertNotNil (document_objectType doc) ''Unexpected nil objectType'') (\<lambda>objectType.
       Inr (NSClassFromString rt objectType))"

definition documentURL :: "string \<Rightarrow> string \<Rightarrow> string" where
  "documentURL internalURL i = appendingPathComponent internalURL i"

text \<open>Unlike the array of objects, the dictionary by key makes a model for a deleted document too.\<close>

definition objectForKeyedRow ::
  "'db services \<Rightarrow> nat \<Rightarrow> query_row \<Rightarrow> 'db world \<Rightarrow> exn + nat \<times> 'db world" where
  "objectForKeyedRow svc self row w =
     bindExn (getController self w) (\<lambda>moc.
     bindExn (MPAssertNotNil (moc_database moc) ''db'') (\<lambda>db.
       case document_modelObject (row_document row) of
         Some a \<Rightarrow>
           bindExn (assertThat (modelDocumentID (svc_ops svc) (cbl w) a \<noteq> None) ''modelObj.document'') (\<lambda>_. Inr (a, w))
       | None \<Rightarrow>
           (case moc_objectCache moc (row_documentID row) of
              Some a \<Rightarrow>
                bindExn (setDocument svc (moc_package moc) db (row_documentID row) (row_document row) a w)
                  (\<lambda>w1. Inr (a, w1))
            | None \<Rightarrow>
                bindExn (documentManagedObjectClass (svc_runtime svc) (row_document row)) (\<lambda>c.
                bindExn (MPAssertNotNil c ''modelObj isKindOfClass'') (\<lambda>moClass.
                  modelForDocument svc moClass (moc_package moc) db (row_documentID row) (row_document row) w)))))"

fun managedObjectByKeyMapForQueryEnumerator ::
  "'db services \<Rightarrow> nat \<Rightarrow> query_row list \<Rightarrow> (val \<rightharpoonup> nat) \<Rightarrow> 'db world \<Rightarrow> exn + (val \<rightharpoonup> nat) \<times> 'db world" where
  "managedObjectByKeyMapForQueryEnumerator svc self [] entries w = Inr (entries, w)"
| "managedObjectByKeyMapForQueryEnumerator svc self (row # rest) entries w =
     bindExn (objectForKeyedRow svc self row w) (\<lambda>(a, w1).
       managedObjectByKeyMapForQueryEnumerator svc self rest (entries(row_key row \<mapsto> a)) w1)"


section \<open>JSON\<close>

text \<open>\<open>parse\<close> is \<open>NSJSONSerialization\<close>, \<open>read\<close> reads the data of a URL.\<close>

definition objectsFromArrayJSONData ::
  "(string \<Rightarrow> ns_error option + dict list) \<Rightarrow> 'db services \<Rightarrow> nat \<Rightarrow> string \<Rightarrow> 'db world \<Rightarrow>
   exn + (ns_error option + nat list) \<times> 'db world" where
  "objectsFromArrayJSONData parse svc self objData w =
     (case parse objData of
        Inl err \<Rightarrow> Inr (Inl err, w)
      | Inr objs \<Rightarrow> objectsFromJSONEncodableObjectArray svc self objs w)"

definition objectsFromContentsOfArrayJSONAtURL ::
  "(string \<Rightarrow> ns_error option + string) \<Rightarrow> (string \<Rightarrow> ns_error option + dict list) \<Rightarrow> 'db services \<Rightarrow> nat \<Rightarrow> string \<Rightarrow>
   'db world \<Rightarrow> exn + (ns_error option + nat list) \<times> 'db world" where
  "objectsFromContentsOfArrayJSONAtURL read parse svc self url w =
     (case read url of
        Inl err \<Rightarrow> Inr (Inl err, w)
      | Inr objData \<Rightarrow> objectsFromArrayJSONData parse svc self objData w)"


section \<open>Bundled data\<close>

text \<open>
  The metadata of the database holds values in memory and, after a save, in the database.
  \<open>bs_loadingDatabase\<close> and \<open>bs_loadingJSON\<close> are the flags of the two loaders.
\<close>

record bundled_state =
  bs_loadingDatabase :: bool
  bs_loadingJSON :: bool
  bs_values :: "string \<rightharpoonup> string"
  bs_saved :: "string \<rightharpoonup> string"
  bs_derivedData :: "nat list option"
  bs_center :: notification_center
  bs_defaultCenter :: "(nat \<times> string) list"

text \<open>
  What surrounds the loading of a bundled database: whether it runs on the main thread, the
  path of the resource in the bundle, the temporary directory, nil when it cannot be created, the
  checksum of the resource, the copies of the database and of the attachments if there are any,
  purging, the start of the pull, and the save of the metadata.  The temporary files, which are
  removed at the end, are not part of the state.
\<close>

record bundled_resource =
  br_mainThread :: bool
  br_name :: "string option"
  br_path :: "string option"
  br_temporaryDirectory :: "string option"
  br_md5 :: "string option"
  br_copy :: "ns_error option + unit"
  br_copyAttachments :: "(ns_error option + unit) option"
  br_purge :: "nat \<Rightarrow> ns_error option + unit"
  br_pull :: "ns_error option + unit"
  br_saveMetadata :: "ns_error option + unit"

definition saveValues :: "bundled_resource \<Rightarrow> bundled_state \<Rightarrow> bundled_state" where
  "saveValues br st = (case br_saveMetadata br of Inl err \<Rightarrow> st | Inr _ \<Rightarrow> st\<lparr>bs_saved := bs_values st\<rparr>)"

text \<open>A call for a change of the replication: whether it has stopped, and its last error.\<close>

definition processUpdatedBundledDataLoadReplication ::
  "bundled_resource \<Rightarrow> nat \<Rightarrow> bool \<times> ns_error option \<Rightarrow> bundled_state \<Rightarrow> exn + bundled_state" where
  "processUpdatedBundledDataLoadReplication br self event st =
     (case event of
        (False, _) \<Rightarrow> Inr st
      | (True, None) \<Rightarrow>
          (let st1 = (saveValues br st)\<lparr>bs_loadingDatabase := False\<rparr>
           in case br_saveMetadata br of
                Inl err \<Rightarrow>
                  bindExn (postErrorNotification err (bs_center st1)) (\<lambda>nc. Inr (st1\<lparr>bs_center := nc\<rparr>))
              | Inr _ \<Rightarrow>
                  Inr (st1\<lparr>bs_defaultCenter := bs_defaultCenter st1 @
                    [(self, ''MPManagedObjectsControllerLoadedBundledResourcesNotification'')]\<rparr>))
      | (True, Some err) \<Rightarrow>
          bindExn (postErrorNotification (Some err) (bs_center st)) (\<lambda>nc.
            Inr (st\<lparr>bs_center := nc, bs_loadingDatabase := False\<rparr>)))"

text \<open>
  The run loop runs until the flag is cleared; the list holds the changes of the
  replication.  Without a change that stops the replication the loop does not end.
\<close>

fun awaitBundledDataLoad ::
  "bundled_resource \<Rightarrow> nat \<Rightarrow> (bool \<times> ns_error option) list \<Rightarrow> bundled_state \<Rightarrow> (exn + bundled_state) option" where
  "awaitBundledDataLoad br self [] st = (if bs_loadingDatabase st then None else Some (Inr st))"
| "awaitBundledDataLoad br self (event # rest) st =
     (if bs_loadingDatabase st
      then bindCall (Some (processUpdatedBundledDataLoadReplication br self event st)) (\<lambda>st1.
             awaitBundledDataLoad br self rest st1)
      else Some (Inr st))"

fun purgeObjects :: "(nat \<Rightarrow> ns_error option + unit) \<Rightarrow> nat list \<Rightarrow> ns_error option + unit" where
  "purgeObjects purge [] = Inr ()"
| "purgeObjects purge (a # rest) = (case purge a of Inl err \<Rightarrow> Inl err | Inr _ \<Rightarrow> purgeObjects purge rest)"

definition bundledChecksumKey :: "string \<Rightarrow> string" where
  "bundledChecksumKey name = ''bundled-'' @ name @ ''-checksum''"

definition pullBundledDatabase ::
  "bundled_resource \<Rightarrow> nat \<Rightarrow> (bool \<times> ns_error option) list \<Rightarrow> string \<Rightarrow> bundled_state \<Rightarrow>
   (exn + (ns_error option + unit) \<times> bundled_state) option" where
  "pullBundledDatabase br self events checksumKey st =
     (case br_pull br of
        Inl err \<Rightarrow> Some (Inr (Inl err, st))
      | Inr _ \<Rightarrow>
          bindCall (awaitBundledDataLoad br self events st) (\<lambda>st1.
            Some (Inr (Inr (), st1\<lparr>bs_values := (bs_values st1)(checksumKey := br_md5 br)\<rparr>))))"

text \<open>\<open>objs\<close> are the objects of the controller, read only when a previous version was loaded.\<close>

definition loadBundledDatabaseResources ::
  "bundled_resource \<Rightarrow> nat \<Rightarrow> nat list \<Rightarrow> (bool \<times> ns_error option) list \<Rightarrow> bundled_state \<Rightarrow>
   (exn + (ns_error option + unit) \<times> bundled_state) option" where
  "loadBundledDatabaseResources br self objs events st =
     bindCall (Some (assertThat (\<not> bs_loadingDatabase st) ''loadingBundledDatabaseResources'')) (\<lambda>_.
     bindCall (Some (assertThat (br_mainThread br) ''isMainThread'')) (\<lambda>_.
       let st0 = st\<lparr>bs_loadingDatabase := True\<rparr>
       in case br_name br of
            None \<Rightarrow> Some (Inr (Inr (), st0))
          | Some name \<Rightarrow>
              (let checksumKey = bundledChecksumKey name; previous = bs_values st0 checksumKey
               in if br_temporaryDirectory br = None
                  then Some (Inr (Inl (Some \<lparr>error_domain = ''MPManagedObjectErrorDomain'',
                    error_code = controllerErrorCode MPManagedObjectsControllerErrorCodeFailedTempFileCreation\<rparr>), st0))
                  else if br_path br = None then Some (throw (NSInvalidArgumentException ''stringByAppendingPathComponent:''))
                  else if previous \<noteq> None \<and> previous = br_md5 br then Some (Inr (Inr (), st0))
                  else
                    (case br_copy br of
                       Inl err \<Rightarrow> Some (Inr (Inl err, st0))
                     | Inr _ \<Rightarrow>
                         (case br_copyAttachments br of
                            Some (Inl err) \<Rightarrow> Some (Inr (Inl err, st0))
                          | _ \<Rightarrow>
                              (case (if previous = None then Inr () else purgeObjects (br_purge br) objs) of
                                 Inl err \<Rightarrow> Some (Inr (Inl err, st0))
                               | Inr _ \<Rightarrow> pullBundledDatabase br self events checksumKey st0))))))"

definition bundledJSONDataChecksumKey :: "string option \<Rightarrow> string" where
  "bundledJSONDataChecksumKey filename = (case filename of None \<Rightarrow> ''(null)'' | Some n \<Rightarrow> n) @ ''-checksum''"

definition bundledJSONDataQuery :: "cls \<Rightarrow> string option \<Rightarrow> view_query option" where
  "bundledJSONDataQuery moClass filename =
     (if filename = None then None
      else Some \<lparr>query_view = bundledJSONDataViewName moClass, query_keys = None, query_prefetch = True\<rparr>)"

text \<open>\<open>md5\<close> is the checksum of the JSON resource and \<open>objs\<close> what reading it gives.\<close>

definition loadBundledJSONResources ::
  "'db services \<Rightarrow> run_query \<Rightarrow> nat \<Rightarrow> string option \<Rightarrow> string \<Rightarrow> ns_error option + dict list \<Rightarrow> ns_error option + unit \<Rightarrow>
   bundled_state \<Rightarrow> 'db world \<Rightarrow> exn + ((ns_error option + unit) \<times> bundled_state) \<times> 'db world" where
  "loadBundledJSONResources svc run self filename md5 objs metadataSaved st w =
     bindExn (getController self w) (\<lambda>moc.
       case bundledJSONDataQuery (moc_managedObjectClass moc) filename of
         None \<Rightarrow> Inr ((Inr (), st), w)
       | Some q \<Rightarrow>
           bindExn (assertThat (\<not> bs_loadingJSON st) ''loadingBundledJSONResources'') (\<lambda>_.
           bindExn (managedObjectsForQueryEnumerator svc self (rowsOf (run q)) w) (\<lambda>(found, w1).
             let key = bundledJSONDataChecksumKey filename
             in bindExn (loadBundledObjectsFromResource True svc self md5 (bs_values st key) objs metadataSaved found w1)
                  (\<lambda>((r, recorded), w2).
                    let st1 = st\<lparr>bs_loadingJSON := True, bs_values := (bs_values st)(key := recorded)\<rparr>;
                        st2 = (case metadataSaved of Inr _ \<Rightarrow> st1\<lparr>bs_saved := bs_values st1\<rparr> | Inl _ \<Rightarrow> st1)
                    in case r of
                         Inl err \<Rightarrow> Inr ((Inl err, st1\<lparr>bs_derivedData := None\<rparr>), w2)
                       | Inr mos \<Rightarrow>
                           Inr ((Inr (), (if bs_values st key = Some md5 then st1 else st2)\<lparr>bs_derivedData := Some mos\<rparr>), w2)))))"

text \<open>
  \<open>bootstraps\<close> tells whether the package gives a URL from which the database is
  bootstrapped; \<open>loadDatabase\<close> and \<open>loadJSON\<close> are the two loaders.
\<close>

definition controllerDidInitialize ::
  "bool \<Rightarrow> bool \<Rightarrow> bool \<Rightarrow> ('s \<Rightarrow> (exn + (ns_error option + unit) \<times> 's) option) \<Rightarrow>
   ('s \<Rightarrow> (exn + (ns_error option + unit) \<times> 's) option) \<Rightarrow> 's \<Rightarrow> (exn + (ns_error option + unit) \<times> 's) option" where
  "controllerDidInitialize commandLineTool xpcService bootstraps loadDatabase loadJSON s =
     (if commandLineTool \<or> xpcService \<or> bootstraps then Some (Inr (Inr (), s))
      else
        bindCall (loadDatabase s) (\<lambda>(r, s1).
          case r of Inl err \<Rightarrow> Some (Inr (Inl err, s1)) | Inr _ \<Rightarrow> loadJSON s1))"


section \<open>Cached properties\<close>

text \<open>\<open>MPCacheable\<close>: the writable properties whose names start with \<open>cached\<close>, kept with the class once computed.\<close>

definition isCachedProperty :: "cls \<Rightarrow> string \<Rightarrow> bool" where
  "isCachedProperty c key \<longleftrightarrow>
     hasPrefix key ''cached'' \<and> length key > 6 \<and> (isAlphanumeric (key ! 6) \<or> key ! 6 = CHR ''_'') \<and>
     propertyWithKeyIsReadWrite c key"

definition cachedPropertiesByClassNameForBaseClass ::
  "cls \<Rightarrow> runtime \<times> (string \<rightharpoonup> string \<rightharpoonup> string set) \<Rightarrow>
   (string \<rightharpoonup> string set) \<times> runtime \<times> (string \<rightharpoonup> string \<rightharpoonup> string set)" where
  "cachedPropertiesByClassNameForBaseClass c s =
     (case s of (rt, associated) \<Rightarrow>
       (case associated (class_name c) of
          Some d \<Rightarrow> (d, rt, associated)
        | None \<Rightarrow>
            (case propertiesOfSubclassesForClass rt c isCachedProperty of
               (d, rt') \<Rightarrow> (d, rt', associated(class_name c \<mapsto> d)))))"

definition clearCachedValuesOf ::
  "bool \<Rightarrow> bool \<Rightarrow> (string \<rightharpoonup> string set) \<Rightarrow> cls \<Rightarrow> (string \<rightharpoonup> val) \<Rightarrow> exn + (string \<rightharpoonup> val)" where
  "clearCachedValuesOf isolated isMainThread cachedProperties c values =
     bindExn (assertThat (isolated \<longrightarrow> isMainThread) ''main thread isolated cached properties'') (\<lambda>_.
       Inr (case cachedProperties (class_name c) of None \<Rightarrow> values | Some keys \<Rightarrow> values |` (- keys)))"

record cacheable_methods =
  ca_cachedPropertiesByClassName :: "cls \<Rightarrow> runtime \<times> (string \<rightharpoonup> string \<rightharpoonup> string set) \<Rightarrow>
    (string \<rightharpoonup> string set) \<times> runtime \<times> (string \<rightharpoonup> string \<rightharpoonup> string set)"
  ca_clearCachedValues :: "(string \<rightharpoonup> string set) \<Rightarrow> cls \<Rightarrow> (string \<rightharpoonup> val) \<Rightarrow> exn + (string \<rightharpoonup> val)"
  ca_refreshCachedValues :: "exn + unit"
  ca_hasMainThreadIsolatedCachedProperties :: bool

definition featherCacheableMethods :: "bool \<Rightarrow> bool \<Rightarrow> cacheable_methods" where
  "featherCacheableMethods isolated isMainThread =
     \<lparr>ca_cachedPropertiesByClassName = cachedPropertiesByClassNameForBaseClass,
      ca_clearCachedValues = clearCachedValuesOf isolated isMainThread,
      ca_refreshCachedValues = throw (MPAbstractMethodException ''refreshCachedValues''),
      ca_hasMainThreadIsolatedCachedProperties = isolated\<rparr>"


section \<open>Initialisation\<close>

text \<open>\<open>accessors\<close> are the methods added to classes for scripting.\<close>

definition implementDefaultScriptObjectAccessor ::
  "(cls \<Rightarrow> string \<Rightarrow> bool) \<Rightarrow> cls \<Rightarrow> cls \<Rightarrow> (string \<times> string) set \<Rightarrow> (string \<times> string) set" where
  "implementDefaultScriptObjectAccessor responds selfClass moClass accessors =
     (if responds selfClass (objectSpecifierKey moClass) then accessors
      else insert (class_name selfClass, objectSpecifierKey moClass) accessors)"

text \<open>What the initialisation of a controller changes besides the controller.\<close>

record controller_setup =
  cs_package :: package_state
  cs_design :: design
  cs_center :: notification_center
  cs_accessors :: "(string \<times> string) set"

definition initWithPackageController ::
  "'db services \<Rightarrow> (cls \<Rightarrow> string \<Rightarrow> bool) \<Rightarrow> bool \<Rightarrow> cls \<Rightarrow> nat \<Rightarrow> nat \<Rightarrow> nat option \<Rightarrow> controller_setup \<Rightarrow>
   exn + objects_controller \<times> controller_setup" where
  "initWithPackageController svc responds observesChanges selfClass self p d cs =
     bindExn (assertThat (selfClass \<noteq> class_MPManagedObjectsController (svc_classes svc)) ''MPManagedObjectsController is abstract'') (\<lambda>_.
     bindExn (MPAssertNotNil d ''db'') (\<lambda>db.
     bindExn (registerManagedObjectsController self db (cs_package cs)) (\<lambda>ps.
     bindExn (controllerManagedObjectClass (svc_runtime svc) (svc_classes svc) selfClass) (\<lambda>moClass.
     bindExn (managedObjectSubclasses (svc_runtime svc) (svc_classes svc) selfClass moClass) (\<lambda>managed.
     bindExn (if observesChanges
              then addRecentChangeObserver (svc_classes svc) (svc_names svc) (\<lambda>a sel. responds selfClass sel) self moClass (cs_center cs)
              else Inr (cs_center cs)) (\<lambda>nc.
       Inr (\<lparr>moc_class = selfClass, moc_managedObjectClass = moClass, moc_package = p, moc_database = Some db,
             moc_objectCache = Map.empty, moc_cachedValues = Map.empty, moc_relaysFetchingByIdentifier = False,
             moc_autosavesObjects = False\<rparr>,
            \<lparr>cs_package = ps,
             cs_design = configureViews (svc_runtime svc) (svc_classes svc) selfClass moClass managed (cs_design cs),
             cs_center = nc,
             cs_accessors = implementDefaultScriptObjectAccessor responds selfClass moClass (cs_accessors cs)\<rparr>)))))))"


section \<open>The interface\<close>

record 'db controller_attributes =
  moc_db :: "nat \<Rightarrow> 'db world \<Rightarrow> exn + nat option"
  moc_packageController :: "nat \<Rightarrow> 'db world \<Rightarrow> exn + nat"
  moc_autosaves :: bool
  moc_observesManagedObjectChanges :: bool

definition featherControllerAttributes :: "'db controller_attributes" where
  "featherControllerAttributes =
     \<lparr>moc_db = (\<lambda>self w. bindExn (getController self w) (\<lambda>moc. Inr (moc_database moc))),
      moc_packageController = (\<lambda>self w. bindExn (getController self w) (\<lambda>moc. Inr (moc_package moc))),
      moc_autosaves = False,
      moc_observesManagedObjectChanges = True\<rparr>"

text \<open>The managed classes; \<open>managed\<close> are the names of the classes that a controller manages.\<close>

record controller_classes =
  moc_class_managedObjectClass :: "cls \<Rightarrow> exn + cls option"
  moc_class_managedObjectClassName :: "cls \<Rightarrow> exn + string option"
  moc_class_managedObjectSingular :: "cls \<Rightarrow> exn + string option"
  moc_class_managedObjectPlural :: "cls \<Rightarrow> exn + string option"
  moc_instance_managedObjectClass :: "cls \<Rightarrow> exn + cls"
  moc_managedObjectSubclasses :: "cls \<Rightarrow> exn + string set"
  moc_managesDocumentWithDictionary :: "string set \<Rightarrow> dict \<Rightarrow> bool"
  moc_managesDocumentWithIdentifier :: "string set \<Rightarrow> string \<Rightarrow> exn + bool"
  moc_managesObjectsOfClass :: "string set \<Rightarrow> cls \<Rightarrow> bool"
  moc_allObjectsBlock :: "string set \<Rightarrow> map_block"
  moc_bundledObjectsBlock :: "string set \<Rightarrow> map_block"
  moc_managedObjectClassName :: "cls \<Rightarrow> exn + string option"
  moc_managedObjectClasses :: "cls list"
  moc_managedObjectClassNames :: "string list"
  moc_managedObjectClassByControllerClassNameDictionary :: "exn + (string \<rightharpoonup> cls)"
  moc_equivalenceClassForManagedObjectClass :: "cls \<Rightarrow> exn + cls"

definition featherControllerClasses :: "runtime \<Rightarrow> known_classes \<Rightarrow> controller_classes" where
  "featherControllerClasses rt kc =
     (let named = (\<lambda>f c. bindExn (managedObjectClass rt kc c) (\<lambda>m. Inr (map_option f m)))
      in \<lparr>moc_class_managedObjectClass = managedObjectClass rt kc,
          moc_class_managedObjectClassName = named class_name,
          moc_class_managedObjectSingular = named singular,
          moc_class_managedObjectPlural = named plural,
          moc_instance_managedObjectClass = controllerManagedObjectClass rt kc,
          moc_managedObjectSubclasses = (\<lambda>c. bindExn (controllerManagedObjectClass rt kc c) (managedObjectSubclasses rt kc c)),
          moc_managesDocumentWithDictionary = managesDocumentWithDictionary,
          moc_managesDocumentWithIdentifier = managesDocumentWithIdentifier rt kc,
          moc_managesObjectsOfClass = managesObjectsOfClass,
          moc_allObjectsBlock = allObjectsBlock,
          moc_bundledObjectsBlock = bundledObjectsBlock,
          moc_managedObjectClassName = named class_name,
          moc_managedObjectClasses = managedObjectClasses rt kc,
          moc_managedObjectClassNames = managedObjectClassNames rt kc,
          moc_managedObjectClassByControllerClassNameDictionary = managedObjectClassByControllerClassNameDictionary rt kc,
          moc_equivalenceClassForManagedObjectClass = equivalenceClassForManagedObjectClass rt kc\<rparr>)"

record 'db controller_conflicts =
  moc_resolveConflictingRevisions :: "nat \<Rightarrow> 'db world \<Rightarrow> exn + (ns_error option + unit) \<times> 'db world"
  moc_resolveConflictingRevisionsForObject :: "nat \<Rightarrow> nat \<Rightarrow> 'db world \<Rightarrow> exn + (ns_error option + unit) \<times> 'db world"
  moc_prototypeClass :: "nat \<Rightarrow> 'db world \<Rightarrow> exn + cls"

definition featherControllerConflicts :: "'db services \<Rightarrow> run_query \<Rightarrow> 'db controller_conflicts" where
  "featherControllerConflicts svc run =
     \<lparr>moc_resolveConflictingRevisions = (\<lambda>self w. bindExn (allObjects svc run self w) (\<lambda>(objs, w1).
        resolveConflictingRevisions (svc_ops svc) self objs w1)),
      moc_resolveConflictingRevisionsForObject = resolveConflictingRevisionsForObject (svc_ops svc),
      moc_prototypeClass = (\<lambda>self w. bindExn (getController self w) (\<lambda>moc. Inr (moc_managedObjectClass moc)))\<rparr>"

record 'db controller_creation =
  moc_newObject :: "nat \<Rightarrow> nat \<Rightarrow> 'db world \<Rightarrow> exn + 'db world"
  moc_newObjectOfClass :: "nat \<Rightarrow> cls option \<Rightarrow> nat \<Rightarrow> 'db world \<Rightarrow> exn + 'db world"
  moc_newObjectWithPrototype :: "nat \<Rightarrow> nat \<Rightarrow> string option \<Rightarrow> nat \<Rightarrow> 'db world \<Rightarrow> exn + 'db world"
  moc_objectsWithPrototypeID :: "nat \<Rightarrow> string \<Rightarrow> 'db world \<Rightarrow> exn + nat list option \<times> 'db world"

definition featherControllerCreation ::
  "'db services \<Rightarrow> (string \<Rightarrow> val list option \<Rightarrow> query_row list option) \<Rightarrow> 'db controller_creation" where
  "featherControllerCreation svc existing =
     \<lparr>moc_newObject = newObject svc,
      moc_newObjectOfClass = newObjectOfClass svc,
      moc_newObjectWithPrototype = (\<lambda>self prototype i a w. bindExn (getController self w) (\<lambda>moc.
        newObjectWithPrototype svc self (moc_managedObjectClass moc) prototype i a w)),
      moc_objectsWithPrototypeID = objectsWithPrototypeID svc existing\<rparr>"

text \<open>
  Plain \<open>init\<close> raises.  The bundled JSON resource is given by its name, its checksum, what
  reading it gives, and the save of the metadata.
\<close>

record json_resource =
  jr_filename :: "string option"
  jr_md5 :: string
  jr_objects :: "ns_error option + dict list"
  jr_saveMetadata :: "ns_error option + unit"

record 'db controller_initialisation =
  moc_initWithPackageController ::
    "cls \<Rightarrow> nat \<Rightarrow> nat \<Rightarrow> nat option \<Rightarrow> controller_setup \<Rightarrow> exn + objects_controller \<times> controller_setup"
  moc_init :: "exn + objects_controller"
  moc_didInitialize :: "nat \<Rightarrow> bundled_state \<times> 'db world \<Rightarrow> (exn + (ns_error option + unit) \<times> bundled_state \<times> 'db world) option"
  moc_configureViews :: "cls \<Rightarrow> cls \<Rightarrow> string set \<Rightarrow> design \<Rightarrow> design"

definition featherControllerInitialisation ::
  "'db services \<Rightarrow> (cls \<Rightarrow> string \<Rightarrow> bool) \<Rightarrow> bool \<times> bool \<times> bool \<Rightarrow> run_query \<Rightarrow> bundled_resource \<Rightarrow> nat list \<Rightarrow>
   (bool \<times> ns_error option) list \<Rightarrow> json_resource \<Rightarrow> 'db controller_initialisation" where
  "featherControllerInitialisation svc responds environment run br objs events jr =
     (case environment of (commandLineTool, xpcService, bootstraps) \<Rightarrow>
     \<lparr>moc_initWithPackageController = initWithPackageController svc responds True,
      moc_init = throw (NSExceptionNamed ''MPInvalidInitException'' []),
      moc_didInitialize = (\<lambda>self. controllerDidInitialize commandLineTool xpcService bootstraps
        (\<lambda>(st, w). bindCall (loadBundledDatabaseResources br self objs events st) (\<lambda>(r, st1). Some (Inr (r, st1, w))))
        (\<lambda>(st, w). Some (bindExn (loadBundledJSONResources svc run self (jr_filename jr) (jr_md5 jr) (jr_objects jr)
           (jr_saveMetadata jr) st w) (\<lambda>((r, st1), w1). Inr (r, st1, w1))))),
      moc_configureViews = configureViews (svc_runtime svc) (svc_classes svc)\<rparr>)"

record 'db controller_queries =
  moc_userContributedObjects :: "nat \<Rightarrow> 'db world \<Rightarrow> exn + nat list option \<times> 'db world"
  moc_allObjectsViewName :: "cls \<Rightarrow> string"
  moc_allObjectsQuery :: "cls \<Rightarrow> view_query"
  moc_managedObjectByKeyMapForQueryEnumerator :: "nat \<Rightarrow> query_row list \<Rightarrow> 'db world \<Rightarrow> exn + (val \<rightharpoonup> nat) \<times> 'db world"
  moc_managedObjectsForQueryEnumerator :: "nat \<Rightarrow> query_row list \<Rightarrow> 'db world \<Rightarrow> exn + nat list \<times> 'db world"
  moc_viewNamed_setMapBlock_setReduceBlock ::
    "string \<Rightarrow> map_block \<Rightarrow> nat option \<Rightarrow> string \<Rightarrow> package_state \<times> design \<Rightarrow> exn + package_state \<times> design"
  moc_viewNamed_setMapBlock :: "string \<Rightarrow> map_block \<Rightarrow> string \<Rightarrow> package_state \<times> design \<Rightarrow> exn + package_state \<times> design"
  moc_allObjects :: "nat \<Rightarrow> 'db world \<Rightarrow> exn + nat list \<times> 'db world"
  moc_allObjectsWithError :: "nat \<Rightarrow> 'db world \<Rightarrow> exn + (nat list \<times> ns_error option) \<times> 'db world"
  moc_objects :: "nat \<Rightarrow> 'db world \<Rightarrow> exn + nat list \<times> 'db world"

definition featherControllerQueries ::
  "'db services \<Rightarrow> run_query \<Rightarrow> (string \<Rightarrow> val list option \<Rightarrow> query_row list option) \<Rightarrow> 'db controller_queries" where
  "featherControllerQueries svc run existing =
     \<lparr>moc_userContributedObjects = userContributedObjects svc existing,
      moc_allObjectsViewName = (\<lambda>moClass. allObjectsViewName (class_name moClass)),
      moc_allObjectsQuery = allObjectsQuery,
      moc_managedObjectByKeyMapForQueryEnumerator = (\<lambda>self rows. managedObjectByKeyMapForQueryEnumerator svc self rows Map.empty),
      moc_managedObjectsForQueryEnumerator = managedObjectsForQueryEnumerator svc,
      moc_viewNamed_setMapBlock_setReduceBlock = viewNamed_setMapBlock_setReduceBlock,
      moc_viewNamed_setMapBlock = viewNamed_setMapBlock,
      moc_allObjects = allObjects svc run,
      moc_allObjectsWithError = allObjectsWithError svc run,
      moc_objects = allObjects svc run\<rparr>"

text \<open>A subclass overrides the names; the base class has no bundled data.\<close>

record controller_bundled =
  moc_bundledResourceDatabaseName :: "string option"
  moc_hasBundledResourceDatabase :: bool
  moc_hasBundledJSONData :: bool
  moc_bundledJSONDataChecksumKey :: string
  moc_requiresBundledDataLoading :: bool
  moc_bundledJSONDataQuery :: "cls \<Rightarrow> view_query option"
  moc_bundledJSONDataFilename :: "string option"
  moc_bundledResourceExtension :: string
  moc_bundledJSONDerivedData :: "bundled_state \<Rightarrow> nat list option"

definition featherControllerBundled :: "string option \<Rightarrow> string option \<Rightarrow> controller_bundled" where
  "featherControllerBundled databaseName filename =
     \<lparr>moc_bundledResourceDatabaseName = databaseName,
      moc_hasBundledResourceDatabase = (databaseName \<noteq> None),
      moc_hasBundledJSONData = (filename \<noteq> None),
      moc_bundledJSONDataChecksumKey = bundledJSONDataChecksumKey filename,
      moc_requiresBundledDataLoading = (filename \<noteq> None \<or> databaseName \<noteq> None),
      moc_bundledJSONDataQuery = (\<lambda>moClass. bundledJSONDataQuery moClass filename),
      moc_bundledJSONDataFilename = filename,
      moc_bundledResourceExtension = ''.json'',
      moc_bundledJSONDerivedData = bs_derivedData\<rparr>"

record 'db controller_fetching =
  moc_objectWithIdentifier :: "nat \<Rightarrow> string \<Rightarrow> 'db world \<Rightarrow> (exn + nat option \<times> 'db world) option"
  moc_documentWithIdentifier :: "string \<Rightarrow> nat \<Rightarrow> cbl_document option"
  moc_relaysFetching :: bool
  moc_resourcesBundle :: "cls \<Rightarrow> nat"
  moc_objectsWithTitle :: "nat \<Rightarrow> string \<Rightarrow> 'db world \<Rightarrow> exn + nat list \<times> 'db world"

definition featherControllerFetching ::
  "'db services \<Rightarrow> (string list \<Rightarrow> nat \<Rightarrow> cbl_document list) \<Rightarrow> (cls \<Rightarrow> nat) \<Rightarrow> run_query \<Rightarrow> 'db controller_fetching" where
  "featherControllerFetching svc allDocuments bundleForClass run =
     \<lparr>moc_objectWithIdentifier = objectWithIdentifier svc,
      moc_documentWithIdentifier = documentWithIdentifier allDocuments,
      moc_relaysFetching = False,
      moc_resourcesBundle = bundleForClass,
      moc_objectsWithTitle = objectsWithTitle svc run\<rparr>"

record 'db controller_JSON =
  moc_objectsFromContentsOfArrayJSONAtURL :: "nat \<Rightarrow> string \<Rightarrow> 'db world \<Rightarrow> exn + (ns_error option + nat list) \<times> 'db world"
  moc_objectsFromArrayJSONData :: "nat \<Rightarrow> string \<Rightarrow> 'db world \<Rightarrow> exn + (ns_error option + nat list) \<times> 'db world"
  moc_objectsFromJSONEncodableObjectArray :: "nat \<Rightarrow> dict list \<Rightarrow> 'db world \<Rightarrow> exn + (ns_error option + nat list) \<times> 'db world"
  moc_objectFromJSONDictionary :: "nat \<Rightarrow> dict \<Rightarrow> 'db world \<Rightarrow> exn + (ns_error + nat \<times> bool) \<times> 'db world"
  moc_loadBundledObjectsFromResource ::
    "nat \<Rightarrow> string \<Rightarrow> string option \<Rightarrow> ns_error option + dict list \<Rightarrow> ns_error option + unit \<Rightarrow> nat list \<Rightarrow> 'db world \<Rightarrow>
     exn + ((ns_error option + nat list) \<times> string option) \<times> 'db world"
  moc_objectsMatchingQueriedView :: "nat \<Rightarrow> string \<Rightarrow> val list option \<Rightarrow> 'db world \<Rightarrow> exn + nat list option \<times> 'db world"

definition featherControllerJSON ::
  "bool \<Rightarrow> (string \<Rightarrow> ns_error option + string) \<Rightarrow> (string \<Rightarrow> ns_error option + dict list) \<Rightarrow> 'db services \<Rightarrow>
   (string \<Rightarrow> val list option \<Rightarrow> query_row list option) \<Rightarrow> 'db controller_JSON" where
  "featherControllerJSON mainApplication read parse svc existing =
     \<lparr>moc_objectsFromContentsOfArrayJSONAtURL = objectsFromContentsOfArrayJSONAtURL read parse svc,
      moc_objectsFromArrayJSONData = objectsFromArrayJSONData parse svc,
      moc_objectsFromJSONEncodableObjectArray = objectsFromJSONEncodableObjectArray svc,
      moc_objectFromJSONDictionary = objectFromJSONDictionary svc,
      moc_loadBundledObjectsFromResource = loadBundledObjectsFromResource mainApplication svc,
      moc_objectsMatchingQueriedView = objectsMatchingQueriedView svc existing\<rparr>"

record document_extensions =
  doc_managedObjectClass :: "cbl_document \<Rightarrow> exn + cls option"
  doc_URL :: "string \<Rightarrow> string \<Rightarrow> string"

definition featherDocumentExtensions :: "runtime \<Rightarrow> document_extensions" where
  "featherDocumentExtensions rt =
     \<lparr>doc_managedObjectClass = documentManagedObjectClass rt, doc_URL = documentURL\<rparr>"

record 'db controller_callbacks =
  moc_willSaveObject :: "nat \<Rightarrow> nat \<Rightarrow> 'db world \<Rightarrow> exn + 'db world"
  moc_didSaveObject :: "nat \<Rightarrow> nat \<Rightarrow> 'db world \<Rightarrow> exn + 'db world"
  moc_didUpdateObject :: "nat \<Rightarrow> nat \<Rightarrow> 'db world \<Rightarrow> exn + 'db world"
  moc_willDeleteObject :: "nat \<Rightarrow> nat \<Rightarrow> 'db world \<Rightarrow> exn + 'db world"
  moc_didDeleteObject :: "nat \<Rightarrow> nat \<Rightarrow> 'db world \<Rightarrow> exn + 'db world"
  moc_didChangeDocument :: "cbl_document \<Rightarrow> nat \<Rightarrow> nat \<Rightarrow> MPManagedObjectChangeSource \<Rightarrow> 'db world \<Rightarrow> exn + 'db world"
  moc_didLoadObjectFromDocument :: "nat \<Rightarrow> nat \<Rightarrow> 'db world \<Rightarrow> exn + 'db world"
  moc_registerObject :: "nat \<Rightarrow> nat \<Rightarrow> 'db world \<Rightarrow> exn + 'db world"
  moc_deregisterObject :: "nat \<Rightarrow> nat \<Rightarrow> 'db world \<Rightarrow> exn + 'db world"

definition featherControllerCallbacks :: "'db services \<Rightarrow> 'db controller_callbacks" where
  "featherControllerCallbacks svc =
     \<lparr>moc_willSaveObject = willSaveObject,
      moc_didSaveObject = didSaveObject (svc_classes svc) (svc_names svc),
      moc_didUpdateObject = didUpdateObject (svc_classes svc) (svc_names svc),
      moc_willDeleteObject = willDeleteObject (svc_ops svc),
      moc_didDeleteObject = didDeleteObject (svc_classes svc) (svc_names svc),
      moc_didChangeDocument = didChangeDocument (svc_classes svc) (svc_names svc),
      moc_didLoadObjectFromDocument = didLoadObjectFromDocument (svc_ops svc),
      moc_registerObject = registerObject (svc_ops svc),
      moc_deregisterObject = deregisterObject (svc_ops svc)\<rparr>"


section \<open>What the views list\<close>




section \<open>Conflicting revisions\<close>

text \<open>C18: Of several conflicting revisions the one with the smallest \<open>updatedAt\<close> survives: all
  the others are deleted, and a revision with its properties is created on top of it.\<close>

theorem conflict_keeps_oldest:
  assumes "resolveConflictingRevisionsForObject ops self a w = Inr (Inr (), w')"
    and "conflictingRevisions ops (cbl w) a = Inr revs" and "length revs \<ge> 2"
    and "total_preorder (revIDPrecedes ops)" and "list_all (\<lambda>r. updatedAtOf r \<noteq> None) revs"
  shows "\<exists>kept others db. mset (kept # others) = mset revs \<and>
    list_all (\<lambda>r. the (updatedAtOf kept) \<le> the (updatedAtOf r)) others \<and>
    deleteRevisions ops a others (cbl w) = (Inr (), db) \<and>
    createRevision ops db a (revisionID kept) (revision_properties kept) = Inr (cbl w')"
proof -
  let ?sorted = "sortedArrayUsingComparator (revisionPrecedes (revIDPrecedes ops)) revs"
  have "\<not> (list_ex (\<lambda>r. updatedAtOf r = None) revs \<and> list_ex (\<lambda>r. updatedAtOf r \<noteq> None) revs)"
    using assms(5) by (auto simp: list_ex_iff list_all_iff)
  then obtain kept others db where s: "?sorted = kept # others"
    and d: "deleteRevisions ops a others (cbl w) = (Inr (), db)"
    and c: "createRevision ops db a (revisionID kept) (revision_properties kept) = Inr (cbl w')"
    using assms(1,2,3)
    by (auto simp: resolveConflictingRevisionsForObject_def bindExn_Inr throw_def split: if_splits list.splits sum.splits prod.splits)
  have m: "mset (kept # others) = mset revs"
    using mset_sortedArrayUsingComparator [of "revisionPrecedes (revIDPrecedes ops)" revs] s by simp
  then have sets: "set (kept # others) = set revs" by (metis set_mset_mset)
  have p: "list_all (revisionPrecedes (revIDPrecedes ops) kept) others"
    by (rule revisionPrecedes_sorted [OF assms(4,5) s])
  have "the (updatedAtOf kept) \<le> the (updatedAtOf r)" if "r \<in> set others" for r
  proof -
    have "updatedAtOf kept \<noteq> None" "updatedAtOf r \<noteq> None"
      using assms(5) sets that by (auto simp: list_all_iff)
    moreover have "revisionPrecedes (revIDPrecedes ops) kept r" using p that by (simp add: list_all_iff)
    ultimately show ?thesis by (auto simp: revisionPrecedes_def)
  qed
  then show ?thesis using m d c by (auto simp: list_all_iff)
qed


section \<open>Bundled databases\<close>

lemma process_values:
  assumes "processUpdatedBundledDataLoadReplication br self event st = Inr st'"
  shows "bs_values st' = bs_values st \<and> (bs_saved st' = bs_saved st \<or> bs_saved st' = bs_values st)"
  using assms
  by (auto simp: processUpdatedBundledDataLoadReplication_def Let_def saveValues_def bindExn_Inr
      split: prod.splits bool.splits option.splits sum.splits)

lemma await_values:
  assumes "awaitBundledDataLoad br self events st = Some (Inr st')"
  shows "bs_values st' = bs_values st \<and> (bs_saved st' = bs_saved st \<or> bs_saved st' = bs_values st)"
  using assms
proof (induction events arbitrary: st)
  case (Cons event rest)
  show ?case
  proof (cases "bs_loadingDatabase st")
    case True
    then obtain st1 where p: "processUpdatedBundledDataLoadReplication br self event st = Inr st1"
      and r: "awaitBundledDataLoad br self rest st1 = Some (Inr st')"
      using Cons.prems by (auto simp: bindCall_Some)
    show ?thesis using Cons.IH [OF r] process_values [OF p] by auto
  qed (use Cons.prems in simp)
qed (auto split: if_splits)

text \<open>C24: 
  The checksum of a bundled database is set after the metadata was saved, so loading a new
  version leaves the checksum in the database as it was, and the next launch loads it again.
\<close>

theorem bundled_checksum_not_saved:
  assumes "loadBundledDatabaseResources br self objs events st = Some (Inr (Inr (), st'))"
    and "br_name br = Some name" and "br_md5 br = Some md5"
    and "bs_saved st (bundledChecksumKey name) = bs_values st (bundledChecksumKey name)"
    and "bs_values st (bundledChecksumKey name) \<noteq> Some md5"
  shows "bs_values st' (bundledChecksumKey name) = Some md5 \<and>
    bs_saved st' (bundledChecksumKey name) = bs_saved st (bundledChecksumKey name) \<and>
    bs_saved st' (bundledChecksumKey name) \<noteq> Some md5"
proof -
  let ?k = "bundledChecksumKey name" and ?st0 = "st\<lparr>bs_loadingDatabase := True\<rparr>"
  have "pullBundledDatabase br self events ?k ?st0 = Some (Inr (Inr (), st'))"
    using assms(1,2,3,5)
    by (auto simp: loadBundledDatabaseResources_def Let_def bindCall_Some split: if_splits option.splits sum.splits)
  then obtain st1 where "awaitBundledDataLoad br self events ?st0 = Some (Inr st1)"
    and st': "st' = st1\<lparr>bs_values := (bs_values st1)(?k := br_md5 br)\<rparr>"
    by (auto simp: pullBundledDatabase_def bindCall_Some split: sum.splits)
  then have "bs_values st1 = bs_values st" "bs_saved st1 = bs_saved st \<or> bs_saved st1 = bs_values st"
    using await_values by fastforce+
  then show ?thesis using st' assms(3,4,5) by auto
qed

definition sampleResource :: bundled_resource where
  "sampleResource = \<lparr>br_mainThread = True, br_name = Some ''styles'', br_path = Some ''/app/styles.cblite'', br_temporaryDirectory = Some ''/tmp'', br_md5 = Some ''b'', br_copy = Inr (),
     br_copyAttachments = None, br_purge = (\<lambda>a. Inr ()), br_pull = Inr (), br_saveMetadata = Inr ()\<rparr>"

definition sampleBundledState :: bundled_state where
  "sampleBundledState = \<lparr>bs_loadingDatabase = False, bs_loadingJSON = False,
     bs_values = [bundledChecksumKey ''styles'' \<mapsto> ''a''], bs_saved = [bundledChecksumKey ''styles'' \<mapsto> ''a''],
     bs_derivedData = None, bs_center = sampleCenter, bs_defaultCenter = []\<rparr>"

theorem bundled_checksum_not_saved_witness:
  "\<exists>st'. loadBundledDatabaseResources sampleResource 2 [] [(True, None)] sampleBundledState = Some (Inr (Inr (), st')) \<and>
     bs_values st' (bundledChecksumKey ''styles'') = Some ''b'' \<and> bs_saved st' (bundledChecksumKey ''styles'') \<noteq> Some ''b''"
proof -
  have "\<exists>st'. loadBundledDatabaseResources sampleResource 2 [] [(True, None)] sampleBundledState = Some (Inr (Inr (), st'))"
    by (simp add: loadBundledDatabaseResources_def sampleResource_def sampleBundledState_def pullBundledDatabase_def
        processUpdatedBundledDataLoadReplication_def saveValues_def Let_def assertThat_def)
  then obtain st' where l: "loadBundledDatabaseResources sampleResource 2 [] [(True, None)] sampleBundledState = Some (Inr (Inr (), st'))"
    by blast
  have "br_name sampleResource = Some ''styles''" "br_md5 sampleResource = Some ''b''"
    by (simp_all add: sampleResource_def)
  from bundled_checksum_not_saved [OF l this] l show ?thesis by (simp add: sampleBundledState_def)
qed

text \<open>A pull that stops with an error is reported, and still the call succeeds and the checksum is set.\<close>

theorem failed_pull_recorded:
  assumes "br_name br = Some name" and "br_temporaryDirectory br \<noteq> None" and "br_copy br = Inr ()"
    and "br_copyAttachments br = None" and "br_pull br = Inr ()" and "br_mainThread br" and "br_path br \<noteq> None" and "\<not> bs_loadingDatabase st"
    and "bs_values st (bundledChecksumKey name) = None"
  shows "\<exists>st'. loadBundledDatabaseResources br self objs [(True, Some err)] st = Some (Inr (Inr (), st')) \<and>
    bs_values st' (bundledChecksumKey name) = br_md5 br \<and> bs_defaultCenter st' = bs_defaultCenter st"
  using assms
  by (auto simp: loadBundledDatabaseResources_def Let_def pullBundledDatabase_def bindCall_Some
      processUpdatedBundledDataLoadReplication_def postErrorNotification_def assertThat_def)

theorem failed_pull_recorded_witness:
  "\<exists>st'. loadBundledDatabaseResources sampleResource 2 [] [(True, Some \<lparr>error_domain = ''CBL'', error_code = 404\<rparr>)]
      (sampleBundledState\<lparr>bs_values := Map.empty\<rparr>) = Some (Inr (Inr (), st')) \<and>
    bs_values st' (bundledChecksumKey ''styles'') = br_md5 sampleResource \<and>
    bs_defaultCenter st' = bs_defaultCenter (sampleBundledState\<lparr>bs_values := Map.empty\<rparr>)"
  by (rule failed_pull_recorded) (simp_all add: sampleResource_def sampleBundledState_def)


section \<open>Witness for the conflicting revisions\<close>

definition sampleRevisionAt :: "string \<Rightarrow> int \<Rightarrow> revision" where
  "sampleRevisionAt i t = \<lparr>revisionID = i, revision_properties = [(''updatedAt'', VNumber t)], revision_isDeletion = False\<rparr>"

definition sampleConflictWorld :: "memory_store world" where
  "sampleConflictWorld = putCbl (updateModel 10
     (\<lambda>m. m\<lparr>st_conflicts := [sampleRevisionAt ''2-b'' 9, sampleRevisionAt ''2-a'' 5]\<rparr>) sampleStore) sampleWorld"

theorem conflict_keeps_oldest_witness:
  "\<exists>w' kept others. resolveConflictingRevisionsForObject memory_ops 2 10 sampleConflictWorld = Inr (Inr (), w') \<and>
     mset (kept # others) = mset [sampleRevisionAt ''2-b'' 9, sampleRevisionAt ''2-a'' 5] \<and>
     list_all (\<lambda>r. the (updatedAtOf kept) \<le> the (updatedAtOf r)) others"
proof -
  let ?revs = "[sampleRevisionAt ''2-b'' 9, sampleRevisionAt ''2-a'' 5]"
  have c: "conflictingRevisions memory_ops (cbl sampleConflictWorld) 10 = Inr ?revs"
    by (simp add: sampleConflictWorld_def memory_ops_def sampleStore_def updateModel_def storedModel_def)
  have k: "isSubclassOfClass sampleNote sampleNote" by (simp add: isSubclassOfClass_def)
  have "\<exists>w'. resolveConflictingRevisionsForObject memory_ops 2 10 sampleConflictWorld = Inr (Inr (), w')"
    using c k
    by (simp add: resolveConflictingRevisionsForObject_def sampleConflictWorld_def getController_def getObject_def
        MPAssertNotNil_def sampleRevisionAt_def updatedAtOf_def sortedArrayUsingComparator_def revisionPrecedes_def
        memory_ops_def sampleObject_def sampleObjectsController_def)
  then obtain w' where r: "resolveConflictingRevisionsForObject memory_ops 2 10 sampleConflictWorld = Inr (Inr (), w')"
    by blast
  have "total_preorder (revIDPrecedes memory_ops)" by (auto simp: total_preorder_def memory_ops_def)
  from conflict_keeps_oldest [OF r c _ this] r show ?thesis
    by (simp add: sampleRevisionAt_def updatedAtOf_def) blast
qed


section \<open>The lookup of controllers refines a search of the superclasses\<close>

text \<open>The specification: the controller of the nearest superclass that has a controller property.\<close>

definition nearestController :: "known_classes \<Rightarrow> (string \<rightharpoonup> nat option) \<Rightarrow> cls \<Rightarrow> nat option" where
  "nearestController kc props c =
     (case find (\<lambda>d. props (controllerPropertyNameForManagedObjectClass d) \<noteq> None) (managedChain kc c) of
        None \<Rightarrow> None
      | Some d \<Rightarrow> the (props (controllerPropertyNameForManagedObjectClass d)))"

lemma lookupSpec_nearest:
  assumes "lookupValid kc classes c" and "list_all (\<lambda>d. hasPrefix (class_name d) ''MP'') (managedChain kc c)"
    and "wf_properties (controllerProperties t)"
  shows "lookupSpec kc t c = Inr (nearestController kc (controllerProperties t) c)"
proof -
  have v: "isManagedObjectClass kc c" "c \<noteq> class_MPManagedObject kc" using assms(1) by (auto simp: lookupValid_def)
  show ?thesis
  proof (cases "find (\<lambda>d. controllerProperties t (controllerPropertyNameForManagedObjectClass d) \<noteq> None) (managedChain kc c)")
    case None
    then show ?thesis by (simp add: lookupSpec_def nearestController_def controllerWalk_nearest [OF v assms(2,3)])
  next
    case (Some d)
    then have "controllerProperties t (controllerPropertyNameForManagedObjectClass d) \<noteq> None"
      by (auto simp: find_Some_iff)
    then obtain m where "controllerProperties t (controllerPropertyNameForManagedObjectClass d) = Some (Some m)"
      using assms(3) by (metis wf_properties_def not_Some_eq ranI)
    then show ?thesis using Some by (simp add: lookupSpec_def nearestController_def controllerWalk_nearest [OF v assms(2,3)])
  qed
qed

text \<open>C3: From an empty dictionary, any sequence of memoised lookups of controllers answers each
  class with the controller of its nearest superclass that has one, or with nil.\<close>

theorem controller_lookup_refines:
  assumes "list_all (lookupValid kc classes) cs" and "wf_properties props"
    and "list_all (\<lambda>c. list_all (\<lambda>d. hasPrefix (class_name d) ''MP'') (managedChain kc c)) cs"
  shows "fst (queries (lookupQuery kc) cs \<lparr>controllerDictionary = Map.empty, controllerProperties = props\<rparr>) =
    map (\<lambda>c. Inr (nearestController kc props c)) cs"
proof -
  let ?t = "\<lparr>controllerDictionary = Map.empty, controllerProperties = props\<rparr>"
  have "table_ok kc classes ?t" by (simp add: table_ok_def)
  then have "fst (queries (lookupQuery kc) cs ?t) = map (lookupSpec kc ?t) cs"
    using controller_cache.queries_spec assms(1) by blast
  also have "\<dots> = map (\<lambda>c. Inr (nearestController kc props c)) cs"
    using assms lookupSpec_nearest [of kc classes _ ?t] by (auto simp: list_all_iff)
  finally show ?thesis .
qed

theorem controller_lookup_refines_witness:
  "fst (queries (lookupQuery sampleClasses) [sampleNote, sampleNote]
      \<lparr>controllerDictionary = Map.empty, controllerProperties = [''notesController'' \<mapsto> Some 2]\<rparr>) =
    map (\<lambda>c. Inr (nearestController sampleClasses [''notesController'' \<mapsto> Some 2] c)) [sampleNote, sampleNote]"
  by (rule controller_lookup_refines [of _ "[sampleNote]"])
     (simp_all add: lookupValid_def isManagedObjectClass_def isSubclassOfClass_def managedChain_def wf_properties_def
       sampleClasses_def sampleNote_def sampleManagedObject_def sampleMetadata_def sampleNSObject_def hasPrefix_def)

end
